(* ===== verification/Prelude.thy ===== *)
theory Prelude
  imports Main "HOL-Library.AList"
begin

text \<open>
  Shared vocabulary of the development: Python values as the code receives them from JSON, Python
  exceptions as values, the state-and-exception monad in which every coroutine of the program is
  written, ordered dictionaries, and the string methods the sources call. The collections
  \<open>py_simps\<close> (evaluation of the monad) and \<open>str_simps\<close> (string methods) are what the component
  proofs simplify with.
\<close>

named_theorems py_simps \<open>unfolding of the state-and-exception monad at a state\<close>
named_theorems str_simps \<open>facts on the modelled Python string methods\<close>

section \<open>Exceptions\<close>

text \<open>
  Every exception the sources raise, catch or let through. \<open>LibError\<close> stands for an exception
  raised inside a third-party package; its flag says whether the class derives from Python's
  \<^verbatim>\<open>Exception\<close> (and not only from \<^verbatim>\<open>BaseException\<close>). \<open>OutOfFuel\<close> is not an exception of the program: it
  is the outcome of a loop that has not ended within the number of rounds given to the model, and no
  handler catches it.
\<close>

datatype exn =
    KeyError
  | IndexError
  | AttributeError
  | TypeError
  | ValueError
  | NotImplementedError string
  | CalledProcessError int string
  | CxOneException
  | ResponseException
  | OrchestrationException string
  | WorkflowException string
  | RouteNotFoundException
  | NotAuthorizedException
  | KickoffScanExistsException
  | TooManyRunningScansException
  | KickoffClientException int
  | CloneAuthException
  | CloneException
  | SCMAuthException
  | RetriesExhausted
  | AuthFactoryException
  | ConfigurationException string
  | ResolverAgentException
  | LibError bool string
  | OutOfFuel

text \<open>
  The classes declared as \<^verbatim>\<open>class X(BaseException)\<close> are not caught by \<^verbatim>\<open>except Exception\<close>.
\<close>

fun derives_from_Exception :: "exn \<Rightarrow> bool" where
  "derives_from_Exception (OrchestrationException _) = False"
| "derives_from_Exception (WorkflowException _) = False"
| "derives_from_Exception NotAuthorizedException = False"
| "derives_from_Exception KickoffScanExistsException = False"
| "derives_from_Exception TooManyRunningScansException = False"
| "derives_from_Exception (KickoffClientException _) = False"
| "derives_from_Exception CloneAuthException = False"
| "derives_from_Exception CloneException = False"
| "derives_from_Exception AuthFactoryException = False"
| "derives_from_Exception (LibError b _) = b"
| "derives_from_Exception _ = True"

type_synonym 'a result = "exn + 'a"

text \<open>A computation that may raise but has no effects, and the values of a function along a list.\<close>

definition bindR :: "'a result \<Rightarrow> ('a \<Rightarrow> 'b result) \<Rightarrow> 'b result" where
  "bindR r f = (case r of Inl e \<Rightarrow> Inl e | Inr x \<Rightarrow> f x)"

lemma bindR_simps [simp]: "bindR (Inl e) f = Inl e" "bindR (Inr x) f = f x"
  by (simp_all add: bindR_def)

lemma bindR_eq_Inr: "bindR r f = Inr y \<longleftrightarrow> (\<exists>x. r = Inr x \<and> f x = Inr y)"
  by (cases r) simp_all

fun mapR :: "('a \<Rightarrow> 'b result) \<Rightarrow> 'a list \<Rightarrow> 'b list result" where
  "mapR f [] = Inr []"
| "mapR f (x # xs) = bindR (f x) (\<lambda>y. bindR (mapR f xs) (\<lambda>ys. Inr (y # ys)))"

lemma bindR_not_fuel: "r \<noteq> Inl OutOfFuel \<Longrightarrow> (\<And>x. f x \<noteq> Inl OutOfFuel) \<Longrightarrow> bindR r f \<noteq> Inl OutOfFuel"
  by (cases r) auto

lemma mapR_not_fuel: "(\<And>x. f x \<noteq> Inl OutOfFuel) \<Longrightarrow> mapR f xs \<noteq> Inl OutOfFuel"
  by (induction xs) (simp_all add: bindR_not_fuel)

section \<open>The state-and-exception monad\<close>

text \<open>
  A coroutine that may raise is a function from the state to an outcome and the next state. What
  happened before a raise is kept: exceptions do not undo effects.
\<close>

type_synonym ('s, 'a) py = "'s \<Rightarrow> 'a result \<times> 's"

definition returnE :: "'a \<Rightarrow> ('s, 'a) py" where
  "returnE x = (\<lambda>s. (Inr x, s))"

definition raiseE :: "exn \<Rightarrow> ('s, 'a) py" where
  "raiseE e = (\<lambda>s. (Inl e, s))"

definition liftE :: "'a result \<Rightarrow> ('s, 'a) py" where
  "liftE r = (\<lambda>s. (r, s))"

definition bindE :: "('s, 'a) py \<Rightarrow> ('a \<Rightarrow> ('s, 'b) py) \<Rightarrow> ('s, 'b) py" where
  "bindE m f = (\<lambda>s. case m s of (Inl e, s') \<Rightarrow> (Inl e, s') | (Inr x, s') \<Rightarrow> f x s')"

definition thenE :: "('s, 'a) py \<Rightarrow> ('s, 'b) py \<Rightarrow> ('s, 'b) py" where
  "thenE m k = bindE m (\<lambda>_. k)"

text \<open>\<^verbatim>\<open>try: m except ... as e: h e\<close>: the handler re-raises what its clauses do not name.\<close>

definition catchE :: "('s, 'a) py \<Rightarrow> (exn \<Rightarrow> ('s, 'a) py) \<Rightarrow> ('s, 'a) py" where
  "catchE m h = (\<lambda>s. case m s of
       (Inl e, s') \<Rightarrow> if e = OutOfFuel then (Inl e, s') else h e s'
     | (Inr x, s') \<Rightarrow> (Inr x, s'))"

text \<open>\<^verbatim>\<open>try: m finally: f\<close>: an exception of \<open>f\<close> replaces the outcome of \<open>m\<close>.\<close>

definition finallyE :: "('s, 'a) py \<Rightarrow> ('s, unit) py \<Rightarrow> ('s, 'a) py" where
  "finallyE m f = (\<lambda>s. case m s of (r, s') \<Rightarrow>
     if r = Inl OutOfFuel then (r, s')
     else (case f s' of (Inl e, s'') \<Rightarrow> (Inl e, s'') | (Inr _, s'') \<Rightarrow> (r, s'')))"

text \<open>\<^verbatim>\<open>for x in xs: f x\<close>, and the list of the values of \<open>f\<close>.\<close>

fun forE :: "'a list \<Rightarrow> ('a \<Rightarrow> ('s, unit) py) \<Rightarrow> ('s, unit) py" where
  "forE [] f = returnE ()"
| "forE (x # xs) f = thenE (f x) (forE xs f)"

fun mapE :: "'a list \<Rightarrow> ('a \<Rightarrow> ('s, 'b) py) \<Rightarrow> ('s, 'b list) py" where
  "mapE [] f = returnE []"
| "mapE (x # xs) f = bindE (f x) (\<lambda>y. bindE (mapE xs f) (\<lambda>ys. returnE (y # ys)))"

lemma returnE_apply [py_simps]: "returnE x s = (Inr x, s)"
  by (simp add: returnE_def)

lemma raiseE_apply [py_simps]: "raiseE e s = (Inl e, s)"
  by (simp add: raiseE_def)

lemma liftE_apply [py_simps]: "liftE r s = (r, s)"
  by (simp add: liftE_def)

lemma bindE_apply [py_simps]:
  "bindE m f s = (case m s of (Inl e, s') \<Rightarrow> (Inl e, s') | (Inr x, s') \<Rightarrow> f x s')"
  by (simp add: bindE_def)

lemma thenE_apply [py_simps]:
  "thenE m k s = (case m s of (Inl e, s') \<Rightarrow> (Inl e, s') | (Inr _, s') \<Rightarrow> k s')"
  by (simp add: thenE_def bindE_def)

lemma catchE_apply [py_simps]:
  "catchE m h s = (case m s of
       (Inl e, s') \<Rightarrow> if e = OutOfFuel then (Inl e, s') else h e s'
     | (Inr x, s') \<Rightarrow> (Inr x, s'))"
  by (simp add: catchE_def)

lemma finallyE_apply [py_simps]:
  "finallyE m f s = (case m s of (r, s') \<Rightarrow>
     if r = Inl OutOfFuel then (r, s')
     else (case f s' of (Inl e, s'') \<Rightarrow> (Inl e, s'') | (Inr _, s'') \<Rightarrow> (r, s'')))"
  by (simp add: finallyE_def)

lemma bindE_assoc: "bindE (bindE m f) g = bindE m (\<lambda>x. bindE (f x) g)"
  by (rule ext) (auto simp: bindE_def split: prod.splits sum.splits)

lemma bindE_returnE_left [simp]: "bindE (returnE x) f = f x"
  by (rule ext) (simp add: bindE_def returnE_def)

lemma bindE_returnE_right [simp]: "bindE m returnE = m"
  by (rule ext) (auto simp: bindE_def returnE_def split: prod.splits sum.splits)

lemma bindE_if: "bindE (if b then m else n) f = (if b then bindE m f else bindE n f)"
  by simp

lemma fst_bindE: "fst (m s) = Inr x \<Longrightarrow> fst (bindE m f s) = fst (f x (snd (m s)))"
  by (cases "m s") (simp add: bindE_def)

lemma bindE_raiseE [simp]: "bindE (raiseE e) f = raiseE e"
  by (rule ext) (simp add: bindE_def raiseE_def)

lemma bindE_liftE_Inr [simp]: "bindE (liftE (Inr x)) f = f x"
  by (rule ext) (simp add: bindE_def liftE_def)

lemma bindE_liftE_Inl [simp]: "bindE (liftE (Inl e)) f = raiseE e"
  by (rule ext) (simp add: bindE_def liftE_def raiseE_def)

subsection \<open>Predicates on the final state\<close>

text \<open>
  \<open>keeps P m\<close>: whatever \<open>m\<close> does, it carries a state satisfying \<open>P\<close> to a state satisfying \<open>P\<close>.
  The rules below lift it through the combinators, so that "this coroutine never \<open>...\<close>" is proved
  from its external calls alone.
\<close>

definition keeps :: "('s \<Rightarrow> bool) \<Rightarrow> ('s, 'a) py \<Rightarrow> bool" where
  "keeps P m \<longleftrightarrow> (\<forall>s. P s \<longrightarrow> P (snd (m s)))"

named_theorems keeps_intros \<open>introduction rules for state predicates kept by a coroutine\<close>

lemma keepsI: "(\<And>s. P s \<Longrightarrow> P (snd (m s))) \<Longrightarrow> keeps P m"
  by (simp add: keeps_def)

lemma keepsD: "keeps P m \<Longrightarrow> P s \<Longrightarrow> P (snd (m s))"
  by (simp add: keeps_def)

lemma keeps_returnE [keeps_intros]: "keeps P (returnE x)"
  by (simp add: keeps_def py_simps)

lemma keeps_raiseE [keeps_intros]: "keeps P (raiseE e)"
  by (simp add: keeps_def py_simps)

lemma keeps_liftE [keeps_intros]: "keeps P (liftE r)"
  by (simp add: keeps_def py_simps)

lemma keeps_bindE [keeps_intros]:
  "keeps P m \<Longrightarrow> (\<And>x. keeps P (f x)) \<Longrightarrow> keeps P (bindE m f)"
  by (auto simp: keeps_def py_simps split: prod.splits sum.splits) (metis snd_conv)?

lemma keeps_thenE [keeps_intros]:
  "keeps P m \<Longrightarrow> keeps P k \<Longrightarrow> keeps P (thenE m k)"
  unfolding thenE_def by (intro keeps_bindE)

lemma keeps_catchE [keeps_intros]:
  "keeps P m \<Longrightarrow> (\<And>e. keeps P (h e)) \<Longrightarrow> keeps P (catchE m h)"
  by (auto simp: keeps_def py_simps split: prod.splits sum.splits) (metis snd_conv)?

lemma keeps_finallyE [keeps_intros]:
  "keeps P m \<Longrightarrow> keeps P f \<Longrightarrow> keeps P (finallyE m f)"
  by (auto simp: keeps_def py_simps split: prod.splits sum.splits) (metis snd_conv)?

lemma keeps_forE [keeps_intros]: "(\<And>x. keeps P (f x)) \<Longrightarrow> keeps P (forE xs f)"
  by (induction xs) (auto intro: keeps_intros)

lemma keeps_mapE [keeps_intros]: "(\<And>x. keeps P (f x)) \<Longrightarrow> keeps P (mapE xs f)"
  by (induction xs) (auto intro!: keeps_intros)

lemma keeps_if [keeps_intros]:
  "(b \<Longrightarrow> keeps P m) \<Longrightarrow> (\<not> b \<Longrightarrow> keeps P n) \<Longrightarrow> keeps P (if b then m else n)"
  by simp

lemma keeps_case_option [keeps_intros]:
  "(v = None \<Longrightarrow> keeps P m) \<Longrightarrow> (\<And>x. v = Some x \<Longrightarrow> keeps P (f x)) \<Longrightarrow>
   keeps P (case v of None \<Rightarrow> m | Some x \<Rightarrow> f x)"
  by (cases v) auto

lemma keeps_case_prod [keeps_intros]:
  "(\<And>a b. p = (a, b) \<Longrightarrow> keeps P (f a b)) \<Longrightarrow> keeps P (case p of (a, b) \<Rightarrow> f a b)"
  by (cases p) auto

lemma keeps_case_list [keeps_intros]:
  "(xs = [] \<Longrightarrow> keeps P m) \<Longrightarrow> (\<And>y ys. xs = y # ys \<Longrightarrow> keeps P (f y ys)) \<Longrightarrow>
   keeps P (case xs of [] \<Rightarrow> m | y # ys \<Rightarrow> f y ys)"
  by (cases xs) auto

lemma keeps_case_sum [keeps_intros]:
  "(\<And>e. r = Inl e \<Longrightarrow> keeps P (f e)) \<Longrightarrow> (\<And>x. r = Inr x \<Longrightarrow> keeps P (g x)) \<Longrightarrow>
   keeps P (case r of Inl e \<Rightarrow> f e | Inr x \<Rightarrow> g x)"
  by (cases r) auto

lemma keeps_Let [keeps_intros]: "keeps P (f v) \<Longrightarrow> keeps P (Let v f)"
  by simp

section \<open>Python values\<close>

text \<open>
  The dynamically typed values of a decoded webhook payload: \<^verbatim>\<open>None\<close>, booleans, integers, strings,
  lists and dictionaries. No field the code reads is a fractional number.
\<close>

datatype json =
    JNull
  | JBool bool
  | JInt int
  | JStr string
  | JList "json list"
  | JObj "(string \<times> json) list"

text \<open>Python truth value testing.\<close>

fun truthy :: "json \<Rightarrow> bool" where
  "truthy JNull = False"
| "truthy (JBool b) = b"
| "truthy (JInt i) = (i \<noteq> 0)"
| "truthy (JStr s) = (s \<noteq> [])"
| "truthy (JList xs) = (xs \<noteq> [])"
| "truthy (JObj kvs) = (kvs \<noteq> [])"

text \<open>\<^verbatim>\<open>v[k]\<close> on a decoded object, and \<^verbatim>\<open>len(v)\<close>.\<close>

fun py_getitem :: "json \<Rightarrow> string \<Rightarrow> json result" where
  "py_getitem (JObj kvs) k = (case map_of kvs k of None \<Rightarrow> Inl KeyError | Some v \<Rightarrow> Inr v)"
| "py_getitem _ k = Inl TypeError"

fun py_len :: "json \<Rightarrow> nat result" where
  "py_len (JStr s) = Inr (length s)"
| "py_len (JList xs) = Inr (length xs)"
| "py_len (JObj kvs) = Inr (length kvs)"
| "py_len _ = Inl TypeError"

text \<open>\<^verbatim>\<open>k in v.keys()\<close>: only a dictionary has keys.\<close>

fun py_has_key :: "json \<Rightarrow> string \<Rightarrow> bool result" where
  "py_has_key (JObj kvs) k = Inr (k \<in> fst ` set kvs)"
| "py_has_key _ k = Inl AttributeError"

text \<open>The first match of a query, \<^verbatim>\<open>found[0].value\<close>, and the last, \<^verbatim>\<open>found.pop().value\<close>.\<close>

definition first_match :: "'a list \<Rightarrow> 'a result" where
  "first_match xs = (case xs of [] \<Rightarrow> Inl IndexError | x # _ \<Rightarrow> Inr x)"

definition pop_match :: "'a list \<Rightarrow> 'a result" where
  "pop_match xs = (if xs = [] then Inl IndexError else Inr (last xs))"

lemma first_match_Nil [simp]: "first_match [] = Inl IndexError"
  by (simp add: first_match_def)

lemma first_match_Cons [simp]: "first_match (x # xs) = Inr x"
  by (simp add: first_match_def)

lemma pop_match_Nil [simp]: "pop_match [] = Inl IndexError"
  by (simp add: pop_match_def)

lemma pop_match_snoc [simp]: "pop_match (xs @ [x]) = Inr x"
  by (simp add: pop_match_def)

lemma pop_match_Cons [simp]: "pop_match (x # xs) = Inr (last (x # xs))"
  by (simp add: pop_match_def)

text \<open>Reading a value as a string: what a string method does on another type.\<close>

fun as_str :: "json \<Rightarrow> string result" where
  "as_str (JStr s) = Inr s"
| "as_str _ = Inl AttributeError"

text \<open>A value where a function of the library requires a string: a path, a word of a command, a part of a concatenation.\<close>

fun path_of :: "json \<Rightarrow> string result" where
  "path_of (JStr s) = Inr s"
| "path_of _ = Inl TypeError"

lemma path_of_eq_Inr [simp]: "path_of v = Inr s \<longleftrightarrow> v = JStr s"
  by (cases v) auto

lemma path_of_not_fuel [simp]: "path_of v \<noteq> Inl OutOfFuel"
  by (cases v) auto

text \<open>
  \<^verbatim>\<open>str(v)\<close>; the text of a list or dictionary is the parameter \<open>repr\<close>. \<^verbatim>\<open>int(v)\<close> reads a decimal numeral
  with an optional sign. \<^verbatim>\<open>k in v\<close> looks for a key, an element or a substring.
\<close>

fun show_nat :: "nat \<Rightarrow> string" where
  "show_nat n = (if n < 10 then [''0123456789'' ! n] else show_nat (n div 10) @ [''0123456789'' ! (n mod 10)])"

declare show_nat.simps [simp del]

definition show_int :: "int \<Rightarrow> string" where
  "show_int i = (if i < 0 then ''-'' @ show_nat (nat (- i)) else show_nat (nat i))"

fun py_str :: "(json \<Rightarrow> string) \<Rightarrow> json \<Rightarrow> string" where
  "py_str repr (JStr s) = s"
| "py_str repr (JInt i) = show_int i"
| "py_str repr (JBool b) = (if b then ''True'' else ''False'')"
| "py_str repr JNull = ''None''"
| "py_str repr v = repr v"

definition digit_value :: "char \<Rightarrow> int option" where
  "digit_value c = (let n = (of_char c :: int) in if 48 \<le> n \<and> n \<le> 57 then Some (n - 48) else None)"

fun read_digits :: "int \<Rightarrow> string \<Rightarrow> int result" where
  "read_digits acc [] = Inr acc"
| "read_digits acc (c # cs) =
     (case digit_value c of None \<Rightarrow> Inl ValueError | Some d \<Rightarrow> read_digits (10 * acc + d) cs)"

definition read_int :: "string \<Rightarrow> int result" where
  "read_int s = (case s of
     [] \<Rightarrow> Inl ValueError
   | c # cs \<Rightarrow>
      if c = CHR ''-'' \<or> c = CHR ''+'' then
        (if cs = [] then Inl ValueError
         else (case read_digits 0 cs of Inl e \<Rightarrow> Inl e | Inr n \<Rightarrow> Inr (if c = CHR ''-'' then - n else n)))
      else read_digits 0 (c # cs))"

fun py_int :: "json \<Rightarrow> int result" where
  "py_int (JInt i) = Inr i"
| "py_int (JBool b) = Inr (if b then 1 else 0)"
| "py_int (JStr s) = read_int s"
| "py_int _ = Inl TypeError"

fun contains_str :: "string \<Rightarrow> string \<Rightarrow> bool" where
  "contains_str p [] = (p = [])"
| "contains_str p (c # cs) = (take (length p) (c # cs) = p \<or> contains_str p cs)"

fun py_in :: "string \<Rightarrow> json \<Rightarrow> bool result" where
  "py_in k (JObj kvs) = Inr (k \<in> fst ` set kvs)"
| "py_in k (JList xs) = Inr (JStr k \<in> set xs)"
| "py_in k (JStr s) = Inr (contains_str k s)"
| "py_in k _ = Inl TypeError"

fun as_obj :: "json \<Rightarrow> (string \<times> json) list result" where
  "as_obj (JObj kvs) = Inr kvs"
| "as_obj _ = Inl TypeError"

fun as_list :: "json \<Rightarrow> json list result" where
  "as_list (JList xs) = Inr xs"
| "as_list _ = Inl TypeError"

section \<open>Ordered dictionaries\<close>

text \<open>
  A Python dictionary keeps insertion order, so it is an association list: \<open>dict_set\<close> overwrites
  in place or appends, as \<^verbatim>\<open>d[k] = v\<close> does, and \<open>dict_union\<close> is \<^verbatim>\<open>d1 | d2\<close> (and \<^verbatim>\<open>d1.update(d2)\<close>),
  where the right operand wins.
\<close>

type_synonym 'v dict = "(string \<times> 'v) list"

definition dict_set :: "'v dict \<Rightarrow> string \<Rightarrow> 'v \<Rightarrow> 'v dict" where
  "dict_set d k v = AList.update k v d"

definition dict_union :: "'v dict \<Rightarrow> 'v dict \<Rightarrow> 'v dict" where
  "dict_union d1 d2 = foldl (\<lambda>d (k, v). dict_set d k v) d1 d2"

definition dict_keys :: "'v dict \<Rightarrow> string list" where
  "dict_keys d = map fst d"

lemma map_of_dict_set [simp]: "map_of (dict_set d k v) = (map_of d)(k \<mapsto> v)"
  by (simp add: dict_set_def update_conv')

lemma dict_keys_dict_set: "set (dict_keys (dict_set d k v)) = insert k (set (dict_keys d))"
  by (simp add: dict_keys_def dict_set_def dom_update)

lemma distinct_dict_set: "distinct (dict_keys d) \<Longrightarrow> distinct (dict_keys (dict_set d k v))"
  by (simp add: dict_keys_def dict_set_def distinct_update)

lemma dict_set_nonempty [simp]: "dict_set d k v \<noteq> []"
  by (cases d) (auto simp: dict_set_def)

lemma map_of_dict_union:
  "distinct (dict_keys d2) \<Longrightarrow> map_of (dict_union d1 d2) = map_of d1 ++ map_of d2"
  unfolding dict_union_def dict_keys_def
proof (induction d2 arbitrary: d1)
  case Nil
  then show ?case by simp
next
  case (Cons p d2)
  obtain k v where p: "p = (k, v)" by (cases p)
  with Cons.prems have nin: "k \<notin> fst ` set d2" and dist: "distinct (map fst d2)" by auto
  from nin have "map_of d2 k = None" by (simp add: map_of_eq_None_iff)
  then have "((map_of d1)(k \<mapsto> v)) ++ map_of d2 = map_of d1 ++ (map_of d2)(k \<mapsto> v)"
    by (auto simp: map_add_def fun_eq_iff split: option.splits)
  with Cons.IH [OF dist, of "dict_set d1 k v"] show ?case
    by (simp only: p map_of.simps foldl_Cons map_of_dict_set prod.case fst_conv snd_conv)
qed

lemma dict_union_Nil_right [simp]: "dict_union d [] = d"
  by (simp add: dict_union_def)

section \<open>String methods\<close>

definition lstrip_chars :: "string \<Rightarrow> string \<Rightarrow> string" where
  "lstrip_chars cs s = dropWhile (\<lambda>c. c \<in> set cs) s"

definition rstrip_chars :: "string \<Rightarrow> string \<Rightarrow> string" where
  "rstrip_chars cs s = rev (dropWhile (\<lambda>c. c \<in> set cs) (rev s))"

definition starts_with :: "string \<Rightarrow> string \<Rightarrow> bool" where
  "starts_with p s \<longleftrightarrow> take (length p) s = p"

text \<open>\<^verbatim>\<open>s.replace(old, new)\<close> for a non-empty \<open>old\<close>: leftmost, non-overlapping.\<close>

function str_replace :: "string \<Rightarrow> string \<Rightarrow> string \<Rightarrow> string" where
  "str_replace old new s =
     (case s of
        [] \<Rightarrow> []
      | c # cs \<Rightarrow>
          if old \<noteq> [] \<and> starts_with old s then new @ str_replace old new (drop (length old) s)
          else c # str_replace old new cs)"
  by pat_completeness auto
termination
  by (relation "measure (\<lambda>(old, new, s). length s)") auto

declare str_replace.simps [simp del]

text \<open>\<^verbatim>\<open>s.split(c)\<close> for a one-character separator: never empty.\<close>

fun split_on :: "char \<Rightarrow> string \<Rightarrow> string list" where
  "split_on c [] = [[]]"
| "split_on c (x # xs) =
     (if x = c then [] # split_on c xs
      else (case split_on c xs of [] \<Rightarrow> [[x]] | w # ws \<Rightarrow> (x # w) # ws))"

fun str_join :: "string \<Rightarrow> string list \<Rightarrow> string" where
  "str_join sep [] = []"
| "str_join sep [w] = w"
| "str_join sep (w # ws) = w @ sep @ str_join sep ws"

definition char_lower :: "char \<Rightarrow> char" where
  "char_lower c = (let n = (of_char c :: nat) in if 65 \<le> n \<and> n \<le> 90 then char_of (n + 32) else c)"

definition str_lower :: "string \<Rightarrow> string" where
  "str_lower s = map char_lower s"

text \<open>
  \<^verbatim>\<open>urllib.parse.quote(s, safe)\<close> on the UTF-8 bytes of \<open>s\<close>: letters, digits and the characters of
  \<open>_.-~\<close> and of \<open>safe\<close> stay, every other byte becomes a percent escape.
\<close>

definition is_alnum :: "char \<Rightarrow> bool" where
  "is_alnum c = (let n = (of_char c :: nat) in
     (48 \<le> n \<and> n \<le> 57) \<or> (65 \<le> n \<and> n \<le> 90) \<or> (97 \<le> n \<and> n \<le> 122))"

definition percent_escape :: "char \<Rightarrow> string" where
  "percent_escape c = (let n = (of_char c :: nat) in
     [CHR ''%'', ''0123456789ABCDEF'' ! (n div 16), ''0123456789ABCDEF'' ! (n mod 16)])"

definition url_quote :: "string \<Rightarrow> string \<Rightarrow> string" where
  "url_quote safe s = concat (map (\<lambda>c.
     if is_alnum c \<or> c \<in> set ''_.-~'' \<or> c \<in> set safe then [c] else percent_escape c) s)"

text \<open>\<^verbatim>\<open>quote_plus(s)\<close>, and \<^verbatim>\<open>a / b\<close> on POSIX paths (which know no more of two leading slashes than of one).\<close>

definition quote_plus :: "string \<Rightarrow> string" where
  "quote_plus s = map (\<lambda>c. if c = CHR '' '' then CHR ''+'' else c) (url_quote '' '' s)"

definition posix_path :: "string \<Rightarrow> string" where
  "posix_path s = (if starts_with ''/'' s then ''/'' else []) @ str_join ''/'' (filter (\<lambda>w. w \<noteq> [] \<and> w \<noteq> ''.'') (split_on CHR ''/'' s))"

definition path_div :: "string \<Rightarrow> string \<Rightarrow> string" where
  "path_div a b = posix_path (if starts_with ''/'' b then b else a @ ''/'' @ b)"

lemma split_on_nonempty [simp]: "split_on c s \<noteq> []"
  by (cases s) (auto split: list.splits)

lemma str_join_split_on [str_simps]: "str_join [c] (split_on c s) = s"
proof (induction s)
  case Nil
  then show ?case by simp
next
  case (Cons x xs)
  obtain w ws where w: "split_on c xs = w # ws"
    by (cases "split_on c xs") auto
  with Cons show ?case by (cases ws) auto
qed

lemma split_on_no_sep [str_simps]: "c \<notin> set s \<Longrightarrow> split_on c s = [s]"
  by (induction s) auto

lemma split_on_append_sep [str_simps]:
  "c \<notin> set s \<Longrightarrow> split_on c (s @ c # t) = s # split_on c t"
  by (induction s) auto

lemma split_on_parts_clean: "w \<in> set (split_on c s) \<Longrightarrow> c \<notin> set w"
proof (induction s arbitrary: w)
  case Nil
  then show ?case by simp
next
  case (Cons x xs)
  then show ?case by (auto split: if_splits list.splits)
qed

lemma starts_with_append [str_simps]: "starts_with p (p @ s)"
  by (simp add: starts_with_def)

lemma starts_with_iff: "starts_with p s \<longleftrightarrow> (\<exists>t. s = p @ t)"
  by (metis append_take_drop_id starts_with_def starts_with_append)

lemma rstrip_chars_append_other:
  "c \<notin> set cs \<Longrightarrow> rstrip_chars cs (s @ [c]) = s @ [c]"
  by (simp add: rstrip_chars_def)

lemma rstrip_chars_last: "rstrip_chars cs s \<noteq> [] \<Longrightarrow> last (rstrip_chars cs s) \<notin> set cs"
  using hd_dropWhile [of "\<lambda>c. c \<in> set cs" "rev s"] by (auto simp: rstrip_chars_def last_rev)

lemma lstrip_chars_hd: "lstrip_chars cs s \<noteq> [] \<Longrightarrow> hd (lstrip_chars cs s) \<notin> set cs"
  using hd_dropWhile [of "\<lambda>c. c \<in> set cs" s] by (auto simp: lstrip_chars_def)

lemma lstrip_chars_idem [str_simps]: "lstrip_chars cs (lstrip_chars cs s) = lstrip_chars cs s"
  by (simp add: lstrip_chars_def)

lemma str_replace_Nil [simp]: "str_replace old new [] = []"
  by (simp add: str_replace.simps)

lemma str_replace_absent:
  "(\<And>a b. s \<noteq> a @ old @ b) \<Longrightarrow> old \<noteq> [] \<Longrightarrow> str_replace old new s = s"
proof (induction s)
  case Nil
  then show ?case by simp
next
  case (Cons c cs)
  have "\<not> starts_with old (c # cs)"
    using Cons.prems(1) [of "[]"] by (auto simp: starts_with_iff)
  moreover have "str_replace old new cs = cs"
    using Cons.prems(1) [of "c # _"] by (intro Cons.IH) (auto simp: Cons.prems(2))
  ultimately show ?case by (simp add: str_replace.simps [of old new "c # cs"])
qed

end
