(* ===== verification/Messaging.thy ===== *)
theory Messaging
  imports Prelude
begin

text \<open>
  The vocabulary the parts of the program exchange over the message queue
  (\<^verbatim>\<open>src/workflows/__init__.py\<close>, \<^verbatim>\<open>src/workflows/messaging\<close>): the enumerations and their string
  values, the message classes as records that extend one another as the dataclasses do, the topic
  and queue names every service uses, and the RabbitMQ topology that \<^verbatim>\<open>src/rabbit_config.py\<close> declares.
  The lemmas show to which queue a message published under each topic is delivered.
\<close>

section \<open>Enumerations\<close>

datatype ScanWorkflow = WfPR | WfPUSH

fun ScanWorkflow_str :: "ScanWorkflow \<Rightarrow> string" where
  "ScanWorkflow_str WfPR = ''pull-request''"
| "ScanWorkflow_str WfPUSH = ''push''"

datatype FeedbackWorkflow = FbPR | FbPUSH_GEN

fun FeedbackWorkflow_str :: "FeedbackWorkflow \<Rightarrow> string" where
  "FeedbackWorkflow_str FbPR = ''pull-request''"
| "FeedbackWorkflow_str FbPUSH_GEN = ''push-gen-sarif''"

datatype ScanStates = StAWAIT | StFEEDBACK | StANNOTATE | StEXECUTE | StDONE | StFAILURE

fun ScanStates_str :: "ScanStates \<Rightarrow> string" where
  "ScanStates_str StAWAIT = ''await''"
| "ScanStates_str StFEEDBACK = ''feedback''"
| "ScanStates_str StANNOTATE = ''annotate''"
| "ScanStates_str StEXECUTE = ''exec''"
| "ScanStates_str StDONE = ''finished''"
| "ScanStates_str StFAILURE = ''failed''"

datatype ExecTypes = ExRESOLVER

fun ExecTypes_str :: "ExecTypes \<Rightarrow> string" where
  "ExecTypes_str ExRESOLVER = ''sca-resolver''"

datatype ResolverOps = RoSCAN | RoSCAN_COMPLETE

fun ResolverOps_str :: "ResolverOps \<Rightarrow> string" where
  "ResolverOps_str RoSCAN = ''run-scan''"
| "ResolverOps_str RoSCAN_COMPLETE = ''scan-complete''"

datatype ResultStates = TO_VERIFY | NOT_EXPLOITABLE | PROP_NOT_EXPLOITABLE | CONFIRMED | URGENT

fun ResultStates_value :: "ResultStates \<Rightarrow> string" where
  "ResultStates_value TO_VERIFY = ''To Verify''"
| "ResultStates_value NOT_EXPLOITABLE = ''Not Exploitable''"
| "ResultStates_value PROP_NOT_EXPLOITABLE = ''Proposed Not Exploitable''"
| "ResultStates_value CONFIRMED = ''Confirmed''"
| "ResultStates_value URGENT = ''Urgent''"

datatype ResultSeverity = CRITICAL | HIGH | MEDIUM | LOW | INFO

text \<open>The values of a severity member, in the order they are written; the first is its \<^verbatim>\<open>value\<close>.\<close>

fun ResultSeverity_values :: "ResultSeverity \<Rightarrow> json list" where
  "ResultSeverity_values CRITICAL = [JStr ''Critical'', JInt 0]"
| "ResultSeverity_values HIGH = [JStr ''High'', JInt 1]"
| "ResultSeverity_values MEDIUM = [JStr ''Medium'', JInt 2]"
| "ResultSeverity_values LOW = [JStr ''Low'', JInt 3]"
| "ResultSeverity_values INFO = [JStr ''Info'', JStr ''Information'', JStr '''', JInt 4]"

definition ResultSeverity_members :: "ResultSeverity list" where
  "ResultSeverity_members = [CRITICAL, HIGH, MEDIUM, LOW, INFO]"

definition ResultSeverity_rank :: "ResultSeverity \<Rightarrow> json" where
  "ResultSeverity_rank s = last (ResultSeverity_values s)"

text \<open>\<^verbatim>\<open>ResultSeverity(v)\<close> and \<^verbatim>\<open>ResultStates(v)\<close>: the member that has \<open>v\<close> among its values.\<close>

definition ResultSeverity_of :: "json \<Rightarrow> ResultSeverity result" where
  "ResultSeverity_of v =
     (case find (\<lambda>s. v \<in> set (ResultSeverity_values s)) ResultSeverity_members of
        None \<Rightarrow> Inl ValueError | Some s \<Rightarrow> Inr s)"

definition ResultStates_members :: "ResultStates list" where
  "ResultStates_members = [TO_VERIFY, NOT_EXPLOITABLE, PROP_NOT_EXPLOITABLE, CONFIRMED, URGENT]"

definition ResultStates_of :: "json \<Rightarrow> ResultStates result" where
  "ResultStates_of v =
     (case find (\<lambda>s. v = JStr (ResultStates_value s)) ResultStates_members of
        None \<Rightarrow> Inl ValueError | Some s \<Rightarrow> Inr s)"

lemma ResultSeverity_of_value:
  "v \<in> set (ResultSeverity_values s) \<Longrightarrow> ResultSeverity_of v = Inr s"
  by (cases s) (auto simp: ResultSeverity_of_def ResultSeverity_members_def)

lemma ResultSeverity_of_sound:
  "ResultSeverity_of v = Inr s \<Longrightarrow> v \<in> set (ResultSeverity_values s)"
  by (auto simp: ResultSeverity_of_def find_Some_iff split: option.splits)

section \<open>Messages\<close>

record EventContext =
  ec_raw_event_payload :: string
  ec_headers :: "string dict"
  ec_message :: json

record CommonDetails =
  cd_clone_url :: json
  cd_repo_project :: json
  cd_repo_slug :: json
  cd_organization :: json
  cd_source_branch :: json
  cd_event_context :: EventContext

record PushDetails = CommonDetails +
  pd_commit_hash :: json

record PRDetails = CommonDetails +
  prd_pr_id :: json
  prd_target_branch :: json

text \<open>The dictionary a details message is turned into by \<^verbatim>\<open>as_dict\<close>.\<close>

definition EventContext_as_dict :: "EventContext \<Rightarrow> json" where
  "EventContext_as_dict ec = JObj
     [(''raw_event_payload'', JStr (ec_raw_event_payload ec)),
      (''headers'', JObj (map (\<lambda>(k, v). (k, JStr v)) (ec_headers ec))),
      (''message'', ec_message ec)]"

definition CommonDetails_as_dict :: "'a CommonDetails_scheme \<Rightarrow> json dict" where
  "CommonDetails_as_dict d =
     [(''clone_url'', cd_clone_url d),
      (''repo_project'', cd_repo_project d),
      (''repo_slug'', cd_repo_slug d),
      (''organization'', cd_organization d),
      (''source_branch'', cd_source_branch d),
      (''event_context'', EventContext_as_dict (cd_event_context d))]"

definition PushDetails_as_dict :: "PushDetails \<Rightarrow> json dict" where
  "PushDetails_as_dict d = CommonDetails_as_dict d @ [(''commit_hash'', pd_commit_hash d)]"

definition PRDetails_as_dict :: "PRDetails \<Rightarrow> json dict" where
  "PRDetails_as_dict d = CommonDetails_as_dict d @
     [(''pr_id'', prd_pr_id d), (''target_branch'', prd_target_branch d)]"

record StampedMessage =
  sm_timestamp :: string
  sm_correlation_id :: string

record ScanHeader = StampedMessage +
  sh_moniker :: string
  sh_state :: ScanStates
  sh_workflow :: ScanWorkflow

record ScanMessage = ScanHeader +
  scm_scanid :: string
  scm_projectid :: string
  scm_workflow_details :: "json dict"

text \<open>
  The drop time of a message: the instant its ISO text denotes, in seconds; a text \<^verbatim>\<open>datetime.fromisoformat\<close>
  refuses; or what cannot be compared with the current time, a value that is not a text or a text without an offset.
\<close>

datatype drop_time = DropAt int | NotIsoText | NoInstant

record ScanAwaitMessage = ScanMessage +
  sam_drop_by :: drop_time

record ScanFeedbackMessage = ScanMessage +
  sfm_is_error :: bool
  sfm_error_msg :: "string option"

record ScanAnnotationMessage = ScanMessage +
  san_annotation :: string

record DelegatedScanDetails =
  dsd_clone_url :: string
  dsd_commit_hash :: json
  dsd_scan_branch :: json
  dsd_scan_tags :: "json dict"
  dsd_file_filters :: json
  dsd_project_id :: string
  dsd_pickled_scm_service :: string
  dsd_pickled_cxone_service :: string
  dsd_event_context :: EventContext
  dsd_orchestrator :: string
  dsd_cxoneflow_version :: string

record DelegatedScanMessageBase = ScanHeader +
  dsm_details :: DelegatedScanDetails
  dsm_details_signature :: string

record DelegatedScanMessage = DelegatedScanMessageBase +
  dsm_capture_logs :: bool

record DelegatedScanResultMessage = DelegatedScanMessageBase +
  dsr_resolver_exit_code :: "int option"
  dsr_scan_id :: "string option"
  dsr_logs :: "string option"

text \<open>What travels on the queue: a message of one of the classes.\<close>

datatype mq_body =
    AwaitBody ScanAwaitMessage
  | FeedbackBody ScanFeedbackMessage
  | AnnotationBody ScanAnnotationMessage
  | DelegatedBody DelegatedScanMessage
  | DelegatedResultBody DelegatedScanResultMessage
  | SarifBody string "json dict" \<comment> \<open>packaged Sarif log and its message headers\<close>

section \<open>Names of exchanges, queues and topics\<close>

definition ELEMENT_PREFIX :: string where "ELEMENT_PREFIX = ''cx:''"
definition TOPIC_PREFIX :: string where "TOPIC_PREFIX = ''cx.''"

definition EXCHANGE_SCAN_INPUT :: string where
  "EXCHANGE_SCAN_INPUT = ELEMENT_PREFIX @ ''Scan In''"
definition EXCHANGE_SCAN_WAIT :: string where
  "EXCHANGE_SCAN_WAIT = ELEMENT_PREFIX @ ''Scan Await''"
definition EXCHANGE_SCAN_POLLING :: string where
  "EXCHANGE_SCAN_POLLING = ELEMENT_PREFIX @ ''Scan Polling Delivery''"

definition QUEUE_SCAN_POLLING :: string where
  "QUEUE_SCAN_POLLING = ELEMENT_PREFIX @ ''Polling Scans''"
definition QUEUE_SCAN_WAIT :: string where
  "QUEUE_SCAN_WAIT = ELEMENT_PREFIX @ ''Awaited Scans''"
definition ROUTEKEY_POLL_BINDING :: string where
  "ROUTEKEY_POLL_BINDING = TOPIC_PREFIX @ ''*.'' @ ScanStates_str StAWAIT @ ''.*.*''"

definition PR_ELEMENT_PREFIX :: string where "PR_ELEMENT_PREFIX = ''pr:''"
definition PR_TOPIC_PREFIX :: string where "PR_TOPIC_PREFIX = ''pr.''"
definition EXCHANGE_SCAN_INPUT_LEGACY :: string where
  "EXCHANGE_SCAN_INPUT_LEGACY = ELEMENT_PREFIX @ PR_ELEMENT_PREFIX @ ''Scan In''"
definition EXCHANGE_SCAN_WAIT_LEGACY :: string where
  "EXCHANGE_SCAN_WAIT_LEGACY = ELEMENT_PREFIX @ PR_ELEMENT_PREFIX @ ''Scan Await''"
definition EXCHANGE_SCAN_POLLING_LEGACY :: string where
  "EXCHANGE_SCAN_POLLING_LEGACY = ELEMENT_PREFIX @ PR_ELEMENT_PREFIX @ ''Scan Polling Delivery''"
definition EXCHANGE_SCAN_ANNOTATE :: string where
  "EXCHANGE_SCAN_ANNOTATE = ELEMENT_PREFIX @ PR_ELEMENT_PREFIX @ ''Scan Annotate''"
definition EXCHANGE_SCAN_FEEDBACK :: string where
  "EXCHANGE_SCAN_FEEDBACK = ELEMENT_PREFIX @ PR_ELEMENT_PREFIX @ ''Scan Feedback''"
definition QUEUE_SCAN_POLLING_LEGACY :: string where
  "QUEUE_SCAN_POLLING_LEGACY = ELEMENT_PREFIX @ PR_ELEMENT_PREFIX @ ''Polling Scans''"
definition QUEUE_SCAN_WAIT_LEGACY :: string where
  "QUEUE_SCAN_WAIT_LEGACY = ELEMENT_PREFIX @ PR_ELEMENT_PREFIX @ ''Awaited Scans''"
definition QUEUE_ANNOTATE_PR :: string where
  "QUEUE_ANNOTATE_PR = ELEMENT_PREFIX @ PR_ELEMENT_PREFIX @ ''PR Annotating''"
definition QUEUE_FEEDBACK_PR :: string where
  "QUEUE_FEEDBACK_PR = ELEMENT_PREFIX @ PR_ELEMENT_PREFIX @ ''PR Feedback''"
definition ROUTEKEY_POLL_BINDING_LEGACY :: string where
  "ROUTEKEY_POLL_BINDING_LEGACY = TOPIC_PREFIX @ PR_TOPIC_PREFIX @ ScanStates_str StAWAIT @ ''.*.*''"
definition ROUTEKEY_FEEDBACK_PR :: string where
  "ROUTEKEY_FEEDBACK_PR = TOPIC_PREFIX @ PR_TOPIC_PREFIX @ ScanStates_str StFEEDBACK @ ''.'' @
     FeedbackWorkflow_str FbPR @ ''.*''"
definition ROUTEKEY_ANNOTATE_PR :: string where
  "ROUTEKEY_ANNOTATE_PR = TOPIC_PREFIX @ PR_TOPIC_PREFIX @ ScanStates_str StANNOTATE @ ''.'' @
     FeedbackWorkflow_str FbPR @ ''.*''"

definition PUSH_ELEMENT_PREFIX :: string where "PUSH_ELEMENT_PREFIX = ''push:''"
definition PUSH_TOPIC_PREFIX :: string where "PUSH_TOPIC_PREFIX = ''push.''"
definition EXCHANGE_SARIF_WORK :: string where
  "EXCHANGE_SARIF_WORK = ELEMENT_PREFIX @ PUSH_ELEMENT_PREFIX @ ''Sarif Workflows''"
definition QUEUE_SARIF_GEN :: string where
  "QUEUE_SARIF_GEN = ELEMENT_PREFIX @ PUSH_ELEMENT_PREFIX @ ''Generate Sarif''"
definition ROUTEKEY_GEN_SARIF :: string where
  "ROUTEKEY_GEN_SARIF = TOPIC_PREFIX @ PUSH_TOPIC_PREFIX @ ScanStates_str StFEEDBACK @ ''.'' @
     FeedbackWorkflow_str FbPUSH_GEN @ ''.*''"

text \<open>
  \<^verbatim>\<open>PRFeedbackService.make_topic\<close> and \<^verbatim>\<open>PushFeedbackService.make_topic\<close>; the second argument is the
  \<^verbatim>\<open>str\<close> of the workflow the caller passes (the callers pass a \<^verbatim>\<open>ScanWorkflow\<close> or a
  \<^verbatim>\<open>FeedbackWorkflow\<close>).
\<close>

definition PR_make_topic :: "ScanStates \<Rightarrow> string \<Rightarrow> string \<Rightarrow> string" where
  "PR_make_topic state workflow moniker =
     TOPIC_PREFIX @ PR_TOPIC_PREFIX @ ScanStates_str state @ ''.'' @ workflow @ ''.'' @ moniker"

definition Push_make_topic :: "ScanStates \<Rightarrow> string \<Rightarrow> string \<Rightarrow> string" where
  "Push_make_topic state workflow moniker =
     TOPIC_PREFIX @ PUSH_TOPIC_PREFIX @ ScanStates_str state @ ''.'' @ workflow @ ''.'' @ moniker"

definition RESOLVER_ELEMENT_PREFIX :: string where "RESOLVER_ELEMENT_PREFIX = ''res:''"
definition RESOLVER_TOPIC_PREFIX :: string where "RESOLVER_TOPIC_PREFIX = ''res.''"
definition EXCHANGE_RESOLVER_SCAN :: string where
  "EXCHANGE_RESOLVER_SCAN = ELEMENT_PREFIX @ RESOLVER_ELEMENT_PREFIX @ ''SCA Resolver Scan In''"
definition QUEUE_RESOLVER_COMPLETE :: string where
  "QUEUE_RESOLVER_COMPLETE = ELEMENT_PREFIX @ RESOLVER_ELEMENT_PREFIX @ ''Finished Resolver Scans''"
definition ROUTEKEY_EXEC_SCA_SCAN_COMPLETE :: string where
  "ROUTEKEY_EXEC_SCA_SCAN_COMPLETE = TOPIC_PREFIX @ RESOLVER_TOPIC_PREFIX @ ScanStates_str StEXECUTE @
     ''.'' @ ExecTypes_str ExRESOLVER @ ''.'' @ ResolverOps_str RoSCAN_COMPLETE @ ''.#''"
definition EXCHANGE_RESOLVER_SCAN_DLX :: string where
  "EXCHANGE_RESOLVER_SCAN_DLX = ELEMENT_PREFIX @ RESOLVER_ELEMENT_PREFIX @ ''SCA Resolver DLX''"
definition ROUTEKEY_DLX :: string where
  "ROUTEKEY_DLX = TOPIC_PREFIX @ RESOLVER_TOPIC_PREFIX @ ''#''"
definition QUEUE_RESOLVER_TIMEOUT :: string where
  "QUEUE_RESOLVER_TIMEOUT = ELEMENT_PREFIX @ RESOLVER_ELEMENT_PREFIX @ ''Resolver Timeout''"
definition QUEUE_RESOLVER_EXEC_STUB :: string where
  "QUEUE_RESOLVER_EXEC_STUB = ELEMENT_PREFIX @ RESOLVER_ELEMENT_PREFIX @ ''Resolver Req''"
definition ROUTEKEY_EXEC_SCA_SCAN_STUB :: string where
  "ROUTEKEY_EXEC_SCA_SCAN_STUB = TOPIC_PREFIX @ RESOLVER_TOPIC_PREFIX @ ScanStates_str StEXECUTE @
     ''.'' @ ExecTypes_str ExRESOLVER @ ''.'' @ ResolverOps_str RoSCAN"
definition ROUTEKEY_RESOLVER_RESULT_STUB :: string where
  "ROUTEKEY_RESOLVER_RESULT_STUB = TOPIC_PREFIX @ RESOLVER_TOPIC_PREFIX @ ''exec.sca-resolver.scan-complete''"

text \<open>
  The queue of an agent tag, the topic a delegated scan for the tag is published under by the service
  \<open>moniker\<close>, and the binding key of the queue; \<open>agent_tags\<close> is the configured list or the empty one.
\<close>

definition make_routekey_for_tag :: "string \<Rightarrow> string" where
  "make_routekey_for_tag tag = ROUTEKEY_EXEC_SCA_SCAN_STUB @ ''.'' @ tag @ ''.#''"

definition make_topic_for_tag :: "string \<Rightarrow> string \<Rightarrow> string" where
  "make_topic_for_tag moniker tag = ROUTEKEY_EXEC_SCA_SCAN_STUB @ ''.'' @ tag @ ''.'' @ moniker"

definition make_queuename_for_tag :: "string \<Rightarrow> string" where
  "make_queuename_for_tag tag = QUEUE_RESOLVER_EXEC_STUB @ '':'' @ url_quote ''/'' tag"

definition agent_tags :: "string list option \<Rightarrow> string list" where
  "agent_tags configured = (case configured of None \<Rightarrow> [] | Some tags \<Rightarrow> tags)"

definition queue_and_topic_tuples :: "string list option \<Rightarrow> (string \<times> string) list" where
  "queue_and_topic_tuples configured =
     map (\<lambda>tag. (make_queuename_for_tag tag, make_routekey_for_tag tag)) (agent_tags configured)"

lemmas topic_defs =
  ELEMENT_PREFIX_def TOPIC_PREFIX_def PR_ELEMENT_PREFIX_def PR_TOPIC_PREFIX_def
  PUSH_ELEMENT_PREFIX_def PUSH_TOPIC_PREFIX_def RESOLVER_ELEMENT_PREFIX_def
  RESOLVER_TOPIC_PREFIX_def ROUTEKEY_POLL_BINDING_def ROUTEKEY_POLL_BINDING_LEGACY_def
  ROUTEKEY_FEEDBACK_PR_def ROUTEKEY_ANNOTATE_PR_def ROUTEKEY_GEN_SARIF_def
  ROUTEKEY_EXEC_SCA_SCAN_COMPLETE_def ROUTEKEY_DLX_def ROUTEKEY_EXEC_SCA_SCAN_STUB_def
  ROUTEKEY_RESOLVER_RESULT_STUB_def PR_make_topic_def Push_make_topic_def

lemmas element_defs =
  ELEMENT_PREFIX_def PR_ELEMENT_PREFIX_def PUSH_ELEMENT_PREFIX_def RESOLVER_ELEMENT_PREFIX_def
  EXCHANGE_SCAN_INPUT_def EXCHANGE_SCAN_WAIT_def EXCHANGE_SCAN_POLLING_def
  QUEUE_SCAN_POLLING_def QUEUE_SCAN_WAIT_def
  EXCHANGE_SCAN_INPUT_LEGACY_def EXCHANGE_SCAN_WAIT_LEGACY_def EXCHANGE_SCAN_POLLING_LEGACY_def
  EXCHANGE_SCAN_ANNOTATE_def EXCHANGE_SCAN_FEEDBACK_def QUEUE_SCAN_POLLING_LEGACY_def
  QUEUE_SCAN_WAIT_LEGACY_def QUEUE_ANNOTATE_PR_def QUEUE_FEEDBACK_PR_def
  EXCHANGE_SARIF_WORK_def QUEUE_SARIF_GEN_def EXCHANGE_RESOLVER_SCAN_def
  QUEUE_RESOLVER_COMPLETE_def EXCHANGE_RESOLVER_SCAN_DLX_def QUEUE_RESOLVER_TIMEOUT_def
  QUEUE_RESOLVER_EXEC_STUB_def

section \<open>Drop times\<close>

definition max_iso :: int where "max_iso = 253402214400" \<comment> \<open>9999-12-31T00:00:00Z\<close>

definition compute_drop_by_timestamp :: "int \<Rightarrow> int \<Rightarrow> int" where
  "compute_drop_by_timestamp now keep_alive = (if keep_alive \<noteq> 0 then now + keep_alive else max_iso)"

fun is_expired :: "int \<Rightarrow> drop_time \<Rightarrow> bool result" where
  "is_expired now (DropAt t) = Inr (now \<ge> t)"
| "is_expired now NotIsoText = Inl ValueError"
| "is_expired now NoInstant = Inl TypeError"

end
