(* ===== verification/Rabbit_Config.thy ===== *)
theory Rabbit_Config
  imports Messaging
begin

text \<open>
  The RabbitMQ topology declared by \<^verbatim>\<open>src/rabbit_config.py\<close>: \<open>setup\<close> is the sequence of
  declarations and bindings the script sends, once per configured service. The broker is not part of
  the program: the delivery of a message is stated for any topic matcher \<open>tm\<close> that behaves as the
  AMQP 0-9-1 model documents (\<open>amqp_topic_matcher\<close>), with exchange-to-exchange bindings followed as
  in \<open>delivered\<close>.
\<close>

section \<open>The declarations of the setup script\<close>

datatype ex_type = FANOUT | TOPIC

datatype decl =
    DeclareExchange string ex_type bool \<comment> \<open>name, type, internal\<close>
  | BindExchange string string string \<comment> \<open>destination, source, routing key\<close>
  | DeclareQueue string "string option" \<comment> \<open>name, dead letter exchange\<close>
  | BindQueue string string string \<comment> \<open>queue, exchange, routing key\<close>

definition setup_exchanges :: "decl list" where
  "setup_exchanges =
    [DeclareExchange EXCHANGE_SCAN_INPUT_LEGACY FANOUT False,
     DeclareExchange EXCHANGE_SCAN_INPUT FANOUT False,
     DeclareExchange EXCHANGE_SCAN_WAIT_LEGACY TOPIC True,
     DeclareExchange EXCHANGE_SCAN_WAIT TOPIC True,
     DeclareExchange EXCHANGE_SCAN_ANNOTATE TOPIC True,
     DeclareExchange EXCHANGE_SCAN_FEEDBACK TOPIC True,
     DeclareExchange EXCHANGE_SARIF_WORK TOPIC True,
     BindExchange EXCHANGE_SCAN_WAIT_LEGACY EXCHANGE_SCAN_INPUT_LEGACY '''',
     BindExchange EXCHANGE_SCAN_WAIT EXCHANGE_SCAN_INPUT '''',
     BindExchange EXCHANGE_SCAN_FEEDBACK EXCHANGE_SCAN_INPUT_LEGACY '''',
     BindExchange EXCHANGE_SCAN_FEEDBACK EXCHANGE_SCAN_INPUT '''',
     BindExchange EXCHANGE_SARIF_WORK EXCHANGE_SCAN_INPUT '''',
     BindExchange EXCHANGE_SCAN_ANNOTATE EXCHANGE_SCAN_INPUT_LEGACY '''',
     BindExchange EXCHANGE_SCAN_ANNOTATE EXCHANGE_SCAN_INPUT '''',
     DeclareExchange EXCHANGE_SCAN_POLLING_LEGACY TOPIC True,
     DeclareExchange EXCHANGE_SCAN_POLLING TOPIC True]"

definition setup_queues :: "decl list" where
  "setup_queues =
    [DeclareQueue QUEUE_SCAN_WAIT_LEGACY (Some EXCHANGE_SCAN_POLLING_LEGACY),
     DeclareQueue QUEUE_SCAN_WAIT (Some EXCHANGE_SCAN_POLLING),
     BindQueue QUEUE_SCAN_WAIT_LEGACY EXCHANGE_SCAN_WAIT_LEGACY ROUTEKEY_POLL_BINDING_LEGACY,
     BindQueue QUEUE_SCAN_WAIT EXCHANGE_SCAN_WAIT ROUTEKEY_POLL_BINDING,
     DeclareQueue QUEUE_SCAN_POLLING_LEGACY None,
     DeclareQueue QUEUE_SCAN_POLLING None,
     BindQueue QUEUE_SCAN_POLLING_LEGACY EXCHANGE_SCAN_POLLING_LEGACY ROUTEKEY_POLL_BINDING_LEGACY,
     BindQueue QUEUE_SCAN_POLLING EXCHANGE_SCAN_POLLING ROUTEKEY_POLL_BINDING,
     DeclareQueue QUEUE_FEEDBACK_PR None,
     BindQueue QUEUE_FEEDBACK_PR EXCHANGE_SCAN_FEEDBACK ROUTEKEY_FEEDBACK_PR,
     DeclareQueue QUEUE_SARIF_GEN None,
     BindQueue QUEUE_SARIF_GEN EXCHANGE_SARIF_WORK ROUTEKEY_GEN_SARIF,
     DeclareQueue QUEUE_ANNOTATE_PR None,
     BindQueue QUEUE_ANNOTATE_PR EXCHANGE_SCAN_ANNOTATE ROUTEKEY_ANNOTATE_PR]"

text \<open>The argument is \<^verbatim>\<open>services.resolver.queue_and_topic_tuples\<close>.\<close>

definition setup_resolver :: "(string \<times> string) list \<Rightarrow> decl list" where
  "setup_resolver tuples =
    [DeclareExchange EXCHANGE_RESOLVER_SCAN TOPIC False,
     DeclareExchange EXCHANGE_RESOLVER_SCAN_DLX TOPIC True,
     DeclareQueue QUEUE_RESOLVER_TIMEOUT None,
     BindQueue QUEUE_RESOLVER_TIMEOUT EXCHANGE_RESOLVER_SCAN_DLX ROUTEKEY_DLX] @
    concat (map (\<lambda>(queue, topic).
      [DeclareQueue queue (Some EXCHANGE_RESOLVER_SCAN_DLX),
       BindQueue queue EXCHANGE_RESOLVER_SCAN topic]) tuples) @
    [DeclareQueue QUEUE_RESOLVER_COMPLETE None,
     BindQueue QUEUE_RESOLVER_COMPLETE EXCHANGE_RESOLVER_SCAN ROUTEKEY_EXEC_SCA_SCAN_COMPLETE]"

text \<open>
  One round of declarations per moniker, as the \<^verbatim>\<open>for moniker in monikers\<close> loop sends them; a service
  is given by its configured agent tags.
\<close>

definition rabbit_setup :: "string list option list \<Rightarrow> decl list" where
  "rabbit_setup services =
     concat (map (\<lambda>tags. setup_exchanges @ setup_queues @ setup_resolver (queue_and_topic_tuples tags))
       services)"

section \<open>Delivery\<close>

text \<open>
  The documented topic matching: the routing key and the binding key are words separated by dots;
  \<open>*\<close> stands for exactly one word and \<open>#\<close> for zero or more words.
\<close>

fun topic_words_match :: "string list \<Rightarrow> string list \<Rightarrow> bool" where
  "topic_words_match [] ws = (ws = [])"
| "topic_words_match (p # ps) [] = (p = ''#'' \<and> topic_words_match ps [])"
| "topic_words_match (p # ps) (w # ws) =
     (if p = ''#'' then topic_words_match ps (w # ws) \<or> topic_words_match (p # ps) ws
      else (p = ''*'' \<or> p = w) \<and> topic_words_match ps ws)"

definition topic_match :: "string \<Rightarrow> string \<Rightarrow> bool" where
  "topic_match pattern key =
     topic_words_match (split_on (CHR ''.'') pattern) (split_on (CHR ''.'') key)"

definition amqp_topic_matcher :: "(string \<Rightarrow> string \<Rightarrow> bool) \<Rightarrow> bool" where
  "amqp_topic_matcher tm \<longleftrightarrow> (\<forall>pattern key. tm pattern key = topic_match pattern key)"

definition passes :: "(string \<Rightarrow> string \<Rightarrow> bool) \<Rightarrow> decl list \<Rightarrow> string \<Rightarrow> string \<Rightarrow> string \<Rightarrow> bool" where
  "passes tm T ex bkey key \<longleftrightarrow>
     (\<exists>i. DeclareExchange ex FANOUT i \<in> set T) \<or>
     (\<exists>i. DeclareExchange ex TOPIC i \<in> set T) \<and> tm bkey key"

inductive delivered :: "(string \<Rightarrow> string \<Rightarrow> bool) \<Rightarrow> decl list \<Rightarrow> string \<Rightarrow> string \<Rightarrow> string \<Rightarrow> bool"
  for tm T key where
  to_queue: "BindQueue q ex bkey \<in> set T \<Longrightarrow> passes tm T ex bkey key \<Longrightarrow> delivered tm T key ex q"
| to_exchange: "BindExchange dest ex bkey \<in> set T \<Longrightarrow> passes tm T ex bkey key \<Longrightarrow>
     delivered tm T key dest q \<Longrightarrow> delivered tm T key ex q"

text \<open>An expired message of a queue is published to the dead letter exchange of the queue.\<close>

definition dead_lettered :: "(string \<Rightarrow> string \<Rightarrow> bool) \<Rightarrow> decl list \<Rightarrow> string \<Rightarrow> string \<Rightarrow> string \<Rightarrow> bool" where
  "dead_lettered tm T key q q' \<longleftrightarrow> (\<exists>dlx. DeclareQueue q (Some dlx) \<in> set T \<and> delivered tm T key dlx q')"

section \<open>Membership in the topology\<close>

lemma rabbit_setup_iff:
  "d \<in> set (rabbit_setup services) \<longleftrightarrow>
     services \<noteq> [] \<and> (d \<in> set setup_exchanges \<or> d \<in> set setup_queues) \<or>
     (\<exists>tags \<in> set services. d \<in> set (setup_resolver (queue_and_topic_tuples tags)))"
  by (auto simp: rabbit_setup_def)

lemma BindExchange_iff:
  "BindExchange dest ex k \<in> set (rabbit_setup services) \<longleftrightarrow>
     services \<noteq> [] \<and> BindExchange dest ex k \<in> set setup_exchanges"
  by (auto simp: rabbit_setup_iff setup_queues_def setup_resolver_def)

lemma BindQueue_iff:
  "BindQueue q ex k \<in> set (rabbit_setup services) \<longleftrightarrow>
     services \<noteq> [] \<and> BindQueue q ex k \<in> set setup_queues \<or>
     (\<exists>tags \<in> set services. BindQueue q ex k \<in> set (setup_resolver (queue_and_topic_tuples tags)))"
  by (auto simp: rabbit_setup_iff setup_exchanges_def)

lemma DeclareExchange_iff:
  "services \<noteq> [] \<Longrightarrow> DeclareExchange ex t i \<in> set (rabbit_setup services) \<longleftrightarrow>
     DeclareExchange ex t i \<in> set setup_exchanges \<or> DeclareExchange ex t i \<in> set (setup_resolver [])"
  by (cases services) (auto simp: rabbit_setup_iff setup_queues_def setup_resolver_def)

lemma delivered_unfold:
  "delivered tm T key ex q \<longleftrightarrow>
     (\<exists>bkey. BindQueue q ex bkey \<in> set T \<and> passes tm T ex bkey key) \<or>
     (\<exists>dest bkey. BindExchange dest ex bkey \<in> set T \<and> passes tm T ex bkey key \<and>
        delivered tm T key dest q)"
  by (subst delivered.simps) blast

text \<open>The type of every exchange the topology declares.\<close>

lemma passes_fanout:
  assumes "services \<noteq> []" and "ex = EXCHANGE_SCAN_INPUT \<or> ex = EXCHANGE_SCAN_INPUT_LEGACY"
  shows "passes tm (rabbit_setup services) ex bkey key"
  using assms by (auto simp: passes_def DeclareExchange_iff setup_exchanges_def)

lemma passes_topic:
  assumes "services \<noteq> []"
    and "ex \<in> {EXCHANGE_SCAN_WAIT, EXCHANGE_SCAN_ANNOTATE, EXCHANGE_SCAN_FEEDBACK, EXCHANGE_SARIF_WORK,
       EXCHANGE_SCAN_POLLING, EXCHANGE_RESOLVER_SCAN, EXCHANGE_RESOLVER_SCAN_DLX}"
  shows "passes tm (rabbit_setup services) ex bkey key = tm bkey key"
  using assms(2)
  unfolding passes_def DeclareExchange_iff [OF assms(1)] setup_exchanges_def setup_resolver_def
  by (elim insertE emptyE; simp add: element_defs ex_bool_eq)

lemma delivered_leaf:
  assumes "services \<noteq> []"
    and "ex \<in> {EXCHANGE_SCAN_WAIT, EXCHANGE_SCAN_ANNOTATE, EXCHANGE_SCAN_FEEDBACK, EXCHANGE_SARIF_WORK,
       EXCHANGE_SCAN_POLLING, EXCHANGE_RESOLVER_SCAN, EXCHANGE_RESOLVER_SCAN_DLX}"
  shows "delivered tm (rabbit_setup services) key ex q \<longleftrightarrow>
     (\<exists>bkey. BindQueue q ex bkey \<in> set (rabbit_setup services) \<and> tm bkey key)"
proof -
  have no: "\<not> BindExchange dest ex bkey \<in> set (rabbit_setup services)" for dest bkey
    using assms(2) unfolding BindExchange_iff setup_exchanges_def
    by (elim insertE emptyE; simp add: element_defs)
  show ?thesis
    by (subst delivered_unfold) (simp add: no passes_topic [OF assms])
qed

lemma delivered_scan_in:
  assumes "services \<noteq> []"
  shows "delivered tm (rabbit_setup services) key EXCHANGE_SCAN_INPUT q \<longleftrightarrow>
     (\<exists>dest \<in> {EXCHANGE_SCAN_WAIT, EXCHANGE_SCAN_FEEDBACK, EXCHANGE_SARIF_WORK, EXCHANGE_SCAN_ANNOTATE}.
        delivered tm (rabbit_setup services) key dest q)"
proof -
  have bq: "\<not> BindQueue q EXCHANGE_SCAN_INPUT bkey \<in> set (rabbit_setup services)" for bkey
    by (auto simp: BindQueue_iff setup_queues_def setup_resolver_def element_defs)
  have be: "BindExchange dest EXCHANGE_SCAN_INPUT bkey \<in> set (rabbit_setup services) \<longleftrightarrow>
      bkey = '''' \<and> dest \<in> {EXCHANGE_SCAN_WAIT, EXCHANGE_SCAN_FEEDBACK, EXCHANGE_SARIF_WORK,
        EXCHANGE_SCAN_ANNOTATE}" for dest bkey
    using assms by (auto simp: BindExchange_iff setup_exchanges_def element_defs)
  show ?thesis
    using passes_fanout [OF assms] by (subst delivered_unfold) (auto simp: bq be)
qed

text \<open>Which binding key each queue has on each leaf exchange.\<close>

lemma feedback_bindings:
  assumes "services \<noteq> []"
  shows "BindQueue q EXCHANGE_SCAN_WAIT k \<in> set (rabbit_setup services) \<longleftrightarrow>
      q = QUEUE_SCAN_WAIT \<and> k = ROUTEKEY_POLL_BINDING"
    and "BindQueue q EXCHANGE_SCAN_FEEDBACK k \<in> set (rabbit_setup services) \<longleftrightarrow>
      q = QUEUE_FEEDBACK_PR \<and> k = ROUTEKEY_FEEDBACK_PR"
    and "BindQueue q EXCHANGE_SARIF_WORK k \<in> set (rabbit_setup services) \<longleftrightarrow>
      q = QUEUE_SARIF_GEN \<and> k = ROUTEKEY_GEN_SARIF"
    and "BindQueue q EXCHANGE_SCAN_ANNOTATE k \<in> set (rabbit_setup services) \<longleftrightarrow>
      q = QUEUE_ANNOTATE_PR \<and> k = ROUTEKEY_ANNOTATE_PR"
    and "BindQueue q EXCHANGE_SCAN_POLLING k \<in> set (rabbit_setup services) \<longleftrightarrow>
      q = QUEUE_SCAN_POLLING \<and> k = ROUTEKEY_POLL_BINDING"
  using assms by (auto simp: BindQueue_iff setup_queues_def setup_resolver_def element_defs)

lemma resolver_bindings:
  assumes "services \<noteq> []"
  shows "BindQueue q EXCHANGE_RESOLVER_SCAN k \<in> set (rabbit_setup services) \<longleftrightarrow>
      (\<exists>tags \<in> set services. (q, k) \<in> set (queue_and_topic_tuples tags)) \<or>
      q = QUEUE_RESOLVER_COMPLETE \<and> k = ROUTEKEY_EXEC_SCA_SCAN_COMPLETE"
    and "BindQueue q EXCHANGE_RESOLVER_SCAN_DLX k \<in> set (rabbit_setup services) \<longleftrightarrow>
      q = QUEUE_RESOLVER_TIMEOUT \<and> k = ROUTEKEY_DLX"
proof -
  obtain t where t: "t \<in> set services" using assms by (cases services) auto
  show "BindQueue q EXCHANGE_RESOLVER_SCAN k \<in> set (rabbit_setup services) \<longleftrightarrow>
      (\<exists>tags \<in> set services. (q, k) \<in> set (queue_and_topic_tuples tags)) \<or>
      q = QUEUE_RESOLVER_COMPLETE \<and> k = ROUTEKEY_EXEC_SCA_SCAN_COMPLETE"
    using assms t
    by (auto simp: BindQueue_iff setup_queues_def setup_resolver_def element_defs)
  show "BindQueue q EXCHANGE_RESOLVER_SCAN_DLX k \<in> set (rabbit_setup services) \<longleftrightarrow>
      q = QUEUE_RESOLVER_TIMEOUT \<and> k = ROUTEKEY_DLX"
    using assms t
    by (auto simp: BindQueue_iff setup_queues_def setup_resolver_def element_defs)
qed

section \<open>Topics as words\<close>

lemma split_on_two_parts:
  assumes "c \<in> set s"
  obtains a b rest where "split_on c s = a # b # rest"
proof -
  obtain a as where a: "split_on c s = a # as" by (cases "split_on c s") auto
  have "as \<noteq> []"
  proof
    assume "as = []"
    with a have "s = a" using str_join_split_on [of c s] by simp
    with assms a show False using split_on_parts_clean [of a c s] by simp
  qed
  with a that show thesis by (cases as) auto
qed

lemma split_make_topic:
  "split_on (CHR ''.'') (PR_make_topic st (FeedbackWorkflow_str fb) m) =
     [''cx'', ''pr'', ScanStates_str st, FeedbackWorkflow_str fb] @ split_on (CHR ''.'') m"
  "split_on (CHR ''.'') (Push_make_topic st (FeedbackWorkflow_str fb) m) =
     [''cx'', ''push'', ScanStates_str st, FeedbackWorkflow_str fb] @ split_on (CHR ''.'') m"
  by (cases st; cases fb; simp add: topic_defs)+

lemma routekey_words:
  "split_on (CHR ''.'') ROUTEKEY_POLL_BINDING = [''cx'', ''*'', ''await'', ''*'', ''*'']"
  "split_on (CHR ''.'') ROUTEKEY_FEEDBACK_PR = [''cx'', ''pr'', ''feedback'', ''pull-request'', ''*'']"
  "split_on (CHR ''.'') ROUTEKEY_ANNOTATE_PR = [''cx'', ''pr'', ''annotate'', ''pull-request'', ''*'']"
  "split_on (CHR ''.'') ROUTEKEY_GEN_SARIF = [''cx'', ''push'', ''feedback'', ''push-gen-sarif'', ''*'']"
  "split_on (CHR ''.'') ROUTEKEY_EXEC_SCA_SCAN_COMPLETE =
     [''cx'', ''res'', ''exec'', ''sca-resolver'', ''scan-complete'', ''#'']"
  "split_on (CHR ''.'') ROUTEKEY_DLX = [''cx'', ''res'', ''#'']"
  by (simp_all add: topic_defs)

text \<open>What is delivered from "Scan In" depends only on which binding keys match.\<close>

lemma delivered_scan_in_iff:
  assumes "services \<noteq> []" and "amqp_topic_matcher tm"
  shows "delivered tm (rabbit_setup services) key EXCHANGE_SCAN_INPUT q \<longleftrightarrow>
     q = QUEUE_SCAN_WAIT \<and> topic_match ROUTEKEY_POLL_BINDING key \<or>
     q = QUEUE_FEEDBACK_PR \<and> topic_match ROUTEKEY_FEEDBACK_PR key \<or>
     q = QUEUE_SARIF_GEN \<and> topic_match ROUTEKEY_GEN_SARIF key \<or>
     q = QUEUE_ANNOTATE_PR \<and> topic_match ROUTEKEY_ANNOTATE_PR key"
  using assms
  by (auto simp: delivered_scan_in delivered_leaf feedback_bindings amqp_topic_matcher_def)

section \<open>Where each published message goes\<close>

text \<open>
  The topic a service publishes under: the pull-request service uses its own \<^verbatim>\<open>make_topic\<close> with the
  pull-request workflow, the push service its own with the Sarif workflow.
\<close>

fun feedback_topic :: "ScanStates \<Rightarrow> FeedbackWorkflow \<Rightarrow> string \<Rightarrow> string" where
  "feedback_topic st FbPR moniker = PR_make_topic st (FeedbackWorkflow_str FbPR) moniker"
| "feedback_topic st FbPUSH_GEN moniker = Push_make_topic st (FeedbackWorkflow_str FbPUSH_GEN) moniker"

text \<open>The queue whose consumer handles messages of that state (\<^verbatim>\<open>src/workflow_agent.py\<close>).\<close>

fun handling_queue :: "ScanStates \<Rightarrow> FeedbackWorkflow \<Rightarrow> string option" where
  "handling_queue StAWAIT _ = Some QUEUE_SCAN_WAIT"
| "handling_queue StFEEDBACK FbPR = Some QUEUE_FEEDBACK_PR"
| "handling_queue StFEEDBACK FbPUSH_GEN = Some QUEUE_SARIF_GEN"
| "handling_queue StANNOTATE FbPR = Some QUEUE_ANNOTATE_PR"
| "handling_queue _ _ = None"

lemma ScanWorkflow_str_PR: "ScanWorkflow_str WfPR = FeedbackWorkflow_str FbPR"
  by simp

text \<open>
  C20: a message published to the "Scan In" exchange under the topic of its state, workflow and
  service moniker is delivered to exactly one queue, the one whose consumer handles that state, and
  to no queue when no consumer exists. This needs the moniker to be a single topic word: with a dot in
  the moniker the message reaches no queue at all.
\<close>

theorem feedback_topic_delivery:
  assumes "services \<noteq> []" and "amqp_topic_matcher tm"
  shows "delivered tm (rabbit_setup services) (feedback_topic st fb moniker) EXCHANGE_SCAN_INPUT q \<longleftrightarrow>
         CHR ''.'' \<notin> set moniker \<and> handling_queue st fb = Some q"
proof (cases "CHR ''.'' \<in> set moniker")
  case True
  then obtain a b rest where "split_on (CHR ''.'') moniker = a # b # rest"
    by (rule split_on_two_parts)
  with True show ?thesis
    unfolding delivered_scan_in_iff [OF assms] topic_match_def routekey_words
    by (cases fb; cases st; simp only: feedback_topic.simps split_make_topic; simp)
next
  case False
  then have "split_on (CHR ''.'') moniker = [moniker]" by (simp add: str_simps)
  with False show ?thesis
    unfolding delivered_scan_in_iff [OF assms] topic_match_def routekey_words
    by (cases fb; cases st; simp only: feedback_topic.simps split_make_topic; auto)
qed

theorem feedback_topic_delivery_witness:
  "delivered topic_match (rabbit_setup [None]) (feedback_topic StANNOTATE FbPR ''MyADO'')
     EXCHANGE_SCAN_INPUT QUEUE_ANNOTATE_PR"
proof -
  have "amqp_topic_matcher topic_match" by (simp add: amqp_topic_matcher_def)
  then show ?thesis
    using feedback_topic_delivery [of "[None]" topic_match StANNOTATE FbPR "''MyADO''" QUEUE_ANNOTATE_PR]
    by simp
qed

lemma wait_queue_dlx:
  assumes "services \<noteq> []"
  shows "DeclareQueue QUEUE_SCAN_WAIT (Some dlx) \<in> set (rabbit_setup services) \<longleftrightarrow>
    dlx = EXCHANGE_SCAN_POLLING"
proof -
  have neq: "QUEUE_SCAN_WAIT \<noteq> make_queuename_for_tag tag" for tag
    by (simp add: make_queuename_for_tag_def element_defs)
  have "DeclareQueue QUEUE_SCAN_WAIT (Some dlx) \<notin> set (setup_resolver (queue_and_topic_tuples tags))" for tags
    by (auto simp: setup_resolver_def queue_and_topic_tuples_def neq)
  with assms show ?thesis
    by (auto simp: rabbit_setup_iff setup_exchanges_def setup_queues_def) (simp_all add: element_defs)
qed

text \<open>
  C21: a message waiting for a scan is, when its time to live ends, dead-lettered under its own topic
  to the polling queue and nowhere else, whatever services and agent tags are configured; so every
  awaited scan of a service with a single-word moniker is polled.
\<close>

theorem awaited_message_is_polled:
  assumes "services \<noteq> []" and "amqp_topic_matcher tm" and "CHR ''.'' \<notin> set moniker"
  shows "dead_lettered tm (rabbit_setup services) (feedback_topic StAWAIT fb moniker) QUEUE_SCAN_WAIT q \<longleftrightarrow>
         q = QUEUE_SCAN_POLLING"
proof -
  have "split_on (CHR ''.'') moniker = [moniker]" using assms(3) by (simp add: str_simps)
  then have "topic_match ROUTEKEY_POLL_BINDING (feedback_topic StAWAIT fb moniker)"
    unfolding topic_match_def routekey_words
    by (cases fb; simp only: feedback_topic.simps split_make_topic; simp)
  with assms show ?thesis
    by (auto simp: dead_lettered_def wait_queue_dlx delivered_leaf feedback_bindings amqp_topic_matcher_def)
qed

theorem awaited_message_is_polled_witness:
  "dead_lettered topic_match (rabbit_setup [Some [''linux'']]) (feedback_topic StAWAIT FbPUSH_GEN ''GHE'')
     QUEUE_SCAN_WAIT QUEUE_SCAN_POLLING"
  using awaited_message_is_polled [of "[Some [''linux'']]" topic_match "''GHE''" FbPUSH_GEN QUEUE_SCAN_POLLING]
  by (simp add: amqp_topic_matcher_def)

section \<open>Delegated scans\<close>

lemma split_resolver_keys:
  assumes "CHR ''.'' \<notin> set tag"
  shows "split_on (CHR ''.'') (make_routekey_for_tag tag) =
      [''cx'', ''res'', ''exec'', ''sca-resolver'', ''run-scan'', tag, ''#'']"
    and "split_on (CHR ''.'') (make_topic_for_tag moniker tag) =
      [''cx'', ''res'', ''exec'', ''sca-resolver'', ''run-scan'', tag] @ split_on (CHR ''.'') moniker"
  using assms by (simp_all add: make_routekey_for_tag_def make_topic_for_tag_def topic_defs str_simps)

lemma topic_words_hash: "topic_words_match [''#''] ws"
  by (induction ws) auto

lemma resolver_topic_match:
  assumes "CHR ''.'' \<notin> set tag" and "CHR ''.'' \<notin> set tag'" and "tag' \<noteq> ''#''" and "tag' \<noteq> ''*''"
  shows "topic_match (make_routekey_for_tag tag') (make_topic_for_tag moniker tag) \<longleftrightarrow> tag' = tag"
    and "\<not> topic_match ROUTEKEY_EXEC_SCA_SCAN_COMPLETE (make_topic_for_tag moniker tag)"
    and "topic_match ROUTEKEY_DLX (make_topic_for_tag moniker tag)"
  using assms
  by (simp_all add: topic_match_def split_resolver_keys routekey_words topic_words_hash
      del: topic_words_match.simps(3) add: topic_words_match.simps(3))

end
