(* ===== verification/World.thy ===== *)
theory World
  imports Messaging
begin

text \<open>
  The outside world. The program talks to a source control server, to CheckmarxOne, to git, to the
  message broker and to user scripts; none of them is part of the sources. Every interaction is an
  \<open>event\<close>, a coroutine of the program runs on the list of the events so far, and the answer to an
  interaction is an arbitrary function of that list, passed to the model as a parameter. A property of
  a coroutine that holds for all such functions holds whatever the outside world answers, in
  whatever order.
\<close>

section \<open>Interactions\<close>

record http_request =
  rq_method :: string
  rq_url :: string
  rq_query :: "json dict"
  rq_body :: "string option"
  rq_headers :: "string dict"
  rq_auth :: string

record http_response =
  rs_ok :: bool
  rs_status :: int
  rs_json :: "json result"
  rs_headers :: "string dict"

datatype event =
    EvHttp http_request
  | EvSleep int
  | EvNaming string
  | EvListProjects string
  | EvCreateProject string "json list" "json dict"
  | EvUpdateProject json "json dict"
  | EvRetrieveGroups string
  | EvListScans "json dict"
  | EvUpdateScanTags json "json dict"
  | EvEnabledScanners string json
  | EvScanFilters string
  | EvLoadScan string
  | EvCreateReport string string
  | EvReportStatus json
  | EvDownloadReport json
  | EvClone "string list"
  | EvResetHead string json
  | EvTempDir string \<comment> \<open>a temporary directory was made, with this path\<close>
  | EvCleanup string
  | EvZip string
  | EvScanSubmit string json "json dict" "json dict" \<comment> \<open>project id, branch, engines, tags\<close>
  | EvPublish string string mq_body "int option" "int option" \<comment> \<open>exchange, topic, message, expiration in ms, retry header\<close>
  | EvAck
  | EvNack bool \<comment> \<open>with its requeue flag\<close>
  | EvDecorate json json
  | EvSarif string
  | EvDeliver nat bool
  | EvRunCmd "string list"
  | EvMkdir string
  | EvChmod string
  | EvCopyFile string string

type_synonym trace = "event list"

text \<open>
  The state a coroutine runs on: the history of interactions, and the cache that outlives a single
  event (the group ids and resolution errors of the grouping service).
\<close>

record groups_state =
  gs_groupid_index :: "json dict"
  gs_path_res_errors :: "int dict"

record world =
  w_trace :: trace
  w_groups :: groups_state

type_synonym 'a act = "(world, 'a) py"

definition log_event :: "event \<Rightarrow> world \<Rightarrow> world" where
  "log_event ev w = w\<lparr>w_trace := w_trace w @ [ev]\<rparr>"

text \<open>
  An interaction: recorded, then answered from the history before it. An answer is a value or an
  exception of the program; it never claims that a loop of the model ran out of fuel.
\<close>

definition answer :: "'a result \<Rightarrow> 'a result" where
  "answer r = (case r of Inl e \<Rightarrow> Inl (if e = OutOfFuel then LibError True [] else e) | Inr x \<Rightarrow> Inr x)"

definition ask :: "event \<Rightarrow> (trace \<Rightarrow> 'a result) \<Rightarrow> 'a act" where
  "ask ev f = (\<lambda>w. (answer (f (w_trace w)), log_event ev w))"

definition emit :: "event \<Rightarrow> unit act" where
  "emit ev = (\<lambda>w. (Inr (), log_event ev w))"

text \<open>Reading something that has no effect on the outside (a clock, a cached credential).\<close>

definition look :: "(trace \<Rightarrow> 'a result) \<Rightarrow> 'a act" where
  "look f = (\<lambda>w. (answer (f (w_trace w)), w))"

definition world0 :: world where
  "world0 = \<lparr>w_trace = [], w_groups = \<lparr>gs_groupid_index = [], gs_path_res_errors = []\<rparr>\<rparr>"

lemma answer_Inr [simp]: "answer (Inr x) = Inr x"
  by (simp add: answer_def)

lemma answer_Inl [simp]: "e \<noteq> OutOfFuel \<Longrightarrow> answer (Inl e) = Inl e"
  by (simp add: answer_def)

lemma answer_eq_Inr [simp]: "answer r = Inr x \<longleftrightarrow> r = Inr x"
  by (simp add: answer_def split: sum.splits)

lemma answer_not_fuel [simp]: "answer r \<noteq> Inl OutOfFuel"
  by (simp add: answer_def split: sum.splits)

lemma answer_Inl_cases: "answer (Inl e) = Inl e' \<Longrightarrow> e' \<noteq> OutOfFuel"
  by (auto simp: answer_def split: if_splits)

lemma look_apply [py_simps]: "look f w = (answer (f (w_trace w)), w)"
  by (simp add: look_def)

lemma ask_apply [py_simps]: "ask ev f w = (answer (f (w_trace w)), log_event ev w)"
  by (simp add: ask_def)

lemma emit_apply [py_simps]: "emit ev w = (Inr (), log_event ev w)"
  by (simp add: emit_def)

lemma w_trace_log_event [simp]: "w_trace (log_event ev w) = w_trace w @ [ev]"
  by (simp add: log_event_def)

lemma w_groups_log_event [simp]: "w_groups (log_event ev w) = w_groups w"
  by (simp add: log_event_def)

lemma w_trace_world0 [simp]: "w_trace world0 = []"
  by (simp add: world0_def)

section \<open>Which events a coroutine can cause\<close>

text \<open>
  \<open>emits ok m\<close>: \<open>m\<close> only appends to the history, and every event it appends satisfies \<open>ok\<close>, whatever
  it is answered. The rules lift this through the combinators of the monad.
\<close>

definition extends :: "(event \<Rightarrow> bool) \<Rightarrow> trace \<Rightarrow> world \<Rightarrow> bool" where
  "extends ok tr0 w \<longleftrightarrow> (\<exists>new. w_trace w = tr0 @ new \<and> list_all ok new)"

definition emits :: "(event \<Rightarrow> bool) \<Rightarrow> 'a act \<Rightarrow> bool" where
  "emits ok m \<longleftrightarrow> (\<forall>tr. keeps (extends ok tr) m)"

named_theorems emits_intros \<open>which events a coroutine can cause\<close>

lemma extends_refl [simp]: "extends ok (w_trace w) w"
  by (simp add: extends_def)

lemma extends_snoc: "extends ok tr0 w \<Longrightarrow> ok e \<Longrightarrow> extends ok tr0 (log_event e w)"
  by (auto simp: extends_def)

lemma emits_ask [emits_intros]: "ok ev \<Longrightarrow> emits ok (ask ev f)"
  by (auto simp: emits_def py_simps extends_snoc intro!: keepsI)

lemma emits_emit [emits_intros]: "ok ev \<Longrightarrow> emits ok (emit ev)"
  by (auto simp: emits_def py_simps extends_snoc intro!: keepsI)

lemma emits_look [emits_intros]: "emits ok (look f)"
  by (auto simp: emits_def py_simps intro!: keepsI)

lemma emits_returnE [emits_intros]: "emits ok (returnE x)"
  by (simp add: emits_def keeps_intros)

lemma emits_raiseE [emits_intros]: "emits ok (raiseE e)"
  by (simp add: emits_def keeps_intros)

lemma emits_liftE [emits_intros]: "emits ok (liftE r)"
  by (simp add: emits_def keeps_intros)

lemma emits_bindE [emits_intros]:
  "emits ok m \<Longrightarrow> (\<And>x. emits ok (f x)) \<Longrightarrow> emits ok (bindE m f)"
  by (simp add: emits_def keeps_intros)

lemma emits_thenE [emits_intros]: "emits ok m \<Longrightarrow> emits ok k \<Longrightarrow> emits ok (thenE m k)"
  by (simp add: emits_def keeps_intros)

lemma emits_catchE [emits_intros]:
  "emits ok m \<Longrightarrow> (\<And>e. emits ok (h e)) \<Longrightarrow> emits ok (catchE m h)"
  by (simp add: emits_def keeps_intros)

lemma emits_finallyE [emits_intros]: "emits ok m \<Longrightarrow> emits ok f \<Longrightarrow> emits ok (finallyE m f)"
  by (simp add: emits_def keeps_intros)

lemma emits_forE [emits_intros]: "(\<And>x. emits ok (f x)) \<Longrightarrow> emits ok (forE xs f)"
  by (simp add: emits_def keeps_intros)

lemma emits_mapE [emits_intros]: "(\<And>x. emits ok (f x)) \<Longrightarrow> emits ok (mapE xs f)"
  by (simp add: emits_def keeps_intros)

lemma emits_if [emits_intros]:
  "(b \<Longrightarrow> emits ok m) \<Longrightarrow> (\<not> b \<Longrightarrow> emits ok n) \<Longrightarrow> emits ok (if b then m else n)"
  by simp

lemma emits_case_option [emits_intros]:
  "(v = None \<Longrightarrow> emits ok m) \<Longrightarrow> (\<And>x. v = Some x \<Longrightarrow> emits ok (f x)) \<Longrightarrow>
   emits ok (case v of None \<Rightarrow> m | Some x \<Rightarrow> f x)"
  by (cases v) auto

lemma emits_case_prod [emits_intros]:
  "(\<And>a b. p = (a, b) \<Longrightarrow> emits ok (f a b)) \<Longrightarrow> emits ok (case p of (a, b) \<Rightarrow> f a b)"
  by (cases p) auto

lemma emits_case_sum [emits_intros]:
  "(\<And>e. r = Inl e \<Longrightarrow> emits ok (f e)) \<Longrightarrow> (\<And>x. r = Inr x \<Longrightarrow> emits ok (g x)) \<Longrightarrow>
   emits ok (case r of Inl e \<Rightarrow> f e | Inr x \<Rightarrow> g x)"
  by (cases r) auto

lemma emits_case_list [emits_intros]:
  "(xs = [] \<Longrightarrow> emits ok m) \<Longrightarrow> (\<And>y ys. xs = y # ys \<Longrightarrow> emits ok (f y ys)) \<Longrightarrow>
   emits ok (case xs of [] \<Rightarrow> m | y # ys \<Rightarrow> f y ys)"
  by (cases xs) auto

lemma emits_Let [emits_intros]: "emits ok (f v) \<Longrightarrow> emits ok (Let v f)"
  by simp

lemma emitsD:
  assumes "emits ok m"
  obtains new where "w_trace (snd (m w)) = w_trace w @ new" and "list_all ok new"
proof -
  have "extends ok (w_trace w) (snd (m w))"
    using assms by (simp add: emits_def keeps_def)
  with that show thesis by (auto simp: extends_def)
qed

lemma emits_mono: "emits ok m \<Longrightarrow> (\<And>e. ok e \<Longrightarrow> ok' e) \<Longrightarrow> emits ok' m"
proof -
  assume m: "emits ok m" and le: "\<And>e. ok e \<Longrightarrow> ok' e"
  have "extends ok' tr0 (snd (m w))" if ex: "extends ok' tr0 w" for tr0 w
  proof -
    obtain new where "w_trace (snd (m w)) = w_trace w @ new" "list_all ok new"
      using m by (rule emitsD)
    with ex le show ?thesis by (auto simp: extends_def list_all_iff)
  qed
  then show ?thesis by (auto simp: emits_def intro!: keepsI)
qed

text \<open>\<open>yields Q m\<close>: every value \<open>m\<close> returns satisfies \<open>Q\<close>; what follows may rely on it.\<close>

definition yields :: "('a \<Rightarrow> bool) \<Rightarrow> ('s, 'a) py \<Rightarrow> bool" where
  "yields Q m \<longleftrightarrow> (\<forall>w x w'. m w = (Inr x, w') \<longrightarrow> Q x)"

named_theorems yields_intros \<open>what the value of a coroutine satisfies\<close>

lemma yields_returnE [yields_intros]: "Q x \<Longrightarrow> yields Q (returnE x)"
  by (simp add: yields_def py_simps)

lemma yields_raiseE [yields_intros]: "yields Q (raiseE e)"
  by (simp add: yields_def py_simps)

lemma yields_liftE [yields_intros]: "(\<And>x. r = Inr x \<Longrightarrow> Q x) \<Longrightarrow> yields Q (liftE r)"
  by (simp add: yields_def py_simps)

lemma yields_bindE_post:
  assumes "yields R m" and "\<And>x. R x \<Longrightarrow> yields Q (f x)"
  shows "yields Q (bindE m f)"
proof -
  have "Q y" if run: "bindE m f w = (Inr y, w')" for w y w'
  proof -
    obtain x w1 where "m w = (Inr x, w1)" "f x w1 = (Inr y, w')"
      using run by (auto simp: py_simps split: prod.splits sum.splits)
    with assms show ?thesis unfolding yields_def by blast
  qed
  then show ?thesis by (auto simp: yields_def)
qed

lemma yields_True: "yields (\<lambda>_. True) m"
  by (simp add: yields_def)

lemma yields_bindE [yields_intros]: "(\<And>x. yields Q (f x)) \<Longrightarrow> yields Q (bindE m f)"
  by (rule yields_bindE_post [OF yields_True])

lemma yields_thenE [yields_intros]: "yields Q k \<Longrightarrow> yields Q (thenE m k)"
  unfolding thenE_def by (rule yields_bindE)

lemma yields_if [yields_intros]:
  "(b \<Longrightarrow> yields Q m) \<Longrightarrow> (\<not> b \<Longrightarrow> yields Q n) \<Longrightarrow> yields Q (if b then m else n)"
  by simp

lemma yields_catchE [yields_intros]:
  assumes "yields Q m" and "\<And>e. yields Q (h e)"
  shows "yields Q (catchE m h)"
proof -
  have "Q y" if run: "catchE m h w = (Inr y, w')" for w y w'
  proof (cases "m w")
    case (Pair r w1)
    with run assms show ?thesis
      unfolding yields_def by (cases r) (simp_all add: py_simps split: if_splits, blast+)
  qed
  then show ?thesis by (auto simp: yields_def)
qed

lemma yields_finallyE [yields_intros]:
  assumes "yields Q m"
  shows "yields Q (finallyE m f)"
proof -
  have "Q y" if run: "finallyE m f w = (Inr y, w')" for w y w'
    using run assms by (auto simp: py_simps yields_def split: prod.splits sum.splits if_splits)
  then show ?thesis by (auto simp: yields_def)
qed

lemma yields_case_option [yields_intros]:
  "(v = None \<Longrightarrow> yields Q m) \<Longrightarrow> (\<And>x. v = Some x \<Longrightarrow> yields Q (f x)) \<Longrightarrow>
   yields Q (case v of None \<Rightarrow> m | Some x \<Rightarrow> f x)"
  by (cases v) auto

lemma yields_case_prod [yields_intros]:
  "(\<And>a b. p = (a, b) \<Longrightarrow> yields Q (f a b)) \<Longrightarrow> yields Q (case p of (a, b) \<Rightarrow> f a b)"
  by (cases p) auto

lemma yields_Let [yields_intros]: "yields Q (f v) \<Longrightarrow> yields Q (Let v f)"
  by simp

lemma emits_bindE_post:
  assumes m: "emits ok m" and Q: "yields Q m" and f: "\<And>x. Q x \<Longrightarrow> emits ok (f x)"
  shows "emits ok (bindE m f)"
proof -
  have "extends ok tr (snd (bindE m f w))" if ex: "extends ok tr w" for tr w
  proof (cases "m w")
    case (Pair r w')
    have ex': "extends ok tr w'"
      using m ex Pair by (metis emits_def keepsD snd_conv)
    show ?thesis
    proof (cases r)
      case (Inl e)
      with Pair ex' show ?thesis by (simp add: py_simps)
    next
      case (Inr x)
      with Q Pair have "Q x" by (auto simp: yields_def)
      with f have "extends ok tr (snd (f x w'))"
        using ex' by (simp add: emits_def keeps_def)
      with Inr Pair show ?thesis by (simp add: py_simps)
    qed
  qed
  then show ?thesis by (auto simp: emits_def intro!: keepsI)
qed

text \<open>The new events of a run, as a function.\<close>

definition new_events :: "'a act \<Rightarrow> world \<Rightarrow> trace" where
  "new_events m w = drop (length (w_trace w)) (w_trace (snd (m w)))"

lemma emits_new_events: "emits ok m \<Longrightarrow> e \<in> set (new_events m w) \<Longrightarrow> ok e"
  by (erule emitsD [of ok m w]) (auto simp: new_events_def list_all_iff)

section \<open>Coroutines that always finish\<close>

text \<open>\<open>finishes m\<close>: the outcome of \<open>m\<close> is never that of a loop cut short by the model.\<close>

definition finishes :: "'a act \<Rightarrow> bool" where
  "finishes m \<longleftrightarrow> (\<forall>w. fst (m w) \<noteq> Inl OutOfFuel)"

named_theorems finishes_intros \<open>coroutines without a loop that may be cut short\<close>

lemma finishes_ask [finishes_intros]: "finishes (ask ev f)"
  by (simp add: finishes_def py_simps)

lemma finishes_emit [finishes_intros]: "finishes (emit ev)"
  by (simp add: finishes_def py_simps)

lemma finishes_look [finishes_intros]: "finishes (look f)"
  by (simp add: finishes_def py_simps)

lemma finishes_returnE [finishes_intros]: "finishes (returnE x)"
  by (simp add: finishes_def py_simps)

lemma finishes_raiseE [finishes_intros]: "e \<noteq> OutOfFuel \<Longrightarrow> finishes (raiseE e)"
  by (simp add: finishes_def py_simps)

lemma finishes_liftE [finishes_intros]: "r \<noteq> Inl OutOfFuel \<Longrightarrow> finishes (liftE r)"
  by (simp add: finishes_def py_simps)

lemma finishes_bindE [finishes_intros]:
  assumes "finishes m" and "\<And>x. finishes (f x)"
  shows "finishes (bindE m f)"
proof -
  have "fst (bindE m f w) \<noteq> Inl OutOfFuel" for w
  proof (cases "m w")
    case (Pair r w')
    moreover have "r \<noteq> Inl OutOfFuel"
      using assms(1) Pair by (auto simp: finishes_def dest: spec [of _ w])
    ultimately show ?thesis
      using assms(2) by (auto simp: py_simps finishes_def split: sum.splits)
  qed
  then show ?thesis by (simp add: finishes_def)
qed

lemma finishes_bindE_post:
  assumes m: "finishes m" and Q: "yields Q m" and f: "\<And>x. Q x \<Longrightarrow> finishes (f x)"
  shows "finishes (bindE m f)"
proof -
  have "fst (bindE m f w) \<noteq> Inl OutOfFuel" for w
  proof (cases "m w")
    case (Pair r w')
    then have "r \<noteq> Inl OutOfFuel" using m by (metis finishes_def fst_conv)
    moreover have "Q x" if "r = Inr x" for x
      using Q Pair that by (auto simp: yields_def)
    ultimately show ?thesis
      using f Pair by (cases r) (auto simp: py_simps finishes_def)
  qed
  then show ?thesis by (simp add: finishes_def)
qed

lemma finishes_thenE [finishes_intros]: "finishes m \<Longrightarrow> finishes k \<Longrightarrow> finishes (thenE m k)"
  unfolding thenE_def by (intro finishes_bindE)

lemma finishes_catchE [finishes_intros]:
  assumes "finishes m" and "\<And>e. e \<noteq> OutOfFuel \<Longrightarrow> finishes (h e)"
  shows "finishes (catchE m h)"
proof -
  have "fst (catchE m h w) \<noteq> Inl OutOfFuel" for w
    using assms by (auto simp: py_simps finishes_def split: prod.splits sum.splits) (metis fst_conv)
  then show ?thesis by (simp add: finishes_def)
qed

lemma finishes_finallyE [finishes_intros]:
  assumes "finishes m" and "finishes f"
  shows "finishes (finallyE m f)"
proof -
  have "fst (finallyE m f w) \<noteq> Inl OutOfFuel" for w
    using assms by (auto simp: py_simps finishes_def split: prod.splits sum.splits) (metis fst_conv)+
  then show ?thesis by (simp add: finishes_def)
qed

lemma finishes_mapE [finishes_intros]: "(\<And>x. finishes (f x)) \<Longrightarrow> finishes (mapE xs f)"
  by (induction xs) (auto intro!: finishes_intros)

lemma finishes_forE [finishes_intros]: "(\<And>x. finishes (f x)) \<Longrightarrow> finishes (forE xs f)"
  by (induction xs) (auto intro!: finishes_intros)

lemma finishes_if [finishes_intros]:
  "(b \<Longrightarrow> finishes m) \<Longrightarrow> (\<not> b \<Longrightarrow> finishes n) \<Longrightarrow> finishes (if b then m else n)"
  by simp

lemma finishes_case_option [finishes_intros]:
  "(v = None \<Longrightarrow> finishes m) \<Longrightarrow> (\<And>x. v = Some x \<Longrightarrow> finishes (f x)) \<Longrightarrow>
   finishes (case v of None \<Rightarrow> m | Some x \<Rightarrow> f x)"
  by (cases v) auto

lemma finishes_case_prod [finishes_intros]:
  "(\<And>a b. p = (a, b) \<Longrightarrow> finishes (f a b)) \<Longrightarrow> finishes (case p of (a, b) \<Rightarrow> f a b)"
  by (cases p) auto

lemma finishes_Let [finishes_intros]: "finishes (f v) \<Longrightarrow> finishes (Let v f)"
  by simp

text \<open>The readers of dynamic values raise exceptions of Python only.\<close>

lemma py_getitem_not_fuel [simp, finishes_intros]: "py_getitem v k \<noteq> Inl OutOfFuel"
  by (cases v) (auto split: option.splits)

lemma py_has_key_not_fuel [simp, finishes_intros]: "py_has_key v k \<noteq> Inl OutOfFuel"
  by (cases v) auto

lemma py_len_not_fuel [simp, finishes_intros]: "py_len v \<noteq> Inl OutOfFuel"
  by (cases v) auto

lemma as_obj_not_fuel [simp, finishes_intros]: "as_obj v \<noteq> Inl OutOfFuel"
  by (cases v) auto

lemma as_list_not_fuel [simp, finishes_intros]: "as_list v \<noteq> Inl OutOfFuel"
  by (cases v) auto

lemma as_str_not_fuel [simp, finishes_intros]: "as_str v \<noteq> Inl OutOfFuel"
  by (cases v) auto

lemma first_match_not_fuel [simp, finishes_intros]: "first_match xs \<noteq> Inl OutOfFuel"
  by (cases xs) auto

lemma pop_match_not_fuel [simp, finishes_intros]: "pop_match xs \<noteq> Inl OutOfFuel"
  by (simp add: pop_match_def)

section \<open>How many events of a kind a coroutine can cause\<close>

definition limits :: "(event \<Rightarrow> bool) \<Rightarrow> nat \<Rightarrow> 'a act \<Rightarrow> bool" where
  "limits P n m \<longleftrightarrow> (\<forall>w. \<exists>new. w_trace (snd (m w)) = w_trace w @ new \<and> length (filter P new) \<le> n)"

lemma limits_emits_none: "emits (\<lambda>e. \<not> P e) m \<Longrightarrow> limits P n m"
proof (unfold limits_def, rule allI)
  fix w
  assume "emits (\<lambda>e. \<not> P e) m"
  then obtain new where "w_trace (snd (m w)) = w_trace w @ new" "list_all (\<lambda>e. \<not> P e) new"
    by (rule emitsD)
  then show "\<exists>new. w_trace (snd (m w)) = w_trace w @ new \<and> length (filter P new) \<le> n"
    by (intro exI [of _ new]) (simp add: list_all_iff)
qed

lemma limits_ask: "1 \<le> n \<Longrightarrow> limits P n (ask ev f)"
  by (simp add: limits_def py_simps)

lemma limits_emit: "1 \<le> n \<Longrightarrow> limits P n (emit ev)"
  by (simp add: limits_def py_simps)

lemma limits_mono: "limits P a m \<Longrightarrow> a \<le> n \<Longrightarrow> limits P n m"
  by (meson limits_def order.trans)

lemma limits_bindE:
  assumes m: "limits P a m" and f: "\<And>x. limits P b (f x)"
  shows "limits P (a + b) (bindE m f)"
  unfolding limits_def
proof
  fix w
  obtain r w' where run: "m w = (r, w')" by (cases "m w")
  obtain n1 where n1: "w_trace w' = w_trace w @ n1" "length (filter P n1) \<le> a"
    using m run by (metis limits_def snd_conv)
  show "\<exists>new. w_trace (snd (bindE m f w)) = w_trace w @ new \<and> length (filter P new) \<le> a + b"
  proof (cases r)
    case (Inl e)
    with run n1 show ?thesis by (simp add: py_simps)
  next
    case (Inr x)
    obtain n2 where "w_trace (snd (f x w')) = w_trace w' @ n2" "length (filter P n2) \<le> b"
      using f by (metis limits_def)
    with Inr run n1 show ?thesis by (intro exI [of _ "n1 @ n2"]) (simp add: py_simps)
  qed
qed

lemma limits_bindE_le:
  "limits P a m \<Longrightarrow> (\<And>x. limits P b (f x)) \<Longrightarrow> a + b \<le> n \<Longrightarrow> limits P n (bindE m f)"
  using limits_bindE limits_mono by blast

lemma limits_catchE:
  assumes m: "limits P a m" and h: "\<And>e. limits P b (h e)" and n: "a + b \<le> n"
  shows "limits P n (catchE m h)"
  unfolding limits_def
proof
  fix w
  obtain r w' where run: "m w = (r, w')" by (cases "m w")
  obtain n1 where n1: "w_trace w' = w_trace w @ n1" "length (filter P n1) \<le> a"
    using m run by (metis limits_def snd_conv)
  show "\<exists>new. w_trace (snd (catchE m h w)) = w_trace w @ new \<and> length (filter P new) \<le> n"
  proof (cases "\<exists>e. r = Inl e \<and> e \<noteq> OutOfFuel")
    case True
    then obtain e where e: "r = Inl e" "e \<noteq> OutOfFuel" by blast
    obtain n2 where "w_trace (snd (h e w')) = w_trace w' @ n2" "length (filter P n2) \<le> b"
      using h by (metis limits_def)
    with e run n1 n show ?thesis by (intro exI [of _ "n1 @ n2"]) (simp add: py_simps)
  next
    case False
    with run n1 n show ?thesis by (auto simp: py_simps split: sum.splits)
  qed
qed

lemma limits_if: "limits P n m \<Longrightarrow> limits P n m' \<Longrightarrow> limits P n (if b then m else m')"
  by simp

lemma limits_new_events: "limits P n m \<Longrightarrow> length (filter P (new_events m w)) \<le> n"
  unfolding limits_def new_events_def by (metis append_eq_conv_conj)

section \<open>Outcomes and events together\<close>

text \<open>
  \<open>spec m Q\<close>: the outcome of \<open>m\<close> and the events it appends are related by \<open>Q\<close>, whatever it is answered.
  The second bind rule is the common case of a prefix that is only known to cause events of one kind.
\<close>

definition spec :: "'a act \<Rightarrow> ('a result \<Rightarrow> trace \<Rightarrow> bool) \<Rightarrow> bool" where
  "spec m Q \<longleftrightarrow> (\<forall>w. \<exists>new. w_trace (snd (m w)) = w_trace w @ new \<and> Q (fst (m w)) new)"

named_theorems spec_intros \<open>introduction rules for outcome and event specifications\<close>

lemma spec_returnE [spec_intros]: "Q (Inr x) [] \<Longrightarrow> spec (returnE x) Q"
  by (simp add: spec_def py_simps)

lemma spec_raiseE [spec_intros]: "Q (Inl e) [] \<Longrightarrow> spec (raiseE e) Q"
  by (simp add: spec_def py_simps)

lemma spec_if [spec_intros]: "(b \<Longrightarrow> spec m Q) \<Longrightarrow> (\<not> b \<Longrightarrow> spec n Q) \<Longrightarrow> spec (if b then m else n) Q"
  by simp

lemma spec_case_option [spec_intros]:
  "(v = None \<Longrightarrow> spec m Q) \<Longrightarrow> (\<And>x. v = Some x \<Longrightarrow> spec (f x) Q) \<Longrightarrow> spec (case v of None \<Rightarrow> m | Some x \<Rightarrow> f x) Q"
  by (cases v) auto

lemma spec_case_prod [spec_intros]: "(\<And>a b. p = (a, b) \<Longrightarrow> spec (f a b) Q) \<Longrightarrow> spec (case p of (a, b) \<Rightarrow> f a b) Q"
  by (cases p) auto

lemma spec_mono: "spec m Q \<Longrightarrow> (\<And>r new. Q r new \<Longrightarrow> R r new) \<Longrightarrow> spec m R"
  unfolding spec_def by meson

lemma spec_emits:
  assumes m: "emits ok m" and Q: "\<And>r new. list_all ok new \<Longrightarrow> Q r new"
  shows "spec m Q"
  unfolding spec_def
proof
  fix w
  obtain new where "w_trace (snd (m w)) = w_trace w @ new" "list_all ok new"
    using m by (rule emitsD)
  with Q show "\<exists>new. w_trace (snd (m w)) = w_trace w @ new \<and> Q (fst (m w)) new" by blast
qed

lemma spec_bindE:
  assumes m: "spec m R" and err: "\<And>e new. R (Inl e) new \<Longrightarrow> Q (Inl e) new"
      and f: "\<And>x n1. R (Inr x) n1 \<Longrightarrow> spec (f x) (\<lambda>r n2. Q r (n1 @ n2))"
  shows "spec (bindE m f) Q"
  unfolding spec_def
proof
  fix w
  obtain r w' where run: "m w = (r, w')" by (cases "m w")
  obtain n1 where n1: "w_trace w' = w_trace w @ n1" "R r n1"
    using m run by (metis spec_def fst_conv snd_conv)
  show "\<exists>new. w_trace (snd (bindE m f w)) = w_trace w @ new \<and> Q (fst (bindE m f w)) new"
  proof (cases r)
    case (Inl e)
    with run n1 err show ?thesis by (simp add: py_simps)
  next
    case (Inr x)
    with n1 have "spec (f x) (\<lambda>r n2. Q r (n1 @ n2))" by (intro f) simp
    then obtain n2 where "w_trace (snd (f x w')) = w_trace w' @ n2" "Q (fst (f x w')) (n1 @ n2)"
      unfolding spec_def by blast
    with Inr run n1 show ?thesis by (intro exI [of _ "n1 @ n2"]) (simp add: py_simps)
  qed
qed

lemma spec_bindE_emits:
  assumes m: "emits ok m" and err: "\<And>e new. list_all ok new \<Longrightarrow> Q (Inl e) new"
      and f: "\<And>x. spec (f x) Q" and pre: "\<And>r n1 n2. list_all ok n1 \<Longrightarrow> Q r n2 \<Longrightarrow> Q r (n1 @ n2)"
  shows "spec (bindE m f) Q"
proof (rule spec_bindE [where R = "\<lambda>_ new. list_all ok new"])
  show "spec m (\<lambda>_ new. list_all ok new)" using m by (rule spec_emits)
  show "spec (f x) (\<lambda>r n2. Q r (n1 @ n2))" if "list_all ok n1" for x n1
    by (rule spec_mono [OF f]) (rule pre [OF that])
qed (rule err)

lemma spec_new_events: "spec m Q \<Longrightarrow> Q (fst (m w)) (new_events m w)"
  unfolding spec_def new_events_def by (metis append_eq_conv_conj)

text \<open>Only events satisfying \<open>ok\<close>, and a value satisfying \<open>Z\<close> if there is one.\<close>

definition gives :: "(event \<Rightarrow> bool) \<Rightarrow> ('a \<Rightarrow> bool) \<Rightarrow> 'a result \<Rightarrow> trace \<Rightarrow> bool" where
  "gives ok Z r new \<longleftrightarrow> list_all ok new \<and> (\<forall>x. r = Inr x \<longrightarrow> Z x)"

lemma gives_simps [simp]:
  "gives ok Z (Inl e) new = list_all ok new" "gives ok Z (Inr x) new = (list_all ok new \<and> Z x)"
  by (auto simp: gives_def)

lemma spec_gives: "emits ok m \<Longrightarrow> yields Z m \<Longrightarrow> spec m (gives ok Z)"
  unfolding spec_def
proof
  fix w
  assume m: "emits ok m" and y: "yields Z m"
  obtain new where "w_trace (snd (m w)) = w_trace w @ new" "list_all ok new"
    using m by (rule emitsD)
  moreover have "Z x" if "fst (m w) = Inr x" for x
    using y that by (cases "m w") (auto simp: yields_def)
  ultimately show "\<exists>new. w_trace (snd (m w)) = w_trace w @ new \<and> gives ok Z (fst (m w)) new"
    by (auto simp: gives_def)
qed

lemma spec_bindE_gives:
  assumes m: "spec m (gives ok Z)" and f: "\<And>x. Z x \<Longrightarrow> spec (f x) (gives ok Y)"
  shows "spec (bindE m f) (gives ok Y)"
proof (rule spec_bindE [OF m])
  show "spec (f x) (\<lambda>r n2. gives ok Y r (n1 @ n2))" if "gives ok Z (Inr x) n1" for x n1
    using that by (intro spec_mono [OF f]) (auto simp: gives_def)
qed simp

lemma spec_bindE_quiet: "emits ok m \<Longrightarrow> (\<And>x. spec (f x) (gives ok Y)) \<Longrightarrow> spec (bindE m f) (gives ok Y)"
  by (rule spec_bindE_gives [OF spec_gives [OF _ yields_True]])

lemma gives_emitsD: "spec m (gives ok Z) \<Longrightarrow> e \<in> set (new_events m w) \<Longrightarrow> ok e"
  using spec_new_events [of m "gives ok Z" w] by (auto simp: gives_def list_all_iff)

lemma gives_valueD: "spec m (gives ok Z) \<Longrightarrow> fst (m w) = Inr x \<Longrightarrow> Z x"
  using spec_new_events [of m "gives ok Z" w] by (auto simp: gives_def)

lemma spec_catchE:
  assumes m: "spec m R" and ok: "\<And>x new. R (Inr x) new \<Longrightarrow> Q (Inr x) new"
      and fuel: "\<And>new. R (Inl OutOfFuel) new \<Longrightarrow> Q (Inl OutOfFuel) new"
      and h: "\<And>e n1. R (Inl e) n1 \<Longrightarrow> spec (h e) (\<lambda>r n2. Q r (n1 @ n2))"
  shows "spec (catchE m h) Q"
  unfolding spec_def
proof
  fix w
  obtain r w' where run: "m w = (r, w')" by (cases "m w")
  obtain n1 where n1: "w_trace w' = w_trace w @ n1" "R r n1"
    using m run by (metis spec_def fst_conv snd_conv)
  show "\<exists>new. w_trace (snd (catchE m h w)) = w_trace w @ new \<and> Q (fst (catchE m h w)) new"
  proof (cases "\<exists>e. r = Inl e \<and> e \<noteq> OutOfFuel")
    case True
    then obtain e where e: "r = Inl e" "e \<noteq> OutOfFuel" by blast
    with n1 have "spec (h e) (\<lambda>r n2. Q r (n1 @ n2))" by (intro h) simp
    then obtain n2 where "w_trace (snd (h e w')) = w_trace w' @ n2" "Q (fst (h e w')) (n1 @ n2)"
      unfolding spec_def by blast
    with e run n1 show ?thesis by (intro exI [of _ "n1 @ n2"]) (simp add: py_simps)
  next
    case False
    with run n1 ok fuel show ?thesis by (cases r) (auto simp: py_simps)
  qed
qed

end
