(* ===== verification/Api_Utils.thy ===== *)
theory Api_Utils
  imports World
begin

text \<open>
  \<^verbatim>\<open>src/api_utils\<close>: URL forming, payload signatures, the HTTP session with its retry loop
  (\<^verbatim>\<open>APISession.exec\<close>), the page generator, and the GitHub application token cache. The HTTP library and
  the authentication of a request are parameters (\<open>net_env\<close>).
\<close>

section \<open>URLs\<close>

definition form_url :: "string \<Rightarrow> string \<Rightarrow> string option \<Rightarrow> string dict \<Rightarrow> string" where
  "form_url endpoint url_path anchor kwargs =
     (let base = rstrip_chars ''/'' endpoint;
          suffix = url_quote ''/'' (lstrip_chars ''/'' url_path);
          args = map (\<lambda>(x, v). x @ ''='' @ url_quote ''/'' v) kwargs
      in base @ ''/'' @ suffix @ (if length args > 0 then ''?'' else '''') @ str_join ''&'' args @
         (case anchor of None \<Rightarrow> '''' | Some a \<Rightarrow> ''#'' @ a))"

definition form_api_endpoint :: "string \<Rightarrow> string option \<Rightarrow> string" where
  "form_api_endpoint base_endpoint suffix =
     (let ret = rstrip_chars ''/'' base_endpoint in
      case suffix of
        None \<Rightarrow> ret
      | Some sfx \<Rightarrow> if length sfx > 0 then ret @ ''/'' @ rstrip_chars ''/'' (lstrip_chars ''/'' sfx) else ret)"

section \<open>Payload signatures\<close>

text \<open>
  \<open>hmac algorithm secret payload\<close> is the hex digest of Python's \<^verbatim>\<open>hmac\<close> module, or the exception it
  raises; \<open>available\<close> is \<^verbatim>\<open>hashlib.algorithms_available\<close>.
\<close>

type_synonym hmac_fun = "string \<Rightarrow> string \<Rightarrow> string \<Rightarrow> string result"

definition gen_signature_hash :: "hmac_fun \<Rightarrow> string set \<Rightarrow> string \<Rightarrow> string \<Rightarrow> string \<Rightarrow> string result" where
  "gen_signature_hash hmac available algorithm secret body =
     (if algorithm \<notin> available then Inl (NotImplementedError algorithm)
      else hmac algorithm secret body)"

definition gen_signature_header ::
  "hmac_fun \<Rightarrow> string set \<Rightarrow> string \<Rightarrow> string \<Rightarrow> (string \<times> string) result" where
  "gen_signature_header hmac available secret body =
     (case gen_signature_hash hmac available ''sha256'' secret body of
        Inl e \<Rightarrow> Inl e | Inr h \<Rightarrow> Inr (''sha256'', h))"

text \<open>\<^verbatim>\<open>(algorithm, hash) = header.split("=")\<close> needs exactly one equals sign.\<close>

definition unpack_signature :: "string \<Rightarrow> (string \<times> string) result" where
  "unpack_signature header =
     (case split_on (CHR ''='') header of [a, h] \<Rightarrow> Inr (a, h) | _ \<Rightarrow> Inl ValueError)"

definition verify_signature ::
  "hmac_fun \<Rightarrow> string set \<Rightarrow> string \<Rightarrow> string \<Rightarrow> string \<Rightarrow> bool result" where
  "verify_signature hmac available signature_header secret body =
     (case unpack_signature signature_header of
        Inl e \<Rightarrow> Inl e
      | Inr (algorithm, hash) \<Rightarrow>
          (case gen_signature_hash hmac available algorithm secret body of
             Inl e \<Rightarrow> Inl e | Inr h \<Rightarrow> Inr (h = hash)))"

lemma unpack_signature_eq:
  "CHR ''='' \<notin> set a \<Longrightarrow> CHR ''='' \<notin> set h \<Longrightarrow> unpack_signature (a @ ''='' @ h) = Inr (a, h)"
  by (simp add: unpack_signature_def str_simps)

section \<open>Event contexts\<close>

text \<open>
  \<^verbatim>\<open>json.loads\<close> is a parameter, as is the regular expression engine (\<open>re_match pattern s\<close>:
  the pattern matches at the start of \<open>s\<close>).
\<close>

definition make_EventContext :: "(string \<Rightarrow> json result) \<Rightarrow> string \<Rightarrow> string dict \<Rightarrow> EventContext result" where
  "make_EventContext json_loads raw headers =
     (case json_loads raw of
        Inl e \<Rightarrow> Inl e
      | Inr m \<Rightarrow> Inr \<lparr>ec_raw_event_payload = raw, ec_headers = headers, ec_message = m\<rparr>)"

definition make_HeaderFilteredEventContext ::
  "(string \<Rightarrow> json result) \<Rightarrow> (string \<Rightarrow> string \<Rightarrow> bool) \<Rightarrow> string \<Rightarrow> string dict \<Rightarrow> string \<Rightarrow> EventContext result" where
  "make_HeaderFilteredEventContext json_loads re_match raw headers header_key_regex =
     make_EventContext json_loads raw (filter (\<lambda>(k, v). re_match header_key_regex k) headers)"

section \<open>The API session\<close>

record net_env =
  net_http :: "trace \<Rightarrow> http_request \<Rightarrow> http_response result"
  net_auth :: "trace \<Rightarrow> EventContext option \<Rightarrow> bool \<Rightarrow> string result"

record APISession =
  s_api_endpoint :: string
  s_retries :: int
  s_headers :: "string dict"

definition concat_path_to_endpoint :: "APISession \<Rightarrow> string \<Rightarrow> string" where
  "concat_path_to_endpoint s path =
     rstrip_chars ''/'' (s_api_endpoint s) @ ''/'' @ lstrip_chars ''/'' path"

definition apply_url_vars :: "string \<Rightarrow> string dict \<Rightarrow> string" where
  "apply_url_vars url url_vars = foldl (\<lambda>u (var, v). str_replace ('':'' @ var) v u) url url_vars"

text \<open>The retry loop: \<open>tried\<close> is \<^verbatim>\<open>tryCount\<close>, the last argument the attempts that remain.\<close>

fun exec_attempts ::
  "'e net_env_scheme \<Rightarrow> EventContext option \<Rightarrow> (string \<Rightarrow> http_request) \<Rightarrow> nat \<Rightarrow> nat \<Rightarrow> http_response act" where
  "exec_attempts E ec rq tried 0 = raiseE RetriesExhausted"
| "exec_attempts E ec rq tried (Suc remaining) =
     bindE (look (\<lambda>tr. net_auth E tr ec (tried > 0))) (\<lambda>auth.
     bindE (ask (EvHttp (rq auth)) (\<lambda>tr. net_http E tr (rq auth))) (\<lambda>response.
       if \<not> rs_ok response then
         if rs_status response \<in> {401, 403} then raiseE SCMAuthException
         else thenE (emit (EvSleep 1)) (exec_attempts E ec rq (Suc tried) remaining)
       else returnE response))"

definition APISession_exec ::
  "'e net_env_scheme \<Rightarrow> APISession \<Rightarrow> EventContext option \<Rightarrow> string \<Rightarrow> string \<Rightarrow> json dict \<Rightarrow>
   string option \<Rightarrow> string dict \<Rightarrow> string dict \<Rightarrow> http_response act" where
  "APISession_exec E s ec http_method path query body extra_headers url_vars =
     exec_attempts E ec
       (\<lambda>auth. \<lparr>rq_method = http_method,
               rq_url = apply_url_vars (concat_path_to_endpoint s path) url_vars,
               rq_query = query, rq_body = body,
               rq_headers = dict_union (s_headers s) extra_headers, rq_auth = auth\<rparr>)
       0 (nat (s_retries s))"

text \<open>\<^verbatim>\<open>cxone_api.util.json_on_ok\<close>, a parameter of the callers, is applied to the response.\<close>

section \<open>The page generator\<close>

text \<open>
  \<^verbatim>\<open>async_api_page_generator\<close> as a resumable state: the offset of the next page, the buffered
  elements and the last-page flag. \<open>fetch\<close> is the request for one page followed by the data extractor.
  \<open>gen_next\<close> runs the generator to its next \<^verbatim>\<open>yield\<close> (or to its end).
\<close>

type_synonym 'a pager = "nat \<times> 'a list \<times> bool"

definition pager_init :: "'a pager" where
  "pager_init = (0, [], False)"

definition gen_next ::
  "(nat \<Rightarrow> ('s, 'a list \<times> bool) py) \<Rightarrow> 'a pager \<Rightarrow> ('s, ('a \<times> 'a pager) option) py" where
  "gen_next fetch g = (case g of (offset, buf, last_page) \<Rightarrow>
     if buf = [] \<and> \<not> last_page then
       bindE (fetch offset) (\<lambda>(buf', last_page').
         if buf' = [] then returnE None
         else returnE (Some (last buf', (offset + 1, butlast buf', last_page'))))
     else if buf = [] \<and> last_page then returnE None
     else returnE (Some (last buf, (offset, butlast buf, last_page))))"

text \<open>\<^verbatim>\<open>async for x in gen: ret.append(x)\<close>, and the loop that stops at the first wanted element.\<close>

fun gen_drain :: "nat \<Rightarrow> (nat \<Rightarrow> ('s, 'a list \<times> bool) py) \<Rightarrow> 'a pager \<Rightarrow> ('s, 'a list) py" where
  "gen_drain 0 fetch g = raiseE OutOfFuel"
| "gen_drain (Suc fuel) fetch g =
     bindE (gen_next fetch g) (\<lambda>r. case r of
       None \<Rightarrow> returnE []
     | Some (x, g') \<Rightarrow> bindE (gen_drain fuel fetch g') (\<lambda>xs. returnE (x # xs)))"

fun gen_find ::
  "nat \<Rightarrow> (nat \<Rightarrow> ('s, 'a list \<times> bool) py) \<Rightarrow> ('a \<Rightarrow> bool) \<Rightarrow> 'a pager \<Rightarrow> ('s, 'a option) py" where
  "gen_find 0 fetch p g = raiseE OutOfFuel"
| "gen_find (Suc fuel) fetch p g =
     bindE (gen_next fetch g) (\<lambda>r. case r of
       None \<Rightarrow> returnE None
     | Some (x, g') \<Rightarrow> if p x then returnE (Some x) else gen_find fuel fetch p g')"

section \<open>The GitHub application token cache\<close>

text \<open>
  The class-level cache maps an installation id to a token and its expiry. \<open>jp\<close> is the JSON path
  library; \<open>request_token\<close> is the token request with the application id and the installation id.
\<close>

type_synonym jsonpath = "string \<Rightarrow> json \<Rightarrow> json list"

type_synonym token_cache = "(json \<times> (string \<times> int)) list"

definition find_install_id :: "jsonpath \<Rightarrow> EventContext \<Rightarrow> json result" where
  "find_install_id jp ec =
     (case jp ''$.installation.id'' (ec_message ec) of
        v # _ \<Rightarrow> Inr v
      | [] \<Rightarrow> (case jp ''$.install_id'' (ec_message ec) of
                v # _ \<Rightarrow> Inr v | [] \<Rightarrow> Inl AuthFactoryException))"

definition app_id_header :: string where
  "app_id_header = ''X-Github-Hook-Installation-Target-Id''"

definition find_app_id :: "jsonpath \<Rightarrow> EventContext \<Rightarrow> json result" where
  "find_app_id jp ec =
     (case map_of (ec_headers ec) app_id_header of
        Some v \<Rightarrow> Inr (JStr v)
      | None \<Rightarrow> (case jp ''$.app_id'' (ec_message ec) of
                  v # _ \<Rightarrow> Inr v | [] \<Rightarrow> Inl AuthFactoryException))"

definition get_token_tuple ::
  "jsonpath \<Rightarrow> (json \<Rightarrow> json \<Rightarrow> (string \<times> int) result) \<Rightarrow> int \<Rightarrow> EventContext \<Rightarrow> bool \<Rightarrow>
   (token_cache, string \<times> int) py" where
  "get_token_tuple jp request_token now ec force_reauth =
     bindE (liftE (find_install_id jp ec)) (\<lambda>install_id.
     bindE (liftE (find_app_id jp ec)) (\<lambda>app_id. (\<lambda>cache.
       let cached = (case map_of cache install_id of
             None \<Rightarrow> None
           | Some tt \<Rightarrow> if now \<ge> snd tt then None else Some tt)
       in case cached of
            Some tt \<Rightarrow> if \<not> force_reauth then (Inr tt, cache)
              else (case request_token app_id install_id of
                 Inl e \<Rightarrow> (Inl e, cache) | Inr tt' \<Rightarrow> (Inr tt', AList.update install_id tt' cache))
          | None \<Rightarrow> (case request_token app_id install_id of
                 Inl e \<Rightarrow> (Inl e, cache) | Inr tt' \<Rightarrow> (Inr tt', AList.update install_id tt' cache)))))"

definition get_token ::
  "jsonpath \<Rightarrow> (json \<Rightarrow> json \<Rightarrow> (string \<times> int) result) \<Rightarrow> int \<Rightarrow> EventContext option \<Rightarrow> bool \<Rightarrow>
   (token_cache, string) py" where
  "get_token jp request_token now ec force_reauth =
     (case ec of
        None \<Rightarrow> raiseE AuthFactoryException
      | Some c \<Rightarrow> bindE (get_token_tuple jp request_token now c force_reauth) (\<lambda>tt. returnE (fst tt)))"

section \<open>Facts on the session\<close>

fun is_http :: "event \<Rightarrow> bool" where
  "is_http (EvHttp _) = True"
| "is_http _ = False"

definition http_count :: "trace \<Rightarrow> nat" where
  "http_count tr = length (filter is_http tr)"

lemma http_count_append [simp]: "http_count (a @ b) = http_count a + http_count b"
  by (simp add: http_count_def)

lemma http_count_Nil [simp]: "http_count [] = 0"
  by (simp add: http_count_def)

lemma http_count_Cons [simp]: "http_count (e # es) = (if is_http e then Suc (http_count es) else http_count es)"
  by (simp add: http_count_def)

lemma exec_attempts_emits [emits_intros]:
  assumes "\<And>auth. ok (EvHttp (rq auth))" and "ok (EvSleep 1)"
  shows "emits ok (exec_attempts E ec rq tried remaining)"
  by (induction remaining arbitrary: tried) (auto intro!: emits_intros assms)

lemma APISession_exec_emits [emits_intros]:
  assumes "\<And>rq. ok (EvHttp rq)" and "ok (EvSleep 1)"
  shows "emits ok (APISession_exec E s ec http_method path query body extra url_vars)"
  unfolding APISession_exec_def by (intro emits_intros assms)

lemma exec_attempts_outcome:
  "exec_attempts E ec rq tried remaining w = (res, w') \<Longrightarrow>
   \<exists>new. w_trace w' = w_trace w @ new \<and> http_count new \<le> remaining \<and>
     (\<forall>r. res = Inr r \<longrightarrow> rs_ok r \<and> 0 < http_count new)"
proof (induction remaining arbitrary: tried w)
  case 0
  then show ?case by (auto simp: py_simps)
next
  case (Suc remaining)
  show ?case
  proof (cases "answer (net_auth E (w_trace w) ec (tried > 0))")
    case (Inl e)
    with Suc.prems show ?thesis by (auto simp: py_simps)
  next
    case (Inr auth)
    note auth = this
    show ?thesis
    proof (cases "answer (net_http E (w_trace w) (rq auth))")
      case (Inl e)
      with auth Suc.prems show ?thesis by (auto simp: py_simps)
    next
      case (Inr response)
      show ?thesis
      proof (cases "\<not> rs_ok response \<and> rs_status response \<notin> {401, 403}")
        case True
        with auth Inr Suc.prems have
          "exec_attempts E ec rq (Suc tried) remaining
            (log_event (EvSleep 1) (log_event (EvHttp (rq auth)) w)) = (res, w')"
          by (auto simp: py_simps)
        from Suc.IH [OF this] show ?thesis by auto
      next
        case False
        with auth Inr Suc.prems show ?thesis by (auto simp: py_simps split: if_splits)
      qed
    qed
  qed
qed

lemma exec_attempts_persistent:
  assumes auth: "\<And>tr force. \<exists>a. net_auth E tr ec force = Inr a"
    and fails: "\<And>tr q. \<exists>r. net_http E tr q = Inr r \<and> \<not> rs_ok r \<and> rs_status r \<notin> {401, 403}"
  shows "\<exists>w' new. exec_attempts E ec rq tried remaining w = (Inl RetriesExhausted, w') \<and>
           w_trace w' = w_trace w @ new \<and> http_count new = remaining"
proof (induction remaining arbitrary: tried w)
  case 0
  then show ?case by (auto simp: py_simps)
next
  case (Suc remaining)
  obtain a where a: "net_auth E (w_trace w) ec (tried > 0) = Inr a" using auth by blast
  obtain r where r: "net_http E (w_trace w) (rq a) = Inr r" "\<not> rs_ok r" "rs_status r \<notin> {401, 403}"
    using fails by blast
  from Suc.IH [of "Suc tried" "log_event (EvSleep 1) (log_event (EvHttp (rq a)) w)"] a r show ?case
    by (auto simp: py_simps)
qed

lemma APISession_exec_bounded:
  "http_count (new_events (APISession_exec E s ec http_method path query body extra url_vars) w)
     \<le> nat (s_retries s)"
  "fst (APISession_exec E s ec http_method path query body extra url_vars w) = Inr r \<Longrightarrow> rs_ok r"
proof -
  let ?run = "APISession_exec E s ec http_method path query body extra url_vars"
  obtain res w' where run: "?run w = (res, w')" by (cases "?run w")
  from exec_attempts_outcome [OF run [unfolded APISession_exec_def]]
  obtain new where new: "w_trace w' = w_trace w @ new" "http_count new \<le> nat (s_retries s)"
    and ok: "\<And>r. res = Inr r \<Longrightarrow> rs_ok r" by auto
  show "http_count (new_events ?run w) \<le> nat (s_retries s)"
    using run new by (simp add: new_events_def)
  show "fst (?run w) = Inr r \<Longrightarrow> rs_ok r"
    using run ok by simp
qed

text \<open>
  C40: \<^verbatim>\<open>APISession.exec\<close> sends at most \<^verbatim>\<open>retries\<close> requests and hands back a response only if that
  response is a success; and when every attempt fails for a reason other than authorization it sends
  exactly \<^verbatim>\<open>retries\<close> requests and raises \<^verbatim>\<open>RetriesExhausted\<close>.
\<close>

theorem APISession_exec_retries:
  fixes E :: "'e net_env_scheme" and s :: APISession and ec :: "EventContext option"
    and http_method path :: string and query :: "json dict" and body :: "string option"
    and extra url_vars :: "string dict"
  defines "run \<equiv> APISession_exec E s ec http_method path query body extra url_vars"
  shows "http_count (new_events run w) \<le> nat (s_retries s) \<and>
    (\<forall>r. fst (run w) = Inr r \<longrightarrow> rs_ok r) \<and>
    ((\<forall>tr force. \<exists>a. net_auth E tr ec force = Inr a) \<and>
     (\<forall>tr q. \<exists>r. net_http E tr q = Inr r \<and> \<not> rs_ok r \<and> rs_status r \<notin> {401, 403}) \<longrightarrow>
       fst (run w) = Inl RetriesExhausted \<and> http_count (new_events run w) = nat (s_retries s))"
proof (intro conjI impI)
  show "http_count (new_events run w) \<le> nat (s_retries s)"
    unfolding run_def by (rule APISession_exec_bounded(1))
  show "\<forall>r. fst (run w) = Inr r \<longrightarrow> rs_ok r"
    unfolding run_def using APISession_exec_bounded(2) by blast
next
  assume h: "(\<forall>tr force. \<exists>a. net_auth E tr ec force = Inr a) \<and>
     (\<forall>tr q. \<exists>r. net_http E tr q = Inr r \<and> \<not> rs_ok r \<and> rs_status r \<notin> {401, 403})"
  obtain w' new where new: "run w = (Inl RetriesExhausted, w')" "w_trace w' = w_trace w @ new" "http_count new = nat (s_retries s)"
    using exec_attempts_persistent [of E ec] h unfolding run_def APISession_exec_def by blast
  show "fst (run w) = Inl RetriesExhausted" using new(1) by simp
  show "http_count (new_events run w) = nat (s_retries s)" using new by (simp add: new_events_def)
qed

definition down_env :: net_env where
  "down_env = \<lparr>net_http = (\<lambda>_ _. Inr \<lparr>rs_ok = False, rs_status = 503, rs_json = Inl ValueError, rs_headers = []\<rparr>),
               net_auth = (\<lambda>_ _ _. Inr ''token'')\<rparr>"

definition example_session :: APISession where
  "example_session = \<lparr>s_api_endpoint = ''https://scm/api'', s_retries = 3, s_headers = []\<rparr>"

theorem APISession_exec_retries_witness:
  "fst (APISession_exec down_env example_session None ''GET'' ''/x'' [] None [] [] world0) = Inl RetriesExhausted \<and>
   http_count (new_events (APISession_exec down_env example_session None ''GET'' ''/x'' [] None [] []) world0) = 3"
  using APISession_exec_retries [of down_env example_session None "''GET''" "''/x''" "[]" None "[]" "[]" world0]
  by (simp add: down_env_def example_session_def)

section \<open>Facts on the page generator\<close>

lemma last_rev_butlast: "xs \<noteq> [] \<Longrightarrow> last xs # rev (butlast xs) @ ys = rev xs @ ys"
  by (induction xs rule: rev_induct) auto

text \<open>
  The contract of a paged source: page \<open>n\<close> holds \<open>content n\<close>, the first \<open>npages\<close> pages are not empty,
  only the final one may be flagged as last, and if it is not flagged the page after it is empty.
\<close>

locale paged_source =
  fixes fetch :: "nat \<Rightarrow> ('s, 'a list \<times> bool) py"
    and content :: "nat \<Rightarrow> 'a list"
    and is_last :: "nat \<Rightarrow> bool"
    and npages :: nat
  assumes fetch_content: "fst (fetch n s) = Inr (content n, is_last n)"
    and nonempty: "n < npages \<Longrightarrow> content n \<noteq> []"
    and not_last: "Suc n < npages \<Longrightarrow> \<not> is_last n"
    and stops: "npages = 0 \<or> \<not> is_last (npages - 1) \<Longrightarrow> content npages = []"
begin

definition flag :: "nat \<Rightarrow> bool" where
  "flag n \<longleftrightarrow> 0 < n \<and> is_last (n - 1)"

lemma next_in_page:
  "buf \<noteq> [] \<Longrightarrow> gen_next fetch (n, buf, lp) s = (Inr (Some (last buf, (n, butlast buf, lp))), s)"
  by (simp add: gen_next_def py_simps)

lemma next_new_page:
  assumes "n < npages"
  shows "fst (gen_next fetch (n, [], flag n) s) =
    Inr (Some (last (content n), (Suc n, butlast (content n), flag (Suc n))))"
proof -
  have "\<not> flag n" using assms not_last [of "n - 1"] by (auto simp: flag_def)
  then show ?thesis
    using fetch_content [of n s] nonempty [OF assms]
    by (auto simp: gen_next_def py_simps flag_def split: prod.splits)
qed

lemma next_end: "fst (gen_next fetch (npages, [], flag npages) s) = Inr None"
  using fetch_content [of npages s] stops
  by (auto simp: gen_next_def py_simps flag_def split: prod.splits)

lemma drain_from:
  assumes "n \<le> npages"
    and "length buf + sum_list (map (length \<circ> content) [n..<npages]) < fuel"
  shows "fst (gen_drain fuel fetch (n, buf, flag n) s) =
    Inr (rev buf @ concat (map (rev \<circ> content) [n..<npages]))"
  using assms
proof (induction fuel arbitrary: n buf s)
  case 0
  then show ?case by simp
next
  case (Suc fuel)
  consider (page) "buf \<noteq> []" | (fetch) "buf = []" "n < npages" | (stop) "buf = []" "n = npages"
    using Suc.prems(1) by linarith
  then show ?case
  proof cases
    case page
    then have "fst (gen_drain fuel fetch (n, butlast buf, flag n) s) =
        Inr (rev (butlast buf) @ concat (map (rev \<circ> content) [n..<npages]))"
      using Suc.prems by (intro Suc.IH) (auto simp: neq_Nil_conv)
    then show ?thesis
      using page by (auto simp: py_simps next_in_page last_rev_butlast comp_def split: prod.splits)
  next
    case fetch
    obtain s' where step: "gen_next fetch (n, [], flag n) s =
        (Inr (Some (last (content n), (Suc n, butlast (content n), flag (Suc n)))), s')"
      using next_new_page [OF fetch(2), of s] by (cases "gen_next fetch (n, [], flag n) s") auto
    have upt: "[n..<npages] = n # [Suc n..<npages]" using fetch(2) by (rule upt_conv_Cons)
    have ne: "content n \<noteq> []" using nonempty [OF fetch(2)] .
    have "fst (gen_drain fuel fetch (Suc n, butlast (content n), flag (Suc n)) s') =
        Inr (rev (butlast (content n)) @ concat (map (rev \<circ> content) [Suc n..<npages]))"
      using Suc.prems fetch ne by (intro Suc.IH) (auto simp: upt neq_Nil_conv)
    then show ?thesis
      using fetch step ne
      by (auto simp: py_simps upt last_rev_butlast comp_def split: prod.splits)
  next
    case stop
    then show ?thesis using next_end [of s] by (auto simp: py_simps split: prod.splits)
  qed
qed

lemma drain_all:
  assumes "sum_list (map (length \<circ> content) [0..<npages]) < fuel"
  shows "fst (gen_drain fuel fetch pager_init s) = Inr (concat (map (rev \<circ> content) [0..<npages]))"
  using drain_from [of 0 "[]" fuel s] assms by (simp add: pager_init_def flag_def)

end

text \<open>
  A server that holds the list \<open>xs\<close> and serves it in pages of \<open>Suc k\<close> elements, flagged as last when
  they are short, keeps the contract.
\<close>

definition chunk :: "nat \<Rightarrow> 'a list \<Rightarrow> nat \<Rightarrow> 'a list" where
  "chunk sz xs n = take sz (drop (n * sz) xs)"

definition chunk_count :: "nat \<Rightarrow> 'a list \<Rightarrow> nat" where
  "chunk_count sz xs = (length xs + sz - 1) div sz"

lemma chunk_count_le: "0 < sz \<Longrightarrow> n < chunk_count sz xs \<longleftrightarrow> n * sz < length xs"
proof -
  assume pos: "0 < sz"
  then have "n < (length xs + sz - 1) div sz \<longleftrightarrow> Suc n * sz \<le> length xs + sz - 1"
    by (metis Suc_le_eq less_eq_div_iff_mult_less_eq)
  also have "\<dots> \<longleftrightarrow> n * sz < length xs"
    using pos by auto
  finally show ?thesis by (simp add: chunk_count_def)
qed

lemma chunk_laws:
  assumes "0 < sz"
  shows "n < chunk_count sz xs \<Longrightarrow> chunk sz xs n \<noteq> []"
    and "Suc n < chunk_count sz xs \<Longrightarrow> \<not> length (chunk sz xs n) < sz"
    and "chunk sz xs (chunk_count sz xs) = []"
  using assms chunk_count_le [OF assms, of n xs] chunk_count_le [OF assms, of "Suc n" xs]
    chunk_count_le [OF assms, of "chunk_count sz xs" xs]
  by (auto simp: chunk_def algebra_simps)

lemma chunks_cover:
  assumes "0 < sz"
  shows "concat (map (chunk sz xs) [0..<chunk_count sz xs]) = xs"
proof -
  have "concat (map (chunk sz xs) [0..<n]) = take (n * sz) xs" for n
    by (induction n) (simp_all add: chunk_def take_add [symmetric] add.commute [of sz])
  moreover have "length xs \<le> chunk_count sz xs * sz"
    using chunk_count_le [OF assms, of "chunk_count sz xs" xs] by simp
  ultimately show ?thesis by simp
qed

interpretation chunked: paged_source
  "\<lambda>n s. (Inr (chunk (Suc k) xs n, length (chunk (Suc k) xs n) < Suc k), s)"
  "chunk (Suc k) xs" "\<lambda>n. length (chunk (Suc k) xs n) < Suc k" "chunk_count (Suc k) xs" for k xs
proof
  show "chunk (Suc k) xs (chunk_count (Suc k) xs) = []"
    by (rule chunk_laws) simp
qed (use chunk_laws [of "Suc k"] in auto)

lemma set_concat_rev:
  "set (concat (map (rev \<circ> f) ns)) = set (concat (map f ns))"
  by (induction ns) auto

section \<open>Facts on the token cache\<close>

text \<open>
  the GitHub token handed out for an event is never one that had expired when it was looked up in
  the cache: either it was freshly requested, or it was cached and its expiry lies in the future. A
  valid cached token is reused without a request unless re-authentication is forced; a fresh token
  replaces the cached one for that installation and no other entry changes.
\<close>

theorem get_token_tuple_spec:
  assumes "find_install_id jp ec = Inr install_id" and "find_app_id jp ec = Inr app_id"
    and "get_token_tuple jp request_token now ec force cache = (Inr tt, cache')"
  shows "(if \<not> force \<and> (\<exists>c. map_of cache install_id = Some c \<and> now < snd c)
          then map_of cache install_id = Some tt \<and> now < snd tt \<and> cache' = cache
          else request_token app_id install_id = Inr tt \<and>
               map_of cache' = (map_of cache)(install_id \<mapsto> tt))"
  using assms
  by (auto simp: get_token_tuple_def py_simps Let_def update_conv'
      split: option.splits if_splits sum.splits prod.splits)

definition example_gh_context :: EventContext where
  "example_gh_context = \<lparr>ec_raw_event_payload = [], ec_headers = [(app_id_header, ''77'')], ec_message = JNull\<rparr>"

definition example_install :: jsonpath where
  "example_install q m = (if q = ''$.installation.id'' then [JInt 5] else [])"

theorem get_token_tuple_spec_witness:
  "map_of (snd (get_token_tuple example_install (\<lambda>_ _. Inr (''new'', 700)) 100 example_gh_context False
     [(JInt 5, (''old'', 100)), (JInt 6, (''other'', 9))])) =
   (map_of [(JInt 5, (''old'', 100)), (JInt 6, (''other'', 9))])(JInt 5 \<mapsto> (''new'', 700::int))"
  using get_token_tuple_spec [of example_install example_gh_context
      "JInt 5" "JStr ''77''" "\<lambda>_ _. Inr (''new'', 700)" 100 False "[(JInt 5, (''old'', 100)), (JInt 6, (''other'', 9))]"
      "(''new'', 700)" "[(JInt 5, (''new'', 700)), (JInt 6, (''other'', 9))]"]
  by (simp add: find_install_id_def find_app_id_def example_gh_context_def example_install_def
      get_token_tuple_def py_simps)

end
