(* ===== verification/Grouping.thy ===== *)
theory Grouping
  imports Api_Utils
begin

text \<open>
  \<^verbatim>\<open>src/cxone_service/grouping.py\<close>: the service that maps a clone URL to the CheckmarxOne group ids its
  project is assigned to. The routes are fixed after configuration; the id cache and the error
  counters are the \<open>w_groups\<close> part of the world. Each group path is resolved under the service's lock,
  so one path is one atomic step.
\<close>

section \<open>Model\<close>

record cx_env = net_env +
  cx_retrieve_groups :: "trace \<Rightarrow> string \<Rightarrow> json list result"
  re_match :: "string \<Rightarrow> string \<Rightarrow> bool"

record Route =
  r_regex :: string
  r_groups :: "string list"

definition add_assignment_rule :: "Route list \<Rightarrow> string \<Rightarrow> string list \<Rightarrow> Route list" where
  "add_assignment_rule routes clone_url_regex group_paths =
     routes @ [\<lparr>r_regex = clone_url_regex, r_groups = map (lstrip_chars ''/'') group_paths\<rparr>]"

definition increment_error :: "string \<Rightarrow> unit act" where
  "increment_error group_path = (\<lambda>w.
     let errs = gs_path_res_errors (w_groups w);
         n = (case map_of errs group_path of Some c \<Rightarrow> c + 1 | None \<Rightarrow> 1)
     in (Inr (), w\<lparr>w_groups := (w_groups w)\<lparr>gs_path_res_errors := dict_set errs group_path n\<rparr>\<rparr>))"

definition set_group_id :: "string \<Rightarrow> json \<Rightarrow> unit act" where
  "set_group_id path gid = (\<lambda>w.
     (Inr (), w\<lparr>w_groups := (w_groups w)\<lparr>gs_groupid_index := dict_set (gs_groupid_index (w_groups w)) path gid\<rparr>\<rparr>))"

definition clear_error :: "string \<Rightarrow> unit act" where
  "clear_error path = (\<lambda>w.
     (Inr (), w\<lparr>w_groups := (w_groups w)\<lparr>gs_path_res_errors :=
        filter (\<lambda>(k, v). k \<noteq> path) (gs_path_res_errors (w_groups w))\<rparr>\<rparr>))"

definition cached_id :: "string \<Rightarrow> json option act" where
  "cached_id path = (\<lambda>w. (Inr (map_of (gs_groupid_index (w_groups w)) path), w))"

text \<open>The \<^verbatim>\<open>for gdef in group_defs\<close> loop, with the lookups that may fail.\<close>

fun find_gdef :: "string \<Rightarrow> json list \<Rightarrow> json option result" where
  "find_gdef path [] = Inr None"
| "find_gdef path (gdef # rest) =
     (case py_getitem gdef ''name'' of
        Inl e \<Rightarrow> Inl e
      | Inr n \<Rightarrow>
          if n = JStr path then
            (case py_getitem gdef ''id'' of Inl e \<Rightarrow> Inl e | Inr gid \<Rightarrow> Inr (Some gid))
          else find_gdef path rest)"

text \<open>The body of the loop over the paths; the result is what is appended to \<^verbatim>\<open>resolved_ids\<close>.\<close>

definition resolve_group_id :: "'e cx_env_scheme \<Rightarrow> string \<Rightarrow> json list act" where
  "resolve_group_id E path =
     bindE (cached_id path) (\<lambda>c.
     bindE (if c = None then
              catchE
                (bindE (ask (EvRetrieveGroups path) (\<lambda>tr. cx_retrieve_groups E tr path)) (\<lambda>group_defs.
                 if length group_defs = 0 then thenE (increment_error path) (returnE False)
                 else bindE (liftE (find_gdef path group_defs)) (\<lambda>found.
                   case found of
                     None \<Rightarrow> returnE True
                   | Some gid \<Rightarrow> thenE (set_group_id path gid) (returnE True))))
                (\<lambda>e. thenE (increment_error path) (returnE True))
            else returnE True) (\<lambda>go_on.
     if \<not> go_on then returnE []
     else bindE (cached_id path) (\<lambda>c'.
       case c' of
         None \<Rightarrow> returnE []
       | Some gid \<Rightarrow> thenE (clear_error path) (returnE [gid]))))"

definition resolve_group_ids :: "'e cx_env_scheme \<Rightarrow> string list \<Rightarrow> json list act" where
  "resolve_group_ids E group_paths =
     bindE (mapE group_paths (resolve_group_id E)) (\<lambda>idss. returnE (concat idss))"

definition resolve_groups :: "'e cx_env_scheme \<Rightarrow> Route list \<Rightarrow> string \<Rightarrow> json list act" where
  "resolve_groups E routes clone_url =
     bindE (mapE (filter (\<lambda>r. re_match E (r_regex r) clone_url) routes) (\<lambda>r. resolve_group_ids E (r_groups r)))
       (\<lambda>idss. returnE (concat idss))"

definition purge_cache :: "unit act" where
  "purge_cache = (\<lambda>w. (Inr (), w\<lparr>w_groups := \<lparr>gs_groupid_index = [], gs_path_res_errors = []\<rparr>\<rparr>))"

section \<open>Invariant\<close>

text \<open>
  No path is both resolved and counted as failing, and an error counter counts at least one failure.
\<close>

definition groups_inv :: "world \<Rightarrow> bool" where
  "groups_inv w \<longleftrightarrow>
     (let g = w_groups w in
       fst ` set (gs_groupid_index g) \<inter> fst ` set (gs_path_res_errors g) = {} \<and>
       (\<forall>n \<in> snd ` set (gs_path_res_errors g). 1 \<le> n))"

lemmas group_step_defs =
  increment_error_def set_group_id_def clear_error_def cached_id_def purge_cache_def

lemma groups_inv_log_event [simp]: "groups_inv (log_event e w) = groups_inv w"
  by (simp add: groups_inv_def)

lemma set_dict_set_subset: "set (dict_set d k v) \<subseteq> insert (k, v) (set d)"
  unfolding dict_set_def by (induction d) auto

lemma fst_set_dict_set: "fst ` set (dict_set d k v) = insert k (fst ` set d)"
  by (simp add: dict_set_def dom_update)

lemma increment_error_inv:
  assumes inv: "groups_inv w" and nin: "map_of (gs_groupid_index (w_groups w)) path = None"
  shows "groups_inv (snd (increment_error path w))"
proof -
  let ?errs = "gs_path_res_errors (w_groups w)"
  let ?n = "case map_of ?errs path of Some c \<Rightarrow> c + 1 | None \<Rightarrow> 1"
  have pos: "1 \<le> ?n"
    using inv by (auto simp: groups_inv_def Let_def split: option.splits dest!: map_of_SomeD)
  have "\<forall>m \<in> snd ` set (dict_set ?errs path ?n). 1 \<le> m"
    using inv pos set_dict_set_subset [of ?errs path ?n] by (fastforce simp: groups_inv_def Let_def)
  moreover have "path \<notin> fst ` set (gs_groupid_index (w_groups w))"
    using nin by (simp add: map_of_eq_None_iff)
  ultimately show ?thesis
    using inv by (auto simp: groups_inv_def Let_def increment_error_def fst_set_dict_set)
qed

text \<open>One path, one atomic step: what it does to the cache and what it returns.\<close>

lemma resolve_group_id_cases:
  assumes "resolve_group_id E path w = (res, w')"
  obtains
    (cached) gid where "map_of (gs_groupid_index (w_groups w)) path = Some gid" "res = Inr [gid]"
      "w' = snd (clear_error path w)"
  | (found) gid gdefs where "map_of (gs_groupid_index (w_groups w)) path = None"
      "cx_retrieve_groups E (w_trace w) path = Inr gdefs" "find_gdef path gdefs = Inr (Some gid)"
      "res = Inr [gid]" "w' = snd (clear_error path (snd (set_group_id path gid (log_event (EvRetrieveGroups path) w))))"
  | (missing) "map_of (gs_groupid_index (w_groups w)) path = None" "res = Inr []"
      "w' = log_event (EvRetrieveGroups path) w"
  | (failed) "map_of (gs_groupid_index (w_groups w)) path = None" "res = Inr []"
      "w' = snd (increment_error path (log_event (EvRetrieveGroups path) w))"
proof (cases "map_of (gs_groupid_index (w_groups w)) path")
  case (Some gid)
  then show ?thesis
    using assms cached by (simp add: resolve_group_id_def py_simps cached_id_def clear_error_def)
next
  case None
  note nc = this
  show ?thesis
  proof (cases "answer (cx_retrieve_groups E (w_trace w) path)")
    case (Inl e)
    then have "e \<noteq> OutOfFuel" by (metis answer_not_fuel)
    then show ?thesis
      using assms nc Inl failed
      by (simp add: resolve_group_id_def py_simps cached_id_def increment_error_def Let_def)
  next
    case (Inr gdefs)
    have fg: "find_gdef path gs \<noteq> Inl OutOfFuel" for gs
    proof (induction gs)
      case (Cons g gs)
      have "py_getitem g k \<noteq> Inl OutOfFuel" for k by (cases g) (auto split: option.splits)
      with Cons show ?case by (auto split: sum.splits)
    qed simp
    consider (e) "gdefs = []" | (x) e where "gdefs \<noteq> []" "find_gdef path gdefs = Inl e"
      | (n) "gdefs \<noteq> []" "find_gdef path gdefs = Inr None"
      | (s) gid where "gdefs \<noteq> []" "find_gdef path gdefs = Inr (Some gid)"
      by (cases "find_gdef path gdefs"; cases "gdefs = []") auto
    then show ?thesis
    proof cases
      case e
      then show ?thesis
        using assms nc Inr failed
        by (simp add: resolve_group_id_def py_simps cached_id_def increment_error_def Let_def)
    next
      case (x e)
      with fg have "e \<noteq> OutOfFuel" by metis
      with x show ?thesis
        using assms nc Inr failed
        by (simp add: resolve_group_id_def py_simps cached_id_def increment_error_def Let_def)
    next
      case n
      then show ?thesis
        using assms nc Inr missing by (simp add: resolve_group_id_def py_simps cached_id_def)
    next
      case (s gid)
      then show ?thesis
        using assms nc Inr found
        by (simp add: resolve_group_id_def py_simps cached_id_def set_group_id_def clear_error_def)
    qed
  qed
qed

lemma groups_inv_clear_error: "groups_inv w \<Longrightarrow> groups_inv (snd (clear_error path w))"
  by (auto simp: groups_inv_def clear_error_def Let_def)

lemma groups_inv_resolved:
  "groups_inv w \<Longrightarrow> groups_inv (snd (clear_error path (snd (set_group_id path gid w))))"
  by (auto simp: groups_inv_def set_group_id_def clear_error_def Let_def fst_set_dict_set)

lemma resolve_group_id_inv: "groups_inv w \<Longrightarrow> groups_inv (snd (resolve_group_id E path w))"
proof -
  assume inv: "groups_inv w"
  obtain res w' where run: "resolve_group_id E path w = (res, w')" by (cases "resolve_group_id E path w")
  then have "groups_inv w'"
  proof (cases rule: resolve_group_id_cases)
    case cached
    with inv show ?thesis by (simp add: groups_inv_clear_error)
  next
    case found
    with inv show ?thesis by (simp add: groups_inv_resolved)
  next
    case missing
    with inv show ?thesis by simp
  next
    case failed
    with inv show ?thesis by (simp add: increment_error_inv)
  qed
  with run show ?thesis by simp
qed

text \<open>The ids the cache holds after resolving extend the ids it held before; the answer comes from it.\<close>

definition group_ids :: "world \<Rightarrow> string \<Rightarrow> json option" where
  "group_ids w = map_of (gs_groupid_index (w_groups w))"

lemma resolve_group_id_result:
  obtains ids w' where "resolve_group_id E path w = (Inr ids, w')"
    and "ids = (case group_ids w' path of None \<Rightarrow> [] | Some gid \<Rightarrow> [gid])"
    and "group_ids w \<subseteq>\<^sub>m group_ids w'"
proof -
  obtain res w' where run: "resolve_group_id E path w = (res, w')" by (cases "resolve_group_id E path w")
  then show thesis
  proof (cases rule: resolve_group_id_cases)
    case (cached gid)
    with run show ?thesis
      by (intro that [of "[gid]" w']) (auto simp: group_ids_def clear_error_def)
  next
    case (found gid gdefs)
    with run show ?thesis
      by (intro that [of "[gid]" w'])
         (auto simp: group_ids_def clear_error_def set_group_id_def map_le_def)
  next
    case missing
    with run show ?thesis by (intro that [of "[]" w']) (auto simp: group_ids_def)
  next
    case failed
    with run show ?thesis
      by (intro that [of "[]" w']) (auto simp: group_ids_def increment_error_def Let_def)
  qed
qed

section \<open>The contract of a group resolver\<close>

text \<open>
  What the project service relies on: resolving keeps the invariant, never raises, never forgets or
  changes an id the cache holds, answers only ids the cache then holds; purging empties the cache.
\<close>

locale group_resolver =
  fixes resolve :: "'k \<Rightarrow> json list act"
    and purge :: "unit act"
    and inv :: "world \<Rightarrow> bool"
    and ids :: "world \<Rightarrow> string \<Rightarrow> json option"
  assumes resolve_total: "\<exists>gs. fst (resolve k w) = Inr gs \<and> set gs \<subseteq> ran (ids (snd (resolve k w)))"
    and resolve_inv: "inv w \<Longrightarrow> inv (snd (resolve k w))"
    and resolve_stable: "ids w \<subseteq>\<^sub>m ids (snd (resolve k w))"
    and purge_total: "fst (purge w) = Inr ()"
    and purge_inv: "inv (snd (purge w))"
    and purge_ids: "ids (snd (purge w)) = Map.empty"
begin

lemma retry_total:
  "\<exists>gs. fst (thenE purge (resolve k) w) = Inr gs \<and> set gs \<subseteq> ran (ids (snd (thenE purge (resolve k) w)))"
proof -
  obtain w' where p: "purge w = (Inr (), w')"
    using purge_total [of w] by (cases "purge w") auto
  then show ?thesis
    using resolve_total [of k w'] by (simp add: py_simps)
qed

lemma retry_inv: "inv (snd (thenE purge (resolve k) w))"
proof -
  obtain w' where p: "purge w = (Inr (), w')"
    using purge_total [of w] by (cases "purge w") auto
  then show ?thesis
    using resolve_inv [of w' k] purge_inv [of w] by (simp add: py_simps)
qed

end

lemma mapE_group_result:
  assumes step: "\<And>x w. \<exists>ids w'. f x w = (Inr ids, w') \<and> set ids \<subseteq> ran (group_ids w') \<and>
      group_ids w \<subseteq>\<^sub>m group_ids w' \<and> (groups_inv w \<longrightarrow> groups_inv w')"
  shows "\<exists>idss w'. mapE xs f w = (Inr idss, w') \<and> set (concat idss) \<subseteq> ran (group_ids w') \<and>
      group_ids w \<subseteq>\<^sub>m group_ids w' \<and> (groups_inv w \<longrightarrow> groups_inv w')"
proof (induction xs arbitrary: w)
  case Nil
  then show ?case by (simp add: py_simps)
next
  case (Cons x xs)
  obtain ids w1 where 1: "f x w = (Inr ids, w1)" "set ids \<subseteq> ran (group_ids w1)"
      "group_ids w \<subseteq>\<^sub>m group_ids w1" "groups_inv w \<longrightarrow> groups_inv w1"
    using step by metis
  obtain idss w2 where 2: "mapE xs f w1 = (Inr idss, w2)" "set (concat idss) \<subseteq> ran (group_ids w2)"
      "group_ids w1 \<subseteq>\<^sub>m group_ids w2" "groups_inv w1 \<longrightarrow> groups_inv w2"
    using Cons.IH by metis
  have "ran (group_ids w1) \<subseteq> ran (group_ids w2)"
    using 2(3) by (auto simp: ran_def map_le_def) (metis domI)
  moreover have "group_ids w \<subseteq>\<^sub>m group_ids w2" using 1(3) 2(3) by (rule map_le_trans)
  ultimately show ?case using 1 2 by (auto simp: py_simps)
qed

lemma resolve_group_id_step:
  "\<exists>ids w'. resolve_group_id E path w = (Inr ids, w') \<and> set ids \<subseteq> ran (group_ids w') \<and>
      group_ids w \<subseteq>\<^sub>m group_ids w' \<and> (groups_inv w \<longrightarrow> groups_inv w')"
proof -
  obtain ids w' where "resolve_group_id E path w = (Inr ids, w')"
    "ids = (case group_ids w' path of None \<Rightarrow> [] | Some gid \<Rightarrow> [gid])" "group_ids w \<subseteq>\<^sub>m group_ids w'"
    by (rule resolve_group_id_result)
  then show ?thesis
    using resolve_group_id_inv [of w E path] by (auto simp: ran_def split: option.splits)
qed

lemma resolve_group_ids_step:
  "\<exists>ids w'. resolve_group_ids E paths w = (Inr ids, w') \<and> set ids \<subseteq> ran (group_ids w') \<and>
      group_ids w \<subseteq>\<^sub>m group_ids w' \<and> (groups_inv w \<longrightarrow> groups_inv w')"
  using mapE_group_result [where f = "resolve_group_id E" and xs = paths and w = w, OF resolve_group_id_step]
  by (auto simp: resolve_group_ids_def py_simps)

lemma resolve_groups_step:
  "\<exists>ids w'. resolve_groups E routes clone_url w = (Inr ids, w') \<and> set ids \<subseteq> ran (group_ids w') \<and>
      group_ids w \<subseteq>\<^sub>m group_ids w' \<and> (groups_inv w \<longrightarrow> groups_inv w')"
  using mapE_group_result [where f = "\<lambda>r. resolve_group_ids E (r_groups r)" and w = w and
      xs = "filter (\<lambda>r. re_match E (r_regex r) clone_url) routes", OF resolve_group_ids_step]
  by (fastforce simp: resolve_groups_def py_simps)

interpretation grouping: group_resolver "resolve_groups E routes" purge_cache groups_inv group_ids
  for E :: "'e cx_env_scheme" and routes
proof
  fix k w
  obtain gs w' where run: "resolve_groups E routes k w = (Inr gs, w')" "set gs \<subseteq> ran (group_ids w')"
      "group_ids w \<subseteq>\<^sub>m group_ids w'" "groups_inv w \<longrightarrow> groups_inv w'"
    using resolve_groups_step [of E routes k w] by blast
  show "\<exists>gs. fst (resolve_groups E routes k w) = Inr gs \<and>
      set gs \<subseteq> ran (group_ids (snd (resolve_groups E routes k w)))"
    using run by simp
  show "groups_inv w \<Longrightarrow> groups_inv (snd (resolve_groups E routes k w))"
    using run by simp
  show "group_ids w \<subseteq>\<^sub>m group_ids (snd (resolve_groups E routes k w))"
    using run by simp
qed (simp_all add: purge_cache_def groups_inv_def group_ids_def)

lemma resolve_group_id_emits [emits_intros]:
  assumes "\<And>p. ok (EvRetrieveGroups p)"
  shows "emits ok (resolve_group_id E path)"
proof -
  have "emits ok (increment_error p)" "emits ok (set_group_id p g)" "emits ok (clear_error p)"
    "emits ok (cached_id p)" for p g
    by (auto simp: emits_def group_step_defs extends_def Let_def intro!: keepsI)
  then show ?thesis
    unfolding resolve_group_id_def by (auto intro!: emits_intros assms)
qed

lemma resolve_groups_emits [emits_intros]:
  assumes "\<And>p. ok (EvRetrieveGroups p)"
  shows "emits ok (resolve_groups E routes clone_url)"
  unfolding resolve_groups_def resolve_group_ids_def by (intro emits_intros assms)

lemma purge_cache_emits [emits_intros]: "emits ok purge_cache"
  by (auto simp: emits_def purge_cache_def extends_def intro!: keepsI)

text \<open>
  C19: the grouping service never lets an exception of the group lookup escape: \<^verbatim>\<open>resolve_groups\<close> always
  returns, every id it returns is held by its cache afterwards, ids already cached are neither lost
  nor changed, and the invariant that a path is never both cached and counted as failing (and that
  every counter is at least one) is kept.
\<close>

theorem resolve_groups_total:
  assumes "groups_inv w"
  shows "\<exists>ids w'. resolve_groups E routes clone_url w = (Inr ids, w') \<and>
    set ids \<subseteq> ran (group_ids w') \<and> group_ids w \<subseteq>\<^sub>m group_ids w' \<and> groups_inv w'"
  using resolve_groups_step [of E routes clone_url w] assms by blast

definition down_cx_env :: cx_env where
  "down_cx_env = \<lparr>net_http = (\<lambda>_ _. Inl (LibError True ''timeout'')), net_auth = (\<lambda>_ _ _. Inr []),
     cx_retrieve_groups = (\<lambda>_ _. Inl (LibError False ''cancelled'')), re_match = (\<lambda>_ _. True)\<rparr>"

theorem resolve_groups_total_witness:
  "groups_inv world0 \<and>
   (\<exists>ids w'. resolve_groups down_cx_env [\<lparr>r_regex = ''.*'', r_groups = [''a/b'']\<rparr>] ''https://scm/x'' world0 = (Inr ids, w') \<and>
     set ids \<subseteq> ran (group_ids w') \<and> group_ids world0 \<subseteq>\<^sub>m group_ids w' \<and> groups_inv w')"
proof -
  have "groups_inv world0" by (simp add: groups_inv_def world0_def)
  then show ?thesis using resolve_groups_total by blast
qed

end
