(* ===== verification/CxOne_Service.thy ===== *)
theory CxOne_Service
  imports Grouping
begin

text \<open>
  \<^verbatim>\<open>src/cxone_service/__init__.py\<close>: the service that finds or creates the CheckmarxOne project of a
  repository, keeps its tags and groups up to date, submits scans, and updates the pull-request tags
  of finished scans. The CheckmarxOne client library is a parameter: one field of \<open>cxone_env\<close> per call.
\<close>

section \<open>Model\<close>

record ProjectRepoConfig =
  pc_id :: string
  pc_name :: string
  pc_tags :: "json dict"

record ScanInspector =
  si_project_id :: string
  si_scan_id :: string
  si_executing :: bool
  si_successful :: bool
  si_failed :: bool
  si_state_msg :: string

record cxone_env = cx_env +
  jp_find :: jsonpath
  jp_ext_find :: jsonpath
  py_repr :: "json \<Rightarrow> string"
  py_set :: "json list \<Rightarrow> json list"
  app_version :: string
  cx_list_projects :: "trace \<Rightarrow> string \<Rightarrow> http_response result"
  cx_create_project :: "trace \<Rightarrow> string \<Rightarrow> json list \<Rightarrow> json dict \<Rightarrow> http_response result"
  cx_update_project :: "trace \<Rightarrow> json \<Rightarrow> json dict \<Rightarrow> http_response result"
  cx_list_scans :: "trace \<Rightarrow> json dict \<Rightarrow> json list \<times> exn option"
  cx_update_scan_tags :: "trace \<Rightarrow> json \<Rightarrow> json dict \<Rightarrow> http_response result"
  cx_enabled_scanners :: "trace \<Rightarrow> ProjectRepoConfig \<Rightarrow> json \<Rightarrow> string list result"
  cx_filters_with_defaults :: "trace \<Rightarrow> ProjectRepoConfig \<Rightarrow> json dict \<Rightarrow> json dict result"
  cx_scan_invoke :: "trace \<Rightarrow> ProjectRepoConfig \<Rightarrow> json \<Rightarrow> json dict \<Rightarrow> json dict \<Rightarrow> string \<Rightarrow> http_response result"
  cx_load_scan :: "trace \<Rightarrow> string \<Rightarrow> ScanInspector result"
  cx_project_from_json :: "trace \<Rightarrow> json dict \<Rightarrow> ProjectRepoConfig result"
  cx_project_from_id :: "trace \<Rightarrow> string \<Rightarrow> ProjectRepoConfig result"
  cx_create_report :: "trace \<Rightarrow> string \<Rightarrow> string \<Rightarrow> http_response result"
  cx_report_status :: "trace \<Rightarrow> json \<Rightarrow> http_response result"
  cx_download_report :: "trace \<Rightarrow> json \<Rightarrow> http_response result"
  clock :: "trace \<Rightarrow> int" \<comment> \<open>\<^verbatim>\<open>datetime.now()\<close>, in seconds\<close>

record CxOneService =
  cs_moniker :: string
  cs_default_engine_config :: "json dict"
  cs_default_scan_tags :: "json dict"
  cs_default_project_tags :: "json dict"
  cs_rename_legacy :: bool
  cs_update_groups :: bool
  cs_routes :: "Route list"

definition COMMIT_TAG :: string where "COMMIT_TAG = ''commit''"
definition PR_ID_TAG :: string where "PR_ID_TAG = ''pr-id''"
definition PR_TARGET_TAG :: string where "PR_TARGET_TAG = ''pr-target''"
definition PR_STATUS_TAG :: string where "PR_STATUS_TAG = ''pr-status''"
definition PR_STATE_TAG :: string where "PR_STATE_TAG = ''pr-state''"

definition UPDATABLE_SCANS_STATUSES :: "string list" where
  "UPDATABLE_SCANS_STATUSES = [''Completed'', ''Failed'', ''Partial'']"

definition minimum_engine_selection :: "json dict" where
  "minimum_engine_selection = [(''sast'', JObj [])]"

text \<open>The constructor replaces absent default tags by the empty dictionary.\<close>

definition make_CxOneService ::
  "string \<Rightarrow> json dict \<Rightarrow> json dict option \<Rightarrow> json dict option \<Rightarrow> bool \<Rightarrow> bool \<Rightarrow> Route list \<Rightarrow> CxOneService" where
  "make_CxOneService moniker default_engines default_scan_tags default_project_tags rename_legacy update_groups routes =
     \<lparr>cs_moniker = moniker, cs_default_engine_config = default_engines,
      cs_default_scan_tags = (case default_scan_tags of None \<Rightarrow> [] | Some t \<Rightarrow> t),
      cs_default_project_tags = (case default_project_tags of None \<Rightarrow> [] | Some t \<Rightarrow> t),
      cs_rename_legacy = rename_legacy, cs_update_groups = update_groups, cs_routes = routes\<rparr>"

definition get_json_or_fail :: "http_response act \<Rightarrow> json act" where
  "get_json_or_fail m =
     bindE m (\<lambda>response. if \<not> rs_ok response then raiseE CxOneException else liftE (answer (rs_json response)))"

definition succeed_or_throw :: "http_response \<Rightarrow> http_response act" where
  "succeed_or_throw response = (if \<not> rs_ok response then raiseE CxOneException else returnE response)"

definition get_resolver_tag_for_project :: "ProjectRepoConfig \<Rightarrow> string \<Rightarrow> json \<Rightarrow> json act" where
  "get_resolver_tag_for_project project_config tag_key default_tag =
     (case map_of (pc_tags project_config) tag_key of
        None \<Rightarrow> returnE default_tag
      | Some possible_tag \<Rightarrow>
          if possible_tag \<noteq> JNull then
            bindE (liftE (py_len possible_tag)) (\<lambda>n. returnE (if n > 0 then possible_tag else default_tag))
          else returnE default_tag)"

text \<open>
  \<^verbatim>\<open>async for scan in page_generator(retrieve_list_of_scans, ...)\<close>: the scans the library yields, then
  its normal end or the exception it raises.
\<close>

definition for_each_scan :: "'e cxone_env_scheme \<Rightarrow> json dict \<Rightarrow> (json \<Rightarrow> 'a list act) \<Rightarrow> 'a list act" where
  "for_each_scan E args body =
     bindE (ask (EvListScans args) (\<lambda>tr. Inr (cx_list_scans E tr args))) (\<lambda>(scans, err).
     bindE (mapE scans body) (\<lambda>found.
     case err of None \<Rightarrow> returnE (concat found) | Some e \<Rightarrow> liftE (answer (Inl e))))"

text \<open>\<^verbatim>\<open>PR_ID_TAG in scan['tags'] and str(scan['tags'][PR_ID_TAG]) == by_pr_id\<close>\<close>

definition scan_has_pr_id :: "'e cxone_env_scheme \<Rightarrow> json \<Rightarrow> json \<Rightarrow> bool result" where
  "scan_has_pr_id E scan by_pr_id =
     (case py_getitem scan ''tags'' of
        Inl e \<Rightarrow> Inl e
      | Inr tags \<Rightarrow> (case py_in PR_ID_TAG tags of
            Inl e \<Rightarrow> Inl e
          | Inr False \<Rightarrow> Inr False
          | Inr True \<Rightarrow> (case py_getitem tags PR_ID_TAG of
                Inl e \<Rightarrow> Inl e
              | Inr v \<Rightarrow> Inr (JStr (py_str (py_repr E) v) = by_pr_id))))"

definition scan_search_args :: "string list option \<Rightarrow> string \<Rightarrow> json \<Rightarrow> json dict" where
  "scan_search_args statuses by_project_name by_commit_hash =
     (case statuses of None \<Rightarrow> [] | Some ss \<Rightarrow> [(''statuses'', JList (map JStr ss))]) @
     [(''project_names'', JStr by_project_name), (''tags_keys'', JStr COMMIT_TAG), (''tags_values'', by_commit_hash)]"

definition update_scan_pr_tags ::
  "'e cxone_env_scheme \<Rightarrow> string \<Rightarrow> json \<Rightarrow> json \<Rightarrow> json \<Rightarrow> json \<Rightarrow> json \<Rightarrow> json list act" where
  "update_scan_pr_tags E by_project_name by_pr_id by_commit_hash new_target_branch new_state new_status =
     for_each_scan E (scan_search_args (Some UPDATABLE_SCANS_STATUSES) by_project_name by_commit_hash) (\<lambda>scan.
       bindE (liftE (scan_has_pr_id E scan by_pr_id)) (\<lambda>hit.
       if \<not> hit then returnE []
       else
         bindE (liftE (py_getitem scan ''tags'')) (\<lambda>tags.
         bindE (liftE (as_obj tags)) (\<lambda>tags.
         let updated = dict_set (dict_set (dict_set tags PR_TARGET_TAG new_target_branch)
                         PR_STATE_TAG new_state) PR_STATUS_TAG new_status in
         bindE (liftE (py_getitem scan ''id'')) (\<lambda>sid.
         bindE (ask (EvUpdateScanTags sid updated) (\<lambda>tr. cx_update_scan_tags E tr sid updated)) (\<lambda>update_response.
         if rs_ok update_response then returnE [sid] else returnE []))))))"

definition find_pr_scans :: "'e cxone_env_scheme \<Rightarrow> string \<Rightarrow> json \<Rightarrow> json \<Rightarrow> json list act" where
  "find_pr_scans E by_project_name by_pr_id by_commit_hash =
     for_each_scan E (scan_search_args None by_project_name by_commit_hash) (\<lambda>scan.
       bindE (liftE (scan_has_pr_id E scan by_pr_id)) (\<lambda>hit.
       if \<not> hit then returnE [] else bindE (liftE (py_getitem scan ''id'')) (\<lambda>sid. returnE [sid])))"

definition resolve_group_memberships ::
  "'e cxone_env_scheme \<Rightarrow> CxOneService \<Rightarrow> json \<Rightarrow> string \<Rightarrow> json list act" where
  "resolve_group_memberships E svc existing_groups clone_url =
     bindE (resolve_groups E (cs_routes svc) clone_url) (\<lambda>gs.
     bindE (liftE (as_list existing_groups)) (\<lambda>existing. returnE (py_set E (existing @ gs))))"

text \<open>\<^verbatim>\<open>v.keys()\<close> of a value that is not a dictionary is an attribute error.\<close>

fun dict_of :: "json \<Rightarrow> json dict result" where
  "dict_of (JObj kvs) = Inr kvs"
| "dict_of _ = Inl AttributeError"

text \<open>The tags an existing project is missing, and the merge the update sends.\<close>

definition missing_project_tags :: "CxOneService \<Rightarrow> json dict \<Rightarrow> json dict" where
  "missing_project_tags svc tags =
     (let new_tags = filter (\<lambda>(k, v). k \<notin> set (dict_keys tags)) (cs_default_project_tags svc) in
      case map_of tags ''service'' of
        Some m \<Rightarrow> if m \<noteq> JStr (cs_moniker svc) then dict_set new_tags ''service'' (JStr (cs_moniker svc)) else new_tags
      | None \<Rightarrow> dict_set new_tags ''service'' (JStr (cs_moniker svc)))"

text \<open>The update loop: a second and last attempt is made with reloaded groups.\<close>

definition update_project_with_retry ::
  "'e cxone_env_scheme \<Rightarrow> CxOneService \<Rightarrow> json \<Rightarrow> json dict \<Rightarrow> json \<Rightarrow> string \<Rightarrow> json dict act" where
  "update_project_with_retry E svc project_id project_json project_orig_groups clone_url =
     bindE (ask (EvUpdateProject project_id project_json) (\<lambda>tr. cx_update_project E tr project_id project_json)) (\<lambda>r1.
     if rs_ok r1 then thenE (succeed_or_throw r1) (returnE project_json)
     else
       thenE purge_cache (
       bindE (resolve_group_memberships E svc project_orig_groups clone_url) (\<lambda>gs.
       let project_json' = dict_set project_json ''groups'' (JList gs) in
       bindE (ask (EvUpdateProject project_id project_json') (\<lambda>tr. cx_update_project E tr project_id project_json')) (\<lambda>r2.
       thenE (succeed_or_throw r2) (returnE project_json')))))"

definition project_query :: "string \<Rightarrow> string" where
  "project_query name = ''$.projects[?(@.name=='' @ [CHR 0x27] @ name @ [CHR 0x27] @ '')]''"

text \<open>
  An existing project: missing default tags, the service tag, the new name and the groups are merged
  into its description, which is sent back when anything changed.
\<close>

definition refresh_project ::
  "'e cxone_env_scheme \<Rightarrow> CxOneService \<Rightarrow> json \<Rightarrow> bool \<Rightarrow> string \<Rightarrow> string \<Rightarrow> json dict act" where
  "refresh_project E svc pj do_name_update dynamic_project_name clone_url =
     bindE (liftE (py_getitem pj ''id'')) (\<lambda>project_id.
     bindE (liftE (as_obj pj)) (\<lambda>project_json.
     bindE (liftE (py_getitem pj ''tags'')) (\<lambda>tags.
     bindE (liftE (dict_of tags)) (\<lambda>tags.
     let new_tags = missing_project_tags svc tags;
         exec_update1 = length new_tags > 0;
         project_json1 = (if exec_update1 then dict_set project_json ''tags'' (JObj (dict_union new_tags tags)) else project_json);
         exec_update2 = (exec_update1 \<or> do_name_update);
         project_json2 = (if do_name_update then dict_set project_json1 ''name'' (JStr dynamic_project_name) else project_json1) in
     bindE (liftE (py_getitem pj ''groups'')) (\<lambda>groups.
     let project_orig_groups = (if groups \<noteq> JNull then groups else JList []) in
     bindE (if cs_update_groups svc then
              bindE (resolve_group_memberships E svc project_orig_groups clone_url) (\<lambda>new_list.
              bindE (liftE (as_list project_orig_groups)) (\<lambda>orig.
              if length (filter (\<lambda>x. x \<notin> set orig) new_list) > 0
              then returnE (dict_set project_json2 ''groups'' (JList new_list), True)
              else returnE (project_json2, exec_update2)))
            else returnE (project_json2, exec_update2)) (\<lambda>(project_json3, exec_update3).
     if exec_update3 then update_project_with_retry E svc project_id project_json3 project_orig_groups clone_url
     else returnE project_json3))))))"

definition create_or_retrieve_project ::
  "'e cxone_env_scheme \<Rightarrow> CxOneService \<Rightarrow> string \<Rightarrow> string \<Rightarrow> string \<Rightarrow> json dict act" where
  "create_or_retrieve_project E svc default_project_name dynamic_project_name clone_url =
     (let names = str_join '','' [default_project_name, dynamic_project_name] in
     bindE (get_json_or_fail (ask (EvListProjects names) (\<lambda>tr. cx_list_projects E tr names))) (\<lambda>projects_response.
     bindE (liftE (py_getitem projects_response ''filteredTotalCount'')) (\<lambda>total.
     bindE (liftE (py_int total)) (\<lambda>count.
     if count = 0 then
       bindE (resolve_groups E (cs_routes svc) clone_url) (\<lambda>groups.
       let tags = dict_union (cs_default_project_tags svc)
                    [(''cxone-flow'', JStr (app_version E)), (''service'', JStr (cs_moniker svc))] in
       bindE (get_json_or_fail (ask (EvCreateProject dynamic_project_name groups tags)
                (\<lambda>tr. cx_create_project E tr dynamic_project_name groups tags))) (\<lambda>pj.
       bindE (liftE (py_getitem pj ''id'')) (\<lambda>_.
       liftE (as_obj pj))))
     else
       let dynamic_search = jp_ext_find E (project_query dynamic_project_name) projects_response;
           default_search = jp_ext_find E (project_query default_project_name) projects_response in
       bindE (if length dynamic_search > 0 then liftE (pop_match dynamic_search)
              else liftE (pop_match default_search)) (\<lambda>pj.
       let do_name_update = (\<not> length dynamic_search > 0 \<and> cs_rename_legacy svc) in
       refresh_project E svc pj do_name_update dynamic_project_name clone_url)))))"

definition load_project_config ::
  "'e cxone_env_scheme \<Rightarrow> CxOneService \<Rightarrow> string \<Rightarrow> string \<Rightarrow> string \<Rightarrow> ProjectRepoConfig act" where
  "load_project_config E svc default_project_name dynamic_project_name clone_url =
     bindE (create_or_retrieve_project E svc default_project_name dynamic_project_name clone_url) (\<lambda>pj.
     look (\<lambda>tr. cx_project_from_json E tr pj))"

definition get_engine_config_for_scan ::
  "'e cxone_env_scheme \<Rightarrow> CxOneService \<Rightarrow> ProjectRepoConfig \<Rightarrow> json \<Rightarrow> json dict act" where
  "get_engine_config_for_scan E svc project_config commit_branch =
     bindE (ask (EvEnabledScanners (pc_id project_config) commit_branch)
              (\<lambda>tr. cx_enabled_scanners E tr project_config commit_branch)) (\<lambda>enabled_scanners.
     let cfg = foldl (\<lambda>c e. dict_set c e (JObj [])) (cs_default_engine_config svc)
                 (filter (\<lambda>e. e \<notin> set (dict_keys (cs_default_engine_config svc))) enabled_scanners) in
     bindE (ask (EvScanFilters (pc_id project_config)) (\<lambda>tr. cx_filters_with_defaults E tr project_config cfg)) (\<lambda>cfg'.
     returnE (if length cfg' = 0 then minimum_engine_selection else cfg')))"

definition sca_selected :: "'e cxone_env_scheme \<Rightarrow> CxOneService \<Rightarrow> ProjectRepoConfig \<Rightarrow> json \<Rightarrow> bool act" where
  "sca_selected E svc project_config branch =
     (if ''sca'' \<in> set (dict_keys (cs_default_engine_config svc)) then returnE True
      else bindE (get_engine_config_for_scan E svc project_config branch) (\<lambda>cfg.
        returnE (''sca'' \<in> set (dict_keys cfg))))"

definition execute_scan ::
  "'e cxone_env_scheme \<Rightarrow> CxOneService \<Rightarrow> string \<Rightarrow> ProjectRepoConfig \<Rightarrow> json \<Rightarrow> json dict \<Rightarrow> json act" where
  "execute_scan E svc zip_path project_config commit_branch scan_tags =
     bindE (get_engine_config_for_scan E svc project_config commit_branch) (\<lambda>engine_config.
     let tags = dict_union scan_tags (cs_default_scan_tags svc) in
     get_json_or_fail (ask (EvScanSubmit (pc_id project_config) commit_branch engine_config tags)
       (\<lambda>tr. cx_scan_invoke E tr project_config commit_branch engine_config tags zip_path)))"

definition load_scan_inspector :: "'e cxone_env_scheme \<Rightarrow> string \<Rightarrow> ScanInspector act" where
  "load_scan_inspector E scanid = ask (EvLoadScan scanid) (\<lambda>tr. cx_load_scan E tr scanid)"

definition load_project_config_by_id :: "'e cxone_env_scheme \<Rightarrow> string \<Rightarrow> ProjectRepoConfig act" where
  "load_project_config_by_id E project_id = look (\<lambda>tr. cx_project_from_id E tr project_id)"

text \<open>
  \<^verbatim>\<open>while await asyncio.sleep(delay, elapsed < timeout)\<close>: the condition is evaluated before the sleep. The
  number of rounds is fuel; \<open>retrieve_report_terminates\<close> shows that 21 rounds are enough for a
  clock that does not run backwards.
\<close>

definition report_poll_delay_seconds :: int where "report_poll_delay_seconds = 30"
definition report_generate_timeout_seconds :: int where "report_generate_timeout_seconds = 600"

fun poll_report :: "nat \<Rightarrow> 'e cxone_env_scheme \<Rightarrow> json \<Rightarrow> int \<Rightarrow> json act" where
  "poll_report 0 E reportid wait_start = raiseE OutOfFuel"
| "poll_report (Suc n) E reportid wait_start =
     bindE (look (\<lambda>tr. Inr (clock E tr))) (\<lambda>now.
     thenE (emit (EvSleep report_poll_delay_seconds))
     (if \<not> (now - wait_start < report_generate_timeout_seconds) then returnE JNull
      else
        bindE (get_json_or_fail (ask (EvReportStatus reportid) (\<lambda>tr. cx_report_status E tr reportid))) (\<lambda>gen_status.
        bindE (liftE (py_has_key gen_status ''status'')) (\<lambda>has.
        if \<not> has then raiseE CxOneException
        else
          bindE (liftE (py_getitem gen_status ''status'')) (\<lambda>status.
          if status = JStr ''completed''
          then get_json_or_fail (ask (EvDownloadReport reportid) (\<lambda>tr. cx_download_report E tr reportid))
          else poll_report n E reportid wait_start)))))"

definition retrieve_report :: "nat \<Rightarrow> 'e cxone_env_scheme \<Rightarrow> string \<Rightarrow> string \<Rightarrow> json act" where
  "retrieve_report fuel E projectid scanid =
     bindE (get_json_or_fail (ask (EvCreateReport projectid scanid) (\<lambda>tr. cx_create_report E tr projectid scanid))) (\<lambda>report_response.
     bindE (liftE (py_has_key report_response ''reportId'')) (\<lambda>has.
     if \<not> has then raiseE CxOneException
     else
       bindE (liftE (py_getitem report_response ''reportId'')) (\<lambda>reportid.
       bindE (look (\<lambda>tr. Inr (clock E tr))) (\<lambda>wait_start.
       poll_report fuel E reportid wait_start))))"

section \<open>Lemmas\<close>

lemma dict_union_Nil [simp]: "dict_union d [] = d"
  by (simp add: dict_union_def)

lemma emits_get_json_or_fail [emits_intros]: "emits ok m \<Longrightarrow> emits ok (get_json_or_fail m)"
  by (simp add: get_json_or_fail_def emits_intros)

lemma finishes_get_json_or_fail [finishes_intros]: "finishes m \<Longrightarrow> finishes (get_json_or_fail m)"
  by (simp add: get_json_or_fail_def finishes_intros)

subsection \<open>Pull-request tags of finished scans\<close>

text \<open>A scan as CheckmarxOne lists it: an object with an id and a dictionary of tags.\<close>

definition scan_tags_of :: "json \<Rightarrow> json dict" where
  "scan_tags_of scan = (case py_getitem scan ''tags'' of Inr (JObj t) \<Rightarrow> t | _ \<Rightarrow> [])"

definition scan_id_of :: "json \<Rightarrow> json" where
  "scan_id_of scan = (case py_getitem scan ''id'' of Inr v \<Rightarrow> v | _ \<Rightarrow> JNull)"

definition listed_scan :: "json \<Rightarrow> bool" where
  "listed_scan scan \<longleftrightarrow>
     py_getitem scan ''tags'' = Inr (JObj (scan_tags_of scan)) \<and> py_getitem scan ''id'' = Inr (scan_id_of scan)"

definition scan_of_pr :: "'e cxone_env_scheme \<Rightarrow> json \<Rightarrow> json \<Rightarrow> bool" where
  "scan_of_pr E pr_id scan \<longleftrightarrow>
     (\<exists>v. map_of (scan_tags_of scan) PR_ID_TAG = Some v \<and> JStr (py_str (py_repr E) v) = pr_id)"

definition retag :: "json \<Rightarrow> json \<Rightarrow> json \<Rightarrow> json \<Rightarrow> event" where
  "retag target state status scan =
     EvUpdateScanTags (scan_id_of scan)
       (dict_set (dict_set (dict_set (scan_tags_of scan) PR_TARGET_TAG target) PR_STATE_TAG state) PR_STATUS_TAG status)"

text \<open>The scans whose update CheckmarxOne accepts, asked one after the other from the history \<open>tr\<close>.\<close>

fun accepted_updates ::
  "'e cxone_env_scheme \<Rightarrow> (json \<Rightarrow> event) \<Rightarrow> trace \<Rightarrow> json list \<Rightarrow> json list" where
  "accepted_updates E upd tr [] = []"
| "accepted_updates E upd tr (scan # scans) =
     (case upd scan of
        EvUpdateScanTags sid tags \<Rightarrow>
          (case cx_update_scan_tags E tr sid tags of
             Inr r \<Rightarrow> (if rs_ok r then [sid] else []) @ accepted_updates E upd (tr @ [upd scan]) scans
           | Inl _ \<Rightarrow> accepted_updates E upd (tr @ [upd scan]) scans)
      | _ \<Rightarrow> [])"

lemma scan_has_pr_id_listed:
  assumes "listed_scan scan"
  shows "scan_has_pr_id E scan pr_id = Inr (scan_of_pr E pr_id scan)"
proof (cases "map_of (scan_tags_of scan) PR_ID_TAG")
  case None
  then have "PR_ID_TAG \<notin> fst ` set (scan_tags_of scan)"
    by (simp add: map_of_eq_None_iff)
  with None assms show ?thesis
    by (simp add: scan_has_pr_id_def listed_scan_def scan_of_pr_def)
next
  case (Some v)
  then have "PR_ID_TAG \<in> fst ` set (scan_tags_of scan)"
    by (auto dest!: map_of_SomeD intro: rev_image_eqI)
  with Some assms show ?thesis
    by (simp add: scan_has_pr_id_def listed_scan_def scan_of_pr_def)
qed

definition update_one_scan ::
  "'e cxone_env_scheme \<Rightarrow> json \<Rightarrow> json \<Rightarrow> json \<Rightarrow> json \<Rightarrow> json \<Rightarrow> json list act" where
  "update_one_scan E pr_id target state status scan =
     (if scan_of_pr E pr_id scan then
        (case retag target state status scan of
           EvUpdateScanTags sid tags \<Rightarrow>
             bindE (ask (EvUpdateScanTags sid tags) (\<lambda>tr. cx_update_scan_tags E tr sid tags)) (\<lambda>r.
             if rs_ok r then returnE [sid] else returnE [])
         | _ \<Rightarrow> returnE [])
      else returnE [])"

lemma mapE_cong: "(\<And>x. x \<in> set xs \<Longrightarrow> f x = g x) \<Longrightarrow> mapE xs f = mapE xs g"
  by (induction xs) simp_all

lemma update_scan_pr_tags_listed:
  assumes "cx_list_scans E (w_trace w) (scan_search_args (Some UPDATABLE_SCANS_STATUSES) project commit) = (scans, None)"
      and "list_all listed_scan scans"
  shows "update_scan_pr_tags E project pr_id commit target state status w =
     bindE (mapE scans (update_one_scan E pr_id target state status)) (\<lambda>found. returnE (concat found))
       (log_event (EvListScans (scan_search_args (Some UPDATABLE_SCANS_STATUSES) project commit)) w)"
proof -
  have "mapE scans (\<lambda>scan.
       bindE (liftE (scan_has_pr_id E scan pr_id)) (\<lambda>hit.
       if \<not> hit then returnE []
       else
         bindE (liftE (py_getitem scan ''tags'')) (\<lambda>tags.
         bindE (liftE (as_obj tags)) (\<lambda>tags.
         let updated = dict_set (dict_set (dict_set tags PR_TARGET_TAG target)
                         PR_STATE_TAG state) PR_STATUS_TAG status in
         bindE (liftE (py_getitem scan ''id'')) (\<lambda>sid.
         bindE (ask (EvUpdateScanTags sid updated) (\<lambda>tr. cx_update_scan_tags E tr sid updated)) (\<lambda>update_response.
         if rs_ok update_response then returnE [sid] else returnE []))))))
      = mapE scans (update_one_scan E pr_id target state status)"
    using assms(2)
    by (intro mapE_cong)
       (auto simp: list_all_iff scan_has_pr_id_listed update_one_scan_def retag_def listed_scan_def Let_def)
  then show ?thesis
    unfolding update_scan_pr_tags_def for_each_scan_def
    by (simp add: bindE_apply [of "ask _ _"] ask_apply assms(1))
qed

lemma update_scans_run:
  assumes "\<And>tr sid tags. \<exists>r. cx_update_scan_tags E tr sid tags = Inr r"
  shows "\<exists>found. mapE scans (update_one_scan E pr_id target state status) w =
           (Inr found, w\<lparr>w_trace := w_trace w @ map (retag target state status) (filter (scan_of_pr E pr_id) scans)\<rparr>)
         \<and> concat found = accepted_updates E (retag target state status) (w_trace w) (filter (scan_of_pr E pr_id) scans)"
proof (induction scans arbitrary: w)
  case Nil
  then show ?case by (simp add: py_simps)
next
  case (Cons scan scans)
  let ?u = "retag target state status"
  obtain sid tags where u: "?u scan = EvUpdateScanTags sid tags"
    by (simp add: retag_def)
  obtain r where r: "cx_update_scan_tags E (w_trace w) sid tags = Inr r"
    using assms by blast
  obtain f1 where f1: "mapE scans (update_one_scan E pr_id target state status) (log_event (?u scan) w) =
       (Inr f1, (log_event (?u scan) w)\<lparr>w_trace := w_trace (log_event (?u scan) w) @ map ?u (filter (scan_of_pr E pr_id) scans)\<rparr>)"
     "concat f1 = accepted_updates E ?u (w_trace w @ [?u scan]) (filter (scan_of_pr E pr_id) scans)"
    using Cons.IH [of "log_event (?u scan) w"] by auto
  obtain f2 where f2: "mapE scans (update_one_scan E pr_id target state status) w =
       (Inr f2, w\<lparr>w_trace := w_trace w @ map ?u (filter (scan_of_pr E pr_id) scans)\<rparr>)"
     "concat f2 = accepted_updates E ?u (w_trace w) (filter (scan_of_pr E pr_id) scans)"
    using Cons.IH [of w] by auto
  show ?case
  proof (cases "scan_of_pr E pr_id scan")
    case True
    have "mapE (scan # scans) (update_one_scan E pr_id target state status) w =
        (Inr ((if rs_ok r then [sid] else []) # f1),
         w\<lparr>w_trace := w_trace w @ map ?u (filter (scan_of_pr E pr_id) (scan # scans))\<rparr>)"
      using True f1(1) u r
      by (simp add: update_one_scan_def [of E pr_id target state status scan] py_simps)
    with True f1(2) u r show ?thesis by simp
  next
    case False
    with f2 show ?thesis by (simp add: update_one_scan_def [of E pr_id target state status scan] py_simps)
  qed
qed

text \<open>C23: updating the pull-request tags of a project's scans lists the project's finished scans of the
  commit and then sends one tag update for each listed scan of that pull request and for no other, in the
  listed order; an update carries the tags the scan already had with the target branch, the state and
  the status of the pull request replaced; the result is the list of the ids whose update was accepted.\<close>

theorem update_scan_pr_tags_spec:
  assumes listing: "cx_list_scans E (w_trace w) (scan_search_args (Some UPDATABLE_SCANS_STATUSES) project commit) = (scans, None)"
      and scans: "list_all listed_scan scans"
      and answers: "\<And>tr sid tags. \<exists>r. cx_update_scan_tags E tr sid tags = Inr r"
      and args: "args = scan_search_args (Some UPDATABLE_SCANS_STATUSES) project commit"
      and upds: "updates = map (retag target state status) (filter (scan_of_pr E pr_id) scans)"
  shows "update_scan_pr_tags E project pr_id commit target state status w =
           (Inr (accepted_updates E (retag target state status) (w_trace w @ [EvListScans args]) (filter (scan_of_pr E pr_id) scans)),
            w\<lparr>w_trace := w_trace w @ EvListScans args # updates\<rparr>)"
proof -
  obtain found where
    "mapE scans (update_one_scan E pr_id target state status) (log_event (EvListScans args) w) =
       (Inr found, (log_event (EvListScans args) w)\<lparr>w_trace := w_trace (log_event (EvListScans args) w) @ updates\<rparr>)"
    "concat found = accepted_updates E (retag target state status) (w_trace w @ [EvListScans args]) (filter (scan_of_pr E pr_id) scans)"
    using update_scans_run [OF answers, of scans pr_id target state status "log_event (EvListScans args) w"] upds by auto
  then show ?thesis
    using update_scan_pr_tags_listed [OF listing scans] args by (simp add: py_simps log_event_def)
qed

text \<open>An outside world that accepts every request, for the concrete runs below.\<close>

definition ok_response :: "json \<Rightarrow> http_response" where
  "ok_response v = \<lparr>rs_ok = True, rs_status = 200, rs_json = Inr v, rs_headers = []\<rparr>"

fun slept :: "event \<Rightarrow> int" where
  "slept (EvSleep d) = (if 0 \<le> d then d else 0)"
| "slept _ = 0"

definition quiet_env :: cxone_env where
  "quiet_env = \<lparr>net_http = (\<lambda>_ _. Inr (ok_response (JObj []))), net_auth = (\<lambda>_ _ _. Inr []),
     cx_retrieve_groups = (\<lambda>_ _. Inr []), re_match = (\<lambda>_ _. False),
     jp_find = (\<lambda>_ _. []), jp_ext_find = (\<lambda>_ _. []), py_repr = (\<lambda>_. []), py_set = (\<lambda>xs. remdups xs), app_version = ''1'',
     cx_list_projects = (\<lambda>_ _. Inr (ok_response (JObj [(''filteredTotalCount'', JInt 0)]))),
     cx_create_project = (\<lambda>_ _ _ _. Inr (ok_response (JObj [(''id'', JStr ''p'')]))),
     cx_update_project = (\<lambda>_ _ _. Inr (ok_response (JObj []))),
     cx_list_scans = (\<lambda>_ _. ([], None)), cx_update_scan_tags = (\<lambda>_ _ _. Inr (ok_response (JObj []))),
     cx_enabled_scanners = (\<lambda>_ _ _. Inr []), cx_filters_with_defaults = (\<lambda>_ _ d. Inr d),
     cx_scan_invoke = (\<lambda>_ _ _ _ _ _. Inr (ok_response (JObj [(''id'', JStr ''s'')]))),
     cx_load_scan = (\<lambda>_ s. Inr \<lparr>si_project_id = ''p'', si_scan_id = s, si_executing = True, si_successful = False,
                               si_failed = False, si_state_msg = ''Running''\<rparr>),
     cx_project_from_json = (\<lambda>_ _. Inr \<lparr>pc_id = ''p'', pc_name = ''p'', pc_tags = []\<rparr>),
     cx_project_from_id = (\<lambda>_ i. Inr \<lparr>pc_id = i, pc_name = ''p'', pc_tags = []\<rparr>),
     cx_create_report = (\<lambda>_ _ _. Inr (ok_response (JObj [(''reportId'', JStr ''r'')]))),
     cx_report_status = (\<lambda>_ _. Inr (ok_response (JObj [(''status'', JStr ''started'')]))),
     cx_download_report = (\<lambda>_ _. Inr (ok_response (JObj []))),
     clock = (\<lambda>tr. sum_list (map slept tr))\<rparr>"

definition demo_scan :: "string \<Rightarrow> int \<Rightarrow> json" where
  "demo_scan sid pr = JObj [(''id'', JStr sid), (''tags'', JObj [(''commit'', JStr ''c''), (''pr-id'', JInt pr)])]"

theorem update_scan_pr_tags_spec_witness:
  "fst (update_scan_pr_tags (quiet_env\<lparr>cx_list_scans := \<lambda>_ _. ([demo_scan ''s1'' 7, demo_scan ''s2'' 70], None)\<rparr>)
     ''p'' (JStr ''7'') (JStr ''c'') (JStr ''main'') (JStr ''open'') (JStr ''new'') world0) = Inr [JStr ''s1'']"
proof -
  let ?E = "quiet_env\<lparr>cx_list_scans := \<lambda>_ _. ([demo_scan ''s1'' 7, demo_scan ''s2'' 70], None)\<rparr>"
  have wf: "list_all listed_scan [demo_scan ''s1'' 7, demo_scan ''s2'' 70]"
    by (simp add: listed_scan_def demo_scan_def scan_tags_of_def scan_id_of_def)
  have hits: "filter (scan_of_pr ?E (JStr ''7'')) [demo_scan ''s1'' 7, demo_scan ''s2'' 70] = [demo_scan ''s1'' 7]"
    by (simp add: scan_of_pr_def scan_tags_of_def demo_scan_def PR_ID_TAG_def show_int_def show_nat.simps)
  have listing: "cx_list_scans ?E (w_trace world0) args = ([demo_scan ''s1'' 7, demo_scan ''s2'' 70], None)" for args
    by simp
  have answers: "\<exists>r. cx_update_scan_tags ?E tr sid tags = Inr r" for tr sid tags
    by (simp add: quiet_env_def)
  have "accepted_updates ?E (retag (JStr ''main'') (JStr ''open'') (JStr ''new'')) tr [demo_scan ''s1'' 7] = [JStr ''s1'']" for tr
    by (simp add: retag_def quiet_env_def ok_response_def scan_id_of_def demo_scan_def)
  with update_scan_pr_tags_spec [OF listing wf answers refl refl] hits show ?thesis by simp
qed

subsection \<open>Tags of an existing project\<close>

lemma map_of_filter_missing:
  "map_of (filter (\<lambda>(k, v). k \<notin> S) d) k = (if k \<in> S then None else map_of d k)"
  by (induction d) auto



lemma merged_project_tags:
  assumes "distinct (dict_keys tags)"
  shows "map_of (dict_union (missing_project_tags svc tags) tags) k =
    (case map_of tags k of
       Some v \<Rightarrow> Some v
     | None \<Rightarrow> if k = ''service'' then Some (JStr (cs_moniker svc)) else map_of (cs_default_project_tags svc) k)"
  unfolding map_of_dict_union [OF assms] missing_project_tags_def Let_def
  by (auto simp: map_add_def map_of_filter_missing dict_keys_def map_of_eq_None_iff split: option.splits)
     (auto dest!: map_of_SomeD intro: rev_image_eqI)?

text \<open>The tags a project update sends, as a function of the tags the project had.\<close>

definition merged_tags :: "CxOneService \<Rightarrow> json dict \<Rightarrow> string \<Rightarrow> json option" where
  "merged_tags svc old k =
     (case map_of old k of
        Some v \<Rightarrow> Some v
      | None \<Rightarrow> if k = ''service'' then Some (JStr (cs_moniker svc)) else map_of (cs_default_project_tags svc) k)"

definition keeps_project_tags :: "CxOneService \<Rightarrow> json \<Rightarrow> json dict \<Rightarrow> event \<Rightarrow> bool" where
  "keeps_project_tags svc pid old e =
     (case e of
        EvUpdateProject i body \<Rightarrow> i = pid \<and> (\<exists>t. map_of body ''tags'' = Some (JObj t) \<and> map_of t = merged_tags svc old)
      | EvCreateProject _ _ _ \<Rightarrow> False
      | _ \<Rightarrow> True)"

fun is_project_update :: "event \<Rightarrow> bool" where
  "is_project_update (EvUpdateProject _ _) = True"
| "is_project_update _ = False"

lemma resolve_group_memberships_emits [emits_intros]:
  "(\<And>p. ok (EvRetrieveGroups p)) \<Longrightarrow> emits ok (resolve_group_memberships E svc gs url)"
  unfolding resolve_group_memberships_def by (intro emits_intros)

lemma succeed_or_throw_emits [emits_intros]: "emits ok (succeed_or_throw r)"
  unfolding succeed_or_throw_def by (intro emits_intros)

lemma update_project_with_retry_emits:
  assumes "map_of body ''tags'' = Some (JObj t)" and "map_of t = merged_tags svc old"
  shows "emits (keeps_project_tags svc pid old) (update_project_with_retry E svc pid body gs url)"
  unfolding update_project_with_retry_def
  by (intro emits_intros) (simp_all add: keeps_project_tags_def assms)

lemma update_project_with_retry_limits:
  "limits is_project_update 2 (update_project_with_retry E svc pid body gs url)"
  unfolding update_project_with_retry_def thenE_def Let_def
  by (rule limits_bindE_le [where a = 1 and b = 1] limits_ask limits_if
        limits_bindE_le [where a = 0 and b = 1] limits_bindE_le [where a = 1 and b = 0]
        limits_emits_none emits_intros order.refl | simp)+

lemma merged_tags_cases:
  assumes "distinct (dict_keys old)" and "map_of pj ''tags'' = Some (JObj old)"
      and "body = (if length (missing_project_tags svc old) > 0
             then dict_set pj ''tags'' (JObj (dict_union (missing_project_tags svc old) old)) else pj)"
  obtains t where "map_of body ''tags'' = Some (JObj t)" and "map_of t = merged_tags svc old"
proof (cases "missing_project_tags svc old = []")
  case True
  then have "map_of (dict_union [] old) = merged_tags svc old"
    using merged_project_tags [OF assms(1), of svc] by (simp add: fun_eq_iff merged_tags_def)
  then have "map_of old = merged_tags svc old"
    using assms(1) by (simp add: map_of_dict_union)
  with True assms that show thesis by simp
next
  case False
  with assms merged_project_tags [OF assms(1), of svc] that show thesis
    by (simp add: fun_eq_iff merged_tags_def)
qed

lemma refresh_project_emits:
  assumes id: "map_of pj ''id'' = Some pid" and tags: "map_of pj ''tags'' = Some (JObj old)"
      and dist: "distinct (dict_keys old)"
  shows "emits (keeps_project_tags svc pid old) (refresh_project E svc (JObj pj) upd name url)"
proof -
  let ?new = "missing_project_tags svc old"
  let ?pj1 = "if length ?new > 0 then dict_set pj ''tags'' (JObj (dict_union ?new old)) else pj"
  obtain t where t: "map_of ?pj1 ''tags'' = Some (JObj t)" "map_of t = merged_tags svc old"
    using dist tags refl by (rule merged_tags_cases)
  have upd: "emits (keeps_project_tags svc pid old) (update_project_with_retry E svc pid body gs url)"
    if "map_of body ''tags'' = map_of ?pj1 ''tags''" for body gs
    using update_project_with_retry_emits t that by metis
  have "emits (keeps_project_tags svc pid old)
     (bindE (if cs_update_groups svc then
              bindE (resolve_group_memberships E svc og url) (\<lambda>new_list.
              bindE (liftE (as_list og)) (\<lambda>orig.
              if length (filter (\<lambda>x. x \<notin> set orig) new_list) > 0
              then returnE (dict_set pj2 ''groups'' (JList new_list), True)
              else returnE (pj2, b)))
            else returnE (pj2, b)) (\<lambda>(pj3, b3).
     if b3 then update_project_with_retry E svc pid pj3 og url else returnE pj3))"
    if "map_of pj2 ''tags'' = map_of ?pj1 ''tags''" for pj2 b og
    by (rule emits_bindE_post [where Q = "\<lambda>(pj3, b3). map_of pj3 ''tags'' = map_of ?pj1 ''tags''"];
        (intro emits_intros yields_intros)?; (rule upd)?; simp add: that keeps_project_tags_def)
  then show ?thesis
    unfolding refresh_project_def Let_def
    by (simp only: py_getitem.simps id tags option.case bindE_liftE_Inr as_obj.simps dict_of.simps)
       (rule emits_bindE [OF emits_liftE]; simp)
qed

lemma refresh_project_limits: "limits is_project_update 2 (refresh_project E svc pj upd name url)"
proof -
  have fin: "limits is_project_update 2 (case p of (pj3, b3) \<Rightarrow>
      if b3 then update_project_with_retry E svc pid pj3 og url else returnE pj3)" for p pid og
    by (cases p) (simp add: update_project_with_retry_limits limits_emits_none emits_intros)
  show ?thesis
    unfolding refresh_project_def Let_def
    by (rule limits_bindE_le [where a = 0 and b = 2], (rule limits_emits_none, (intro emits_intros; simp))[1])+
       (rule fin | simp)+
qed

text \<open>C13: when the project of a repository already exists, the service creates no project and sends at most
  two updates, all of them to that project; every update keeps each tag the project had with its
  value, adds the configured default tags that were missing and adds the service tag only when it was
  missing. (A service tag with another moniker is therefore kept, never replaced.)\<close>

theorem existing_project_tags_kept:
  assumes names: "names = str_join '','' [default_name, dynamic_name]"
      and listing: "cx_list_projects E (w_trace w) names = Inr r" "rs_ok r" "rs_json r = Inr listing"
      and count: "py_getitem listing ''filteredTotalCount'' = Inr (JInt n)" "n \<noteq> 0"
      and found: "hits = jp_ext_find E (project_query dynamic_name) listing"
                 "pop_match (if length hits > 0 then hits else jp_ext_find E (project_query default_name) listing) = Inr (JObj pj)"
      and pj: "map_of pj ''id'' = Some pid" "map_of pj ''tags'' = Some (JObj old)" "distinct (dict_keys old)"
      and events: "new = new_events (create_or_retrieve_project E svc default_name dynamic_name url) w"
  shows "list_all (keeps_project_tags svc pid old) new \<and> length (filter is_project_update new) \<le> 2"
proof -
  let ?upd = "\<not> length hits > 0 \<and> cs_rename_legacy svc"
  let ?w = "log_event (EvListProjects names) w"
  have run: "create_or_retrieve_project E svc default_name dynamic_name url w =
      refresh_project E svc (JObj pj) ?upd dynamic_name url ?w"
    using found(2) unfolding create_or_retrieve_project_def Let_def get_json_or_fail_def names [symmetric]
    by (cases "length hits > 0") (simp_all add: py_simps listing count found(1) [symmetric])
  then have new: "new = EvListProjects names # new_events (refresh_project E svc (JObj pj) ?upd dynamic_name url) ?w"
  proof -
    obtain tl where "w_trace (snd (refresh_project E svc (JObj pj) ?upd dynamic_name url ?w)) = w_trace ?w @ tl"
      using refresh_project_emits [OF pj] by (rule emitsD)
    then show ?thesis by (simp add: events new_events_def run)
  qed
  have "list_all (keeps_project_tags svc pid old) (new_events (refresh_project E svc (JObj pj) ?upd dynamic_name url) ?w)"
    using emits_new_events [OF refresh_project_emits [OF pj]] unfolding list_all_iff by blast
  moreover have "length (filter is_project_update (new_events (refresh_project E svc (JObj pj) ?upd dynamic_name url) ?w)) \<le> 2"
    by (rule limits_new_events [OF refresh_project_limits])
  ultimately show ?thesis
    by (simp add: new keeps_project_tags_def)
qed

definition demo_service :: CxOneService where
  "demo_service = make_CxOneService ''svc'' [] None (Some [(''team'', JStr ''a'')]) False False []"

definition demo_project :: "json dict" where
  "demo_project = [(''id'', JStr ''p''), (''tags'', JObj [(''service'', JStr ''old'')]), (''groups'', JNull)]"

definition listing_env :: cxone_env where
  "listing_env = quiet_env\<lparr>cx_list_projects := \<lambda>_ _. Inr (ok_response (JObj [(''filteredTotalCount'', JInt 1)])),
     jp_ext_find := \<lambda>_ _. [JObj demo_project]\<rparr>"

theorem existing_project_tags_kept_witness:
  "list_all (keeps_project_tags demo_service (JStr ''p'') [(''service'', JStr ''old'')])
     (new_events (create_or_retrieve_project listing_env demo_service ''a'' ''b'' ''url'') world0)
   \<and> length (filter is_project_update (new_events (create_or_retrieve_project listing_env demo_service ''a'' ''b'' ''url'') world0)) \<le> 2"
  by (rule existing_project_tags_kept [of "''a,b''" "''a''" "''b''" listing_env world0
        "ok_response (JObj [(''filteredTotalCount'', JInt 1)])" "JObj [(''filteredTotalCount'', JInt 1)]" 1 "[JObj demo_project]" demo_project])
     (simp_all add: listing_env_def ok_response_def demo_project_def dict_keys_def)

subsection \<open>Reports\<close>

text \<open>A clock that never runs backwards and that a sleep advances by at least its duration.\<close>

definition steady_clock :: "(trace \<Rightarrow> int) \<Rightarrow> bool" where
  "steady_clock c \<longleftrightarrow> (\<forall>tr ev. c tr \<le> c (tr @ [ev])) \<and> (\<forall>tr d. c tr + d \<le> c (tr @ [EvSleep d]))"

fun is_report_poll :: "event \<Rightarrow> bool" where
  "is_report_poll (EvReportStatus _) = True"
| "is_report_poll _ = False"

lemma poll_report_bound:
  assumes "steady_clock (clock E)" and "clock E (w_trace w) - start \<ge> 600 - 30 * int n"
  shows "fst (poll_report (Suc n) E rid start w) \<noteq> Inl OutOfFuel \<and>
    (\<exists>new. w_trace (snd (poll_report (Suc n) E rid start w)) = w_trace w @ new \<and> length (filter is_report_poll new) \<le> n)"
  using assms(2)
proof (induction n arbitrary: w)
  case 0
  then show ?case by (simp add: py_simps report_generate_timeout_seconds_def)
next
  case (Suc n)
  let ?w = "log_event (EvSleep 30) w"
  let ?w' = "log_event (EvReportStatus rid) ?w"
  have "clock E (w_trace ?w') \<ge> clock E (w_trace w) + 30"
    using assms(1) unfolding steady_clock_def by (metis w_trace_log_event order.trans)
  then have IH: "fst (poll_report (Suc n) E rid start ?w') \<noteq> Inl OutOfFuel"
    "\<exists>new. w_trace (snd (poll_report (Suc n) E rid start ?w')) = w_trace ?w' @ new \<and> length (filter is_report_poll new) \<le> n"
    using Suc.IH [of ?w'] Suc.prems by (simp_all del: poll_report.simps)
  then obtain new where new: "w_trace (snd (poll_report (Suc n) E rid start ?w')) = w_trace w @ [EvSleep 30, EvReportStatus rid] @ new"
    "length (filter is_report_poll new) \<le> n" by (auto simp del: poll_report.simps)
  show ?case
    using IH(1) new
    by (subst (1 2) poll_report.simps)
       (auto simp: py_simps get_json_or_fail_def report_poll_delay_seconds_def simp del: poll_report.simps
         split: sum.splits)
qed

lemma poll_report_start:
  assumes "steady_clock (clock E)"
  shows "fst (poll_report 21 E rid (clock E (w_trace w)) w) \<noteq> Inl OutOfFuel \<and>
    (\<exists>new. w_trace (snd (poll_report 21 E rid (clock E (w_trace w)) w)) = w_trace w @ new \<and> length (filter is_report_poll new) \<le> 20)"
proof -
  have "(21 :: nat) = Suc 20" by simp
  then show ?thesis using poll_report_bound [OF assms, where w = w and start = "clock E (w_trace w)" and n = 20 and rid = rid] by (simp del: poll_report.simps)
qed

lemma retrieve_report_bound:
  assumes "steady_clock (clock E)"
  shows "fst (retrieve_report 21 E project scan w) \<noteq> Inl OutOfFuel \<and>
    length (filter is_report_poll (new_events (retrieve_report 21 E project scan) w)) \<le> 20"
proof -
  let ?w = "log_event (EvCreateReport project scan) w"
  have "fst (poll_report 21 E rid (clock E (w_trace ?w)) ?w) \<noteq> Inl OutOfFuel" for rid
    using poll_report_start [OF assms, of rid ?w] by blast
  moreover have "length (filter is_report_poll (drop (length (w_trace w)) (w_trace (snd (poll_report 21 E rid (clock E (w_trace ?w)) ?w))))) \<le> 20" for rid
    using poll_report_start [OF assms, of rid ?w] by auto
  ultimately show ?thesis
    unfolding retrieve_report_def new_events_def get_json_or_fail_def
    by (auto simp: py_simps split: sum.splits)
qed

lemma retrieve_report_finishes: "steady_clock (clock E) \<Longrightarrow> finishes (retrieve_report 21 E project scan)"
  unfolding finishes_def using retrieve_report_bound by blast

lemma poll_report_emits:
  "ok (EvSleep report_poll_delay_seconds) \<Longrightarrow> ok (EvReportStatus rid) \<Longrightarrow> ok (EvDownloadReport rid) \<Longrightarrow> emits ok (poll_report n E rid start)"
  by (induction n) (auto intro!: emits_intros)

lemma retrieve_report_emits [emits_intros]:
  "ok (EvSleep report_poll_delay_seconds) \<Longrightarrow> (\<And>r. ok (EvReportStatus r)) \<Longrightarrow> (\<And>r. ok (EvDownloadReport r)) \<Longrightarrow>
   ok (EvCreateReport project scan) \<Longrightarrow> emits ok (retrieve_report n E project scan)"
  unfolding retrieve_report_def by (auto intro!: emits_intros poll_report_emits)

text \<open>C24: fetching a scan report ends. With a steady clock, 21 rounds of the polling loop are always enough,
  whatever CheckmarxOne answers, and the report status is asked for at most 20 times.\<close>

theorem retrieve_report_terminates:
  assumes "steady_clock (clock E)"
  shows "fst (retrieve_report 21 E project scan w) \<noteq> Inl OutOfFuel \<and>
    length (filter is_report_poll (new_events (retrieve_report 21 E project scan) w)) \<le> 20"
  by (rule retrieve_report_bound [OF assms])

lemma slept_nonneg [simp]: "0 \<le> slept e"
  by (cases e) auto

lemma steady_clock_quiet: "steady_clock (clock quiet_env)"
  by (simp add: steady_clock_def quiet_env_def)

theorem retrieve_report_terminates_witness:
  "fst (retrieve_report 21 quiet_env ''p'' ''s'' world0) \<noteq> Inl OutOfFuel \<and>
   length (filter is_report_poll (new_events (retrieve_report 21 quiet_env ''p'' ''s'') world0)) \<le> 20"
  using retrieve_report_terminates [OF steady_clock_quiet] .

subsection \<open>Submitting a scan\<close>

fun is_scan_submit :: "event \<Rightarrow> bool" where
  "is_scan_submit (EvScanSubmit _ _ _ _) = True"
| "is_scan_submit _ = False"

definition submits_as :: "CxOneService \<Rightarrow> ProjectRepoConfig \<Rightarrow> json \<Rightarrow> json dict \<Rightarrow> event \<Rightarrow> bool" where
  "submits_as svc pc branch scan_tags e =
     (case e of
        EvScanSubmit pid b engines tags \<Rightarrow>
          pid = pc_id pc \<and> b = branch \<and> engines \<noteq> [] \<and> map_of tags = map_of scan_tags ++ map_of (cs_default_scan_tags svc)
      | EvEnabledScanners pid b \<Rightarrow> pid = pc_id pc \<and> b = branch
      | EvScanFilters pid \<Rightarrow> pid = pc_id pc
      | _ \<Rightarrow> False)"

lemma engine_config_nonempty: "yields (\<lambda>cfg. cfg \<noteq> []) (get_engine_config_for_scan E svc pc branch)"
  unfolding get_engine_config_for_scan_def Let_def
  by (intro yields_intros) (simp add: minimum_engine_selection_def)

lemma get_engine_config_emits [emits_intros]:
  "ok (EvEnabledScanners (pc_id pc) branch) \<Longrightarrow> ok (EvScanFilters (pc_id pc)) \<Longrightarrow>
   emits ok (get_engine_config_for_scan E svc pc branch)"
  unfolding get_engine_config_for_scan_def by (intro emits_intros)

lemma execute_scan_emits [emits_intros]:
  assumes "distinct (dict_keys (cs_default_scan_tags svc))"
      and "\<And>e. submits_as svc pc branch tags e \<Longrightarrow> ok e"
  shows "emits ok (execute_scan E svc zp pc branch tags)"
  unfolding execute_scan_def Let_def
  by (rule emits_bindE_post [OF _ engine_config_nonempty])
     (auto intro!: emits_intros assms(2) simp: submits_as_def map_of_dict_union [OF assms(1)])

lemma execute_scan_limits: "limits is_scan_submit 1 (execute_scan E svc zp pc branch tags)"
proof -
  have json: "limits is_scan_submit 1 (get_json_or_fail (ask ev f))" for ev :: event and f
    unfolding get_json_or_fail_def
    by (rule limits_bindE_le [where a = 1 and b = 0, OF limits_ask limits_emits_none]) (auto intro!: emits_intros)
  show ?thesis
    unfolding execute_scan_def Let_def
    by (rule limits_bindE_le [where a = 0 and b = 1, OF limits_emits_none json]) (auto intro!: emits_intros)
qed

text \<open>C14: submitting a scan makes at most one submission, for the given project and branch, with a selection of
  engines that is never empty; the submission carries the tags of the caller and the configured default
  scan tags, and on a clash the configured tag is the one sent.\<close>

theorem execute_scan_request:
  assumes "distinct (dict_keys (cs_default_scan_tags svc))"
  shows "list_all (submits_as svc pc branch tags) (new_events (execute_scan E svc zp pc branch tags) w) \<and>
    length (filter is_scan_submit (new_events (execute_scan E svc zp pc branch tags) w)) \<le> 1"
proof -
  have "list_all (submits_as svc pc branch tags) (new_events (execute_scan E svc zp pc branch tags) w)"
    using emits_new_events [OF execute_scan_emits [OF assms]] unfolding list_all_iff by blast
  then show ?thesis using limits_new_events [OF execute_scan_limits] by blast
qed

theorem execute_scan_request_witness:
  "list_all (submits_as demo_service \<lparr>pc_id = ''p'', pc_name = ''n'', pc_tags = []\<rparr> (JStr ''main'') [])
     (new_events (execute_scan quiet_env demo_service ''zip'' \<lparr>pc_id = ''p'', pc_name = ''n'', pc_tags = []\<rparr> (JStr ''main'') []) world0)"
proof -
  have "distinct (dict_keys (cs_default_scan_tags demo_service))"
    by (simp add: demo_service_def make_CxOneService_def dict_keys_def)
  from execute_scan_request [OF this] show ?thesis by blast
qed

end
