(* ===== verification/Workflows.thy ===== *)
theory Workflows
  imports Cloner
begin

text \<open>
  The feedback workflows: publishing (\<^verbatim>\<open>src/workflows/base_workflow.py\<close>), the push and pull-request
  workflows (\<^verbatim>\<open>push.py\<close>, \<^verbatim>\<open>pull_request.py\<close>), the polling of running scans
  (\<^verbatim>\<open>scan_polling_service.py\<close>), and the services that consume the feedback queues
  (\<^verbatim>\<open>pr_feedback_service.py\<close>, \<^verbatim>\<open>push_feedback_service.py\<close>). The broker is a parameter (\<open>mq_env\<close>).
\<close>

section \<open>The broker\<close>

record mq_env = git_env +
  mq_connect :: "trace \<Rightarrow> unit result"
  mq_channel :: "trace \<Rightarrow> unit result"
  mq_close :: "trace \<Rightarrow> unit result"
  mq_exchange :: "trace \<Rightarrow> string \<Rightarrow> bool result"
  mq_publish :: "trace \<Rightarrow> string \<Rightarrow> string \<Rightarrow> mq_body \<Rightarrow> bool result" \<comment> \<open>true for \<^verbatim>\<open>Basic.Ack\<close>\<close>
  mq_settle :: "trace \<Rightarrow> unit result"
  msg_timestamp :: "trace \<Rightarrow> string"
  process_uuid :: string \<comment> \<open>the default of \<^verbatim>\<open>StampedMessage.factory\<close>, evaluated once\<close>
  gzip_compress :: "string \<Rightarrow> string"
  hmac :: hmac_fun
  hash_algorithms :: "string list"
  json_loads :: "string \<Rightarrow> json result"
  decode_bytes :: "json \<Rightarrow> string result" \<comment> \<open>what \<^verbatim>\<open>dataclasses_json\<close> makes of the JSON value of a \<^verbatim>\<open>bytes\<close> field\<close>

record 'b incoming =
  im_body :: "'b result"
  im_headers :: json
  im_routing_key :: string

definition mq_client :: "'e mq_env_scheme \<Rightarrow> unit act" where
  "mq_client E = look (mq_connect E)"

definition msg_ack :: "'e mq_env_scheme \<Rightarrow> unit act" where
  "msg_ack E = ask EvAck (mq_settle E)"

text \<open>\<^verbatim>\<open>msg.nack()\<close> requeues unless it is told not to.\<close>

definition msg_nack :: "'e mq_env_scheme \<Rightarrow> bool \<Rightarrow> unit act" where
  "msg_nack E requeue = ask (EvNack requeue) (mq_settle E)"

definition safe_deserialize_body :: "'e mq_env_scheme \<Rightarrow> 'b incoming \<Rightarrow> 'b act" where
  "safe_deserialize_body E msg =
     catchE (liftE (answer (im_body msg))) (\<lambda>e. thenE (msg_nack E False) (raiseE e))"

text \<open>
  \<^verbatim>\<open>AbstractAsyncWorkflow._publish\<close>. When no channel can be opened its \<^verbatim>\<open>finally\<close> clause reads a variable
  that was never bound.
\<close>

definition publish ::
  "'e mq_env_scheme \<Rightarrow> string \<Rightarrow> mq_body \<Rightarrow> int option \<Rightarrow> int option \<Rightarrow> string \<Rightarrow> bool act" where
  "publish E topic body expiration_ms retry_header exchange =
     bindE (catchE (look (mq_channel E)) (\<lambda>_. raiseE (LibError True ''UnboundLocalError''))) (\<lambda>_.
     finallyE
       (bindE (look (\<lambda>tr. mq_exchange E tr exchange)) (\<lambda>found.
        if found then ask (EvPublish exchange topic body expiration_ms retry_header) (\<lambda>tr. mq_publish E tr exchange topic body)
        else returnE False))
       (look (mq_close E)))"

text \<open>
  \<^verbatim>\<open>asyncio.gather\<close>: every coroutine runs; the first exception, if any, is raised. The value of a
  run coroutine as data: \<open>attemptE\<close>.
\<close>

definition attemptE :: "'a act \<Rightarrow> 'a result act" where
  "attemptE m = catchE (bindE m (\<lambda>x. returnE (Inr x))) (\<lambda>e. returnE (Inl e))"

fun first_error :: "unit result list \<Rightarrow> unit result" where
  "first_error [] = Inr ()"
| "first_error (Inl e # rs) = Inl e"
| "first_error (Inr _ # rs) = first_error rs"

definition gatherE :: "unit act list \<Rightarrow> unit act" where
  "gatherE ms = bindE (mapE ms attemptE) (\<lambda>rs. liftE (first_error rs))"

section \<open>The workflows\<close>

record PushWorkflow =
  pw_enabled :: bool
  pw_interval :: int \<comment> \<open>seconds\<close>
  pw_scan_timeout :: int \<comment> \<open>hours\<close>

record PullRequestWorkflow = PushWorkflow +
  prw_excluded_severities :: "ResultSeverity list"
  prw_excluded_states :: "ResultStates list"

definition feedback_message ::
  "'e mq_env_scheme \<Rightarrow> trace \<Rightarrow> ScanWorkflow \<Rightarrow> string \<Rightarrow> string \<Rightarrow> string \<Rightarrow> bool \<Rightarrow> string option \<Rightarrow> json dict \<Rightarrow> mq_body" where
  "feedback_message E tr workflow moniker projectid scanid is_error err_msg details =
     FeedbackBody \<lparr>sm_timestamp = msg_timestamp E tr, sm_correlation_id = process_uuid E, sh_moniker = moniker,
       sh_state = StFEEDBACK, sh_workflow = workflow, scm_scanid = scanid, scm_projectid = projectid,
       scm_workflow_details = details, sfm_is_error = is_error, sfm_error_msg = err_msg\<rparr>"

definition await_message ::
  "'e mq_env_scheme \<Rightarrow> trace \<Rightarrow> ScanWorkflow \<Rightarrow> int \<Rightarrow> string \<Rightarrow> string \<Rightarrow> string \<Rightarrow> json dict \<Rightarrow> mq_body" where
  "await_message E tr workflow scan_timeout moniker projectid scanid details =
     AwaitBody \<lparr>sm_timestamp = msg_timestamp E tr, sm_correlation_id = process_uuid E, sh_moniker = moniker,
       sh_state = StAWAIT, sh_workflow = workflow, scm_scanid = scanid, scm_projectid = projectid,
       scm_workflow_details = details,
       sam_drop_by = DropAt (compute_drop_by_timestamp (clock E tr) (scan_timeout * 3600))\<rparr>"

definition annotation_message ::
  "'e mq_env_scheme \<Rightarrow> trace \<Rightarrow> string \<Rightarrow> string \<Rightarrow> string \<Rightarrow> string \<Rightarrow> json dict \<Rightarrow> mq_body" where
  "annotation_message E tr moniker projectid scanid annotation details =
     AnnotationBody \<lparr>sm_timestamp = msg_timestamp E tr, sm_correlation_id = process_uuid E, sh_moniker = moniker,
       sh_state = StANNOTATE, sh_workflow = WfPR, scm_scanid = scanid, scm_projectid = projectid,
       scm_workflow_details = details, san_annotation = annotation\<rparr>"

definition Push_publish_feedback_msg :: "'e mq_env_scheme \<Rightarrow> string \<Rightarrow> (trace \<Rightarrow> mq_body) \<Rightarrow> unit act" where
  "Push_publish_feedback_msg E moniker mk =
     bindE (look (\<lambda>tr. Inr (mk tr))) (\<lambda>body.
     thenE (publish E (Push_make_topic StFEEDBACK (FeedbackWorkflow_str FbPUSH_GEN) moniker) body None None EXCHANGE_SCAN_INPUT)
     (returnE ()))"

text \<open>The default of the factory's \<^verbatim>\<open>err_msg\<close> is \<^verbatim>\<open>None\<close>.\<close>

definition Push_feedback_start :: "'e mq_env_scheme \<Rightarrow> string \<Rightarrow> string \<Rightarrow> string \<Rightarrow> json dict \<Rightarrow> unit act" where
  "Push_feedback_start E moniker projectid scanid details =
     Push_publish_feedback_msg E moniker (\<lambda>tr. feedback_message E tr WfPUSH moniker projectid scanid False None details)"

definition Push_feedback_error :: "'e mq_env_scheme \<Rightarrow> string \<Rightarrow> string \<Rightarrow> string \<Rightarrow> string \<Rightarrow> json dict \<Rightarrow> unit act" where
  "Push_feedback_error E moniker projectid scanid error_msg details =
     Push_publish_feedback_msg E moniker (\<lambda>tr. feedback_message E tr WfPUSH moniker projectid scanid True (Some error_msg) details)"

definition Push_workflow_start ::
  "'e mq_env_scheme \<Rightarrow> 'p PushWorkflow_scheme \<Rightarrow> string \<Rightarrow> string \<Rightarrow> string \<Rightarrow> json dict \<Rightarrow> unit act" where
  "Push_workflow_start E flow moniker projectid scanid details =
     bindE (look (\<lambda>tr. Inr (await_message E tr WfPUSH (pw_scan_timeout flow) moniker projectid scanid details))) (\<lambda>body.
     thenE (publish E (Push_make_topic StAWAIT (FeedbackWorkflow_str FbPUSH_GEN) moniker) body
              (Some (pw_interval flow * 1000)) None EXCHANGE_SCAN_INPUT)
     (returnE ()))"

definition PR_workflow_start ::
  "'e mq_env_scheme \<Rightarrow> 'p PushWorkflow_scheme \<Rightarrow> string \<Rightarrow> string \<Rightarrow> string \<Rightarrow> json dict \<Rightarrow> unit act" where
  "PR_workflow_start E flow moniker projectid scanid details =
     bindE (look (\<lambda>tr. Inr (await_message E tr WfPR (pw_scan_timeout flow) moniker projectid scanid details))) (\<lambda>body.
     thenE (publish E (PR_make_topic StAWAIT (ScanWorkflow_str WfPR) moniker) body
              (Some (pw_interval flow * 1000)) None EXCHANGE_SCAN_INPUT)
     (returnE ()))"

definition PR_feedback_start :: "'e mq_env_scheme \<Rightarrow> string \<Rightarrow> string \<Rightarrow> string \<Rightarrow> json dict \<Rightarrow> unit act" where
  "PR_feedback_start E moniker projectid scanid details =
     bindE (look (\<lambda>tr. Inr (feedback_message E tr WfPR moniker projectid scanid False (Some ''NA'') details))) (\<lambda>body.
     thenE (publish E (PR_make_topic StFEEDBACK (ScanWorkflow_str WfPR) moniker) body None None EXCHANGE_SCAN_INPUT)
     (returnE ()))"

definition PR_annotation_start :: "'e mq_env_scheme \<Rightarrow> string \<Rightarrow> string \<Rightarrow> string \<Rightarrow> string \<Rightarrow> json dict \<Rightarrow> unit act" where
  "PR_annotation_start E moniker projectid scanid annotation details =
     bindE (look (\<lambda>tr. Inr (annotation_message E tr moniker projectid scanid annotation details))) (\<lambda>body.
     thenE (publish E (PR_make_topic StANNOTATE (ScanWorkflow_str WfPR) moniker) body None None EXCHANGE_SCAN_INPUT)
     (returnE ()))"

definition PR_feedback_error :: "'e mq_env_scheme \<Rightarrow> string \<Rightarrow> string \<Rightarrow> string \<Rightarrow> string \<Rightarrow> json dict \<Rightarrow> unit act" where
  "PR_feedback_error E moniker projectid scanid error_msg details =
     PR_annotation_start E moniker projectid scanid error_msg details"

section \<open>The services that start and finish feedback\<close>

record PRFeedbackService =
  pfs_moniker :: string
  pfs_server_base_url :: string
  pfs_workflow :: PullRequestWorkflow

datatype delivery_agent =
    AmqpDeliveryAgent string string string "string option" "string option" \<comment> \<open>moniker, secret, exchange, topic prefix, suffix\<close>
  | HttpDeliveryAgent string string int int \<comment> \<open>secret, url, retries, delay\<close>

record PushFeedbackService =
  ufs_moniker :: string
  ufs_agents :: "delivery_agent list"
  ufs_workflow :: PushWorkflow

datatype feedback_service = PRService PRFeedbackService | PushService PushFeedbackService

definition start_pr_scan_workflow :: "'e mq_env_scheme \<Rightarrow> PRFeedbackService \<Rightarrow> string \<Rightarrow> string \<Rightarrow> PRDetails \<Rightarrow> unit act" where
  "start_pr_scan_workflow E svc projectid scanid details =
     thenE (mq_client E) (
     thenE (PR_workflow_start E (pfs_workflow svc) (pfs_moniker svc) projectid scanid (PRDetails_as_dict details)) (
     thenE (mq_client E)
     (PR_annotation_start E (pfs_moniker svc) projectid scanid ''Scan Started'' (PRDetails_as_dict details))))"

definition start_sarif_feedback :: "'e mq_env_scheme \<Rightarrow> PushFeedbackService \<Rightarrow> string \<Rightarrow> string \<Rightarrow> PushDetails \<Rightarrow> unit act" where
  "start_sarif_feedback E svc projectid scanid details =
     thenE (mq_client E)
     (Push_workflow_start E (ufs_workflow svc) (ufs_moniker svc) projectid scanid (PushDetails_as_dict details))"

text \<open>The services answer the poller only for messages of their own workflow.\<close>

fun handle_completed_scan :: "'e mq_env_scheme \<Rightarrow> feedback_service \<Rightarrow> ScanAwaitMessage \<Rightarrow> unit act" where
  "handle_completed_scan E (PRService svc) msg =
     (if sh_workflow msg = WfPR then
        thenE (mq_client E) (PR_feedback_start E (sh_moniker msg) (scm_projectid msg) (scm_scanid msg) (scm_workflow_details msg))
      else returnE ())"
| "handle_completed_scan E (PushService svc) msg =
     (if sh_workflow msg = WfPUSH then
        thenE (mq_client E) (Push_feedback_start E (sh_moniker msg) (scm_projectid msg) (scm_scanid msg) (scm_workflow_details msg))
      else returnE ())"

fun handle_awaited_scan_error :: "'e mq_env_scheme \<Rightarrow> feedback_service \<Rightarrow> ScanAwaitMessage \<Rightarrow> string \<Rightarrow> unit act" where
  "handle_awaited_scan_error E (PRService svc) msg error_msg =
     (if sh_workflow msg = WfPR then
        thenE (mq_client E) (PR_feedback_error E (sh_moniker msg) (scm_projectid msg) (scm_scanid msg) error_msg (scm_workflow_details msg))
      else returnE ())"
| "handle_awaited_scan_error E (PushService svc) msg error_msg =
     (if sh_workflow msg = WfPUSH then
        thenE (mq_client E) (Push_feedback_error E (sh_moniker msg) (scm_projectid msg) (scm_scanid msg) error_msg (scm_workflow_details msg))
      else returnE ())"

section \<open>Polling\<close>

record ScanPollingService =
  sps_services :: "feedback_service list"
  sps_max_interval :: int \<comment> \<open>seconds\<close>
  sps_backoff :: int

text \<open>\<^verbatim>\<open>int(msg.headers['x-death'][0]['original-expiration'])\<close>\<close>

definition original_expiration :: "json \<Rightarrow> int result" where
  "original_expiration headers =
     (case py_getitem headers ''x-death'' of
        Inl e \<Rightarrow> Inl e
      | Inr deaths \<Rightarrow> (case as_list deaths of
            Inl e \<Rightarrow> Inl e
          | Inr ds \<Rightarrow> (case first_match ds of
                Inl e \<Rightarrow> Inl e
              | Inr d \<Rightarrow> (case py_getitem d ''original-expiration'' of
                    Inl e \<Rightarrow> Inl e
                  | Inr v \<Rightarrow> py_int v))))"

definition poll_backoff_ms :: "ScanPollingService \<Rightarrow> int \<Rightarrow> int" where
  "poll_backoff_ms svc orig_exp = min (orig_exp * sps_backoff svc) (sps_max_interval svc * 1000)"

text \<open>The \<^verbatim>\<open>finally\<close> clause: put the message back with a longer delay, when there is a channel to do it.\<close>

definition requeue_poll ::
  "'e mq_env_scheme \<Rightarrow> ScanPollingService \<Rightarrow> ScanAwaitMessage incoming \<Rightarrow> ScanAwaitMessage \<Rightarrow> bool \<Rightarrow> unit act" where
  "requeue_poll E svc msg swm has_channel =
     bindE (if has_channel then look (\<lambda>tr. mq_exchange E tr EXCHANGE_SCAN_INPUT) else returnE False) (\<lambda>exchange.
     if exchange then
       bindE (liftE (answer (original_expiration (im_headers msg)))) (\<lambda>orig_exp.
       bindE (ask (EvPublish EXCHANGE_SCAN_INPUT (im_routing_key msg) (AwaitBody swm) (Some (poll_backoff_ms svc orig_exp)) None)
                (\<lambda>tr. mq_publish E tr EXCHANGE_SCAN_INPUT (im_routing_key msg) (AwaitBody swm))) (\<lambda>acked.
       if acked then msg_ack E else msg_nack E True))
     else returnE ())"

text \<open>
  The outcome of the polling body and whether the message still has to be requeued: a scan that has
  ended is answered by the feedback services, whose exceptions are logged and dropped.
\<close>

definition poll_body ::
  "'e mq_env_scheme \<Rightarrow> ScanPollingService \<Rightarrow> ScanAwaitMessage \<Rightarrow> unit result \<Rightarrow> (unit result \<times> bool) act" where
  "poll_body E svc swm channel =
     bindE (attemptE (thenE (liftE channel) (load_scan_inspector E (scm_scanid swm)))) (\<lambda>loaded.
     case loaded of
       Inl e \<Rightarrow> returnE (Inl e, True)
     | Inr inspector \<Rightarrow>
         if \<not> si_executing inspector then
           bindE (attemptE (finallyE
             (catchE
               (gatherE (map (\<lambda>s. if si_successful inspector then handle_completed_scan E s swm
                                  else handle_awaited_scan_error E s swm (si_state_msg inspector)) (sps_services svc)))
               (\<lambda>_. returnE ()))
             (msg_ack E))) (\<lambda>r. returnE (r, False))
         else returnE (Inr (), True))"

definition poll_except ::
  "'e mq_env_scheme \<Rightarrow> unit result \<times> bool \<Rightarrow> (unit result \<times> bool) act" where
  "poll_except E p =
     (if fst p = Inl ResponseException then bindE (attemptE (msg_ack E)) (\<lambda>r. returnE (r, False)) else returnE p)"

definition execute_poll_scan_workflow ::
  "'e mq_env_scheme \<Rightarrow> ScanPollingService \<Rightarrow> ScanAwaitMessage incoming \<Rightarrow> unit act" where
  "execute_poll_scan_workflow E svc msg =
     bindE (safe_deserialize_body E msg) (\<lambda>swm.
     bindE (look (\<lambda>tr. is_expired (clock E tr) (sam_drop_by swm))) (\<lambda>expired.
     if expired then msg_ack E
     else
       bindE (attemptE (thenE (mq_client E) (look (mq_channel E)))) (\<lambda>channel.
       bindE (poll_body E svc swm channel) (\<lambda>p.
       bindE (poll_except E p) (\<lambda>(outcome, requeue).
       thenE (if requeue then requeue_poll E svc msg swm (channel = Inr ()) else returnE ()) (
       thenE (if channel = Inr () then look (mq_close E) else returnE ())
       (liftE outcome)))))))"

section \<open>Consuming the feedback queues\<close>

text \<open>
  The details of a message, decoded by \<^verbatim>\<open>dataclasses_json\<close> from the dictionary the publisher made of them, field by
  field in the order of the classes: a missing field is a \<^verbatim>\<open>KeyError\<close>, \<^verbatim>\<open>None\<close> is kept, and another value of a text
  field becomes its text. The event context is a class of its own: its value has to be a dictionary with the
  raw payload, whose JSON is parsed once more. A header that is not text is kept as its text.
\<close>

record feedback_details =
  fd_fields :: "json dict"
  fd_event_context :: "EventContext option"

definition decode_text :: "'e mq_env_scheme \<Rightarrow> json \<Rightarrow> json" where
  "decode_text E v = (if v = JNull then JNull else JStr (py_str (py_repr E) v))"

fun decode_headers :: "'e mq_env_scheme \<Rightarrow> json option \<Rightarrow> string dict result" where
  "decode_headers E None = Inr []"
| "decode_headers E (Some JNull) = Inr []"
| "decode_headers E (Some (JObj d)) = Inr (map (\<lambda>(k, v). (k, py_str (py_repr E) v)) d)"
| "decode_headers E (Some _) = Inl AttributeError"

fun decode_raw_payload :: "'e mq_env_scheme \<Rightarrow> json option \<Rightarrow> string option result" where
  "decode_raw_payload E None = Inl KeyError"
| "decode_raw_payload E (Some JNull) = Inr None"
| "decode_raw_payload E (Some v) = bindR (decode_bytes E v) (\<lambda>raw. Inr (Some raw))"

text \<open>\<^verbatim>\<open>EventContext.__post_init__\<close> parses the payload; \<^verbatim>\<open>json.loads(None)\<close> is a \<^verbatim>\<open>TypeError\<close>.\<close>

fun EventContext_from_dict :: "'e mq_env_scheme \<Rightarrow> json \<Rightarrow> EventContext option result" where
  "EventContext_from_dict E JNull = Inr None"
| "EventContext_from_dict E (JObj d) =
     bindR (decode_raw_payload E (map_of d ''raw_event_payload'')) (\<lambda>raw.
     bindR (decode_headers E (map_of d ''headers'')) (\<lambda>headers.
     case raw of
       None \<Rightarrow> Inl TypeError
     | Some payload \<Rightarrow> bindR (make_EventContext (json_loads E) payload headers) (\<lambda>ec. Inr (Some ec))))"
| "EventContext_from_dict E _ = Inl AttributeError"

definition required_field :: "json dict \<Rightarrow> string \<Rightarrow> json result" where
  "required_field d k = (case map_of d k of None \<Rightarrow> Inl KeyError | Some v \<Rightarrow> Inr v)"

definition text_fields :: "'e mq_env_scheme \<Rightarrow> json dict \<Rightarrow> string list \<Rightarrow> json dict result" where
  "text_fields E d = mapR (\<lambda>k. bindR (required_field d k) (\<lambda>v. Inr (k, decode_text E v)))"

definition CommonDetails_fields :: "string list" where
  "CommonDetails_fields = [''clone_url'', ''repo_project'', ''repo_slug'', ''organization'', ''source_branch'']"

definition details_from_dict :: "'e mq_env_scheme \<Rightarrow> string list \<Rightarrow> json dict \<Rightarrow> feedback_details result" where
  "details_from_dict E own_fields d =
     bindR (text_fields E d CommonDetails_fields) (\<lambda>common.
     bindR (bindR (required_field d ''event_context'') (EventContext_from_dict E)) (\<lambda>ec.
     bindR (text_fields E d own_fields) (\<lambda>own.
     Inr \<lparr>fd_fields = common @ own, fd_event_context = ec\<rparr>)))"

definition PushDetails_from_dict :: "'e mq_env_scheme \<Rightarrow> json dict \<Rightarrow> feedback_details result" where
  "PushDetails_from_dict E = details_from_dict E [''commit_hash'']"

definition PRDetails_from_dict :: "'e mq_env_scheme \<Rightarrow> json dict \<Rightarrow> feedback_details result" where
  "PRDetails_from_dict E = details_from_dict E [''pr_id'', ''target_branch'']"

definition details_field :: "feedback_details \<Rightarrow> string \<Rightarrow> json" where
  "details_field d k = (case map_of (fd_fields d) k of None \<Rightarrow> JNull | Some v \<Rightarrow> v)"

text \<open>
  \<^verbatim>\<open>execute_pr_annotate_workflow\<close> and \<^verbatim>\<open>execute_pr_feedback_workflow\<close>. The two texts of a comment and the
  call that posts them to the source control server are arguments. The library always returns an
  inspector or raises, so the branch for a missing inspector is not there.
\<close>

definition execute_pr_annotate_workflow ::
  "'e mq_env_scheme \<Rightarrow> PRFeedbackService \<Rightarrow> (ScanInspector \<Rightarrow> ScanAnnotationMessage \<Rightarrow> feedback_details \<Rightarrow> (string \<times> string) result) \<Rightarrow>
   (feedback_details \<Rightarrow> string \<Rightarrow> string \<Rightarrow> string \<Rightarrow> unit act) \<Rightarrow> ScanAnnotationMessage incoming \<Rightarrow> unit act" where
  "execute_pr_annotate_workflow E svc content exec_pr_decorate msg =
     bindE (safe_deserialize_body E msg) (\<lambda>am.
     bindE (liftE (answer (PRDetails_from_dict E (scm_workflow_details am)))) (\<lambda>pr_details.
     catchE
       (if pw_enabled (pfs_workflow svc) then
          bindE (load_scan_inspector E (scm_scanid am)) (\<lambda>inspector.
          bindE (liftE (answer (content inspector am pr_details))) (\<lambda>(full, summary).
          thenE (exec_pr_decorate pr_details (scm_scanid am) full summary)
          (msg_ack E)))
        else msg_ack E)
       (\<lambda>_. msg_ack E)))"

definition execute_pr_feedback_workflow ::
  "'e mq_env_scheme \<Rightarrow> PRFeedbackService \<Rightarrow> (json \<Rightarrow> ScanFeedbackMessage \<Rightarrow> feedback_details \<Rightarrow> (string \<times> string) result) \<Rightarrow>
   (feedback_details \<Rightarrow> string \<Rightarrow> string \<Rightarrow> string \<Rightarrow> unit act) \<Rightarrow> ScanFeedbackMessage incoming \<Rightarrow> unit act" where
  "execute_pr_feedback_workflow E svc content exec_pr_decorate msg =
     bindE (safe_deserialize_body E msg) (\<lambda>fm.
     bindE (liftE (answer (PRDetails_from_dict E (scm_workflow_details fm)))) (\<lambda>pr_details.
     catchE
       (if pw_enabled (pfs_workflow svc) then
          bindE (retrieve_report 21 E (scm_projectid fm) (scm_scanid fm)) (\<lambda>report.
          if report = JNull then msg_nack E True
          else
            bindE (liftE (answer (content report fm pr_details))) (\<lambda>(full, summary).
            thenE (exec_pr_decorate pr_details (scm_scanid fm) full summary)
            (msg_ack E)))
        else msg_ack E)
       (\<lambda>e. if e = CxOneException then msg_nack E True else msg_ack E)))"

section \<open>Sarif delivery\<close>

definition gen_signature_headers :: "'e mq_env_scheme \<Rightarrow> string \<Rightarrow> string \<Rightarrow> json dict result" where
  "gen_signature_headers E secret content =
     (case gen_signature_header (hmac E) (set (hash_algorithms E)) secret content of
        Inl e \<Rightarrow> Inl e
      | Inr (alg, sig) \<Rightarrow> Inr [(''x-cx-signature-alg'', JStr alg), (''x-cx-signature'', JStr sig)])"

definition package_message :: "'e mq_env_scheme \<Rightarrow> string \<Rightarrow> string \<Rightarrow> (string \<times> json dict) result" where
  "package_message E secret msg =
     (let compressed_msg = gzip_compress E msg in
      case gen_signature_headers E secret compressed_msg of
        Inl e \<Rightarrow> Inl e
      | Inr sig_headers \<Rightarrow> Inr (compressed_msg, dict_union [(''content-encoding'', JStr ''gzip'')] sig_headers))"

definition delivery_topic :: "string \<Rightarrow> string option \<Rightarrow> string option \<Rightarrow> string" where
  "delivery_topic moniker topic_prefix topic_suffix =
     (case topic_prefix of None \<Rightarrow> [] | Some p \<Rightarrow> rstrip_chars ''.'' p @ ''.'') @ moniker @
     (case topic_suffix of None \<Rightarrow> [] | Some s \<Rightarrow> ''.'' @ lstrip_chars ''.'' s)"

text \<open>Values that are not text: \<^verbatim>\<open>requests\<close> drops a header that is \<^verbatim>\<open>None\<close> and refuses any other.\<close>

fun http_headers :: "json dict \<Rightarrow> string dict result" where
  "http_headers [] = Inr []"
| "http_headers ((k, v) # d) =
     (case http_headers d of
        Inl e \<Rightarrow> Inl e
      | Inr hs \<Rightarrow> (case v of JStr s \<Rightarrow> Inr ((k, s) # hs) | JNull \<Rightarrow> Inr hs | _ \<Rightarrow> Inl (LibError True ''InvalidHeader'')))"

text \<open>
  \<^verbatim>\<open>HttpDeliveryAgent.__post\<close>: \<open>remaining\<close> further attempts are left after this one; an exception ends the
  delivery, an error response does not.
\<close>

definition post_once :: "'e mq_env_scheme \<Rightarrow> string \<Rightarrow> int \<Rightarrow> string \<Rightarrow> json dict \<Rightarrow> bool \<Rightarrow> http_response act" where
  "post_once E url delay msg headers once =
     thenE (if once then emit (EvSleep delay) else returnE ()) (
     bindE (liftE (http_headers headers)) (\<lambda>hs.
     let rq = \<lparr>rq_method = ''POST'', rq_url = url, rq_query = [], rq_body = Some msg, rq_headers = hs, rq_auth = []\<rparr> in
     ask (EvHttp rq) (\<lambda>tr. net_http E tr rq)))"

fun post_attempts ::
  "'e mq_env_scheme \<Rightarrow> string \<Rightarrow> int \<Rightarrow> string \<Rightarrow> json dict \<Rightarrow> bool \<Rightarrow> nat \<Rightarrow> bool act" where
  "post_attempts E url delay msg headers once remaining =
     bindE (attemptE (post_once E url delay msg headers once)) (\<lambda>r.
     case r of
       Inl _ \<Rightarrow> returnE False
     | Inr response \<Rightarrow>
         if rs_ok response then returnE True
         else (case remaining of 0 \<Rightarrow> returnE False | Suc k \<Rightarrow> post_attempts E url delay msg headers True k))"

declare post_attempts.simps [simp del]

fun deliver :: "'e mq_env_scheme \<Rightarrow> delivery_agent \<Rightarrow> string \<Rightarrow> json dict \<Rightarrow> unit act" where
  "deliver E (AmqpDeliveryAgent moniker secret exchange prefix suffix) content msg_headers =
     bindE (liftE (answer (package_message E secret content))) (\<lambda>(packaged_msg, packaged_headers).
      let headers = dict_union packaged_headers msg_headers;
          topic = delivery_topic moniker prefix suffix in
      bindE (attemptE (thenE (mq_client E) (look (mq_channel E)))) (\<lambda>channel.
      thenE (attemptE (thenE (liftE channel) (
        bindE (look (\<lambda>tr. mq_exchange E tr exchange)) (\<lambda>_.
        ask (EvPublish exchange topic (SarifBody packaged_msg headers) None None)
          (\<lambda>tr. mq_publish E tr exchange topic (SarifBody packaged_msg headers))))))
      (if channel = Inr () then look (mq_close E) else returnE ())))"
| "deliver E (HttpDeliveryAgent secret url retries delay) content msg_headers =
     bindE (liftE (answer (package_message E secret content))) (\<lambda>(packaged_msg, packaged_headers).
      thenE (post_attempts E url delay packaged_msg (dict_union packaged_headers msg_headers) False (nat (max retries 0)))
      (returnE ()))"

text \<open>
  \<^verbatim>\<open>execute_sarif_generation\<close>: \<open>sarif\<close> is the library call that makes the log of a scan, as JSON text, and
  \<open>json_error\<close> the text \<^verbatim>\<open>json.dumps({"error" : msg})\<close>. \<^verbatim>\<open>asyncio.wait\<close> refuses an empty set of tasks and
  does not raise the exceptions of its tasks.
\<close>

definition sarif_headers :: "ScanFeedbackMessage \<Rightarrow> feedback_details \<Rightarrow> json dict" where
  "sarif_headers fm push_details =
     [(''x-cx-scanid'', JStr (scm_scanid fm)), (''x-cx-projectid'', JStr (scm_projectid fm)),
      (''x-cx-service'', JStr (sh_moniker fm)), (''x-cx-clone-url'', details_field push_details ''clone_url''),
      (''x-cx-branch'', details_field push_details ''source_branch''),
      (''x-cx-commit'', details_field push_details ''commit_hash''),
      (''x-cx-is-error'', JStr (if sfm_is_error fm then ''True'' else ''False''))]"

definition wait_for_deliveries ::
  "'e mq_env_scheme \<Rightarrow> delivery_agent list \<Rightarrow> string \<Rightarrow> json dict \<Rightarrow> unit act" where
  "wait_for_deliveries E agents content headers =
     (if agents = [] then raiseE ValueError
      else thenE (mapE agents (\<lambda>agent. attemptE (deliver E agent content headers))) (returnE ()))"

definition execute_sarif_generation ::
  "'e mq_env_scheme \<Rightarrow> PushFeedbackService \<Rightarrow> (trace \<Rightarrow> string \<Rightarrow> json \<Rightarrow> json \<Rightarrow> string result) \<Rightarrow>
   (string option \<Rightarrow> string) \<Rightarrow> ScanFeedbackMessage incoming \<Rightarrow> unit act" where
  "execute_sarif_generation E svc sarif json_error msg =
     bindE (safe_deserialize_body E msg) (\<lambda>fm.
     bindE (liftE (answer (PushDetails_from_dict E (scm_workflow_details fm)))) (\<lambda>push_details.
     catchE
       (if pw_enabled (ufs_workflow svc) then
          let headers = sarif_headers fm push_details in
          thenE
            (if \<not> sfm_is_error fm then
               bindE (ask (EvSarif (scm_scanid fm)) (\<lambda>tr. sarif tr (scm_scanid fm)
                        (details_field push_details ''clone_url'') (details_field push_details ''source_branch''))) (\<lambda>log.
               wait_for_deliveries E (ufs_agents svc) log headers)
             else wait_for_deliveries E (ufs_agents svc) (json_error (sfm_error_msg fm)) headers)
            (msg_ack E)
        else msg_ack E)
       (\<lambda>e. if e = CxOneException then msg_nack E True else msg_ack E)))"

section \<open>Lemmas\<close>

lemma attemptE_apply [py_simps]:
  "attemptE m w = (case m w of
      (Inl e, w') \<Rightarrow> if e = OutOfFuel then (Inl e, w') else (Inr (Inl e), w')
    | (Inr x, w') \<Rightarrow> (Inr (Inr x), w'))"
  by (auto simp: attemptE_def py_simps split: prod.splits sum.splits)

lemma attemptE_emits [emits_intros]: "emits ok m \<Longrightarrow> emits ok (attemptE m)"
  unfolding attemptE_def by (intro emits_intros)

lemma gatherE_emits [emits_intros]: "list_all (emits ok) ms \<Longrightarrow> emits ok (gatherE ms)"
proof -
  assume ms: "list_all (emits ok) ms"
  then have "emits ok (mapE ms attemptE)"
    by (induction ms) (auto intro!: emits_intros)
  then show ?thesis unfolding gatherE_def by (simp add: emits_bindE emits_liftE)
qed

lemma publish_emits [emits_intros]:
  "ok (EvPublish ex topic body xp rt) \<Longrightarrow> emits ok (publish E topic body xp rt ex)"
  unfolding publish_def by (intro emits_intros)

lemma msg_ack_emits [emits_intros]: "ok EvAck \<Longrightarrow> emits ok (msg_ack E)"
  unfolding msg_ack_def by (intro emits_intros)

lemma msg_nack_emits [emits_intros]: "ok (EvNack b) \<Longrightarrow> emits ok (msg_nack E b)"
  unfolding msg_nack_def by (intro emits_intros)

lemma mq_client_emits [emits_intros]: "emits ok (mq_client E)"
  unfolding mq_client_def by (intro emits_intros)

text \<open>A broker that accepts connections and answers every publication, with an acknowledgement or without.\<close>

definition broker_up :: "'e mq_env_scheme \<Rightarrow> bool" where
  "broker_up E \<longleftrightarrow> (\<forall>tr. mq_connect E tr = Inr () \<and> mq_channel E tr = Inr () \<and> mq_close E tr = Inr () \<and>
     mq_settle E tr = Inr () \<and> (\<forall>ex. mq_exchange E tr ex = Inr True) \<and> (\<forall>ex t b. \<exists>r. mq_publish E tr ex t b = Inr r))"

lemma broker_upD:
  assumes "broker_up E"
  shows "mq_connect E tr = Inr ()" "mq_channel E tr = Inr ()" "mq_close E tr = Inr ()" "mq_settle E tr = Inr ()"
    "mq_exchange E tr ex = Inr True" "\<exists>r. mq_publish E tr ex t b = Inr r"
  using assms by (simp_all add: broker_up_def)

lemma publish_up:
  assumes "broker_up E"
  shows "\<exists>r. publish E topic body xp rt ex w = (Inr r, log_event (EvPublish ex topic body xp rt) w)"
proof -
  obtain r where "mq_publish E (w_trace w) ex topic body = Inr r"
    using broker_upD(6) [OF assms] by blast
  then show ?thesis
    by (simp add: publish_def py_simps broker_upD [OF assms])
qed

lemma mq_client_up: "broker_up E \<Longrightarrow> mq_client E w = (Inr (), w)"
  by (simp add: mq_client_def py_simps broker_upD)

lemma msg_ack_up: "broker_up E \<Longrightarrow> msg_ack E w = (Inr (), log_event EvAck w)"
  by (simp add: msg_ack_def py_simps broker_upD)

lemma msg_nack_up: "broker_up E \<Longrightarrow> msg_nack E b w = (Inr (), log_event (EvNack b) w)"
  by (simp add: msg_nack_def py_simps broker_upD)

lemmas broker_simps = mq_client_up msg_ack_up msg_nack_up

text \<open>What a feedback service publishes for a polled message, and for which messages.\<close>

fun serves :: "feedback_service \<Rightarrow> ScanWorkflow \<Rightarrow> bool" where
  "serves (PRService _) w = (w = WfPR)"
| "serves (PushService _) w = (w = WfPUSH)"

definition scan_feedback_event :: "ScanAwaitMessage \<Rightarrow> event \<Rightarrow> bool" where
  "scan_feedback_event swm e \<longleftrightarrow>
     (\<exists>body. e = EvPublish EXCHANGE_SCAN_INPUT (Push_make_topic StFEEDBACK (FeedbackWorkflow_str FbPUSH_GEN) (sh_moniker swm)) body None None
               \<and> sh_workflow swm = WfPUSH) \<or>
     (\<exists>body st. e = EvPublish EXCHANGE_SCAN_INPUT (PR_make_topic st (ScanWorkflow_str WfPR) (sh_moniker swm)) body None None
               \<and> sh_workflow swm = WfPR \<and> st \<in> {StFEEDBACK, StANNOTATE})"

lemma publish_message_up:
  assumes "broker_up E"
  shows "bindE (look (\<lambda>tr. Inr (mk tr))) (\<lambda>body. thenE (publish E topic body xp rt ex) (returnE ())) w =
    (Inr (), w\<lparr>w_trace := w_trace w @ [EvPublish ex topic (mk (w_trace w)) xp rt]\<rparr>)"
  using publish_up [OF assms, of topic "mk (w_trace w)" xp rt ex w] by (auto simp: py_simps log_event_def)

lemma service_feedback_up:
  assumes "broker_up E" and "m = handle_completed_scan E s swm \<or> m = handle_awaited_scan_error E s swm err"
  shows "\<exists>evs. m w = (Inr (), w\<lparr>w_trace := w_trace w @ evs\<rparr>) \<and> list_all (scan_feedback_event swm) evs \<and>
     length evs = (if serves s (sh_workflow swm) then 1 else 0)"
proof (cases "serves s (sh_workflow swm)")
  case False
  with assms(2) show ?thesis by (cases s) (auto simp: py_simps)
next
  case True
  note start_defs = PR_feedback_start_def PR_feedback_error_def PR_annotation_start_def
    Push_feedback_start_def Push_feedback_error_def Push_publish_feedback_msg_def
  have "\<exists>topic body. m w = (Inr (), w\<lparr>w_trace := w_trace w @ [EvPublish EXCHANGE_SCAN_INPUT topic body None None]\<rparr>) \<and>
      scan_feedback_event swm (EvPublish EXCHANGE_SCAN_INPUT topic body None None)"
  proof (cases s)
    case (PRService svc)
    with True assms(2) show ?thesis
      by (auto simp: thenE_apply [of "mq_client E"] mq_client_up [OF assms(1)] start_defs
        publish_message_up [OF assms(1)] scan_feedback_event_def) blast+
  next
    case (PushService svc)
    with True assms(2) show ?thesis
      by (auto simp: thenE_apply [of "mq_client E"] mq_client_up [OF assms(1)] start_defs
        publish_message_up [OF assms(1)] scan_feedback_event_def)
  qed
  then obtain topic body where
    "m w = (Inr (), w\<lparr>w_trace := w_trace w @ [EvPublish EXCHANGE_SCAN_INPUT topic body None None]\<rparr>)"
    "scan_feedback_event swm (EvPublish EXCHANGE_SCAN_INPUT topic body None None)" by blast
  with True show ?thesis by (intro exI [of _ "[EvPublish EXCHANGE_SCAN_INPUT topic body None None]"]) simp
qed

lemma first_error_map_Inr [simp]: "first_error (map (\<lambda>_. Inr ()) xs) = Inr ()"
  by (induction xs) auto

lemma gather_feedback_up:
  assumes up: "broker_up E"
      and h: "h = (\<lambda>s. handle_completed_scan E s swm) \<or> h = (\<lambda>s. handle_awaited_scan_error E s swm err)"
  shows "\<exists>evs. gatherE (map h ss) w = (Inr (), w\<lparr>w_trace := w_trace w @ evs\<rparr>) \<and> list_all (scan_feedback_event swm) evs \<and>
     length evs = length (filter (\<lambda>s. serves s (sh_workflow swm)) ss)"
proof -
  have "\<exists>evs. mapE (map h ss) attemptE w = (Inr (map (\<lambda>_. Inr ()) ss), w\<lparr>w_trace := w_trace w @ evs\<rparr>) \<and>
      list_all (scan_feedback_event swm) evs \<and> length evs = length (filter (\<lambda>s. serves s (sh_workflow swm)) ss)"
  proof (induction ss arbitrary: w)
    case Nil
    then show ?case by (simp add: py_simps)
  next
    case (Cons s ss)
    obtain e1 where e1: "h s w = (Inr (), w\<lparr>w_trace := w_trace w @ e1\<rparr>)" "list_all (scan_feedback_event swm) e1"
      "length e1 = (if serves s (sh_workflow swm) then 1 else 0)"
      using service_feedback_up [OF up, of "h s" s swm err w] h by auto
    obtain e2 where e2: "mapE (map h ss) attemptE (w\<lparr>w_trace := w_trace w @ e1\<rparr>) =
        (Inr (map (\<lambda>_. Inr ()) ss), w\<lparr>w_trace := w_trace w @ e1 @ e2\<rparr>)"
      "list_all (scan_feedback_event swm) e2" "length e2 = length (filter (\<lambda>s. serves s (sh_workflow swm)) ss)"
      using Cons.IH [of "w\<lparr>w_trace := w_trace w @ e1\<rparr>"] by auto
    show ?case
      using e1 e2 by (intro exI [of _ "e1 @ e2"]) (simp add: bindE_apply returnE_apply attemptE_apply [of "h s" w])
  qed
  then show ?thesis by (auto simp: gatherE_def py_simps)
qed

fun is_settle :: "event \<Rightarrow> bool" where
  "is_settle EvAck = True"
| "is_settle (EvNack _) = True"
| "is_settle _ = False"

definition requeue_event :: "ScanPollingService \<Rightarrow> ScanAwaitMessage incoming \<Rightarrow> ScanAwaitMessage \<Rightarrow> int \<Rightarrow> event" where
  "requeue_event svc msg swm orig =
     EvPublish EXCHANGE_SCAN_INPUT (im_routing_key msg) (AwaitBody swm) (Some (poll_backoff_ms svc orig)) None"

lemma requeue_poll_up:
  assumes "broker_up E" and "original_expiration (im_headers msg) = Inr orig"
  shows "\<exists>a. requeue_poll E svc msg swm True w =
      (Inr (), w\<lparr>w_trace := w_trace w @ [requeue_event svc msg swm orig, if a then EvAck else EvNack True]\<rparr>) \<and>
      mq_publish E (w_trace w) EXCHANGE_SCAN_INPUT (im_routing_key msg) (AwaitBody swm) = Inr a"
proof -
  obtain a where a: "mq_publish E (w_trace w) EXCHANGE_SCAN_INPUT (im_routing_key msg) (AwaitBody swm) = Inr a"
    using broker_upD(6) [OF assms(1)] by blast
  then show ?thesis
    using assms(2)
    by (intro exI [of _ a], cases a) (simp_all add: requeue_poll_def py_simps broker_upD [OF assms(1)] broker_simps [OF assms(1)] requeue_event_def log_event_def)
qed

text \<open>The events of one poll of a message that has not expired, by what loading the scan answers.\<close>

lemma poll_start_up:
  assumes "broker_up E" and "im_body msg = Inr swm" and "sam_drop_by swm = DropAt t" and "clock E (w_trace w) < t"
  shows "execute_poll_scan_workflow E svc msg w =
     bindE (poll_body E svc swm (Inr ())) (\<lambda>p.
       bindE (poll_except E p) (\<lambda>(outcome, requeue).
       thenE (if requeue then requeue_poll E svc msg swm True else returnE ()) (
       thenE (look (mq_close E)) (liftE outcome)))) w"
proof -
  have d: "safe_deserialize_body E msg w = (Inr swm, w)"
    by (simp add: safe_deserialize_body_def py_simps assms(2))
  have c: "attemptE (thenE (mq_client E) (look (mq_channel E))) w = (Inr (Inr ()), w)"
    by (simp add: py_simps mq_client_up [OF assms(1)] broker_upD [OF assms(1)])
  have x: "look (\<lambda>tr. is_expired (clock E tr) (sam_drop_by swm)) w = (Inr False, w)"
    using assms(3,4) by (simp add: py_simps)
  show ?thesis
    by (simp add: execute_poll_scan_workflow_def bindE_apply d x c cong: if_cong)
qed

text \<open>C9: a poll of a scan that is still running, or whose state could not be read for a reason other than an error
  response of CheckmarxOne, puts the same message back under the same topic with the delay
  multiplied by the backoff scalar and capped at the configured maximum, and then acknowledges the polled
  message if the broker accepted the copy and returns it to the queue otherwise: it is never lost.\<close>

theorem poll_requeues_running_scan:
  assumes up: "broker_up E" and body: "im_body msg = Inr swm" "sam_drop_by swm = DropAt t" "clock E (w_trace w) < t"
      and orig: "original_expiration (im_headers msg) = Inr orig"
      and load: "cx_load_scan E (w_trace w) (scm_scanid swm) = r"
      and running: "case r of Inr i \<Rightarrow> si_executing i | Inl e \<Rightarrow> e \<noteq> ResponseException \<and> e \<noteq> OutOfFuel"
  shows "\<exists>accepted. execute_poll_scan_workflow E svc msg w =
      (case r of Inr _ \<Rightarrow> Inr () | Inl e \<Rightarrow> Inl e,
       w\<lparr>w_trace := w_trace w @ [EvLoadScan (scm_scanid swm),
          EvPublish EXCHANGE_SCAN_INPUT (im_routing_key msg) (AwaitBody swm)
            (Some (min (orig * sps_backoff svc) (sps_max_interval svc * 1000))) None,
          if accepted then EvAck else EvNack True]\<rparr>) \<and>
    mq_publish E (w_trace w @ [EvLoadScan (scm_scanid swm)]) EXCHANGE_SCAN_INPUT (im_routing_key msg) (AwaitBody swm) = Inr accepted"
proof -
  let ?w = "log_event (EvLoadScan (scm_scanid swm)) w"
  obtain a where a: "requeue_poll E svc msg swm True ?w =
      (Inr (), ?w\<lparr>w_trace := w_trace ?w @ [requeue_event svc msg swm orig, if a then EvAck else EvNack True]\<rparr>)"
     "mq_publish E (w_trace ?w) EXCHANGE_SCAN_INPUT (im_routing_key msg) (AwaitBody swm) = Inr a"
    using requeue_poll_up [OF up orig] by blast
  have "poll_body E svc swm (Inr ()) w = (Inr (case r of Inr _ \<Rightarrow> Inr () | Inl e \<Rightarrow> Inl e, True), ?w)"
    using load running by (cases r) (auto simp: poll_body_def load_scan_inspector_def py_simps)
  then show ?thesis
    using a running unfolding poll_start_up [OF up body] 
    by (intro exI [of _ a], cases r)
       (simp_all add: py_simps poll_except_def broker_upD [OF up] requeue_event_def poll_backoff_ms_def log_event_def)
qed

definition quiet_mq_env :: mq_env where
  "quiet_mq_env = git_env.extend quiet_git_env
     (mq_env.fields (\<lambda>_. Inr ()) (\<lambda>_. Inr ()) (\<lambda>_. Inr ()) (\<lambda>_ _. Inr True) (\<lambda>_ _ _ _. Inr True) (\<lambda>_. Inr ())
        (\<lambda>_. ''now'') ''uuid'' (\<lambda>s. s) (\<lambda>_ _ _. Inr ''00'') [''sha256''] (\<lambda>_. Inr (JObj []))
        (\<lambda>v. case v of JStr s \<Rightarrow> Inr s | _ \<Rightarrow> Inl TypeError))"

definition demo_await :: ScanAwaitMessage where
  "demo_await = \<lparr>sm_timestamp = ''t'', sm_correlation_id = ''c'', sh_moniker = ''svc'', sh_state = StAWAIT, sh_workflow = WfPR,
     scm_scanid = ''s'', scm_projectid = ''p'', scm_workflow_details = [], sam_drop_by = DropAt 100\<rparr>"

definition demo_poll_msg :: "ScanAwaitMessage incoming" where
  "demo_poll_msg = \<lparr>im_body = Inr demo_await,
     im_headers = JObj [(''x-death'', JList [JObj [(''original-expiration'', JStr ''60000'')]])], im_routing_key = ''cx.pr.await.pull-request.svc''\<rparr>"

definition demo_poller :: ScanPollingService where
  "demo_poller = \<lparr>sps_services = [PRService \<lparr>pfs_moniker = ''svc'', pfs_server_base_url = '''',
       pfs_workflow = \<lparr>pw_enabled = True, pw_interval = 60, pw_scan_timeout = 48, prw_excluded_severities = [], prw_excluded_states = []\<rparr>\<rparr>,
       PushService \<lparr>ufs_moniker = ''svc'', ufs_agents = [], ufs_workflow = \<lparr>pw_enabled = True, pw_interval = 60, pw_scan_timeout = 48\<rparr>\<rparr>],
     sps_max_interval = 90, sps_backoff = 2\<rparr>"

lemma broker_up_quiet: "broker_up quiet_mq_env"
  by (auto simp: broker_up_def quiet_mq_env_def mq_env.defs git_env.defs)

lemma quiet_mq_env_simps [simp]:
  "clock quiet_mq_env = clock quiet_env" "cx_load_scan quiet_mq_env = cx_load_scan quiet_env"
  by (simp_all add: quiet_mq_env_def quiet_git_env_def git_env.defs cxone_env.defs)

lemma demo_original_expiration: "original_expiration (im_headers demo_poll_msg) = Inr 60000"
  by (simp add: original_expiration_def demo_poll_msg_def read_int_def digit_value_def)

theorem poll_requeues_running_scan_witness:
  "\<exists>accepted. execute_poll_scan_workflow quiet_mq_env demo_poller demo_poll_msg world0 =
     (Inr (), world0\<lparr>w_trace := [EvLoadScan ''s'',
        EvPublish EXCHANGE_SCAN_INPUT ''cx.pr.await.pull-request.svc'' (AwaitBody demo_await) (Some 90000) None,
        if accepted then EvAck else EvNack True]\<rparr>)"
proof -
  have "im_body demo_poll_msg = Inr demo_await" "sam_drop_by demo_await = DropAt 100" "clock quiet_mq_env (w_trace world0) < 100"
    by (simp_all add: demo_poll_msg_def demo_await_def quiet_env_def)
  moreover have load: "cx_load_scan quiet_mq_env (w_trace world0) (scm_scanid demo_await) = Inr \<lparr>si_project_id = ''p'', si_scan_id = ''s'',
      si_executing = True, si_successful = False, si_failed = False, si_state_msg = ''Running''\<rparr>"
    by (simp add: quiet_env_def demo_await_def)
  ultimately obtain a where run: "execute_poll_scan_workflow quiet_mq_env demo_poller demo_poll_msg world0 =
      (Inr (), world0\<lparr>w_trace := w_trace world0 @ [EvLoadScan (scm_scanid demo_await),
          EvPublish EXCHANGE_SCAN_INPUT (im_routing_key demo_poll_msg) (AwaitBody demo_await)
            (Some (min (60000 * sps_backoff demo_poller) (sps_max_interval demo_poller * 1000))) None,
          if a then EvAck else EvNack True]\<rparr>)"
    using poll_requeues_running_scan [OF broker_up_quiet _ _ _ demo_original_expiration load, of 100 demo_poller] by auto
  have "scm_scanid demo_await = ''s''" "im_routing_key demo_poll_msg = ''cx.pr.await.pull-request.svc''"
    "sps_backoff demo_poller = 2" "sps_max_interval demo_poller = 90"
    by (simp_all add: demo_poll_msg_def demo_await_def demo_poller_def)
  with run show ?thesis by (intro exI [of _ a]) simp
qed

text \<open>C16: a poll of a scan that has ended publishes feedback for the workflow the message belongs to and no other
  (one publication per feedback service of that workflow, under a topic that names the service moniker of
  the message), acknowledges the message exactly once, as the last event, and does not poll again.\<close>

theorem poll_finished_scan_feedback:
  assumes up: "broker_up E" and body: "im_body msg = Inr swm" "sam_drop_by swm = DropAt t" "clock E (w_trace w) < t"
      and load: "cx_load_scan E (w_trace w) (scm_scanid swm) = Inr i" "\<not> si_executing i"
  shows "\<exists>evs. execute_poll_scan_workflow E svc msg w =
      (Inr (), w\<lparr>w_trace := w_trace w @ EvLoadScan (scm_scanid swm) # evs @ [EvAck]\<rparr>) \<and>
    list_all (scan_feedback_event swm) evs \<and>
    length evs = length (filter (\<lambda>s. serves s (sh_workflow swm)) (sps_services svc))"
proof -
  let ?w = "log_event (EvLoadScan (scm_scanid swm)) w"
  let ?h = "\<lambda>s. if si_successful i then handle_completed_scan E s swm else handle_awaited_scan_error E s swm (si_state_msg i)"
  obtain evs where evs: "gatherE (map ?h (sps_services svc)) ?w = (Inr (), ?w\<lparr>w_trace := w_trace ?w @ evs\<rparr>)"
    "list_all (scan_feedback_event swm) evs" "length evs = length (filter (\<lambda>s. serves s (sh_workflow swm)) (sps_services svc))"
    using gather_feedback_up [OF up, of ?h swm "si_state_msg i" "sps_services svc" ?w] by (cases "si_successful i") auto
  have "poll_body E svc swm (Inr ()) w = (Inr (Inr (), False), w\<lparr>w_trace := w_trace w @ EvLoadScan (scm_scanid swm) # evs @ [EvAck]\<rparr>)"
    using load evs(1)
    by (simp add: poll_body_def load_scan_inspector_def bindE_apply thenE_apply attemptE_apply liftE_apply ask_apply finallyE_apply catchE_apply
          returnE_apply msg_ack_up [OF up])
  then show ?thesis
    using evs(2,3) unfolding poll_start_up [OF up body]
    by (intro exI [of _ evs]) (simp add: py_simps poll_except_def broker_upD [OF up])
qed

theorem poll_finished_scan_feedback_witness:
  "\<exists>evs. execute_poll_scan_workflow (quiet_mq_env\<lparr>cx_load_scan := \<lambda>_ s. Inr \<lparr>si_project_id = ''p'', si_scan_id = s, si_executing = False,
        si_successful = True, si_failed = False, si_state_msg = ''Completed''\<rparr>\<rparr>) demo_poller demo_poll_msg world0 =
     (Inr (), world0\<lparr>w_trace := EvLoadScan ''s'' # evs @ [EvAck]\<rparr>) \<and> length evs = 1"
proof -
  let ?i = "\<lparr>si_project_id = ''p'', si_scan_id = ''s'', si_executing = False, si_successful = True, si_failed = False, si_state_msg = ''Completed''\<rparr>"
  let ?E = "quiet_mq_env\<lparr>cx_load_scan := \<lambda>_ s. Inr \<lparr>si_project_id = ''p'', si_scan_id = s, si_executing = False,
        si_successful = True, si_failed = False, si_state_msg = ''Completed''\<rparr>\<rparr>"
  have up: "broker_up ?E" using broker_up_quiet by (simp add: broker_up_def)
  have b: "im_body demo_poll_msg = Inr demo_await" "sam_drop_by demo_await = DropAt 100" "clock ?E (w_trace world0) < 100"
    and l: "cx_load_scan ?E (w_trace world0) (scm_scanid demo_await) = Inr ?i" "\<not> si_executing ?i"
    by (simp_all add: demo_poll_msg_def demo_await_def quiet_env_def)
  from poll_finished_scan_feedback [OF up b l, of demo_poller]
  show ?thesis by (auto simp: demo_poller_def demo_await_def)
qed

subsection \<open>Settling a consumed message\<close>

text \<open>
  \<open>settling P m\<close>: \<open>m\<close> either raises without having settled the message, or returns with a settlement
  accepted by \<open>P\<close> as its last event. \<open>settled P m\<close>: \<open>m\<close> returns, and its last event is the only settlement.
\<close>

definition settled_run :: "(event \<Rightarrow> bool) \<Rightarrow> trace \<Rightarrow> unit result \<times> world \<Rightarrow> bool" where
  "settled_run P tr p \<longleftrightarrow> fst p = Inr () \<and>
     (\<exists>new s. w_trace (snd p) = tr @ new @ [s] \<and> is_settle s \<and> P s \<and> list_all (\<lambda>e. \<not> is_settle e) new)"

definition settled :: "(event \<Rightarrow> bool) \<Rightarrow> unit act \<Rightarrow> bool" where
  "settled P m \<longleftrightarrow> (\<forall>w. settled_run P (w_trace w) (m w))"

definition settling :: "(event \<Rightarrow> bool) \<Rightarrow> unit act \<Rightarrow> bool" where
  "settling P m \<longleftrightarrow> (\<forall>w. settled_run P (w_trace w) (m w) \<or>
     (\<exists>e. fst (m w) = Inl e \<and> e \<noteq> OutOfFuel \<and> extends (\<lambda>e. \<not> is_settle e) (w_trace w) (snd (m w))))"

lemma settled_ack: "broker_up E \<Longrightarrow> P EvAck \<Longrightarrow> settled P (msg_ack E)"
  by (simp add: settled_def settled_run_def msg_ack_up)

lemma settled_nack: "broker_up E \<Longrightarrow> P (EvNack b) \<Longrightarrow> settled P (msg_nack E b)"
  by (simp add: settled_def settled_run_def msg_nack_up)

lemma settled_settling: "settled P m \<Longrightarrow> settling P m"
  by (simp add: settled_def settling_def)

lemma settled_if: "settled P m \<Longrightarrow> settled P n \<Longrightarrow> settled P (if b then m else n)"
  by simp

lemma settled_after:
  assumes "list_all (\<lambda>e. \<not> is_settle e) pre" and "settled_run P (tr @ pre) p"
  shows "settled_run P tr p"
  using assms by (fastforce simp: settled_run_def)

lemma settling_bindE:
  assumes quiet: "emits (\<lambda>e. \<not> is_settle e) m" and fin: "finishes m" and f: "\<And>x. settling P (f x)"
  shows "settling P (bindE m f)"
  unfolding settling_def
proof
  fix w
  obtain r w' where run: "m w = (r, w')" by (cases "m w")
  obtain pre where pre: "w_trace w' = w_trace w @ pre" "list_all (\<lambda>e. \<not> is_settle e) pre"
    using quiet run by (metis emitsD snd_conv)
  have nf: "r \<noteq> Inl OutOfFuel"
    using fin run by (metis finishes_def fst_conv)
  show "settled_run P (w_trace w) (bindE m f w) \<or>
     (\<exists>e. fst (bindE m f w) = Inl e \<and> e \<noteq> OutOfFuel \<and> extends (\<lambda>e. \<not> is_settle e) (w_trace w) (snd (bindE m f w)))"
  proof (cases r)
    case (Inl e)
    with run nf pre show ?thesis by (auto simp: py_simps extends_def)
  next
    case (Inr x)
    have "settled_run P (w_trace w') (f x w') \<or>
       (\<exists>e. fst (f x w') = Inl e \<and> e \<noteq> OutOfFuel \<and> extends (\<lambda>e. \<not> is_settle e) (w_trace w') (snd (f x w')))"
      using f [of x] by (simp add: settling_def)
    moreover have "settled_run P (w_trace w) (f x w')" if "settled_run P (w_trace w') (f x w')"
      using that settled_after [of pre P "w_trace w"] pre by simp
    moreover have "extends (\<lambda>e. \<not> is_settle e) (w_trace w) (snd (f x w'))"
      if "extends (\<lambda>e. \<not> is_settle e) (w_trace w') (snd (f x w'))"
      using that pre by (auto simp: extends_def)
    ultimately show ?thesis using run Inr by (auto simp: py_simps)
  qed
qed

lemma settling_thenE:
  "emits (\<lambda>e. \<not> is_settle e) m \<Longrightarrow> finishes m \<Longrightarrow> settling P k \<Longrightarrow> settling P (thenE m k)"
  unfolding thenE_def by (rule settling_bindE)

lemma settling_if: "settling P m \<Longrightarrow> settling P n \<Longrightarrow> settling P (if b then m else n)"
  by simp

lemma settling_case_prod: "(\<And>a b. settling P (f a b)) \<Longrightarrow> settling P (case p of (a, b) \<Rightarrow> f a b)"
  by (cases p) simp

lemma settled_catchE:
  assumes m: "settling P m" and h: "\<And>e. settled P (h e)"
  shows "settled P (catchE m h)"
  unfolding settled_def
proof
  fix w
  obtain r w' where run: "m w = (r, w')" by (cases "m w")
  have "settled_run P (w_trace w) (m w) \<or>
     (\<exists>e. fst (m w) = Inl e \<and> e \<noteq> OutOfFuel \<and> extends (\<lambda>e. \<not> is_settle e) (w_trace w) (snd (m w)))"
    using m by (simp add: settling_def)
  then consider "settled_run P (w_trace w) (r, w')" |
    e where "r = Inl e" "e \<noteq> OutOfFuel" "extends (\<lambda>e. \<not> is_settle e) (w_trace w) w'"
    unfolding run fst_conv snd_conv by blast
  then show "settled_run P (w_trace w) (catchE m h w)"
  proof cases
    case 1
    with run show ?thesis by (auto simp: settled_run_def py_simps)
  next
    case 2
    then obtain pre where pre: "w_trace w' = w_trace w @ pre" "list_all (\<lambda>e. \<not> is_settle e) pre"
      by (auto simp: extends_def)
    have "settled_run P (w_trace w') (h e w')" using h by (simp add: settled_def)
    then have "settled_run P (w_trace w) (h e w')" using settled_after [of pre P "w_trace w"] pre by simp
    with 2 run show ?thesis by (simp add: py_simps)
  qed
qed

lemma finishes_attemptE [finishes_intros]: "finishes m \<Longrightarrow> finishes (attemptE m)"
  unfolding attemptE_def by (intro finishes_intros)

lemma finishes_ack [finishes_intros]: "finishes (msg_ack E)"
  unfolding msg_ack_def by (intro finishes_intros)

lemma finishes_load [finishes_intros]: "finishes (load_scan_inspector E s)"
  unfolding load_scan_inspector_def by (intro finishes_intros)

lemma load_scan_inspector_emits [emits_intros]: "ok (EvLoadScan s) \<Longrightarrow> emits ok (load_scan_inspector E s)"
  unfolding load_scan_inspector_def by (intro emits_intros)

lemma http_headers_not_fuel [simp]: "http_headers d \<noteq> Inl OutOfFuel"
  by (induction d) (auto split: sum.splits json.splits)

text \<open>The answer of a posting attempt, and the events of a whole delivery over HTTP.\<close>

lemma post_once_run:
  "\<exists>r new. attemptE (post_once E url delay msg headers once) w = (Inr r, w\<lparr>w_trace := w_trace w @ new\<rparr>) \<and>
     list_all (\<lambda>e. is_http e \<or> e = EvSleep delay) new \<and> http_count new \<le> 1 \<and>
     (\<forall>x. r = Inr x \<longrightarrow> (\<exists>pre rq. new = pre @ [EvHttp rq] \<and> net_http E (w_trace w @ pre) rq = Inr x))"
proof (cases "http_headers headers")
  case (Inl e)
  then show ?thesis
    by (intro exI [of _ "Inl e"] exI [of _ "if once then [EvSleep delay] else []"])
       (auto simp: post_once_def py_simps log_event_def)
next
  case (Inr hs)
  define rq where "rq = \<lparr>rq_method = ''POST'', rq_url = url, rq_query = [], rq_body = Some msg, rq_headers = hs, rq_auth = []\<rparr>"
  define pre where "pre = (if once then [EvSleep delay] else [])"
  have pre: "thenE (if once then emit (EvSleep delay) else returnE ()) k w = k (w\<lparr>w_trace := w_trace w @ pre\<rparr>)" for k :: "http_response act"
    by (simp add: pre_def py_simps log_event_def)
  have "post_once E url delay msg headers once w =
      (answer (net_http E (w_trace w @ pre) rq), w\<lparr>w_trace := w_trace w @ pre @ [EvHttp rq]\<rparr>)"
    unfolding post_once_def pre Inr bindE_liftE_Inr Let_def rq_def [symmetric] by (simp add: py_simps log_event_def)
  then have run: "attemptE (post_once E url delay msg headers once) w =
      (Inr (answer (net_http E (w_trace w @ pre) rq)), w\<lparr>w_trace := w_trace w @ pre @ [EvHttp rq]\<rparr>)"
    by (auto simp: attemptE_apply split: sum.splits)
  show ?thesis
    by (intro exI [of _ "answer (net_http E (w_trace w @ pre) rq)"] exI [of _ "pre @ [EvHttp rq]"])
       (auto simp: run pre_def)
qed

lemma post_attempts_run:
  "\<exists>b new. post_attempts E url delay msg headers once remaining w = (Inr b, w\<lparr>w_trace := w_trace w @ new\<rparr>) \<and>
     list_all (\<lambda>e. is_http e \<or> e = EvSleep delay) new \<and> http_count new \<le> Suc remaining \<and>
     (b \<longrightarrow> (\<exists>pre rq r. new = pre @ [EvHttp rq] \<and> net_http E (w_trace w @ pre) rq = Inr r \<and> rs_ok r))"
proof (induction remaining arbitrary: once w rule: less_induct)
  case (less remaining)
  obtain r n1 where n1: "attemptE (post_once E url delay msg headers once) w = (Inr r, w\<lparr>w_trace := w_trace w @ n1\<rparr>)"
    "list_all (\<lambda>e. is_http e \<or> e = EvSleep delay) n1" "http_count n1 \<le> 1"
    "\<forall>x. r = Inr x \<longrightarrow> (\<exists>pre rq. n1 = pre @ [EvHttp rq] \<and> net_http E (w_trace w @ pre) rq = Inr x)"
    using post_once_run [of E url delay msg headers once w] by (elim exE conjE) (rule that)
  have step: "post_attempts E url delay msg headers once remaining w =
      (case r of Inl _ \<Rightarrow> returnE False
       | Inr response \<Rightarrow> if rs_ok response then returnE True
           else (case remaining of 0 \<Rightarrow> returnE False | Suc k \<Rightarrow> post_attempts E url delay msg headers True k))
      (w\<lparr>w_trace := w_trace w @ n1\<rparr>)"
    by (subst post_attempts.simps) (simp add: bindE_apply n1(1))
  show ?case
  proof (cases "\<exists>x k. r = Inr x \<and> \<not> rs_ok x \<and> remaining = Suc k")
    case False
    have "post_attempts E url delay msg headers once remaining w =
        (Inr (\<exists>x. r = Inr x \<and> rs_ok x), w\<lparr>w_trace := w_trace w @ n1\<rparr>)"
      using False unfolding step by (cases r; cases remaining) (auto simp: returnE_apply)
    with n1 show ?thesis
      by (intro exI [of _ "\<exists>x. r = Inr x \<and> rs_ok x"] exI [of _ n1]) auto
  next
    case True
    then obtain x k where x: "r = Inr x" "\<not> rs_ok x" "remaining = Suc k" by blast
    let ?w = "w\<lparr>w_trace := w_trace w @ n1\<rparr>"
    obtain b n2 where n2: "post_attempts E url delay msg headers True k ?w = (Inr b, ?w\<lparr>w_trace := w_trace ?w @ n2\<rparr>)"
      "list_all (\<lambda>e. is_http e \<or> e = EvSleep delay) n2" "http_count n2 \<le> Suc k"
      "b \<longrightarrow> (\<exists>pre rq r. n2 = pre @ [EvHttp rq] \<and> net_http E (w_trace ?w @ pre) rq = Inr r \<and> rs_ok r)"
      using less.IH [of k True ?w] x(3) by auto
    have "post_attempts E url delay msg headers once remaining w = (Inr b, w\<lparr>w_trace := w_trace w @ n1 @ n2\<rparr>)"
      using x n2(1) unfolding step by simp
    moreover have "\<exists>pre rq r. n1 @ n2 = pre @ [EvHttp rq] \<and> net_http E (w_trace w @ pre) rq = Inr r \<and> rs_ok r" if b
    proof -
      from n2(4) that obtain pre rq r where p: "n2 = pre @ [EvHttp rq]" "net_http E (w_trace ?w @ pre) rq = Inr r" "rs_ok r" by blast
      then show ?thesis by (intro exI [of _ "n1 @ pre"] exI [of _ rq] exI [of _ r]) simp
    qed
    ultimately show ?thesis
      using n1(2,3) n2(2,3) x(3) by (intro exI [of _ b] exI [of _ "n1 @ n2"]) auto
  qed
qed

text \<open>C38: delivering a Sarif log over HTTP always ends and never raises: it posts at most once plus the configured
  number of retries (a negative number counting as none), does nothing but post and sleep, and reports a
  delivery only if the last thing it did was a post that was answered with success.\<close>

theorem http_delivery_bounded:
  "\<exists>b new. post_attempts E url delay msg headers False (nat (max retries 0)) w = (Inr b, w\<lparr>w_trace := w_trace w @ new\<rparr>) \<and>
     list_all (\<lambda>e. is_http e \<or> e = EvSleep delay) new \<and> int (http_count new) \<le> 1 + max retries 0 \<and>
     (b = True \<longrightarrow> (\<exists>pre rq r. new = pre @ [EvHttp rq] \<and> net_http E (w_trace w @ pre) rq = Inr r \<and> rs_ok r))"
proof -
  obtain b new where "post_attempts E url delay msg headers False (nat (max retries 0)) w = (Inr b, w\<lparr>w_trace := w_trace w @ new\<rparr>)"
     "list_all (\<lambda>e. is_http e \<or> e = EvSleep delay) new" "http_count new \<le> Suc (nat (max retries 0))"
     "b \<longrightarrow> (\<exists>pre rq r. new = pre @ [EvHttp rq] \<and> net_http E (w_trace w @ pre) rq = Inr r \<and> rs_ok r)"
    using post_attempts_run [of E url delay msg headers False "nat (max retries 0)" w] by (elim exE conjE) (rule that)
  then show ?thesis by (intro exI [of _ b] exI [of _ new]) (simp add: nat_le_iff)
qed

theorem http_delivery_bounded_witness:
  "\<exists>b new. post_attempts quiet_mq_env ''u'' 5 ''m'' [] False (nat (max (- 3) 0)) world0 = (Inr b, world0\<lparr>w_trace := w_trace world0 @ new\<rparr>) \<and>
     int (http_count new) \<le> 1"
  using http_delivery_bounded [of quiet_mq_env "''u''" 5 "''m''" "[]" "- 3" world0] by auto

lemma post_attempts_emits [emits_intros]:
  assumes "\<And>rq. ok (EvHttp rq)" and "ok (EvSleep delay)"
  shows "emits ok (post_attempts E url delay msg headers once remaining)"
proof -
  have "is_http e \<or> e = EvSleep delay \<Longrightarrow> ok e" for e
    using assms by (cases e) auto
  then have "list_all (\<lambda>e. is_http e \<or> e = EvSleep delay) new \<Longrightarrow> list_all ok new" for new
    by (auto simp: list_all_iff)
  then have "extends ok tr (snd (post_attempts E url delay msg headers once remaining w))" if "extends ok tr w" for tr w
    using that post_attempts_run [of E url delay msg headers once remaining w] by (fastforce simp: extends_def)
  then show ?thesis by (auto simp: emits_def intro!: keepsI)
qed

lemma post_attempts_finishes [finishes_intros]: "finishes (post_attempts E url delay msg headers once remaining)"
  unfolding finishes_def
proof
  fix w
  show "fst (post_attempts E url delay msg headers once remaining w) \<noteq> Inl OutOfFuel"
    using post_attempts_run [of E url delay msg headers once remaining w] by auto
qed

lemma deliver_emits [emits_intros]:
  assumes "\<And>rq. ok (EvHttp rq)" and "\<And>d. ok (EvSleep d)" and "\<And>ex t m h. ok (EvPublish ex t (SarifBody m h) None None)"
  shows "emits ok (deliver E agent content headers)"
  by (cases agent) (auto intro!: emits_intros assms simp: Let_def)

lemma attemptE_yields: "yields (\<lambda>r. r \<noteq> Inl OutOfFuel) (attemptE m)"
  by (auto simp: yields_def attemptE_apply split: prod.splits sum.splits if_splits)

lemma deliver_finishes [finishes_intros]: "finishes (deliver E agent content headers)"
proof (cases agent)
  case (AmqpDeliveryAgent moniker secret exchange prefix suffix)
  show ?thesis
    unfolding AmqpDeliveryAgent deliver.simps Let_def mq_client_def
    by (intro finishes_intros finishes_bindE_post [OF _ attemptE_yields]) simp_all
next
  case (HttpDeliveryAgent secret url retries delay)
  then show ?thesis by (auto intro!: finishes_intros)
qed


lemma safe_deserialize_ok: "im_body msg = Inr b \<Longrightarrow> safe_deserialize_body E msg w = (Inr b, w)"
  by (simp add: safe_deserialize_body_def py_simps)

lemma wait_for_deliveries_quiet:
  "emits (\<lambda>e. \<not> is_settle e) (wait_for_deliveries E agents content headers)" "finishes (wait_for_deliveries E agents content headers)"
  unfolding wait_for_deliveries_def by (auto intro!: emits_intros finishes_intros)

text \<open>
  A message that can be read and whose details can be decoded is settled exactly once, as the last thing done, and is not
  rejected for good, whatever the Sarif library, the delivery agents and the outside world answer.
\<close>

lemma sarif_generation_settled:
  assumes up: "broker_up E" and body: "im_body msg = Inr fm" "PushDetails_from_dict E (scm_workflow_details fm) = Inr d"
  shows "settled_run (\<lambda>s. s \<noteq> EvNack False) (w_trace w) (execute_sarif_generation E svc sarif json_error msg w)"
proof -
  let ?work = "catchE
       (if pw_enabled (ufs_workflow svc) then
          let headers = sarif_headers fm d in
          thenE
            (if \<not> sfm_is_error fm then
               bindE (ask (EvSarif (scm_scanid fm)) (\<lambda>tr. sarif tr (scm_scanid fm)
                        (details_field d ''clone_url'') (details_field d ''source_branch''))) (\<lambda>log.
               wait_for_deliveries E (ufs_agents svc) log headers)
             else wait_for_deliveries E (ufs_agents svc) (json_error (sfm_error_msg fm)) headers)
            (msg_ack E)
        else msg_ack E)
       (\<lambda>e. if e = CxOneException then msg_nack E True else msg_ack E)"
  have "execute_sarif_generation E svc sarif json_error msg w = ?work w"
    by (simp add: execute_sarif_generation_def bindE_apply safe_deserialize_ok [OF body(1)] liftE_apply body(2))
  moreover have "settled (\<lambda>s. s \<noteq> EvNack False) ?work"
    unfolding Let_def
    by (intro settled_catchE settling_if settling_thenE settled_settling settled_if settled_ack settled_nack up
          emits_if emits_bindE emits_ask finishes_if finishes_bindE finishes_ask wait_for_deliveries_quiet) simp_all
  ultimately show ?thesis by (simp add: settled_def)
qed

text \<open>
  The same of a pull-request feedback message, for a decoration that does not itself settle messages: a failure of the
  decoration ends the message, an error response of CheckmarxOne or a report that is not ready in time returns it to
  the queue.
\<close>

lemma pr_feedback_settled:
  assumes up: "broker_up E" and body: "im_body msg = Inr fm" "PRDetails_from_dict E (scm_workflow_details fm) = Inr d"
      and clk: "steady_clock (clock E)"
      and decorate: "\<And>a b c e. emits (\<lambda>ev. \<not> is_settle ev) (decorate a b c e)" "\<And>a b c e. finishes (decorate a b c e)"
  shows "settled_run (\<lambda>s. s \<noteq> EvNack False) (w_trace w) (execute_pr_feedback_workflow E svc content decorate msg w)"
proof -
  let ?work = "catchE
       (if pw_enabled (pfs_workflow svc) then
          bindE (retrieve_report 21 E (scm_projectid fm) (scm_scanid fm)) (\<lambda>report.
          if report = JNull then msg_nack E True
          else
            bindE (liftE (answer (content report fm d))) (\<lambda>(full, summary).
            thenE (decorate d (scm_scanid fm) full summary)
            (msg_ack E)))
        else msg_ack E)
       (\<lambda>e. if e = CxOneException then msg_nack E True else msg_ack E)"
  have "execute_pr_feedback_workflow E svc content decorate msg w = ?work w"
    by (simp add: execute_pr_feedback_workflow_def bindE_apply safe_deserialize_ok [OF body(1)] liftE_apply body(2))
  moreover have "emits (\<lambda>ev. \<not> is_settle ev) (retrieve_report 21 E (scm_projectid fm) (scm_scanid fm))"
    by (intro emits_intros) simp_all
  then have "settled (\<lambda>s. s \<noteq> EvNack False) ?work"
    by (intro settled_catchE settling_if settling_bindE settling_thenE settling_case_prod settled_settling settled_if settled_ack settled_nack up
          emits_liftE finishes_liftE decorate retrieve_report_finishes clk) simp_all
  ultimately show ?thesis by (simp add: settled_def)
qed

text \<open>What the publisher makes of details is what the consumer decodes, when the library gives bytes back as they were.\<close>

lemma details_roundtrip:
  assumes "\<And>s. decode_bytes E (JStr s) = Inr s" and "json_loads E (ec_raw_event_payload ec) = Inr (ec_message ec)"
  shows "EventContext_from_dict E (EventContext_as_dict ec) = Inr (Some ec)"
  using assms by (simp add: EventContext_as_dict_def make_EventContext_def o_def split_def)

lemma text_fields_fails: "text_fields E d ks = Inl e \<Longrightarrow> e = KeyError"
  by (induction ks arbitrary: e) (auto simp: text_fields_def required_field_def bindR_def split: option.splits sum.splits)

text \<open>Details whose event context is not the dictionary of one are refused, and by an exception of the consumer's handler.\<close>

lemma malformed_context_refused:
  "map_of d ''event_context'' = Some (JStr x) \<Longrightarrow> \<exists>e. PushDetails_from_dict E d = Inl e \<and> e \<in> {KeyError, AttributeError}"
  by (cases "text_fields E d CommonDetails_fields")
     (auto simp: PushDetails_from_dict_def details_from_dict_def required_field_def text_fields_fails)

definition demo_feedback :: "ScanWorkflow \<Rightarrow> json dict \<Rightarrow> ScanFeedbackMessage" where
  "demo_feedback wk d = \<lparr>sm_timestamp = ''t'', sm_correlation_id = ''c'', sh_moniker = ''svc'', sh_state = StFEEDBACK, sh_workflow = wk,
     scm_scanid = ''s'', scm_projectid = ''p'', scm_workflow_details = d, sfm_is_error = False, sfm_error_msg = None\<rparr>"

definition demo_details :: "json dict" where
  "demo_details = (''event_context'', JObj [(''raw_event_payload'', JStr ''{}''), (''headers'', JObj [])]) #
     map (\<lambda>k. (k, JStr ''x'')) (CommonDetails_fields @ [''commit_hash'', ''pr_id'', ''target_branch''])"

end
