(* ===== verification/Resolver.thy ===== *)
theory Resolver
  imports Workflows Rabbit_Config
begin

text \<open>
  Delegated scans: \<^verbatim>\<open>src/workflows/resolver_workflow.py\<close> (signing and publishing),
  \<^verbatim>\<open>src/workflows/resolver_scan_service.py\<close> (requests for an agent tag, timeouts) and
  \<^verbatim>\<open>src/agent/resolver/timeout_agent.py\<close>. The asymmetric signature functions, the encoding of the details
  and the pickled services are parameters (\<open>resolver_env\<close>).
\<close>

section \<open>Model\<close>

record resolver_env = mq_env +
  asym_sign :: "string \<Rightarrow> string \<Rightarrow> string result" \<comment> \<open>private key, data\<close>
  asym_verify :: "string \<Rightarrow> string \<Rightarrow> string \<Rightarrow> unit result" \<comment> \<open>key, signature, data\<close>
  details_to_binary :: "DelegatedScanDetails \<Rightarrow> string"
  cx_sca_filters :: "trace \<Rightarrow> ProjectRepoConfig \<Rightarrow> json result"

record ResolverScanningWorkflow =
  rw_capture_logs :: bool
  rw_signer :: "string option"
  rw_verifier :: string
  rw_scan_retries :: "int option"
  rw_scan_timeout_secs :: "int option"
  rw_no_kickoff :: bool

datatype resolver_workflow = DummyResolver | ResolverFlow ResolverScanningWorkflow

definition from_private_key :: "bool \<Rightarrow> string \<Rightarrow> int \<Rightarrow> int \<Rightarrow> resolver_workflow" where
  "from_private_key capture_logs private_key scan_retries scan_timeout_secs =
     ResolverFlow \<lparr>rw_capture_logs = capture_logs, rw_signer = Some private_key, rw_verifier = private_key,
       rw_scan_retries = Some scan_retries, rw_scan_timeout_secs = Some scan_timeout_secs, rw_no_kickoff = False\<rparr>"

definition from_public_key :: "bool \<Rightarrow> string \<Rightarrow> resolver_workflow" where
  "from_public_key capture_logs public_key =
     ResolverFlow \<lparr>rw_capture_logs = capture_logs, rw_signer = None, rw_verifier = public_key,
       rw_scan_retries = None, rw_scan_timeout_secs = None, rw_no_kickoff = True\<rparr>"

fun resolver_is_enabled :: "resolver_workflow \<Rightarrow> bool" where
  "resolver_is_enabled DummyResolver = False"
| "resolver_is_enabled (ResolverFlow _) = True"

fun resolver_capture_logs :: "resolver_workflow \<Rightarrow> bool" where
  "resolver_capture_logs DummyResolver = False"
| "resolver_capture_logs (ResolverFlow f) = rw_capture_logs f"

fun get_signature :: "'e resolver_env_scheme \<Rightarrow> resolver_workflow \<Rightarrow> DelegatedScanDetails \<Rightarrow> string result" where
  "get_signature E DummyResolver details = Inl (NotImplementedError ''get_signature'')"
| "get_signature E (ResolverFlow f) details =
     (case rw_signer f of
        None \<Rightarrow> Inl (WorkflowException ''The payload signature private key was not provided, this instance can not sign messages.'')
      | Some key \<Rightarrow> asym_sign E key (details_to_binary E details))"

text \<open>Only an \<^verbatim>\<open>Exception\<close> of the verifier means an invalid signature; anything else goes through.\<close>

fun validate_signature :: "'e resolver_env_scheme \<Rightarrow> resolver_workflow \<Rightarrow> string \<Rightarrow> string \<Rightarrow> bool result" where
  "validate_signature E DummyResolver sig payload = Inl (NotImplementedError ''validate_signature'')"
| "validate_signature E (ResolverFlow f) sig payload =
     (case asym_verify E (rw_verifier f) sig payload of
        Inr _ \<Rightarrow> Inr True
      | Inl e \<Rightarrow> if derives_from_Exception e then Inr False else Inl e)"

fun deliver_delegated_scan_outcome ::
  "'e resolver_env_scheme \<Rightarrow> resolver_workflow \<Rightarrow> string \<Rightarrow> DelegatedScanResultMessage \<Rightarrow> string \<Rightarrow> bool act" where
  "deliver_delegated_scan_outcome E DummyResolver route_key msg exchange = raiseE (NotImplementedError ''deliver_delegated_scan_outcome'')"
| "deliver_delegated_scan_outcome E (ResolverFlow f) route_key msg exchange =
     publish E route_key (DelegatedResultBody msg) None None exchange"

fun delegated_scan_resubmit ::
  "'e resolver_env_scheme \<Rightarrow> resolver_workflow \<Rightarrow> string \<Rightarrow> DelegatedScanMessage \<Rightarrow> string \<Rightarrow> int \<Rightarrow> bool act" where
  "delegated_scan_resubmit E DummyResolver route_key msg exchange retries = raiseE (NotImplementedError ''delegated_scan_resubmit'')"
| "delegated_scan_resubmit E (ResolverFlow f) route_key msg exchange retries =
     publish E route_key (DelegatedBody msg) (map_option (\<lambda>s. s * 1000) (rw_scan_timeout_secs f)) (Some (max retries 0)) exchange"

fun delegated_scan_kickoff ::
  "'e resolver_env_scheme \<Rightarrow> resolver_workflow \<Rightarrow> string \<Rightarrow> DelegatedScanMessage \<Rightarrow> string \<Rightarrow> bool act" where
  "delegated_scan_kickoff E DummyResolver route_key msg exchange = raiseE (NotImplementedError ''delegated_scan_kickoff'')"
| "delegated_scan_kickoff E (ResolverFlow f) route_key msg exchange =
     (if rw_no_kickoff f then raiseE (WorkflowException ''This instance can not delegate a resolver scan.'')
      else (case rw_scan_retries f of
              None \<Rightarrow> raiseE TypeError
            | Some n \<Rightarrow> delegated_scan_resubmit E (ResolverFlow f) route_key msg exchange n))"

definition retry_header_key :: string where "retry_header_key = ''x-remaining-retries''"

fun get_delegated_scan_resubmit_count :: "resolver_workflow \<Rightarrow> json \<Rightarrow> int result" where
  "get_delegated_scan_resubmit_count DummyResolver headers = Inl (NotImplementedError ''get_delegated_scan_resubmit_count'')"
| "get_delegated_scan_resubmit_count (ResolverFlow _) headers =
     (case py_has_key headers retry_header_key of
        Inl e \<Rightarrow> Inl e
      | Inr False \<Rightarrow> Inl (WorkflowException ''Timeout message has no retry count header.'')
      | Inr True \<Rightarrow> (case py_getitem headers retry_header_key of
            Inl e \<Rightarrow> Inl e
          | Inr (JInt last_retry) \<Rightarrow> Inr (last_retry - 1)
          | Inr (JBool b) \<Rightarrow> Inr (if b then 0 else - 1)
          | Inr _ \<Rightarrow> Inl TypeError))"

section \<open>The service\<close>

record ResolverScanService =
  rs_moniker :: string
  rs_default_tag :: json
  rs_project_tag_key :: string
  rs_agent_tags :: "string list option"
  rs_workflow :: resolver_workflow

definition DEFAULT_SCAN_RETRIES :: int where "DEFAULT_SCAN_RETRIES = 3"
definition DEFAULT_SCAN_TIMEOUT :: int where "DEFAULT_SCAN_TIMEOUT = 10800"

text \<open>
  \<^verbatim>\<open>[^0-9a-zA-z-_]+\<close>: the range \<^verbatim>\<open>A-z\<close> goes from the upper case letters over the six punctuation
  characters between the two alphabets to the lower case letters.
\<close>

definition tag_char_allowed :: "char \<Rightarrow> bool" where
  "tag_char_allowed c = (let n = (of_char c :: nat) in (48 \<le> n \<and> n \<le> 57) \<or> (65 \<le> n \<and> n \<le> 122) \<or> c = CHR ''-'')"

fun validate_tags :: "string list \<Rightarrow> unit result" where
  "validate_tags [] = Inr ()"
| "validate_tags (k # keys) =
     (if \<not> list_all tag_char_allowed k then Inl (WorkflowException (''Tag ['' @ k @ ''] is not valid.'')) else validate_tags keys)"

definition make_ResolverScanService ::
  "string \<Rightarrow> resolver_workflow \<Rightarrow> json \<Rightarrow> string \<Rightarrow> string list option \<Rightarrow> ResolverScanService result" where
  "make_ResolverScanService moniker workflow default_tag project_tag_key allowed_agent_tags =
     (case (case allowed_agent_tags of None \<Rightarrow> Inr () | Some tags \<Rightarrow> validate_tags tags) of
        Inl e \<Rightarrow> Inl e
      | Inr _ \<Rightarrow> Inr \<lparr>rs_moniker = moniker, rs_default_tag = default_tag, rs_project_tag_key = project_tag_key,
                      rs_agent_tags = allowed_agent_tags, rs_workflow = workflow\<rparr>)"

definition resolver_skip :: "ResolverScanService \<Rightarrow> bool" where
  "resolver_skip svc = (\<not> resolver_is_enabled (rs_workflow svc))"

definition signature_valid :: "'e resolver_env_scheme \<Rightarrow> ResolverScanService \<Rightarrow> string \<Rightarrow> string \<Rightarrow> bool result" where
  "signature_valid E svc sig payload = validate_signature E (rs_workflow svc) sig payload"

text \<open>The test that the message came back because its time to live ended.\<close>

definition message_expired :: "json \<Rightarrow> bool result" where
  "message_expired headers =
     (case py_has_key headers ''x-death'' of
        Inl e \<Rightarrow> Inl e
      | Inr False \<Rightarrow> Inr False
      | Inr True \<Rightarrow> (case py_getitem headers ''x-death'' of
            Inl e \<Rightarrow> Inl e
          | Inr deaths \<Rightarrow> (case as_list deaths of
                Inl e \<Rightarrow> Inl e
              | Inr ds \<Rightarrow> (case first_match ds of
                    Inl e \<Rightarrow> Inl e
                  | Inr d \<Rightarrow> (case py_has_key d ''reason'' of
                        Inl e \<Rightarrow> Inl e
                      | Inr False \<Rightarrow> Inr False
                      | Inr True \<Rightarrow> (case py_getitem d ''reason'' of
                            Inl e \<Rightarrow> Inl e
                          | Inr v \<Rightarrow> Inr (v = JStr ''expired'')))))))"

definition timeout_failure_message :: "'e resolver_env_scheme \<Rightarrow> trace \<Rightarrow> DelegatedScanMessage \<Rightarrow> DelegatedScanResultMessage" where
  "timeout_failure_message E tr m =
     \<lparr>sm_timestamp = msg_timestamp E tr, sm_correlation_id = sm_correlation_id m, sh_moniker = sh_moniker m,
      sh_state = StFAILURE, sh_workflow = sh_workflow m, dsm_details = dsm_details m,
      dsm_details_signature = dsm_details_signature m, dsr_resolver_exit_code = None, dsr_scan_id = None, dsr_logs = None\<rparr>"

definition handle_resolver_scan_timeout ::
  "'e resolver_env_scheme \<Rightarrow> ResolverScanService \<Rightarrow> DelegatedScanMessage incoming \<Rightarrow> unit act" where
  "handle_resolver_scan_timeout E svc msg =
     bindE (safe_deserialize_body E msg) (\<lambda>requeue_msg.
     bindE (liftE (message_expired (im_headers msg))) (\<lambda>expired.
     if expired then
       thenE (mq_client E) (
       bindE (liftE (get_delegated_scan_resubmit_count (rs_workflow svc) (im_headers msg))) (\<lambda>resub_count.
       thenE (mq_client E) (
       if resub_count > 0 then
         thenE (delegated_scan_resubmit E (rs_workflow svc) (im_routing_key msg) requeue_msg EXCHANGE_RESOLVER_SCAN resub_count) (returnE ())
       else
         bindE (look (\<lambda>tr. Inr (timeout_failure_message E tr requeue_msg))) (\<lambda>failure.
         thenE (deliver_delegated_scan_outcome E (rs_workflow svc) ROUTEKEY_RESOLVER_RESULT_STUB failure EXCHANGE_RESOLVER_SCAN)
         (returnE ())))))
     else returnE ()))"

text \<open>
  \<^verbatim>\<open>request_resolver_scan\<close>. The pickled services of the caller are arguments. A tag is looked up in the list
  of agent tags as the value the project carries.
\<close>

definition request_resolver_scan ::
  "'e resolver_env_scheme \<Rightarrow> ResolverScanService \<Rightarrow> json \<Rightarrow> ProjectRepoConfig \<Rightarrow> string \<Rightarrow> string \<Rightarrow> string \<Rightarrow> json \<Rightarrow> json \<Rightarrow>
   json dict \<Rightarrow> ScanWorkflow \<Rightarrow> EventContext \<Rightarrow> string \<Rightarrow> bool act" where
  "request_resolver_scan E svc scanner_tag project_config pickled_scm pickled_cxone clone_url commit_hash scan_branch scan_tags
     scan_workflow event_context orchestrator =
     (case find (\<lambda>t. JStr t = scanner_tag) (agent_tags (rs_agent_tags svc)) of
        None \<Rightarrow> raiseE (WorkflowException ''Unknown resolver tag'')
      | Some tag \<Rightarrow>
          bindE (ask (EvScanFilters (pc_id project_config)) (\<lambda>tr. cx_sca_filters E tr project_config)) (\<lambda>filters0.
          bindE (case filters0 of JObj _ \<Rightarrow> liftE (py_getitem filters0 ''filter'') | _ \<Rightarrow> returnE filters0) (\<lambda>filters.
          let details_msg = \<lparr>dsd_clone_url = clone_url, dsd_commit_hash = commit_hash, dsd_scan_branch = scan_branch,
                dsd_scan_tags = scan_tags, dsd_file_filters = filters, dsd_project_id = pc_id project_config,
                dsd_pickled_scm_service = pickled_scm, dsd_pickled_cxone_service = pickled_cxone,
                dsd_event_context = event_context, dsd_orchestrator = orchestrator, dsd_cxoneflow_version = app_version E\<rparr> in
          bindE (liftE (answer (get_signature E (rs_workflow svc) details_msg))) (\<lambda>sig.
          bindE (look (\<lambda>tr. Inr (msg_timestamp E tr))) (\<lambda>ts.
          let msg = \<lparr>sm_timestamp = ts, sm_correlation_id = process_uuid E, sh_moniker = rs_moniker svc, sh_state = StEXECUTE,
                sh_workflow = scan_workflow, dsm_details = details_msg, dsm_details_signature = sig,
                dsm_capture_logs = resolver_capture_logs (rs_workflow svc)\<rparr> in
          thenE (mq_client E)
          (delegated_scan_kickoff E (rs_workflow svc) (make_topic_for_tag (rs_moniker svc) tag) msg EXCHANGE_RESOLVER_SCAN))))))"

section \<open>The timeout agent\<close>

text \<open>
  An invalid signature is reported with a field the details do not have: building the log text raises an
  attribute error, which the outer handler turns into the same rejection.
\<close>

definition ResolverTimeoutAgent_call ::
  "'e resolver_env_scheme \<Rightarrow> ResolverScanService \<Rightarrow> DelegatedScanMessage incoming \<Rightarrow> unit act" where
  "ResolverTimeoutAgent_call E svc msg =
     bindE (safe_deserialize_body E msg) (\<lambda>scan_msg.
     catchE
       (bindE (liftE (answer (signature_valid E svc (dsm_details_signature scan_msg) (details_to_binary E (dsm_details scan_msg))))) (\<lambda>valid.
        if \<not> valid then raiseE AttributeError
        else thenE (handle_resolver_scan_timeout E svc msg) (msg_ack E)))
       (\<lambda>_. msg_nack E False))"

section \<open>Lemmas\<close>

lemma resolver_publish_emits [emits_intros]:
  "(\<And>b xp rt. ok (EvPublish ex rk b xp rt)) \<Longrightarrow> emits ok (delegated_scan_kickoff E f rk msg ex)"
  "(\<And>b xp rt. ok (EvPublish ex rk b xp rt)) \<Longrightarrow> emits ok (delegated_scan_resubmit E f rk msg ex n)"
  "(\<And>b xp rt. ok (EvPublish ex rk b xp rt)) \<Longrightarrow> emits ok (deliver_delegated_scan_outcome E f rk res ex)"
  by (cases f; auto intro!: emits_intros)+

lemma validate_tags_ok: "validate_tags keys = Inr () \<longleftrightarrow> list_all (list_all tag_char_allowed) keys"
  by (induction keys) auto

lemma allowed_tag_word: "list_all tag_char_allowed tag \<Longrightarrow> CHR ''.'' \<notin> set tag \<and> tag \<noteq> ''#'' \<and> tag \<noteq> ''*''"
  by (auto simp: list_all_iff tag_char_allowed_def)

subsection \<open>Requests reach the agents of their tag\<close>

lemma request_resolver_scan_emits:
  assumes "\<And>tag body xp rt. tag \<in> set (agent_tags (rs_agent_tags svc)) \<Longrightarrow> scanner_tag = JStr tag \<Longrightarrow>
             ok (EvPublish EXCHANGE_RESOLVER_SCAN (make_topic_for_tag (rs_moniker svc) tag) body xp rt)"
      and "ok (EvScanFilters (pc_id pc))"
  shows "emits ok (request_resolver_scan E svc scanner_tag pc ps pcx url h br tags flow ec orch)"
proof (cases "find (\<lambda>t. JStr t = scanner_tag) (agent_tags (rs_agent_tags svc))")
  case None
  then show ?thesis by (simp add: request_resolver_scan_def emits_intros)
next
  case (Some tag)
  then have "tag \<in> set (agent_tags (rs_agent_tags svc))" "scanner_tag = JStr tag"
    by (auto simp: find_Some_iff)
  then show ?thesis
    unfolding request_resolver_scan_def Some option.case Let_def
    by (intro emits_intros) (auto intro!: emits_intros assms split: json.splits)
qed

lemma tag_queue_dlx:
  assumes "services \<noteq> []" and "tags \<in> set services" and "tag \<in> set (agent_tags tags)"
  shows "DeclareQueue (make_queuename_for_tag tag) (Some dlx) \<in> set (rabbit_setup services) \<longleftrightarrow> dlx = EXCHANGE_RESOLVER_SCAN_DLX"
proof -
  have "(make_queuename_for_tag tag, make_routekey_for_tag tag) \<in> set (queue_and_topic_tuples tags)"
    using assms(3) by (auto simp: queue_and_topic_tuples_def)
  then have "DeclareQueue (make_queuename_for_tag tag) (Some EXCHANGE_RESOLVER_SCAN_DLX) \<in> set (setup_resolver (queue_and_topic_tuples tags))"
    by (auto simp: setup_resolver_def)
  moreover have "make_queuename_for_tag tag \<noteq> q" if "q \<in> {QUEUE_SCAN_WAIT, QUEUE_SCAN_WAIT_LEGACY}" for q
    using that by (auto simp: make_queuename_for_tag_def element_defs)
  ultimately show ?thesis
    using assms(1,2) by (auto simp: rabbit_setup_iff setup_exchanges_def setup_queues_def setup_resolver_def)
qed

text \<open>C22: whatever a request for a delegated scan publishes is delivered to the queue of the requested agent tag
  and to no other queue, and when no agent takes it in time it is dead-lettered to the timeout queue and nowhere else,
  provided the agent tags of every configured service passed the validation of the constructor.\<close>

theorem delegated_request_routing:
  assumes valid: "\<And>tags. Some tags \<in> set services \<Longrightarrow> validate_tags tags = Inr ()"
      and svc: "rs_agent_tags svc \<in> set services" and tm: "amqp_topic_matcher tm"
      and pub: "EvPublish ex topic body xp rt \<in> set (new_events (request_resolver_scan E svc scanner_tag pc ps pcx url h br tags flow ec orch) w)"
  shows "\<exists>tag. scanner_tag = JStr tag \<and> (\<forall>q. delivered tm (rabbit_setup services) topic ex q \<longleftrightarrow> q = make_queuename_for_tag tag) \<and>
     (\<forall>q. dead_lettered tm (rabbit_setup services) topic (make_queuename_for_tag tag) q \<longleftrightarrow> q = QUEUE_RESOLVER_TIMEOUT)"
proof -
  let ?ok = "\<lambda>e. \<forall>ex topic body xp rt. e = EvPublish ex topic body xp rt \<longrightarrow> ex = EXCHANGE_RESOLVER_SCAN \<and>
     (\<exists>tag. scanner_tag = JStr tag \<and> tag \<in> set (agent_tags (rs_agent_tags svc)) \<and> topic = make_topic_for_tag (rs_moniker svc) tag)"
  have "emits ?ok (request_resolver_scan E svc scanner_tag pc ps pcx url h br tags flow ec orch)"
    by (rule request_resolver_scan_emits) auto
  from emits_new_events [OF this pub] obtain tag where
    tag: "scanner_tag = JStr tag" "tag \<in> set (agent_tags (rs_agent_tags svc))" "topic = make_topic_for_tag (rs_moniker svc) tag"
    and ex: "ex = EXCHANGE_RESOLVER_SCAN" by blast
  have ne: "services \<noteq> []" using svc by auto
  have words: "CHR ''.'' \<notin> set t \<and> t \<noteq> ''#'' \<and> t \<noteq> ''*''" if "ts \<in> set services" "t \<in> set (agent_tags ts)" for t ts
    using that valid [of "the ts"] by (intro allowed_tag_word) (auto simp: agent_tags_def validate_tags_ok list_all_iff split: option.splits)
  have tagw: "CHR ''.'' \<notin> set tag" using words [OF svc tag(2)] by blast
  have match: "topic_match (make_routekey_for_tag t) topic \<longleftrightarrow> t = tag" if "ts \<in> set services" "t \<in> set (agent_tags ts)" for t ts
    using words [OF that] resolver_topic_match(1) [OF tagw] tag(3) by blast
  note other = resolver_topic_match(2,3) [OF tagw tagw, of "rs_moniker svc"]
  have "delivered tm (rabbit_setup services) topic ex q \<longleftrightarrow> q = make_queuename_for_tag tag" for q
    using svc tag(2,3) match other words [OF svc tag(2)] tm unfolding ex
    by (subst delivered_leaf [OF ne]) (auto simp: resolver_bindings [OF ne] queue_and_topic_tuples_def amqp_topic_matcher_def)
  moreover have "dead_lettered tm (rabbit_setup services) topic (make_queuename_for_tag tag) q \<longleftrightarrow> q = QUEUE_RESOLVER_TIMEOUT" for q
    using other words [OF svc tag(2)] tag(3) tm
    by (simp add: dead_lettered_def tag_queue_dlx [OF ne svc tag(2)] delivered_leaf [OF ne] resolver_bindings [OF ne] amqp_topic_matcher_def)
  ultimately show ?thesis using tag(1) by blast
qed

definition quiet_resolver_env :: resolver_env where
  "quiet_resolver_env = mq_env.extend quiet_mq_env
     (resolver_env.fields (\<lambda>k d. Inr (k @ d)) (\<lambda>k s d. if s = k @ d then Inr () else Inl (LibError True ''InvalidSignature''))
        (\<lambda>d. dsd_clone_url d) (\<lambda>_ _. Inr (JStr ''*.txt'')))"

lemma broker_up_quiet_resolver: "broker_up quiet_resolver_env"
  by (auto simp: broker_up_def quiet_resolver_env_def mq_env.defs quiet_mq_env_def git_env.defs resolver_env.defs)

lemma quiet_resolver_simps [simp]:
  "cx_sca_filters quiet_resolver_env = (\<lambda>_ _. Inr (JStr ''*.txt''))" "asym_sign quiet_resolver_env = (\<lambda>k d. Inr (k @ d))"
  "asym_verify quiet_resolver_env = (\<lambda>k s d. if s = k @ d then Inr () else Inl (LibError True ''InvalidSignature''))"
  "details_to_binary quiet_resolver_env = dsd_clone_url"
  by (simp_all add: quiet_resolver_env_def mq_env.defs resolver_env.defs)

definition demo_resolver :: ResolverScanService where
  "demo_resolver = \<lparr>rs_moniker = ''svc'', rs_default_tag = JNull, rs_project_tag_key = ''resolver'', rs_agent_tags = Some [''linux'', ''win''],
     rs_workflow = from_private_key False ''key'' 3 60\<rparr>"

definition demo_context :: EventContext where
  "demo_context = \<lparr>ec_raw_event_payload = '''', ec_headers = [], ec_message = JNull\<rparr>"

definition demo_config :: ProjectRepoConfig where
  "demo_config = \<lparr>pc_id = ''p'', pc_name = ''n'', pc_tags = []\<rparr>"

lemma demo_request_publishes:
  "\<exists>body. EvPublish EXCHANGE_RESOLVER_SCAN (make_topic_for_tag ''svc'' ''win'') body (Some 60000) (Some 3) \<in>
     set (new_events (request_resolver_scan quiet_resolver_env demo_resolver (JStr ''win'') demo_config [] [] ''u'' JNull JNull [] WfPR demo_context ''o'') world0)"
proof -
  define m where "m = \<lparr>sm_timestamp = msg_timestamp quiet_resolver_env [EvScanFilters ''p''], sm_correlation_id = process_uuid quiet_resolver_env,
     sh_moniker = ''svc'', sh_state = StEXECUTE, sh_workflow = WfPR,
     dsm_details = \<lparr>dsd_clone_url = ''u'', dsd_commit_hash = JNull, dsd_scan_branch = JNull, dsd_scan_tags = [], dsd_file_filters = JStr ''*.txt'',
       dsd_project_id = ''p'', dsd_pickled_scm_service = [], dsd_pickled_cxone_service = [], dsd_event_context = demo_context, dsd_orchestrator = ''o'',
       dsd_cxoneflow_version = app_version quiet_resolver_env\<rparr>, dsm_details_signature = ''keyu'', dsm_capture_logs = False\<rparr>"
  let ?w = "log_event (EvScanFilters ''p'') world0"
  obtain r where r: "publish quiet_resolver_env (make_topic_for_tag ''svc'' ''win'') (DelegatedBody m) (Some 60000) (Some 3) EXCHANGE_RESOLVER_SCAN ?w
      = (Inr r, log_event (EvPublish EXCHANGE_RESOLVER_SCAN (make_topic_for_tag ''svc'' ''win'') (DelegatedBody m) (Some 60000) (Some 3)) ?w)"
    using publish_up [OF broker_up_quiet_resolver] by blast
  have "request_resolver_scan quiet_resolver_env demo_resolver (JStr ''win'') demo_config [] [] ''u'' JNull JNull [] WfPR demo_context ''o'' world0
     = publish quiet_resolver_env (make_topic_for_tag ''svc'' ''win'') (DelegatedBody m) (Some 60000) (Some 3) EXCHANGE_RESOLVER_SCAN ?w"
    by (simp add: request_resolver_scan_def demo_resolver_def from_private_key_def agent_tags_def demo_config_def m_def
        bindE_apply thenE_apply ask_apply returnE_apply liftE_apply look_apply mq_client_up [OF broker_up_quiet_resolver])
  then show ?thesis
    by (intro exI [of _ "DelegatedBody m"]) (simp add: new_events_def r)
qed

theorem delegated_request_routing_witness:
  "delivered topic_match (rabbit_setup [Some [''linux'', ''win'']]) (make_topic_for_tag ''svc'' ''win'') EXCHANGE_RESOLVER_SCAN
     (make_queuename_for_tag ''win'')"
proof -
  obtain body where pub: "EvPublish EXCHANGE_RESOLVER_SCAN (make_topic_for_tag ''svc'' ''win'') body (Some 60000) (Some 3) \<in>
     set (new_events (request_resolver_scan quiet_resolver_env demo_resolver (JStr ''win'') demo_config [] [] ''u'' JNull JNull [] WfPR demo_context ''o'') world0)"
    using demo_request_publishes by blast
  have "validate_tags [''linux'', ''win''] = Inr ()"
    by (simp add: tag_char_allowed_def)
  then have v: "Some tags \<in> set [Some [''linux'', ''win'']] \<Longrightarrow> validate_tags tags = Inr ()" for tags by auto
  have "rs_agent_tags demo_resolver \<in> set [Some [''linux'', ''win'']]" by (simp add: demo_resolver_def)
  from delegated_request_routing [OF v this _ pub, of topic_match] show ?thesis
    by (auto simp: amqp_topic_matcher_def)
qed

subsection \<open>Signatures\<close>

text \<open>a message whose signature does not verify makes the timeout agent do nothing but reject it: it is not
  resubmitted, no result is published for it and it is not returned to the queue.\<close>

theorem timeout_agent_rejects_forged:
  assumes up: "broker_up E" and body: "im_body msg = Inr m"
      and forged: "asym_verify E (rw_verifier f) (dsm_details_signature m) (details_to_binary E (dsm_details m)) = Inl e" "derives_from_Exception e"
      and svc: "rs_workflow svc = ResolverFlow f"
  shows "ResolverTimeoutAgent_call E svc msg w = (Inr (), w\<lparr>w_trace := w_trace w @ [EvNack False]\<rparr>)"
  by (simp add: ResolverTimeoutAgent_call_def bindE_apply safe_deserialize_ok [OF body] catchE_apply liftE_apply raiseE_apply
      signature_valid_def svc forged msg_nack_up [OF up] log_event_def)

definition demo_delegated :: "string \<Rightarrow> DelegatedScanMessage" where
  "demo_delegated sig = \<lparr>sm_timestamp = ''t'', sm_correlation_id = ''c'', sh_moniker = ''svc'', sh_state = StEXECUTE, sh_workflow = WfPR,
     dsm_details = \<lparr>dsd_clone_url = ''u'', dsd_commit_hash = JNull, dsd_scan_branch = JNull, dsd_scan_tags = [], dsd_file_filters = JStr ''*.txt'',
       dsd_project_id = ''p'', dsd_pickled_scm_service = [], dsd_pickled_cxone_service = [], dsd_event_context = demo_context, dsd_orchestrator = ''o'',
       dsd_cxoneflow_version = ''1''\<rparr>, dsm_details_signature = sig, dsm_capture_logs = False\<rparr>"

theorem timeout_agent_rejects_forged_witness:
  "ResolverTimeoutAgent_call quiet_resolver_env demo_resolver
     \<lparr>im_body = Inr (demo_delegated ''evil''), im_headers = JNull, im_routing_key = ''r''\<rparr> world0 =
   (Inr (), world0\<lparr>w_trace := w_trace world0 @ [EvNack False]\<rparr>)"
proof -
  let ?f = "\<lparr>rw_capture_logs = False, rw_signer = Some ''key'', rw_verifier = ''key'', rw_scan_retries = Some 3, rw_scan_timeout_secs = Some 60, rw_no_kickoff = False\<rparr>"
  let ?m = "\<lparr>im_body = Inr (demo_delegated ''evil''), im_headers = JNull, im_routing_key = ''r''\<rparr>"
  have "im_body ?m = Inr (demo_delegated ''evil'')" "derives_from_Exception (LibError True ''InvalidSignature'')"
    "asym_verify quiet_resolver_env (rw_verifier ?f) (dsm_details_signature (demo_delegated ''evil''))
       (details_to_binary quiet_resolver_env (dsm_details (demo_delegated ''evil''))) = Inl (LibError True ''InvalidSignature'')"
    "rs_workflow demo_resolver = ResolverFlow ?f"
    by (simp_all add: demo_delegated_def demo_resolver_def from_private_key_def)
  then show ?thesis using timeout_agent_rejects_forged [OF broker_up_quiet_resolver] by blast
qed

subsection \<open>Retries\<close>

text \<open>
  The message the broker hands back when a delegated scan expires: the body and the routing key it was
  published with, the retry header of that publication, and the reason. \<open>expiries n\<close> handles \<open>n\<close> such
  expiries in a row, each for the message the one before published.
\<close>

definition expired_message :: "DelegatedScanMessage \<Rightarrow> string \<Rightarrow> int \<Rightarrow> DelegatedScanMessage incoming" where
  "expired_message m rk h =
     \<lparr>im_body = Inr m, im_headers = JObj [(''x-death'', JList [JObj [(''reason'', JStr ''expired'')]]), (''x-remaining-retries'', JInt h)],
      im_routing_key = rk\<rparr>"

fun expiries :: "nat \<Rightarrow> 'e resolver_env_scheme \<Rightarrow> ResolverScanService \<Rightarrow> DelegatedScanMessage \<Rightarrow> string \<Rightarrow> int \<Rightarrow> unit act" where
  "expiries 0 E svc m rk h = returnE ()"
| "expiries (Suc n) E svc m rk h =
     thenE (handle_resolver_scan_timeout E svc (expired_message m rk h)) (expiries n E svc m rk (h - 1))"

definition resubmission :: "ResolverScanningWorkflow \<Rightarrow> string \<Rightarrow> DelegatedScanMessage \<Rightarrow> int \<Rightarrow> event" where
  "resubmission f rk m h =
     EvPublish EXCHANGE_RESOLVER_SCAN rk (DelegatedBody m) (map_option (\<lambda>s. s * 1000) (rw_scan_timeout_secs f)) (Some h)"

lemma timeout_step:
  assumes up: "broker_up E" and svc: "rs_workflow svc = ResolverFlow f"
  shows "handle_resolver_scan_timeout E svc (expired_message m rk h) w =
    (Inr (), w\<lparr>w_trace := w_trace w @
       [if h > 1 then resubmission f rk m (h - 1)
        else EvPublish EXCHANGE_RESOLVER_SCAN ROUTEKEY_RESOLVER_RESULT_STUB
               (DelegatedResultBody (timeout_failure_message E (w_trace w) m)) None None]\<rparr>)"
proof -
  have b: "im_body (expired_message m rk h) = Inr m" by (simp add: expired_message_def)
  have "message_expired (im_headers (expired_message m rk h)) = Inr True"
    "get_delegated_scan_resubmit_count (ResolverFlow f) (im_headers (expired_message m rk h)) = Inr (h - 1)"
    by (simp_all add: expired_message_def message_expired_def retry_header_key_def)
  moreover have "im_routing_key (expired_message m rk h) = rk" by (simp add: expired_message_def)
  ultimately show ?thesis
    using publish_up [OF up, of rk "DelegatedBody m" "map_option (\<lambda>s. s * 1000) (rw_scan_timeout_secs f)" "Some (h - 1)" EXCHANGE_RESOLVER_SCAN w]
      publish_up [OF up, of ROUTEKEY_RESOLVER_RESULT_STUB "DelegatedResultBody (timeout_failure_message E (w_trace w) m)" None None EXCHANGE_RESOLVER_SCAN w]
    by (auto simp: handle_resolver_scan_timeout_def bindE_apply thenE_apply liftE_apply look_apply returnE_apply safe_deserialize_ok [OF b] svc
        mq_client_up [OF up] resubmission_def log_event_def max_def)
qed

text \<open>C17: a delegated scan published with a retry count of \<open>Suc k\<close> that no agent ever takes is resubmitted exactly \<open>k\<close> times,
  under the same topic, with the counts \<open>k\<close>, \<open>k - 1\<close>, ..., \<open>1\<close>; the next expiry publishes one failure result, and
  nothing else happens. (So a configured retry count of \<open>n\<close> means \<open>n\<close> submissions in all.)\<close>

theorem delegated_scan_retries:
  assumes up: "broker_up E" and svc: "rs_workflow svc = ResolverFlow f"
  shows "\<exists>failure. expiries (Suc k) E svc m rk (int (Suc k)) w =
    (Inr (), w\<lparr>w_trace := w_trace w @ map (\<lambda>j. resubmission f rk m (int j)) (rev [1..<Suc k]) @
       [EvPublish EXCHANGE_RESOLVER_SCAN ROUTEKEY_RESOLVER_RESULT_STUB (DelegatedResultBody failure) None None]\<rparr>) \<and>
    sh_state failure = StFAILURE \<and> dsm_details failure = dsm_details m \<and> dsr_scan_id failure = None"
proof (induction k arbitrary: w)
  case 0
  show ?case
    by (intro exI [of _ "timeout_failure_message E (w_trace w) m"])
       (simp add: thenE_apply timeout_step [OF up svc] returnE_apply timeout_failure_message_def)
next
  case (Suc k)
  let ?w = "w\<lparr>w_trace := w_trace w @ [resubmission f rk m (int (Suc k))]\<rparr>"
  from Suc.IH [of ?w] obtain failure where IH: "expiries (Suc k) E svc m rk (int (Suc k)) ?w =
    (Inr (), ?w\<lparr>w_trace := w_trace ?w @ map (\<lambda>j. resubmission f rk m (int j)) (rev [1..<Suc k]) @
       [EvPublish EXCHANGE_RESOLVER_SCAN ROUTEKEY_RESOLVER_RESULT_STUB (DelegatedResultBody failure) None None]\<rparr>)"
    "sh_state failure = StFAILURE" "dsm_details failure = dsm_details m" "dsr_scan_id failure = None" by blast
  have "expiries (Suc (Suc k)) E svc m rk (int (Suc (Suc k))) w = expiries (Suc k) E svc m rk (int (Suc k)) ?w"
    by (simp add: thenE_apply timeout_step [OF up svc] del: expiries.simps(2) add: expiries.simps(2) [of "Suc k"])
  with IH show ?case by (intro exI [of _ failure]) simp
qed

theorem delegated_scan_retries_witness:
  "\<exists>failure. expiries (Suc 2) quiet_resolver_env demo_resolver (demo_delegated ''keyu'') ''r'' (int (Suc 2)) world0 =
    (Inr (), world0\<lparr>w_trace := w_trace world0 @
       map (\<lambda>j. resubmission \<lparr>rw_capture_logs = False, rw_signer = Some ''key'', rw_verifier = ''key'', rw_scan_retries = Some 3,
              rw_scan_timeout_secs = Some 60, rw_no_kickoff = False\<rparr> ''r'' (demo_delegated ''keyu'') (int j)) (rev [1..<Suc 2]) @
       [EvPublish EXCHANGE_RESOLVER_SCAN ROUTEKEY_RESOLVER_RESULT_STUB (DelegatedResultBody failure) None None]\<rparr>)"
proof -
  have "rs_workflow demo_resolver = ResolverFlow \<lparr>rw_capture_logs = False, rw_signer = Some ''key'', rw_verifier = ''key'', rw_scan_retries = Some 3,
              rw_scan_timeout_secs = Some 60, rw_no_kickoff = False\<rparr>"
    by (simp add: demo_resolver_def from_private_key_def)
  from delegated_scan_retries [OF broker_up_quiet_resolver this, of 2] show ?thesis by blast
qed

end
