(* ===== verification/Orchestration.thy ===== *)
theory Orchestration
  imports Resolver
begin

text \<open>
  \<^verbatim>\<open>src/orchestration/base.py\<close>: what every orchestrator of a source control event does. The methods a
  subclass overrides are the fields of the record \<open>Orchestrator\<close>; the class \<^verbatim>\<open>AbstractOrchestrator\<close> itself is
  the record in which every one of them raises. \<^verbatim>\<open>src/naming_services/__init__.py\<close> is here too.
\<close>

section \<open>Services\<close>

record SCMService =
  scm_display_url :: string
  scm_moniker :: string
  scm_session :: APISession
  scm_shared_secret :: string
  scm_cloner :: Cloner

type_synonym naming_coro = "trace \<Rightarrow> EventContext \<Rightarrow> string option result"

text \<open>
  The kickoff service of a service definition: the text of its public key, the signature algorithm of that key,
  the service moniker and the limit on concurrent scans. A definition without a kickoff section has the dummy.
\<close>

datatype KickoffService =
    KickoffService string string string int
  | DummyKickoffService

record CxOneFlowServices =
  sv_matcher :: string
  sv_cxone :: CxOneService
  sv_scm :: SCMService
  sv_pr :: PRFeedbackService
  sv_poll :: ScanPollingService
  sv_push :: PushFeedbackService
  sv_resolver :: ResolverScanService
  sv_kickoff :: KickoffService
  sv_naming :: "naming_coro option"

text \<open>The files below a directory as the walk sees them, symbolic links followed.\<close>

datatype fs_entry = FsFile | FsDir "(string \<times> fs_entry) list" | FsOther

record orch_env = resolver_env +
  fs_tree :: "trace \<Rightarrow> string \<Rightarrow> (string \<times> fs_entry) list result"
  zip_write :: "trace \<Rightarrow> (string \<times> string) list \<Rightarrow> unit result"
  zip_file_name :: "trace \<Rightarrow> string"
  scan_inspector :: "json \<Rightarrow> ScanInspector result" \<comment> \<open>the library's constructor from a submission\<close>
  pickle_scm :: "SCMService \<Rightarrow> string"
  pickle_cxone :: "CxOneService \<Rightarrow> string"

text \<open>\<^verbatim>\<open>ProjectNamingService.get_project_name\<close>: whatever the user's script does, there is a name.\<close>

definition get_project_name :: "naming_coro option \<Rightarrow> string \<Rightarrow> EventContext \<Rightarrow> string act" where
  "get_project_name coro default_name ec =
     (case coro of
        None \<Rightarrow> returnE default_name
      | Some f \<Rightarrow>
          catchE
            (bindE (ask (EvNaming default_name) (\<lambda>tr. f tr ec)) (\<lambda>name.
             returnE (case name of None \<Rightarrow> default_name | Some n \<Rightarrow> n)))
            (\<lambda>_. returnE default_name))"

section \<open>The class\<close>

datatype ScanAction = DELEGATED | EXECUTING | SKIPPED | FAILED | COMPLETE

record Orchestrator =
  o_class :: string
  o_event_context :: EventContext
  o_delegated :: bool
  o_protected_branches :: "json list act"
  o_target :: "(json \<times> json) act"
  o_source :: "(json \<times> json) act"
  o_clone_url :: "string option act"
  o_default_project_name :: "string act"
  o_pr_state :: "json result"
  o_pr_status :: "json result"
  o_pr_id :: "json result"
  o_repo_project_key :: "json result"
  o_repo_organization :: "json result"
  o_repo_slug :: "json result"

definition AbstractOrchestrator :: "EventContext \<Rightarrow> Orchestrator" where
  "AbstractOrchestrator ec =
     \<lparr>o_class = ''orchestration.base.AbstractOrchestrator'', o_event_context = ec, o_delegated = False,
      o_protected_branches = raiseE (NotImplementedError ''_get_protected_branches''),
      o_target = raiseE (NotImplementedError ''_get_target_branch_and_hash''),
      o_source = raiseE (NotImplementedError ''_get_source_branch_and_hash''),
      o_clone_url = raiseE (NotImplementedError ''_repo_clone_uri''),
      o_default_project_name = raiseE (NotImplementedError ''get_cxone_project_name''),
      o_pr_state = Inl (NotImplementedError ''_pr_state''), o_pr_status = Inl (NotImplementedError ''_pr_status''),
      o_pr_id = Inl (NotImplementedError ''_pr_id''), o_repo_project_key = Inl (NotImplementedError ''_repo_project_key''),
      o_repo_organization = Inl (NotImplementedError ''_repo_organization''), o_repo_slug = Inl (NotImplementedError ''_repo_slug'')\<rparr>"

definition normalize_branch_name :: "string \<Rightarrow> string" where
  "normalize_branch_name branch = str_replace ''refs/heads/'' [] (lstrip_chars ''/'' branch)"

definition get_header_key_safe :: "EventContext \<Rightarrow> string \<Rightarrow> string option" where
  "get_header_key_safe ec key = map_of (ec_headers ec) key"

text \<open>
  \<^verbatim>\<open>__get_path_dict\<close>: the files below a directory, each with its path and its path relative to the root.
  An entry that is neither a directory nor a file is skipped.
\<close>

fun get_path_dict :: "string \<Rightarrow> string \<Rightarrow> (string \<times> fs_entry) list \<Rightarrow> (string \<times> string) list" where
  "get_path_dict path rel [] = []"
| "get_path_dict path rel ((name, FsDir sub) # rest) =
     get_path_dict (path @ ''/'' @ name) (rel @ name @ ''/'') sub @ get_path_dict path rel rest"
| "get_path_dict path rel ((name, FsFile) # rest) = (path @ ''/'' @ name, rel @ name) # get_path_dict path rel rest"
| "get_path_dict path rel ((name, FsOther) # rest) = get_path_dict path rel rest"

definition exec_local_scan ::
  "'e orch_env_scheme \<Rightarrow> CxOneService \<Rightarrow> string \<Rightarrow> json \<Rightarrow> ProjectRepoConfig \<Rightarrow> json dict \<Rightarrow> (ScanInspector \<times> ScanAction) act" where
  "exec_local_scan E svc code_path source_branch project_config tags =
     bindE (look (\<lambda>tr. fs_tree E tr code_path)) (\<lambda>tree.
     let zip_entries = get_path_dict code_path [] tree in
     thenE (ask (EvZip code_path) (\<lambda>tr. zip_write E tr zip_entries)) (
     bindE (look (\<lambda>tr. Inr (zip_file_name E tr))) (\<lambda>zip_name.
     bindE (execute_scan E svc zip_name project_config source_branch tags) (\<lambda>scan_submit.
     bindE (liftE (py_getitem scan_submit ''id'')) (\<lambda>_.
     bindE (liftE (answer (scan_inspector E scan_submit))) (\<lambda>inspector.
     returnE (inspector, EXECUTING)))))))"

text \<open>
  \<^verbatim>\<open>exec_clone_scan\<close>: the loop tries again, with new credentials, after an authentication failure. The test
  in its handler is true whenever the handler runs, so a second failure ends the loop without a value.
\<close>

definition clone_and_scan ::
  "'e orch_env_scheme \<Rightarrow> CxOneService \<Rightarrow> SCMService \<Rightarrow> string \<Rightarrow> json \<Rightarrow> json \<Rightarrow> ProjectRepoConfig \<Rightarrow> json dict \<Rightarrow> EventContext \<Rightarrow>
   bool \<Rightarrow> (ScanInspector \<times> ScanAction) act" where
  "clone_and_scan E svc scm clone_url source_hash source_branch project_config tags ec force_reauth =
     bindE (clone_repo E (scm_cloner scm) clone_url (Some ec) force_reauth None True) (\<lambda>clone_worker.
     with_worker E clone_worker
       (bindE (worker_loc E clone_worker) (\<lambda>code_path.
        thenE (reset_head E code_path source_hash)
        (exec_local_scan E svc code_path source_branch project_config tags))))"

fun clone_attempts :: "nat \<Rightarrow> bool \<Rightarrow> (bool \<Rightarrow> 'a act) \<Rightarrow> 'a option act" where
  "clone_attempts 0 force attempt = returnE None"
| "clone_attempts (Suc n) force attempt =
     catchE (bindE (attempt force) (\<lambda>r. returnE (Some r)))
       (\<lambda>e. if e = CloneAuthException then clone_attempts n True attempt else raiseE e)"

definition exec_clone_scan ::
  "'e orch_env_scheme \<Rightarrow> CxOneService \<Rightarrow> SCMService \<Rightarrow> string \<Rightarrow> json \<Rightarrow> json \<Rightarrow> ProjectRepoConfig \<Rightarrow> json dict \<Rightarrow> EventContext \<Rightarrow>
   (ScanInspector \<times> ScanAction) option act" where
  "exec_clone_scan E svc scm clone_url source_hash source_branch project_config tags ec =
     clone_attempts 2 False (clone_and_scan E svc scm clone_url source_hash source_branch project_config tags ec)"

text \<open>The attempt to hand the scan to an agent; a workflow exception means to go on without one.\<close>

definition try_delegate ::
  "'e orch_env_scheme \<Rightarrow> CxOneFlowServices \<Rightarrow> Orchestrator \<Rightarrow> ProjectRepoConfig \<Rightarrow> string \<Rightarrow> json \<Rightarrow> json \<Rightarrow> json dict \<Rightarrow> ScanWorkflow \<Rightarrow> bool act" where
  "try_delegate E sv ob project_config clone_url source_hash source_branch scan_tags workflow =
     catchE
       (bindE (get_resolver_tag_for_project project_config (rs_project_tag_key (sv_resolver sv)) (rs_default_tag (sv_resolver sv))) (\<lambda>resolver_tag.
        if resolver_tag \<noteq> JNull then
          request_resolver_scan E (sv_resolver sv) resolver_tag project_config (pickle_scm E (sv_scm sv)) (pickle_cxone E (sv_cxone sv))
            clone_url source_hash source_branch scan_tags workflow (o_event_context ob) (o_class ob)
        else returnE False))
       (\<lambda>e. case e of WorkflowException _ \<Rightarrow> returnE False | _ \<Rightarrow> raiseE e)"

definition orchestrate_scan ::
  "'e orch_env_scheme \<Rightarrow> CxOneFlowServices \<Rightarrow> Orchestrator \<Rightarrow> json dict \<Rightarrow> ScanWorkflow \<Rightarrow> (ScanInspector option \<times> ScanAction) act" where
  "orchestrate_scan E sv ob scan_tags workflow =
     bindE (o_protected_branches ob) (\<lambda>protected_branches.
     bindE (o_target ob) (\<lambda>(target_branch, target_hash).
     bindE (o_source ob) (\<lambda>(source_branch, source_hash).
     bindE (o_clone_url ob) (\<lambda>url.
     case url of
       None \<Rightarrow> raiseE (OrchestrationException ''Clone URL could not be determined.'')
     | Some clone_url \<Rightarrow>
         if target_branch \<in> set protected_branches then
           bindE (o_default_project_name ob) (\<lambda>default_name.
           bindE (o_default_project_name ob) (\<lambda>default_name2.
           bindE (get_project_name (sv_naming sv) default_name2 (o_event_context ob)) (\<lambda>dynamic_name.
           bindE (load_project_config E (sv_cxone sv) default_name dynamic_name clone_url) (\<lambda>project_config.
           bindE (if \<not> o_delegated ob then try_delegate E sv ob project_config clone_url source_hash source_branch scan_tags workflow
                  else returnE False) (\<lambda>delegated.
           if delegated then returnE (None, DELEGATED)
           else
             bindE (exec_clone_scan E (sv_cxone sv) (sv_scm sv) clone_url source_hash source_branch project_config scan_tags (o_event_context ob)) (\<lambda>r.
             case r of
               None \<Rightarrow> raiseE TypeError
             | Some (inspector, action) \<Rightarrow> returnE (Some inspector, action)))))))
         else returnE (None, SKIPPED)))))"

section \<open>The workflows\<close>

definition json_opt :: "string option \<Rightarrow> json" where
  "json_opt v = (case v of None \<Rightarrow> JNull | Some s \<Rightarrow> JStr s)"

definition start_push_feedback ::
  "'e orch_env_scheme \<Rightarrow> CxOneFlowServices \<Rightarrow> Orchestrator \<Rightarrow> ScanInspector \<Rightarrow> unit act" where
  "start_push_feedback E sv ob inspector =
     bindE (o_source ob) (\<lambda>(source_branch, commit_hash).
     bindE (o_clone_url ob) (\<lambda>clone_url.
     bindE (liftE (answer (o_repo_project_key ob))) (\<lambda>repo_project.
     bindE (liftE (answer (o_repo_slug ob))) (\<lambda>repo_slug.
     bindE (liftE (answer (o_repo_organization ob))) (\<lambda>organization.
     start_sarif_feedback E (sv_push sv) (si_project_id inspector) (si_scan_id inspector)
       \<lparr>cd_clone_url = json_opt clone_url, cd_repo_project = repo_project, cd_repo_slug = repo_slug, cd_organization = organization,
        cd_source_branch = source_branch, cd_event_context = o_event_context ob, pd_commit_hash = commit_hash\<rparr>)))))"

definition start_pr_workflow ::
  "'e orch_env_scheme \<Rightarrow> CxOneFlowServices \<Rightarrow> Orchestrator \<Rightarrow> ScanInspector \<Rightarrow> unit act" where
  "start_pr_workflow E sv ob inspector =
     bindE (o_source ob) (\<lambda>(source_branch, _).
     bindE (o_target ob) (\<lambda>(target_branch, _).
     bindE (o_clone_url ob) (\<lambda>clone_url.
     bindE (liftE (answer (o_repo_project_key ob))) (\<lambda>repo_project.
     bindE (liftE (answer (o_repo_slug ob))) (\<lambda>repo_slug.
     bindE (liftE (answer (o_repo_organization ob))) (\<lambda>organization.
     bindE (liftE (answer (o_pr_id ob))) (\<lambda>pr_id.
     start_pr_scan_workflow E (sv_pr sv) (si_project_id inspector) (si_scan_id inspector)
       \<lparr>cd_clone_url = json_opt clone_url, cd_repo_project = repo_project, cd_repo_slug = repo_slug, cd_organization = organization,
        cd_source_branch = source_branch, cd_event_context = o_event_context ob, prd_pr_id = pr_id, prd_target_branch = target_branch\<rparr>)))))))"

definition execute_delegated_push_scan_workflow ::
  "'e orch_env_scheme \<Rightarrow> CxOneFlowServices \<Rightarrow> Orchestrator \<Rightarrow> string \<Rightarrow> (ScanInspector option \<times> ScanAction) act" where
  "execute_delegated_push_scan_workflow E sv ob scan_id =
     bindE (load_scan_inspector E scan_id) (\<lambda>inspector.
     if si_executing inspector then
       thenE (start_push_feedback E sv ob inspector) (returnE (Some inspector, EXECUTING))
     else if si_failed inspector then returnE (Some inspector, FAILED)
     else returnE (Some inspector, COMPLETE))"

definition push_scan_tags :: "'e orch_env_scheme \<Rightarrow> CxOneFlowServices \<Rightarrow> json \<Rightarrow> json dict option \<Rightarrow> json dict" where
  "push_scan_tags E sv h scan_tags =
     (let submitted = [(COMMIT_TAG, h), (''workflow'', JStr (ScanWorkflow_str WfPUSH)), (''cxone-flow'', JStr (app_version E)),
            (''service'', JStr (cs_moniker (sv_cxone sv)))]
      in case scan_tags of None \<Rightarrow> submitted | Some t \<Rightarrow> dict_union submitted t)"

definition execute_push_scan_workflow ::
  "'e orch_env_scheme \<Rightarrow> CxOneFlowServices \<Rightarrow> Orchestrator \<Rightarrow> json dict option \<Rightarrow> (ScanInspector option \<times> ScanAction) act" where
  "execute_push_scan_workflow E sv ob scan_tags =
     bindE (o_source ob) (\<lambda>(_, h).
     bindE (orchestrate_scan E sv ob (push_scan_tags E sv h scan_tags) WfPUSH) (\<lambda>(inspector, action).
     thenE (case inspector of
              Some i \<Rightarrow> if action = EXECUTING then start_push_feedback E sv ob i else returnE ()
            | None \<Rightarrow> returnE ())
     (returnE (inspector, action))))"

definition execute_delegated_pr_scan_workflow ::
  "'e orch_env_scheme \<Rightarrow> CxOneFlowServices \<Rightarrow> Orchestrator \<Rightarrow> string \<Rightarrow> ScanAction act" where
  "execute_delegated_pr_scan_workflow E sv ob scan_id =
     bindE (load_scan_inspector E scan_id) (\<lambda>inspector.
     thenE (start_pr_workflow E sv ob inspector) (returnE EXECUTING))"

definition execute_pr_scan_workflow ::
  "'e orch_env_scheme \<Rightarrow> CxOneFlowServices \<Rightarrow> Orchestrator \<Rightarrow> json dict option \<Rightarrow> ScanAction act" where
  "execute_pr_scan_workflow E sv ob scan_tags =
     bindE (o_source ob) (\<lambda>(_, source_hash).
     bindE (o_target ob) (\<lambda>(target_branch, _).
     bindE (liftE (answer (o_pr_id ob))) (\<lambda>pr_id.
     bindE (liftE (answer (o_pr_status ob))) (\<lambda>pr_status.
     bindE (liftE (answer (o_pr_state ob))) (\<lambda>pr_state.
     let submitted = [(COMMIT_TAG, source_hash), (PR_ID_TAG, pr_id), (PR_TARGET_TAG, target_branch), (PR_STATUS_TAG, pr_status),
           (PR_STATE_TAG, pr_state), (''workflow'', JStr (ScanWorkflow_str WfPR)), (''cxone-flow'', JStr (app_version E)),
           (''service'', JStr (cs_moniker (sv_cxone sv)))];
         submitted_scan_tags = (case scan_tags of None \<Rightarrow> submitted | Some t \<Rightarrow> dict_union submitted t) in
     bindE (orchestrate_scan E sv ob submitted_scan_tags WfPR) (\<lambda>(inspector, scan_action).
     thenE (case inspector of
              Some i \<Rightarrow> if scan_action = EXECUTING then start_pr_workflow E sv ob i else returnE ()
            | None \<Rightarrow> returnE ())
     (returnE scan_action)))))))"

definition execute_pr_tag_update_workflow ::
  "'e orch_env_scheme \<Rightarrow> CxOneFlowServices \<Rightarrow> Orchestrator \<Rightarrow> json list act" where
  "execute_pr_tag_update_workflow E sv ob =
     bindE (o_source ob) (\<lambda>(_, source_hash).
     bindE (o_target ob) (\<lambda>(target_branch, _).
     bindE (o_default_project_name ob) (\<lambda>default_name.
     bindE (get_project_name (sv_naming sv) default_name (o_event_context ob)) (\<lambda>name.
     bindE (liftE (answer (o_pr_id ob))) (\<lambda>pr_id.
     bindE (liftE (answer (o_pr_state ob))) (\<lambda>pr_state.
     bindE (liftE (answer (o_pr_status ob))) (\<lambda>pr_status.
     update_scan_pr_tags E name pr_id source_hash target_branch pr_state pr_status)))))))"

section \<open>Lemmas\<close>

fun is_scm_call :: "event \<Rightarrow> bool" where
  "is_scm_call (EvHttp _) = True"
| "is_scm_call (EvSleep _) = True"
| "is_scm_call _ = False"

text \<open>
  The contract of a subclass: its methods only talk to the API of the source control server. Every
  orchestrator of the program is shown to keep it.
\<close>

definition scm_only :: "Orchestrator \<Rightarrow> bool" where
  "scm_only ob \<longleftrightarrow> emits is_scm_call (o_protected_branches ob) \<and> emits is_scm_call (o_target ob) \<and> emits is_scm_call (o_source ob) \<and>
     emits is_scm_call (o_clone_url ob) \<and> emits is_scm_call (o_default_project_name ob)"

lemma scm_only_emits [emits_intros]:
  assumes "scm_only ob" and "\<And>e. is_scm_call e \<Longrightarrow> ok e"
  shows "emits ok (o_protected_branches ob)" "emits ok (o_target ob)" "emits ok (o_source ob)" "emits ok (o_clone_url ob)"
    "emits ok (o_default_project_name ob)"
  using assms by (auto simp: scm_only_def intro: emits_mono)

lemma get_project_name_emits [emits_intros]: "(\<And>d. ok (EvNaming d)) \<Longrightarrow> emits ok (get_project_name c d ec)"
  unfolding get_project_name_def by (intro emits_intros)

subsection \<open>Unprotected branches\<close>

text \<open>A run in which the target branch is never among the protected branches.\<close>

definition unprotected :: "Orchestrator \<Rightarrow> json \<Rightarrow> bool" where
  "unprotected ob tb \<longleftrightarrow> yields (\<lambda>(t, _). t = tb) (o_target ob) \<and> yields (\<lambda>bs. tb \<notin> set bs) (o_protected_branches ob)"

lemma orchestrate_unprotected:
  assumes "scm_only ob" and "unprotected ob tb"
  shows "spec (orchestrate_scan E sv ob tags flow) (gives is_scm_call (\<lambda>x. x = (None, SKIPPED)))"
proof -
  have e: "emits is_scm_call (o_protected_branches ob)" "emits is_scm_call (o_target ob)" "emits is_scm_call (o_source ob)"
      "emits is_scm_call (o_clone_url ob)"
    and y: "yields (\<lambda>bs. tb \<notin> set bs) (o_protected_branches ob)" "yields (\<lambda>(t, _). t = tb) (o_target ob)"
    using assms by (simp_all add: scm_only_def unprotected_def)
  show ?thesis
    unfolding orchestrate_scan_def
    by (rule spec_bindE_gives [OF spec_gives [OF e(1) y(1)]], rule spec_bindE_gives [OF spec_gives [OF e(2) y(2)]], clarify,
        rule spec_bindE_quiet [OF e(3)], clarify, rule spec_bindE_quiet [OF e(4)])
       (auto intro!: spec_intros)
qed

lemma push_unprotected:
  assumes "scm_only ob" and "unprotected ob tb"
  shows "spec (execute_push_scan_workflow E sv ob tags) (gives is_scm_call (\<lambda>x. x = (None, SKIPPED)))"
proof -
  have e: "emits is_scm_call (o_source ob)" using assms by (simp add: scm_only_def)
  show ?thesis
    unfolding execute_push_scan_workflow_def thenE_def
    by (rule spec_bindE_quiet [OF e], clarify, rule spec_bindE_gives [OF orchestrate_unprotected [OF assms]])
       (auto intro!: spec_intros)
qed

lemma pr_unprotected:
  assumes "scm_only ob" and "unprotected ob tb"
  shows "spec (execute_pr_scan_workflow E sv ob tags) (gives is_scm_call (\<lambda>x. x = SKIPPED))"
proof -
  have e: "emits is_scm_call (o_source ob)" "emits is_scm_call (o_target ob)" using assms by (simp_all add: scm_only_def)
  show ?thesis
    unfolding execute_pr_scan_workflow_def thenE_def Let_def
    by (rule spec_bindE_quiet [OF e(1)], clarify, rule spec_bindE_quiet [OF e(2)], clarify,
        rule spec_bindE_quiet [OF emits_liftE], rule spec_bindE_quiet [OF emits_liftE], rule spec_bindE_quiet [OF emits_liftE],
        rule spec_bindE_gives [OF orchestrate_unprotected [OF assms]])
       (auto intro!: spec_intros)
qed

text \<open>C2: an event whose target branch is not a protected branch of the repository is never scanned: the push and the
  pull-request workflow then do nothing but ask the source control server (no project is created or
  updated, nothing is cloned, submitted or published), and they end with the action skipped or with an exception.\<close>

theorem unprotected_never_scanned:
  assumes "scm_only ob" and "unprotected ob tb"
  shows "list_all is_scm_call (new_events (execute_push_scan_workflow E sv ob tags) w) \<and>
    list_all is_scm_call (new_events (execute_pr_scan_workflow E sv ob tags) w) \<and>
    (\<forall>i a. fst (execute_push_scan_workflow E sv ob tags w) = Inr (i, a) \<longrightarrow> i = None \<and> a = SKIPPED) \<and>
    (\<forall>a. fst (execute_pr_scan_workflow E sv ob tags w) = Inr a \<longrightarrow> a = SKIPPED)"
proof (intro conjI allI impI)
  note push = push_unprotected [OF assms, of E sv tags] and pr = pr_unprotected [OF assms, of E sv tags]
  show "list_all is_scm_call (new_events (execute_push_scan_workflow E sv ob tags) w)"
    "list_all is_scm_call (new_events (execute_pr_scan_workflow E sv ob tags) w)"
    using gives_emitsD [OF push] gives_emitsD [OF pr] unfolding list_all_iff by blast+
  show "i = None" "a = SKIPPED" if "fst (execute_push_scan_workflow E sv ob tags w) = Inr (i, a)" for i a
    using gives_valueD [OF push that] by simp_all
  show "a = SKIPPED" if "fst (execute_pr_scan_workflow E sv ob tags w) = Inr a" for a
    using gives_valueD [OF pr that] .
qed

definition base_orchestrator :: "string \<Rightarrow> string \<Rightarrow> Orchestrator" where
  "base_orchestrator target default_branch =
     (AbstractOrchestrator demo_context)\<lparr>o_protected_branches := returnE [JStr default_branch], o_target := returnE (JStr target, JStr ''h1''),
        o_source := returnE (JStr target, JStr ''h2''), o_clone_url := returnE (Some ''https://scm/r''), o_default_project_name := returnE ''p/r'',
        o_pr_state := Inr (JStr ''open''), o_pr_status := Inr (JStr ''new''), o_pr_id := Inr (JStr ''7''),
        o_repo_project_key := Inr (JStr ''p''), o_repo_organization := Inr (JStr ''o''), o_repo_slug := Inr (JStr ''r'')\<rparr>"

definition demo_services :: CxOneFlowServices where
  "demo_services = \<lparr>sv_matcher = ''.*'', sv_cxone = demo_service,
     sv_scm = \<lparr>scm_display_url = ''https://scm'', scm_moniker = ''svc'', scm_session = \<lparr>s_api_endpoint = ''https://scm/api'', s_retries = 3, s_headers = []\<rparr>,
        scm_shared_secret = ''secret'', scm_cloner = using_token_auth ''t'' False\<rparr>,
     sv_pr = \<lparr>pfs_moniker = ''svc'', pfs_server_base_url = '''', pfs_workflow = \<lparr>pw_enabled = True, pw_interval = 60, pw_scan_timeout = 48,
        prw_excluded_severities = [], prw_excluded_states = []\<rparr>\<rparr>,
     sv_poll = demo_poller, sv_push = \<lparr>ufs_moniker = ''svc'', ufs_agents = [], ufs_workflow = \<lparr>pw_enabled = True, pw_interval = 60, pw_scan_timeout = 48\<rparr>\<rparr>,
     sv_resolver = demo_resolver, sv_kickoff = KickoffService ''public-key'' ''ES256'' ''svc'' 3, sv_naming = None\<rparr>"

definition quiet_orch_env :: orch_env where
  "quiet_orch_env = resolver_env.extend quiet_resolver_env
     (orch_env.fields (\<lambda>_ _. Inr [(''a.py'', FsFile)]) (\<lambda>_ _. Inr ()) (\<lambda>_. ''/tmp/z.zip'')
        (\<lambda>_. Inr \<lparr>si_project_id = ''p'', si_scan_id = ''s'', si_executing = True, si_successful = False, si_failed = False, si_state_msg = ''Running''\<rparr>)
        (\<lambda>_. []) (\<lambda>_. []))"

lemma scm_only_base: "scm_only (base_orchestrator t b)"
  by (simp add: scm_only_def base_orchestrator_def emits_intros)

theorem unprotected_never_scanned_witness:
  "list_all is_scm_call (new_events (execute_pr_scan_workflow quiet_orch_env demo_services (base_orchestrator ''feature'' ''main'') None) world0)"
proof -
  have "unprotected (base_orchestrator ''feature'' ''main'') (JStr ''feature'')"
    by (simp add: unprotected_def base_orchestrator_def yields_returnE)
  from unprotected_never_scanned [OF scm_only_base this] show ?thesis by blast
qed

subsection \<open>Delegated scans\<close>

lemma create_or_retrieve_project_emits [emits_intros]:
  assumes "\<And>n. ok (EvListProjects n)" and "\<And>p. ok (EvRetrieveGroups p)" and "\<And>n g t. ok (EvCreateProject n g t)" and "\<And>i b. ok (EvUpdateProject i b)"
  shows "emits ok (create_or_retrieve_project E svc d n url)"
  unfolding create_or_retrieve_project_def refresh_project_def update_project_with_retry_def Let_def
  by (auto intro!: emits_intros assms)

lemma load_project_config_emits [emits_intros]:
  assumes "\<And>n. ok (EvListProjects n)" and "\<And>p. ok (EvRetrieveGroups p)" and "\<And>n g t. ok (EvCreateProject n g t)" and "\<And>i b. ok (EvUpdateProject i b)"
  shows "emits ok (load_project_config E svc d n url)"
  unfolding load_project_config_def by (intro emits_intros assms)

lemma get_resolver_tag_emits [emits_intros]: "emits ok (get_resolver_tag_for_project pc k d)"
  unfolding get_resolver_tag_for_project_def by (intro emits_intros)

lemma try_delegate_emits [emits_intros]:
  assumes "\<And>t b xp rt. ok (EvPublish EXCHANGE_RESOLVER_SCAN t b xp rt)" and "ok (EvScanFilters (pc_id pc))"
  shows "emits ok (try_delegate E sv ob pc url h b tags flow)"
proof -
  have "emits ok (case e of WorkflowException _ \<Rightarrow> returnE False | _ \<Rightarrow> raiseE e)" for e
    by (cases e) (auto intro: emits_intros)
  then show ?thesis
    unfolding try_delegate_def by (intro emits_intros request_resolver_scan_emits assms)
qed

lemma exec_local_scan_emits [emits_intros]:
  assumes "\<And>p. ok (EvZip p)" and "\<And>b. ok (EvEnabledScanners (pc_id pc) b)" and "ok (EvScanFilters (pc_id pc))"
    and "\<And>b e t. ok (EvScanSubmit (pc_id pc) b e t)"
  shows "emits ok (exec_local_scan E svc path branch pc tags)"
  unfolding exec_local_scan_def execute_scan_def Let_def by (intro emits_intros assms)

lemma clone_attempts_emits [emits_intros]: "(\<And>b. emits ok (m b)) \<Longrightarrow> emits ok (clone_attempts n force m)"
  by (induction n arbitrary: force) (auto intro!: emits_intros)

lemma exec_clone_scan_emits [emits_intros]:
  assumes "\<And>p. ok (EvZip p)" and "\<And>b. ok (EvEnabledScanners (pc_id pc) b)" and "ok (EvScanFilters (pc_id pc))"
    and "\<And>b e t. ok (EvScanSubmit (pc_id pc) b e t)" and "\<And>c. ok (EvClone c)" and "\<And>a b. ok (EvResetHead a b)" and "\<And>d. ok (EvTempDir d)" and "\<And>d. ok (EvCleanup d)"
  shows "emits ok (exec_clone_scan E svc scm url h b pc tags ec)"
  unfolding exec_clone_scan_def clone_and_scan_def by (intro emits_intros assms)

lemma clone_attempts_yields: "(\<And>b. yields Q (m b)) \<Longrightarrow> yields (\<lambda>r. \<forall>x. r = Some x \<longrightarrow> Q x) (clone_attempts n force m)"
proof (induction n arbitrary: force)
  case (Suc n)
  have "yields (\<lambda>r. \<forall>x. r = Some x \<longrightarrow> Q x) (bindE (m force) (\<lambda>r. returnE (Some r)))"
    by (rule yields_bindE_post [OF Suc.prems]) (simp add: yields_returnE)
  with Suc show ?case by (auto intro!: yields_catchE yields_if yields_raiseE)
qed (simp add: yields_returnE)

lemma exec_clone_scan_action:
  "yields (\<lambda>r. \<forall>x. r = Some x \<longrightarrow> snd x = EXECUTING) (exec_clone_scan E svc scm url h b pc tags ec)"
  unfolding exec_clone_scan_def clone_and_scan_def with_worker_def exec_local_scan_def Let_def
  by (intro clone_attempts_yields yields_intros) simp_all

fun is_local_scan :: "event \<Rightarrow> bool" where
  "is_local_scan (EvTempDir _) = True"
| "is_local_scan (EvClone _) = True"
| "is_local_scan (EvResetHead _ _) = True"
| "is_local_scan (EvZip _) = True"
| "is_local_scan (EvScanSubmit _ _ _ _) = True"
| "is_local_scan _ = False"

lemma orchestrate_delegated:
  assumes "scm_only ob"
  shows "spec (orchestrate_scan E sv ob tags flow)
     (\<lambda>r new. \<forall>i. r = Inr (i, DELEGATED) \<longrightarrow> i = None \<and> \<not> o_delegated ob \<and> list_all (\<lambda>e. \<not> is_local_scan e) new)"
    (is "spec _ ?Q")
proof -
  have clone: "spec (bindE (exec_clone_scan E svc scm url h b pc tags ec) (\<lambda>r.
      case r of None \<Rightarrow> raiseE TypeError | Some (inspector, action) \<Rightarrow> returnE (Some inspector, action))) ?Q" for svc scm url h b pc tags ec
  proof (rule spec_mono [where Q = "gives (\<lambda>_. True) (\<lambda>x. snd x = EXECUTING)"])
    show "spec (bindE (exec_clone_scan E svc scm url h b pc tags ec) (\<lambda>r.
      case r of None \<Rightarrow> raiseE TypeError | Some (inspector, action) \<Rightarrow> returnE (Some inspector, action))) (gives (\<lambda>_. True) (\<lambda>x. snd x = EXECUTING))"
      by (rule spec_bindE_gives [OF spec_gives [OF _ exec_clone_scan_action]]) (auto intro!: emits_intros spec_intros)
  qed (auto simp: gives_def)
  have quiet: "spec (bindE m f) ?Q" if "emits (\<lambda>e. \<not> is_local_scan e) m" "\<And>x. spec (f x) ?Q" for m and f :: "_ \<Rightarrow> (ScanInspector option \<times> ScanAction) act"
    by (rule spec_bindE_emits [OF that(1)]) (use that(2) in auto)
  have scm: "is_scm_call e \<Longrightarrow> \<not> is_local_scan e" for e by (cases e) auto
  have e: "emits (\<lambda>e. \<not> is_local_scan e) (o_protected_branches ob)" "emits (\<lambda>e. \<not> is_local_scan e) (o_target ob)"
      "emits (\<lambda>e. \<not> is_local_scan e) (o_source ob)" "emits (\<lambda>e. \<not> is_local_scan e) (o_clone_url ob)"
      "emits (\<lambda>e. \<not> is_local_scan e) (o_default_project_name ob)"
    using assms scm by (auto intro: scm_only_emits)
  have deleg: "spec (bindE (if \<not> o_delegated ob then try_delegate E sv ob pc url h b tags flow else returnE False) (\<lambda>d.
      if d then returnE (None, DELEGATED)
      else bindE (exec_clone_scan E svc scm url h b pc tags ec) (\<lambda>r.
        case r of None \<Rightarrow> raiseE TypeError | Some (inspector, action) \<Rightarrow> returnE (Some inspector, action)))) ?Q" for pc url h b tags svc scm ec
  proof (cases "o_delegated ob")
    case True
    then show ?thesis using clone by simp
  next
    case False
    have "emits (\<lambda>e. \<not> is_local_scan e) (try_delegate E sv ob pc url h b tags flow)"
      by (intro emits_intros) simp_all
    then have "spec (bindE (try_delegate E sv ob pc url h b tags flow) (\<lambda>d.
      if d then returnE (None, DELEGATED)
      else bindE (exec_clone_scan E svc scm url h b pc tags ec) (\<lambda>r.
        case r of None \<Rightarrow> raiseE TypeError | Some (inspector, action) \<Rightarrow> returnE (Some inspector, action)))) ?Q"
      by (rule quiet) (rule spec_if, rule spec_returnE, simp add: False, rule clone)
    with False show ?thesis by simp
  qed
  show ?thesis
    unfolding orchestrate_scan_def
    by (rule quiet [OF e(1)], rule quiet [OF e(2)], clarify, rule quiet [OF e(3)], clarify, rule quiet [OF e(4)],
        intro spec_case_option spec_if, simp add: spec_raiseE, rule quiet [OF e(5)], rule quiet [OF e(5)], rule quiet,
        (intro emits_intros; simp), rule quiet, (intro emits_intros; simp), rule deleg, simp add: spec_returnE)
qed

text \<open>C4: a scan is either handed to an agent or run here, never both. When the outcome of the scan step is \<open>DELEGATED\<close>
  there is no inspector, the event was not itself the return of a delegated scan, and nothing was cloned, checked
  out, zipped or submitted by this process.\<close>

theorem delegated_scan_not_run_locally:
  assumes "scm_only ob" and "fst (orchestrate_scan E sv ob tags flow w) = Inr (i, DELEGATED)"
  shows "i = None \<and> \<not> o_delegated ob \<and> list_all (\<lambda>e. \<not> is_local_scan e) (new_events (orchestrate_scan E sv ob tags flow) w)"
  using spec_new_events [OF orchestrate_delegated [OF assms(1)], of E sv tags flow w] assms(2) by simp

text \<open>A project whose tags ask for an agent that serves them.\<close>

definition delegating_env :: orch_env where
  "delegating_env = quiet_orch_env\<lparr>cx_project_from_json := (\<lambda>_ _. Inr \<lparr>pc_id = ''p'', pc_name = ''n'', pc_tags = [(''resolver'', JStr ''linux'')]\<rparr>)\<rparr>"

lemma demo_delegated_run:
  "fst (orchestrate_scan delegating_env demo_services (base_orchestrator ''main'' ''main'') [] WfPUSH world0) = Inr (None, DELEGATED)"
  by code_simp

theorem delegated_scan_not_run_locally_witness:
  "list_all (\<lambda>e. \<not> is_local_scan e) (new_events (orchestrate_scan delegating_env demo_services (base_orchestrator ''main'' ''main'') [] WfPUSH) world0)"
  using delegated_scan_not_run_locally [OF scm_only_base demo_delegated_run] by blast

subsection \<open>Cloning\<close>

text \<open>
  One attempt: a temporary directory is made, the first thing that happens is the clone into that directory, and the last is
  the removal of that directory; no other directory is made or removed in between.
\<close>

fun makes_or_removes_dir :: "event \<Rightarrow> bool" where
  "makes_or_removes_dir (EvTempDir _) = True"
| "makes_or_removes_dir (EvCleanup _) = True"
| "makes_or_removes_dir _ = False"

definition clone_attempt :: "string list \<Rightarrow> trace \<Rightarrow> bool" where
  "clone_attempt stub new \<longleftrightarrow> (\<exists>dir url rest. new = EvTempDir dir # EvClone (stub @ [''clone'', url, dir]) # rest @ [EvCleanup dir] \<and>
     list_all (\<lambda>e. \<not> makes_or_removes_dir e) rest)"

text \<open>\<open>starts_with_event e ok\<close>: the first event is \<open>e\<close>, the others satisfy \<open>ok\<close>.\<close>

definition starts_with_event :: "event \<Rightarrow> (event \<Rightarrow> bool) \<Rightarrow> trace \<Rightarrow> bool" where
  "starts_with_event e ok new \<longleftrightarrow> (\<exists>rest. new = e # rest \<and> list_all ok rest)"

lemma starts_with_bind:
  assumes "spec m (\<lambda>_. starts_with_event e ok)" and "\<And>x. emits ok (f x)"
  shows "spec (bindE m f) (\<lambda>_. starts_with_event e ok)"
proof (rule spec_bindE [OF assms(1)])
  show "spec (f x) (\<lambda>r n2. starts_with_event e ok (n1 @ n2))" if "starts_with_event e ok n1" for x n1
    by (rule spec_emits [OF assms(2)]) (use that in \<open>auto simp: starts_with_event_def\<close>)
qed

lemma starts_with_catch:
  assumes "spec m (\<lambda>_. starts_with_event e ok)" and "\<And>x. emits ok (h x)"
  shows "spec (catchE m h) (\<lambda>_. starts_with_event e ok)"
proof (rule spec_catchE [OF assms(1)])
  show "spec (h x) (\<lambda>r n2. starts_with_event e ok (n1 @ n2))" if "starts_with_event e ok n1" for x n1
    by (rule spec_emits [OF assms(2)]) (use that in \<open>auto simp: starts_with_event_def\<close>)
qed

lemma worker_loc_starts:
  "spec (worker_loc E cw) (\<lambda>_. starts_with_event (EvClone (cw_git_cmd_stub cw @ [''clone'', cw_clone_url cw, cw_dest cw])) (\<lambda>e. \<not> makes_or_removes_dir e))"
proof -
  let ?s = "\<lambda>_. starts_with_event (EvClone (cw_git_cmd_stub cw @ [''clone'', cw_clone_url cw, cw_dest cw])) (\<lambda>e. \<not> makes_or_removes_dir e)"
  have "spec (run_git E (cw_git_cmd_stub cw @ [''clone'', cw_clone_url cw, cw_dest cw])) ?s"
    by (simp add: spec_def run_git_def py_simps starts_with_event_def)
  then show ?thesis
    unfolding worker_loc_def do_clone_def thenE_def
    by (intro starts_with_catch starts_with_bind) (auto simp: run_git_def intro!: emits_intros)
qed

lemma clone_repo_makes_dir:
  "spec (clone_repo E cloner url ec force None True) (\<lambda>r new. case r of Inl _ \<Rightarrow> new = []
     | Inr cw \<Rightarrow> cw_has_temp_dir cw \<and> cw_git_cmd_stub cw = cl_git_cmd_stub cloner \<and> new = [EvTempDir (cw_dest cw)])"
    (is "spec _ ?Q")
  unfolding clone_repo_def
proof (rule spec_bindE [where R = "\<lambda>_ new. new = []"])
  show "spec (fix_clone_url E cloner url ec force) (\<lambda>_ new. new = [])"
    by (rule spec_emits [where ok = "\<lambda>_. False"]) (auto intro: emits_intros simp: list_all_iff)
  fix fixed_url :: string and n1 :: trace
  assume "n1 = []"
  show "spec (bindE (if True then make_temp_dir E None else case None of None \<Rightarrow> raiseE TypeError | Some d \<Rightarrow> returnE d) (\<lambda>clone_output_loc.
      returnE \<lparr>cw_git_cmd_stub = cl_git_cmd_stub cloner, cw_clone_url = fixed_url, cw_dest = clone_output_loc, cw_has_temp_dir = True\<rparr>))
      (\<lambda>r n2. ?Q r (n1 @ n2))"
    using \<open>n1 = []\<close> by (auto simp: spec_def make_temp_dir_def py_simps split: sum.splits)
qed simp

lemma with_worker_removes_dir:
  assumes "spec body (\<lambda>_. P)" and "finishes body" and "cw_has_temp_dir cw"
  shows "spec (with_worker E cw body) (\<lambda>_ new. \<exists>b. P b \<and> new = b @ [EvCleanup (cw_dest cw)])"
  unfolding spec_def
proof
  fix w
  obtain r w' where run: "body w = (r, w')" by (cases "body w")
  have "r \<noteq> Inl OutOfFuel" using assms(2) run by (metis finishes_def fst_conv)
  moreover obtain b where b: "w_trace w' = w_trace w @ b" "P b"
    using assms(1) run unfolding spec_def by (metis snd_conv)
  ultimately show "\<exists>new. w_trace (snd (with_worker E cw body w)) = w_trace w @ new \<and> (\<exists>b. P b \<and> new = b @ [EvCleanup (cw_dest cw)])"
    using run assms(3)
    by (intro exI [of _ "b @ [EvCleanup (cw_dest cw)]"])
       (auto simp: with_worker_def worker_exit_def remove_temp_dir_def py_simps split: sum.splits)
qed

lemma execute_scan_finishes [finishes_intros]: "finishes (execute_scan E svc z pc b tags)"
  unfolding execute_scan_def get_engine_config_for_scan_def Let_def by (intro finishes_intros)

lemma swallow_finishes [finishes_intros]: "e \<noteq> OutOfFuel \<Longrightarrow> finishes (swallow_CalledProcessError e)"
  by (cases e) (simp_all add: finishes_intros)

lemma classify_not_fuel: "e \<noteq> OutOfFuel \<Longrightarrow> classify_clone_failure e \<noteq> OutOfFuel"
  by (cases e) auto

lemma clone_body_finishes:
  "finishes (bindE (worker_loc E cw) (\<lambda>p. thenE (reset_head E p h) (exec_local_scan E svc p b pc tags)))"
  unfolding worker_loc_def do_clone_def run_git_def reset_head_def exec_local_scan_def Let_def
  by (intro finishes_intros)
     (auto intro!: finishes_intros simp: classify_not_fuel split: json.splits)

lemma clone_and_scan_attempt:
  "spec (clone_and_scan E svc scm url h b pc tags ec force) (\<lambda>_ new. new = [] \<or> clone_attempt (cl_git_cmd_stub (scm_cloner scm)) new)"
  unfolding clone_and_scan_def
proof (rule spec_bindE [OF clone_repo_makes_dir])
  fix cw :: CloneWorker and n1 :: trace
  assume "case Inr cw of Inl _ \<Rightarrow> n1 = [] | Inr cw \<Rightarrow> cw_has_temp_dir cw \<and> cw_git_cmd_stub cw = cl_git_cmd_stub (scm_cloner scm) \<and> n1 = [EvTempDir (cw_dest cw)]"
  then have cw: "cw_has_temp_dir cw" "cw_git_cmd_stub cw = cl_git_cmd_stub (scm_cloner scm)" "n1 = [EvTempDir (cw_dest cw)]" by simp_all
  let ?body = "bindE (worker_loc E cw) (\<lambda>p. thenE (reset_head E p h) (exec_local_scan E svc p b pc tags))"
  have "spec ?body (\<lambda>_. starts_with_event (EvClone (cw_git_cmd_stub cw @ [''clone'', cw_clone_url cw, cw_dest cw])) (\<lambda>e. \<not> makes_or_removes_dir e))"
    by (rule starts_with_bind [OF worker_loc_starts]) (intro emits_intros; simp)
  from with_worker_removes_dir [OF this clone_body_finishes cw(1)]
  show "spec (with_worker E cw ?body) (\<lambda>r n2. n1 @ n2 = [] \<or> clone_attempt (cl_git_cmd_stub (scm_cloner scm)) (n1 @ n2))"
    by (rule spec_mono) (auto simp: clone_attempt_def starts_with_event_def cw(2,3))
qed simp

text \<open>At most \<open>n\<close> attempts, and nothing else.\<close>

definition clone_attempts_only :: "string list \<Rightarrow> nat \<Rightarrow> trace \<Rightarrow> bool" where
  "clone_attempts_only stub n new \<longleftrightarrow> (\<exists>attempts. new = concat attempts \<and> length attempts \<le> n \<and> list_all (clone_attempt stub) attempts)"

lemma clone_attempts_only_Nil: "clone_attempts_only stub n []"
  unfolding clone_attempts_only_def by (intro exI [of _ "[]"]) simp

lemma clone_attempts_only_mono: "clone_attempts_only stub n new \<Longrightarrow> clone_attempts_only stub (Suc n) new"
  unfolding clone_attempts_only_def by (auto intro: le_SucI)

lemma clone_attempts_only_Cons:
  assumes "a = [] \<or> clone_attempt stub a" and "clone_attempts_only stub n new"
  shows "clone_attempts_only stub (Suc n) (a @ new)"
proof -
  obtain attempts where "new = concat attempts" "length attempts \<le> n" "list_all (clone_attempt stub) attempts"
    using assms(2) by (auto simp: clone_attempts_only_def)
  with assms(1) show ?thesis
    unfolding clone_attempts_only_def by (intro exI [of _ "if a = [] then attempts else a # attempts"]) auto
qed

lemma clone_attempts_bounded:
  assumes "\<And>b. spec (m b) (\<lambda>_ new. new = [] \<or> clone_attempt stub new)"
  shows "spec (clone_attempts n force m) (\<lambda>_. clone_attempts_only stub n)"
proof (induction n arbitrary: force)
  case 0
  then show ?case by (simp add: spec_returnE clone_attempts_only_Nil)
next
  case (Suc n)
  have one: "clone_attempts_only stub (Suc n) new" if "new = [] \<or> clone_attempt stub new" for new
    using clone_attempts_only_Cons [OF that clone_attempts_only_Nil] by simp
  have first: "spec (bindE (m force) (\<lambda>r. returnE (Some r))) (\<lambda>_ new. new = [] \<or> clone_attempt stub new)"
    by (rule spec_bindE [OF assms]) (auto intro!: spec_returnE)
  show ?case
    unfolding clone_attempts.simps
  proof (rule spec_catchE [OF first])
    show "spec (if e = CloneAuthException then clone_attempts n True m else raiseE e) (\<lambda>r n2. clone_attempts_only stub (Suc n) (n1 @ n2))"
      if "n1 = [] \<or> clone_attempt stub n1" for e n1
      by (intro spec_if spec_raiseE spec_mono [OF Suc]) (auto intro: clone_attempts_only_Cons [OF that] simp: one [OF that])
  qed (simp_all add: one)
qed

text \<open>Only an authentication failure of the first attempt leads to a second one.\<close>

lemma exec_clone_scan_once:
  "fst (clone_and_scan E svc scm url h b pc tags ec False w) \<noteq> Inl CloneAuthException \<Longrightarrow>
   snd (exec_clone_scan E svc scm url h b pc tags ec w) = snd (clone_and_scan E svc scm url h b pc tags ec False w)"
  by (auto simp: exec_clone_scan_def numeral_2_eq_2 py_simps split: prod.splits sum.splits)

text \<open>C18: cloning for a scan cleans up after itself whichever step fails: everything that happens is at most two attempts,
  the second one after an authentication failure, and each attempt makes one temporary directory, first clones into
  that very directory with the command of the configured cloner, and has as its last act the removal of that
  very directory; in between none is made or removed.\<close>

theorem exec_clone_scan_cleans_up:
  "\<exists>attempts. new_events (exec_clone_scan E svc scm url h b pc tags ec) w = concat attempts \<and>
     length attempts \<le> (if fst (clone_and_scan E svc scm url h b pc tags ec False w) = Inl CloneAuthException then 2 else 1) \<and>
     list_all (clone_attempt (cl_git_cmd_stub (scm_cloner scm))) attempts"
proof (cases "fst (clone_and_scan E svc scm url h b pc tags ec False w) = Inl CloneAuthException")
  case True
  have "spec (exec_clone_scan E svc scm url h b pc tags ec) (\<lambda>_. clone_attempts_only (cl_git_cmd_stub (scm_cloner scm)) 2)"
    unfolding exec_clone_scan_def by (rule clone_attempts_bounded [OF clone_and_scan_attempt])
  from spec_new_events [OF this, of w] True show ?thesis by (simp add: clone_attempts_only_def)
next
  case False
  let ?new = "new_events (clone_and_scan E svc scm url h b pc tags ec False) w"
  have "new_events (exec_clone_scan E svc scm url h b pc tags ec) w = ?new"
    by (simp add: new_events_def exec_clone_scan_once [OF False])
  moreover have "?new = [] \<or> clone_attempt (cl_git_cmd_stub (scm_cloner scm)) ?new"
    using spec_new_events [OF clone_and_scan_attempt] by blast
  ultimately show ?thesis using False by (intro exI [of _ "if ?new = [] then [] else [?new]"]) auto
qed

text \<open>A server that rejects the credentials twice: no value comes back, and the caller fails to unpack it.\<close>

definition rejecting_orch_env :: orch_env where
  "rejecting_orch_env = quiet_orch_env\<lparr>git_run := (\<lambda>_ _. Inl (CalledProcessError 128 ''remote: Invalid username or password''))\<rparr>"

lemma rejected_twice_type_error:
  "fst (orchestrate_scan rejecting_orch_env demo_services (base_orchestrator ''main'' ''main'') [] WfPUSH world0) = Inl TypeError"
  by code_simp


end
