(* ===== verification/Dispatch.thy ===== *)
theory Dispatch
  imports Orchestration
begin

text \<open>
  \<^verbatim>\<open>src/orchestration/__init__.py\<close> and the route lookup of \<^verbatim>\<open>src/config/server/__init__.py\<close>: which service
  definition a webhook event belongs to, and that the event is acted upon only when its signature is
  valid for that service. An orchestrator is seen through the record \<open>event_handler\<close>; \<open>scan_data\<close> is
  what the subclasses read from a payload before they call the workflows of their base class.
  \<^verbatim>\<open>src/agent/resolver/results_agent.py\<close> is the other caller of the dispatcher.
\<close>

section \<open>Routes\<close>

type_synonym routes = "(string \<times> CxOneFlowServices list) list"

text \<open>The entries of a service table are tried in their order, for each URL in turn.\<close>

fun match_entry :: "(string \<Rightarrow> string \<Rightarrow> bool) \<Rightarrow> CxOneFlowServices list \<Rightarrow> json \<Rightarrow> CxOneFlowServices option result" where
  "match_entry matches [] url = Inr None"
| "match_entry matches (entry # entries) (JStr url) =
     (if matches (sv_matcher entry) url then Inr (Some entry) else match_entry matches entries (JStr url))"
| "match_entry matches (entry # entries) url = Inl TypeError"

fun match_routes :: "(string \<Rightarrow> string \<Rightarrow> bool) \<Rightarrow> CxOneFlowServices list \<Rightarrow> json list \<Rightarrow> CxOneFlowServices result" where
  "match_routes matches entries [] = Inl RouteNotFoundException"
| "match_routes matches entries (url # urls) =
     (case match_entry matches entries url of
        Inl e \<Rightarrow> Inl e
      | Inr (Some entry) \<Rightarrow> Inr entry
      | Inr None \<Rightarrow> match_routes matches entries urls)"

definition retrieve_services_by_route ::
  "(string \<Rightarrow> string \<Rightarrow> bool) \<Rightarrow> routes \<Rightarrow> json list \<Rightarrow> string \<Rightarrow> CxOneFlowServices option result" where
  "retrieve_services_by_route matches table clone_urls scm_config_key =
     (case map_of table scm_config_key of
        None \<Rightarrow> Inr None
      | Some entries \<Rightarrow>
          (case match_routes matches entries clone_urls of Inl e \<Rightarrow> Inl e | Inr entry \<Rightarrow> Inr (Some entry)))"

section \<open>Event handlers\<close>

datatype handled =
    HNothing
  | HPush "ScanInspector option" ScanAction
  | HPr ScanAction
  | HTags "json list"
  | HInstall "(bool \<times> bool) option" \<comment> \<open>the warned and bad flags of an application installation\<close>

record event_handler =
  eh_config_key :: string
  eh_is_diagnostic :: bool
  eh_route_urls :: "json list result"
  eh_signature_valid :: "string \<Rightarrow> bool result"
  eh_execute :: "CxOneFlowServices \<Rightarrow> handled act"
  eh_delegated :: "CxOneFlowServices option \<Rightarrow> string \<Rightarrow> handled act"

text \<open>
  A constructor that recognises a diagnostic event returns before it sets the other attributes.
\<close>

definition diagnostic_handler :: "string \<Rightarrow> (string \<Rightarrow> bool result) \<Rightarrow> event_handler" where
  "diagnostic_handler key valid =
     \<lparr>eh_config_key = key, eh_is_diagnostic = True, eh_route_urls = Inl AttributeError, eh_signature_valid = valid,
      eh_execute = (\<lambda>_. raiseE AttributeError), eh_delegated = (\<lambda>_ _. raiseE AttributeError)\<rparr>"

datatype dispatched = DNoContent | DNone | DHandled handled

definition OrchestrationDispatch_execute :: "'e orch_env_scheme \<Rightarrow> routes \<Rightarrow> event_handler \<Rightarrow> dispatched act" where
  "OrchestrationDispatch_execute E table h =
     (if eh_is_diagnostic h then returnE DNoContent
      else
        catchE
          (bindE (liftE (answer (eh_route_urls h))) (\<lambda>urls.
           bindE (liftE (retrieve_services_by_route (re_match E) table urls (eh_config_key h))) (\<lambda>found.
           case found of
             None \<Rightarrow> returnE DNone
           | Some services \<Rightarrow>
               bindE (liftE (answer (eh_signature_valid h (scm_shared_secret (sv_scm services))))) (\<lambda>valid.
               if valid then bindE (eh_execute h services) (\<lambda>r. returnE (DHandled r)) else returnE DNone))))
          (\<lambda>e. if e = RouteNotFoundException then returnE DNone else raiseE e))"

definition dispatch_delegated_scan_workflow :: "'e orch_env_scheme \<Rightarrow> routes \<Rightarrow> event_handler \<Rightarrow> string \<Rightarrow> dispatched act" where
  "dispatch_delegated_scan_workflow E table h scan_id =
     catchE
       (bindE (liftE (answer (eh_route_urls h))) (\<lambda>urls.
        bindE (liftE (retrieve_services_by_route (re_match E) table urls (eh_config_key h))) (\<lambda>services.
        bindE (eh_delegated h services scan_id) (\<lambda>r. returnE (DHandled r)))))
       (\<lambda>e. if e = RouteNotFoundException then returnE DNone else raiseE e)"

section \<open>The results agent\<close>

text \<open>
  \<open>factory\<close> imports and constructs the orchestrator class a message names. As in the timeout agent, the text
  logged for an invalid signature reads a field the details do not have. The scan state only
  chooses what is logged; captured logs have to be valid UTF-8 text.
\<close>

definition utf8_tail :: "char \<Rightarrow> bool" where
  "utf8_tail c = (let n = (of_char c :: nat) in 128 \<le> n \<and> n \<le> 191)"

text \<open>\<^verbatim>\<open>bytes.decode()\<close>: one to four bytes per character, no overlong forms, no surrogates, none past the last plane.\<close>

fun utf8_valid :: "string \<Rightarrow> bool" where
  "utf8_valid [] = True"
| "utf8_valid (a # s) =
     (let n = (of_char a :: nat) in
      if n \<le> 127 then utf8_valid s
      else case s of
        [] \<Rightarrow> False
      | b # s2 \<Rightarrow>
          let m = (of_char b :: nat) in
          if 194 \<le> n \<and> n \<le> 223 then utf8_tail b \<and> utf8_valid s2
          else case s2 of
            [] \<Rightarrow> False
          | c # s3 \<Rightarrow>
              if 224 \<le> n \<and> n \<le> 239 then
                utf8_tail b \<and> (n = 224 \<longrightarrow> 160 \<le> m) \<and> (n = 237 \<longrightarrow> m \<le> 159) \<and> utf8_tail c \<and> utf8_valid s3
              else case s3 of
                [] \<Rightarrow> False
              | d # s4 \<Rightarrow>
                  240 \<le> n \<and> n \<le> 244 \<and> utf8_tail b \<and> (n = 240 \<longrightarrow> 144 \<le> m) \<and> (n = 244 \<longrightarrow> m \<le> 143) \<and>
                  utf8_tail c \<and> utf8_tail d \<and> utf8_valid s4)"

lemma utf8_valid_ascii: "list_all (\<lambda>c. (of_char c :: nat) \<le> 127) s \<Longrightarrow> utf8_valid s"
  by (induction s) auto

definition ResolverResultsAgent_call ::
  "'e orch_env_scheme \<Rightarrow> routes \<Rightarrow> (string \<Rightarrow> EventContext \<Rightarrow> event_handler result) \<Rightarrow> ResolverScanService \<Rightarrow>
   DelegatedScanResultMessage incoming \<Rightarrow> unit act" where
  "ResolverResultsAgent_call E table factory svc msg =
     bindE (safe_deserialize_body E msg) (\<lambda>result_msg.
     catchE
       (bindE (liftE (answer (signature_valid E svc (dsm_details_signature result_msg) (details_to_binary E (dsm_details result_msg))))) (\<lambda>valid.
        if \<not> valid then raiseE AttributeError
        else
          thenE (if resolver_capture_logs (rs_workflow svc) \<and> (case dsr_logs result_msg of None \<Rightarrow> False | Some logs \<Rightarrow> \<not> utf8_valid logs)
                 then raiseE ValueError else returnE ()) (
          thenE (case dsr_scan_id result_msg of
                   None \<Rightarrow> returnE ()
                 | Some scan_id \<Rightarrow>
                     bindE (liftE (answer (factory (dsd_orchestrator (dsm_details result_msg)) (dsd_event_context (dsm_details result_msg))))) (\<lambda>h.
                     thenE (dispatch_delegated_scan_workflow E table h scan_id) (returnE ())))
          (msg_ack E))))
       (\<lambda>_. msg_nack E False))"

section \<open>What the subclasses share\<close>

record scm_env = orch_env +
  json_on_ok :: "http_response \<Rightarrow> json result"
  clone_url_org :: "string \<Rightarrow> json result" \<comment> \<open>\<^verbatim>\<open>CloneUrlParser("azure", url).org\<close>\<close>
  page_fuel :: nat \<comment> \<open>how far a paged listing is followed\<close>

definition query :: "'e scm_env_scheme \<Rightarrow> EventContext \<Rightarrow> string \<Rightarrow> json list" where
  "query E ec path = jp_find E path (ec_message ec)"

definition query_first :: "'e scm_env_scheme \<Rightarrow> EventContext \<Rightarrow> string \<Rightarrow> json act" where
  "query_first E ec path = liftE (first_match (query E ec path))"

definition query_pop :: "'e scm_env_scheme \<Rightarrow> EventContext \<Rightarrow> string \<Rightarrow> json act" where
  "query_pop E ec path = liftE (pop_match (query E ec path))"

definition scm_get :: "'e scm_env_scheme \<Rightarrow> SCMService \<Rightarrow> EventContext option \<Rightarrow> string \<Rightarrow> json dict \<Rightarrow> http_response act" where
  "scm_get E scm ec path qry = APISession_exec E (scm_session scm) ec ''GET'' path qry None [] []"

definition as_text :: "'e scm_env_scheme \<Rightarrow> json \<Rightarrow> string" where
  "as_text E v = py_str (py_repr E) v"

text \<open>\<^verbatim>\<open>event in map.keys()\<close> and the lookup: an unhashable value cannot be looked up.\<close>

fun lookup_event :: "(string \<times> 'a) list \<Rightarrow> json \<Rightarrow> 'a option result" where
  "lookup_event table (JStr s) = Inr (map_of table s)"
| "lookup_event table (JList _) = Inl TypeError"
| "lookup_event table (JObj _) = Inl TypeError"
| "lookup_event table _ = Inr None"

text \<open>\<^verbatim>\<open>self.__clone_urls[cloner.select_protocol_from_supported(self.__clone_urls.keys())]\<close>\<close>

definition select_clone_url :: "Cloner \<Rightarrow> json dict \<Rightarrow> string option act" where
  "select_clone_url cloner clone_urls =
     (case select_protocol_from_supported cloner (dict_keys clone_urls) of
        None \<Rightarrow> raiseE KeyError
      | Some protocol \<Rightarrow>
          (case map_of clone_urls protocol of
             None \<Rightarrow> raiseE KeyError
           | Some JNull \<Rightarrow> returnE None
           | Some (JStr url) \<Rightarrow> returnE (Some url)
           | Some _ \<Rightarrow> raiseE TypeError))"

text \<open>
  The attributes the \<^verbatim>\<open>__populate\<close> methods set. The pull-request attributes (id, state, status) exist only
  after a pull-request event.
\<close>

record scan_data =
  sd_source :: "json \<times> json"
  sd_target :: "json \<times> json"
  sd_project_key :: json
  sd_slug :: json
  sd_organization :: json
  sd_pr :: "(json \<times> json \<times> json) option"

definition pr_field :: "(json \<times> json \<times> json \<Rightarrow> json) \<Rightarrow> scan_data \<Rightarrow> json result" where
  "pr_field f d = (case sd_pr d of None \<Rightarrow> Inl AttributeError | Some p \<Rightarrow> Inr (f p))"

definition orchestrator_of ::
  "string \<Rightarrow> EventContext \<Rightarrow> bool \<Rightarrow> scan_data \<Rightarrow> json list act \<Rightarrow> string option act \<Rightarrow> string act \<Rightarrow> Orchestrator" where
  "orchestrator_of cls ec delegated d protected clone_url default_name =
     \<lparr>o_class = cls, o_event_context = ec, o_delegated = delegated, o_protected_branches = protected,
      o_target = returnE (sd_target d), o_source = returnE (sd_source d), o_clone_url = clone_url,
      o_default_project_name = default_name,
      o_pr_state = pr_field (\<lambda>(_, state, _). state) d, o_pr_status = pr_field (\<lambda>(_, _, status). status) d,
      o_pr_id = pr_field (\<lambda>(pr_id, _, _). pr_id) d,
      o_repo_project_key = Inr (sd_project_key d), o_repo_organization = Inr (sd_organization d), o_repo_slug = Inr (sd_slug d)\<rparr>"

text \<open>The three workflows of the base class and the two for a delegated scan, as handler outcomes.\<close>

definition run_push :: "'e scm_env_scheme \<Rightarrow> CxOneFlowServices \<Rightarrow> Orchestrator \<Rightarrow> handled act" where
  "run_push E sv ob = bindE (execute_push_scan_workflow E sv ob None) (\<lambda>(i, a). returnE (HPush i a))"

definition run_pr :: "'e scm_env_scheme \<Rightarrow> CxOneFlowServices \<Rightarrow> Orchestrator \<Rightarrow> handled act" where
  "run_pr E sv ob = bindE (execute_pr_scan_workflow E sv ob None) (\<lambda>a. returnE (HPr a))"

definition run_pr_tags :: "'e scm_env_scheme \<Rightarrow> CxOneFlowServices \<Rightarrow> Orchestrator \<Rightarrow> handled act" where
  "run_pr_tags E sv ob = bindE (execute_pr_tag_update_workflow E sv ob) (\<lambda>ids. returnE (HTags ids))"

definition run_delegated_push :: "'e scm_env_scheme \<Rightarrow> CxOneFlowServices \<Rightarrow> Orchestrator \<Rightarrow> string \<Rightarrow> handled act" where
  "run_delegated_push E sv ob scan_id = bindE (execute_delegated_push_scan_workflow E sv ob scan_id) (\<lambda>(i, a). returnE (HPush i a))"

definition run_delegated_pr :: "'e scm_env_scheme \<Rightarrow> CxOneFlowServices \<Rightarrow> Orchestrator \<Rightarrow> string \<Rightarrow> handled act" where
  "run_delegated_pr E sv ob scan_id = bindE (execute_delegated_pr_scan_workflow E sv ob scan_id) (\<lambda>a. returnE (HPr a))"

text \<open>\<^verbatim>\<open>services.cxone\<close> when no service was found: \<^verbatim>\<open>None\<close> has no such attribute.\<close>

definition need :: "'a option \<Rightarrow> 'a act" where
  "need v = (case v of None \<Rightarrow> raiseE AttributeError | Some x \<Rightarrow> returnE x)"

text \<open>The header check of Bitbucket and GitHub: one equals sign, and the digest of the raw payload.\<close>

definition hmac_signature_valid :: "'e scm_env_scheme \<Rightarrow> EventContext \<Rightarrow> string \<Rightarrow> string \<Rightarrow> bool result" where
  "hmac_signature_valid E ec header shared_secret =
     (case get_header_key_safe ec header of
        None \<Rightarrow> Inr False
      | Some sig \<Rightarrow>
          (case unpack_signature sig of
             Inl e \<Rightarrow> Inl e
           | Inr (hashalg, h) \<Rightarrow>
               (case hmac E hashalg shared_secret (ec_raw_event_payload ec) of
                  Inl e \<Rightarrow> Inl e | Inr payload_hash \<Rightarrow> Inr (h = payload_hash))))"

definition norm_branch :: "json \<Rightarrow> json result" where
  "norm_branch v = (case as_str v of Inl e \<Rightarrow> Inl e | Inr s \<Rightarrow> Inr (JStr (normalize_branch_name s)))"

text \<open>\<^verbatim>\<open>"/".join(statuses)\<close> accepts strings only.\<close>

fun py_join :: "string \<Rightarrow> json list \<Rightarrow> string list \<Rightarrow> string result" where
  "py_join sep [] acc = Inr (str_join sep (rev acc))"
| "py_join sep (JStr s # vs) acc = py_join sep vs (s # acc)"
| "py_join sep (_ # vs) acc = Inl TypeError"

definition join_statuses :: "json list \<Rightarrow> json result" where
  "join_statuses statuses =
     (if \<not> length statuses > 0 then Inr (JStr ''NO_REVIEWERS'')
      else case py_join ''/'' statuses [] of Inl e \<Rightarrow> Inl e | Inr s \<Rightarrow> Inr (JStr s))"

section \<open>Which route an event takes\<close>

text \<open>C35: the service definition an event is dispatched to is the first match when all pairs of a clone URL of the event
  and an entry of the table are tried, the URLs outermost; without a match the lookup raises.\<close>

theorem first_route_wins:
  "match_routes matches entries (map JStr urls) =
     (case find (\<lambda>(url, entry). matches (sv_matcher entry) url) (List.product urls entries) of
        None \<Rightarrow> Inl RouteNotFoundException
      | Some (_, entry) \<Rightarrow> Inr entry)"
proof -
  have entry: "match_entry matches es (JStr url) = Inr (find (\<lambda>e. matches (sv_matcher e) url) es)" for es url
    by (induction es) auto
  have mapped: "find (\<lambda>(u, e). matches (sv_matcher e) u) (map (Pair url) es @ rest) =
      (case find (\<lambda>e. matches (sv_matcher e) url) es of None \<Rightarrow> find (\<lambda>(u, e). matches (sv_matcher e) u) rest | Some e \<Rightarrow> Some (url, e))" for es url rest
    by (induction es) auto
  show ?thesis
    by (induction urls) (auto simp: entry mapped split: option.splits)
qed

lemma match_entry_member: "match_entry matches es url = Inr (Some s) \<Longrightarrow> s \<in> set es"
  by (induction matches es url rule: match_entry.induct) (auto split: if_splits)

lemma match_routes_member: "match_routes matches es urls = Inr s \<Longrightarrow> s \<in> set es"
  by (induction urls) (auto split: sum.splits option.splits dest: match_entry_member)

lemma retrieve_services_member:
  assumes "retrieve_services_by_route matches table urls key = Inr (Some s)"
  shows "\<exists>entries. map_of table key = Some entries \<and> s \<in> set entries"
  using assms by (auto simp: retrieve_services_by_route_def split: option.splits sum.splits dest: match_routes_member)

lemma retrieve_services_not_fuel: "retrieve_services_by_route matches table urls key \<noteq> Inl OutOfFuel"
proof -
  have e: "match_entry matches es url \<noteq> Inl OutOfFuel" for es url
    by (induction matches es url rule: match_entry.induct) auto
  have "match_routes matches es us \<noteq> Inl OutOfFuel" for es us
    by (induction us) (auto simp: e split: sum.splits option.splits)
  then show ?thesis by (auto simp: retrieve_services_by_route_def split: option.splits sum.splits)
qed

section \<open>The contract of an orchestrator\<close>

fun is_resolver_request :: "event \<Rightarrow> bool" where
  "is_resolver_request (EvPublish exchange _ _ _ _) = (exchange = EXCHANGE_RESOLVER_SCAN)"
| "is_resolver_request _ = False"

text \<open>
  What the handling of a delegated scan that has come back may do: nothing is cloned, submitted or delegated
  again, and the settlement of the message is left to the agent that received it.
\<close>

definition after_scan :: "event \<Rightarrow> bool" where
  "after_scan e \<longleftrightarrow> \<not> is_local_scan e \<and> \<not> is_resolver_request e \<and> \<not> is_settle e"

lemma after_scan_simps [simp]:
  "after_scan (EvHttp r)" "after_scan (EvSleep d)" "after_scan (EvLoadScan s)"
  "after_scan (EvPublish EXCHANGE_SCAN_INPUT t body x rt)"
  by (simp_all add: after_scan_def element_defs)

lemma scm_call_after_scan: "is_scm_call e \<Longrightarrow> after_scan e"
  by (cases e) (auto simp: after_scan_def)

text \<open>
  The dispatcher sees an orchestrator through its constructor (\<open>handler\<close>), the key of its service table and
  its signature check. The laws are what the dispatcher and the results agent rely on.
\<close>

locale scm_events =
  fixes handler :: "EventContext \<Rightarrow> event_handler result"
    and key :: string
    and valid :: "EventContext \<Rightarrow> string \<Rightarrow> bool result"
  assumes handler_key: "handler ec = Inr h \<Longrightarrow> eh_config_key h = key"
    and handler_valid: "handler ec = Inr h \<Longrightarrow> eh_signature_valid h = valid ec"
    and delegated_after_scan: "handler ec = Inr h \<Longrightarrow> emits after_scan (eh_delegated h sv scan_id)"
    and delegated_finishes: "handler ec = Inr h \<Longrightarrow> finishes (eh_delegated h sv scan_id)"
begin

lemma acts_only_when_valid:
  assumes h: "handler ec = Inr h" and acts: "new_events (OrchestrationDispatch_execute E table h) w \<noteq> []"
  shows "\<exists>services entries. map_of table key = Some entries \<and> services \<in> set entries \<and>
     valid ec (scm_shared_secret (sv_scm services)) = Inr True \<and>
     new_events (OrchestrationDispatch_execute E table h) w = new_events (eh_execute h services) w"
proof -
  note d = OrchestrationDispatch_execute_def new_events_def
  have nd: "\<not> eh_is_diagnostic h" using acts by (auto simp: d py_simps)
  obtain urls where urls: "eh_route_urls h = Inr urls"
    using acts nd by (cases "eh_route_urls h") (auto simp: d py_simps answer_def split: if_splits)
  obtain found where found: "retrieve_services_by_route (re_match E) table urls key = Inr found"
    using acts nd urls handler_key [OF h] by (cases "retrieve_services_by_route (re_match E) table urls key") (auto simp: d py_simps split: if_splits)
  then obtain s where s: "found = Some s"
    using acts nd urls handler_key [OF h] by (cases found) (auto simp: d py_simps)
  have valid: "valid ec (scm_shared_secret (sv_scm s)) = Inr True"
    using acts nd urls found s handler_key [OF h] handler_valid [OF h]
    by (cases "valid ec (scm_shared_secret (sv_scm s))") (auto simp: d py_simps answer_def split: if_splits)
  moreover have "new_events (OrchestrationDispatch_execute E table h) w = new_events (eh_execute h s) w"
    using nd urls found s valid handler_key [OF h] handler_valid [OF h]
    by (auto simp: d py_simps split: prod.splits sum.splits)
  ultimately show ?thesis
    using retrieve_services_member found s by blast
qed

lemma delegated_dispatch_after_scan:
  assumes "handler ec = Inr h"
  shows "emits after_scan (dispatch_delegated_scan_workflow E table h scan_id)"
  unfolding dispatch_delegated_scan_workflow_def by (intro emits_intros delegated_after_scan [OF assms])

lemma delegated_dispatch_finishes:
  assumes "handler ec = Inr h"
  shows "finishes (dispatch_delegated_scan_workflow E table h scan_id)"
  unfolding dispatch_delegated_scan_workflow_def
  by (intro finishes_intros delegated_finishes [OF assms] retrieve_services_not_fuel) simp_all

end

section \<open>Facts for the subclasses\<close>

lemma query_emits [emits_intros]: "emits ok (query_first E ec p)" "emits ok (query_pop E ec p)"
  by (simp_all add: query_first_def query_pop_def emits_intros)

lemma need_emits [emits_intros]: "emits ok (need v)"
  by (simp add: need_def emits_intros split: option.splits)

lemma scm_get_emits [emits_intros]: "emits is_scm_call (scm_get E scm ec path qry)" "emits after_scan (scm_get E scm ec path qry)"
  unfolding scm_get_def by (intro emits_intros; simp)+

lemma select_clone_url_emits [emits_intros]: "emits ok (select_clone_url cloner urls)"
  by (auto simp: select_clone_url_def intro!: emits_intros split: option.splits json.splits)

lemma scm_only_orchestrator_of:
  "emits is_scm_call protected \<Longrightarrow> emits is_scm_call url \<Longrightarrow> emits is_scm_call name \<Longrightarrow> scm_only (orchestrator_of cls ec dl d protected url name)"
  by (simp add: scm_only_def orchestrator_of_def emits_intros)

lemma start_feedback_emits [emits_intros]:
  assumes "scm_only ob"
  shows "emits after_scan (start_push_feedback E sv ob i)" "emits after_scan (start_pr_workflow E sv ob i)"
  unfolding start_push_feedback_def start_pr_workflow_def start_sarif_feedback_def start_pr_scan_workflow_def Push_workflow_start_def
    PR_workflow_start_def PR_annotation_start_def
  by (intro emits_intros scm_only_emits [OF assms scm_call_after_scan]; assumption?; simp)+

lemma run_delegated_emits [emits_intros]:
  assumes "scm_only ob"
  shows "emits after_scan (run_delegated_push E sv ob sid)" "emits after_scan (run_delegated_pr E sv ob sid)"
  unfolding run_delegated_push_def run_delegated_pr_def execute_delegated_push_scan_workflow_def execute_delegated_pr_scan_workflow_def
  by (intro emits_intros assms; simp)+

lemma lookup_event_member: "lookup_event table ev = Inr (Some x) \<Longrightarrow> x \<in> snd ` set table"
  by (cases ev) (force dest!: map_of_SomeD)+

lemma lookup_emits:
  assumes "\<And>x. x \<in> snd ` set table \<Longrightarrow> emits ok (f x)"
  shows "emits ok (bindE (liftE (lookup_event table ev)) (\<lambda>found. case found of None \<Rightarrow> returnE v | Some x \<Rightarrow> f x))"
proof (rule emits_bindE_post [where Q = "\<lambda>r. \<forall>x. r = Some x \<longrightarrow> x \<in> snd ` set table"])
  show "yields (\<lambda>r. \<forall>x. r = Some x \<longrightarrow> x \<in> snd ` set table) (liftE (lookup_event table ev))"
    by (rule yields_liftE) (auto dest: lookup_event_member)
  show "emits ok (case found of None \<Rightarrow> returnE v | Some x \<Rightarrow> f x)" if "\<forall>x. found = Some x \<longrightarrow> x \<in> snd ` set table" for found
    using that by (cases found) (simp_all add: emits_returnE assms)
qed (rule emits_liftE)

lemma lookup_finishes:
  assumes "\<And>x. x \<in> snd ` set table \<Longrightarrow> finishes (f x)"
  shows "finishes (bindE (liftE (lookup_event table ev)) (\<lambda>found. case found of None \<Rightarrow> returnE v | Some x \<Rightarrow> f x))"
proof (rule finishes_bindE_post [where Q = "\<lambda>r. \<forall>x. r = Some x \<longrightarrow> x \<in> snd ` set table"])
  show "finishes (liftE (lookup_event table ev))"
    by (rule finishes_liftE) (cases ev, auto)
  show "yields (\<lambda>r. \<forall>x. r = Some x \<longrightarrow> x \<in> snd ` set table) (liftE (lookup_event table ev))"
    by (rule yields_liftE) (auto dest: lookup_event_member)
  show "finishes (case found of None \<Rightarrow> returnE v | Some x \<Rightarrow> f x)" if "\<forall>x. found = Some x \<longrightarrow> x \<in> snd ` set table" for found
    using that by (cases found) (simp_all add: finishes_returnE assms)
qed

lemma query_finishes [finishes_intros]: "finishes (query_first E ec p)" "finishes (query_pop E ec p)"
  unfolding query_first_def query_pop_def by (intro finishes_intros)+

lemma need_finishes [finishes_intros]: "finishes (need v)"
  unfolding need_def by (intro finishes_intros) simp

lemma norm_branch_not_fuel [simp, finishes_intros]: "norm_branch v \<noteq> Inl OutOfFuel"
  by (cases v) (auto simp: norm_branch_def)

lemma join_statuses_not_fuel [simp, finishes_intros]: "join_statuses vs \<noteq> Inl OutOfFuel"
proof -
  have "py_join sep vs acc \<noteq> Inl OutOfFuel" for sep vs acc
    by (induction sep vs acc rule: py_join.induct) auto
  then show ?thesis by (auto simp: join_statuses_def split: sum.splits)
qed

lemma answer_not_fuel_intro [finishes_intros]: "answer r \<noteq> Inl OutOfFuel"
  by simp

lemma scm_get_finishes [finishes_intros]: "finishes (scm_get E scm ec path qry)"
proof -
  have "finishes (exec_attempts E ec rq tried n)" for rq tried n
    by (induction n arbitrary: tried) (auto intro!: finishes_intros)
  then show ?thesis by (simp add: scm_get_def APISession_exec_def)
qed

lemma select_clone_url_finishes [finishes_intros]: "finishes (select_clone_url cloner urls)"
  by (auto simp: select_clone_url_def intro!: finishes_intros split: option.splits json.splits)

lemma publish_finishes [finishes_intros]: "finishes (publish E topic body xp rt ex)"
  unfolding publish_def by (intro finishes_intros) simp_all

lemma mq_client_finishes [finishes_intros]: "finishes (mq_client E)"
  unfolding mq_client_def by (intro finishes_intros)

text \<open>The methods of an orchestrator the delegated workflows call all end.\<close>

definition prompt :: "Orchestrator \<Rightarrow> bool" where
  "prompt ob \<longleftrightarrow> finishes (o_source ob) \<and> finishes (o_target ob) \<and> finishes (o_clone_url ob)"

lemma prompt_orchestrator_of: "finishes url \<Longrightarrow> prompt (orchestrator_of cls ec dl d protected url name)"
  by (simp add: prompt_def orchestrator_of_def finishes_returnE)

lemma run_delegated_finishes [finishes_intros]:
  assumes "prompt ob"
  shows "finishes (run_delegated_push E sv ob sid)" "finishes (run_delegated_pr E sv ob sid)"
proof -
  have ob: "finishes (o_source ob)" "finishes (o_target ob)" "finishes (o_clone_url ob)"
    using assms by (simp_all add: prompt_def)
  show "finishes (run_delegated_push E sv ob sid)"
    unfolding run_delegated_push_def execute_delegated_push_scan_workflow_def start_push_feedback_def start_sarif_feedback_def
      Push_workflow_start_def load_scan_inspector_def
    by (intro finishes_intros ob)
  show "finishes (run_delegated_pr E sv ob sid)"
    unfolding run_delegated_pr_def execute_delegated_pr_scan_workflow_def start_pr_workflow_def start_pr_scan_workflow_def
      PR_workflow_start_def PR_annotation_start_def load_scan_inspector_def
    by (intro finishes_intros ob)
qed

text \<open>A request that the server answers with a success is returned at the first attempt.\<close>

lemma scm_get_answered:
  assumes "\<And>tr ec force. \<exists>a. net_auth E tr ec force = Inr a" and "0 < s_retries (scm_session scm)"
    and "\<And>tr rq. rq_method rq = ''GET'' \<Longrightarrow> rq_url rq = concat_path_to_endpoint (scm_session scm) path \<Longrightarrow> rq_query rq = qry \<Longrightarrow>
      \<exists>r. net_http E tr rq = Inr r \<and> rs_ok r \<and> P r"
  shows "\<exists>r. fst (scm_get E scm ec path qry w) = Inr r \<and> rs_ok r \<and> P r"
proof -
  obtain n where n: "nat (s_retries (scm_session scm)) = Suc n" using assms(2) by (cases "nat (s_retries (scm_session scm))") auto
  obtain a where a: "net_auth E (w_trace w) ec False = Inr a" using assms(1) by blast
  let ?rq = "\<lparr>rq_method = ''GET'', rq_url = apply_url_vars (concat_path_to_endpoint (scm_session scm) path) [], rq_query = qry, rq_body = None,
     rq_headers = dict_union (s_headers (scm_session scm)) [], rq_auth = a\<rparr>"
  obtain r where "net_http E (w_trace w) ?rq = Inr r" "rs_ok r" "P r"
    using assms(3) [of ?rq] by (auto simp: apply_url_vars_def)
  with a show ?thesis by (simp add: scm_get_def APISession_exec_def n py_simps)
qed

definition quiet_scm_env :: scm_env where
  "quiet_scm_env = orch_env.extend quiet_orch_env
     (scm_env.fields rs_json (\<lambda>_. Inr (JStr ''org'')) 200)"

end
