(* ===== verification/Bitbucket.thy ===== *)
theory Bitbucket
  imports Dispatch
begin

text \<open>
  \<^verbatim>\<open>src/orchestration/bbdc.py\<close>: events of Bitbucket Data Center. The queries of the payload are evaluated by
  the JSON path library, a parameter of the model.
\<close>

definition bbdc_class :: string where "bbdc_class = ''orchestration.bbdc.BitBucketDataCenterOrchestrator''"

definition push_scannable_change_types :: "json list" where
  "push_scannable_change_types = [JStr ''ADD'', JStr ''UPDATE'']"

record BitBucketDataCenterOrchestrator =
  bb_context :: EventContext
  bb_isdiagnostic :: bool
  bb_event :: json
  bb_clone_urls :: "json dict"

text \<open>
  \<^verbatim>\<open>{x.value['name'] : x.value['href'] for x in ...}\<close>. A name that is not text is refused here with the \<^verbatim>\<open>TypeError\<close> that
  the matching of protocols raises on it later.
\<close>

fun bbdc_links :: "json list \<Rightarrow> json dict result" where
  "bbdc_links [] = Inr []"
| "bbdc_links (link # links) =
     (case py_getitem link ''name'' of
        Inl e \<Rightarrow> Inl e
      | Inr name \<Rightarrow>
          (case py_getitem link ''href'' of
             Inl e \<Rightarrow> Inl e
           | Inr href \<Rightarrow>
               (case name of
                  JStr n \<Rightarrow> (case bbdc_links links of Inl e \<Rightarrow> Inl e | Inr d \<Rightarrow> Inr (dict_union [(n, href)] d))
                | _ \<Rightarrow> Inl TypeError)))"

definition make_BitBucketDataCenterOrchestrator ::
  "'e scm_env_scheme \<Rightarrow> EventContext \<Rightarrow> BitBucketDataCenterOrchestrator result" where
  "make_BitBucketDataCenterOrchestrator E ec =
     (let event = json_opt (get_header_key_safe ec ''X-Event-Key'') in
      if event = JStr ''diagnostics:ping'' then
        Inr \<lparr>bb_context = ec, bb_isdiagnostic = True, bb_event = event, bb_clone_urls = []\<rparr>
      else
        case bbdc_links (query E ec ''$.repository.links.clone[*]'') of
          Inl e \<Rightarrow> Inl e
        | Inr push_urls \<Rightarrow>
            (case bbdc_links (query E ec ''$.pullRequest.fromRef.repository.links.clone[*]'') of
               Inl e \<Rightarrow> Inl e
             | Inr pr_urls \<Rightarrow>
                 Inr \<lparr>bb_context = ec, bb_isdiagnostic = False, bb_event = event, bb_clone_urls = dict_union push_urls pr_urls\<rparr>))"

definition bbdc_route_urls :: "BitBucketDataCenterOrchestrator \<Rightarrow> json list" where
  "bbdc_route_urls bb = map snd (bb_clone_urls bb)"

definition bbdc_is_signature_valid :: "'e scm_env_scheme \<Rightarrow> EventContext \<Rightarrow> string \<Rightarrow> bool result" where
  "bbdc_is_signature_valid E ec = hmac_signature_valid E ec ''X-Hub-Signature''"

text \<open>The attributes the populating methods add beside those of \<open>scan_data\<close>.\<close>

record bbdc_data = scan_data +
  bd_project_name :: json
  bd_repo_name :: json

definition bbdc_populate_common_push_data :: "'e scm_env_scheme \<Rightarrow> BitBucketDataCenterOrchestrator \<Rightarrow> bbdc_data act" where
  "bbdc_populate_common_push_data E bb =
     (let ec = bb_context bb in
      bindE (if list_ex (\<lambda>t. t \<in> set push_scannable_change_types) (query E ec ''$.changes[*].type'') then
               bindE (query_first E ec ''$.changes[*]'') (\<lambda>first_change.
               bindE (liftE (py_getitem first_change ''ref'')) (\<lambda>ref.
               bindE (liftE (py_getitem ref ''displayId'')) (\<lambda>branch.
               bindE (liftE (py_getitem first_change ''toHash'')) (\<lambda>h.
               returnE (branch, h)))))
             else returnE (JNull, JNull)) (\<lambda>branch_hash.
      bindE (query_first E ec ''$.repository.project.key'') (\<lambda>key.
      bindE (query_first E ec ''$.repository.project.name'') (\<lambda>project_name.
      bindE (query_first E ec ''$.repository.slug'') (\<lambda>slug.
      bindE (query_first E ec ''$.repository.name'') (\<lambda>name.
      returnE \<lparr>sd_source = branch_hash, sd_target = branch_hash, sd_project_key = key, sd_slug = slug,
               sd_organization = JStr [], sd_pr = None, bd_project_name = project_name, bd_repo_name = name\<rparr>))))))"

definition bbdc_ref :: "'e scm_env_scheme \<Rightarrow> EventContext \<Rightarrow> string \<Rightarrow> (json \<times> json) act" where
  "bbdc_ref E ec path =
     bindE (query_first E ec path) (\<lambda>ref.
     bindE (liftE (py_getitem ref ''displayId'')) (\<lambda>branch.
     bindE (liftE (py_getitem ref ''latestCommit'')) (\<lambda>h.
     returnE (branch, h))))"

definition bbdc_populate_common_pr_data :: "'e scm_env_scheme \<Rightarrow> BitBucketDataCenterOrchestrator \<Rightarrow> bbdc_data act" where
  "bbdc_populate_common_pr_data E bb =
     (let ec = bb_context bb in
      bindE (bbdc_ref E ec ''$.pullRequest.toRef'') (\<lambda>target.
      bindE (bbdc_ref E ec ''$.pullRequest.fromRef'') (\<lambda>source.
      bindE (query_first E ec ''$.pullRequest.toRef.repository.project.key'') (\<lambda>key.
      bindE (query_first E ec ''$.pullRequest.toRef.repository.project.name'') (\<lambda>project_name.
      bindE (query_first E ec ''$.pullRequest.toRef.repository.slug'') (\<lambda>slug.
      bindE (query_first E ec ''$.pullRequest.toRef.repository.name'') (\<lambda>name.
      bindE (query_first E ec ''$.pullRequest.id'') (\<lambda>pr_id.
      bindE (query_first E ec ''$.pullRequest.state'') (\<lambda>state.
      bindE (liftE (join_statuses (py_set E (query E ec ''$.pullRequest.reviewers[*].status'')))) (\<lambda>status.
      returnE \<lparr>sd_source = source, sd_target = target, sd_project_key = key, sd_slug = slug, sd_organization = JStr [],
               sd_pr = Some (JStr (as_text E pr_id), state, status), bd_project_name = project_name, bd_repo_name = name\<rparr>))))))))))"

definition branch_display :: "json \<Rightarrow> string \<Rightarrow> json list act" where
  "branch_display model kind =
     bindE (liftE (py_has_key model kind)) (\<lambda>has.
     if has then
       bindE (liftE (py_getitem model kind)) (\<lambda>branch.
       bindE (liftE (py_has_key branch ''displayId'')) (\<lambda>has_id.
       if has_id then bindE (liftE (py_getitem branch ''displayId'')) (\<lambda>d. returnE [d]) else returnE []))
     else returnE [])"

definition bbdc_get_protected_branches :: "'e scm_env_scheme \<Rightarrow> SCMService \<Rightarrow> bbdc_data \<Rightarrow> json list act" where
  "bbdc_get_protected_branches E scm d =
     bindE (scm_get E scm None (''/rest/branch-utils/latest/projects/'' @ as_text E (sd_project_key d) @ ''/repos/'' @
              as_text E (sd_slug d) @ ''/branchmodel'') []) (\<lambda>model_resp.
     if \<not> rs_ok model_resp then raiseE (OrchestrationException [])
     else
       bindE (liftE (answer (rs_json model_resp))) (\<lambda>model.
       bindE (branch_display model ''development'') (\<lambda>development.
       bindE (branch_display model ''production'') (\<lambda>production.
       returnE (py_set E (development @ production))))))"

definition BitbucketProjectNaming :: "'e scm_env_scheme \<Rightarrow> json \<Rightarrow> json \<Rightarrow> json \<Rightarrow> string" where
  "BitbucketProjectNaming E project_key project_name repo_name =
     as_text E project_key @ ''/'' @ as_text E project_name @ ''/'' @ as_text E repo_name"

definition bbdc_orchestrator :: "'e scm_env_scheme \<Rightarrow> CxOneFlowServices \<Rightarrow> BitBucketDataCenterOrchestrator \<Rightarrow> bool \<Rightarrow> bbdc_data \<Rightarrow> Orchestrator" where
  "bbdc_orchestrator E sv bb delegated d =
     orchestrator_of bbdc_class (bb_context bb) delegated (scan_data.truncate d) (bbdc_get_protected_branches E (sv_scm sv) d)
       (select_clone_url (scm_cloner (sv_scm sv)) (bb_clone_urls bb))
       (returnE (BitbucketProjectNaming E (sd_project_key d) (bd_project_name d) (bd_repo_name d)))"

section \<open>Workflows\<close>

definition bbdc_is_pr_draft :: "'e scm_env_scheme \<Rightarrow> BitBucketDataCenterOrchestrator \<Rightarrow> bool act" where
  "bbdc_is_pr_draft E bb = bindE (query_first E (bb_context bb) ''$.pullRequest.draft'') (\<lambda>v. returnE (truthy v))"

definition pr_self_link_query :: string where
  "pr_self_link_query = ''$.pullRequest.links['' @ [CHR 0x27] @ ''self'' @ [CHR 0x27] @ ''][*]['' @ [CHR 0x27] @ ''href'' @ [CHR 0x27] @ '']''"

definition bbdc_unless_draft :: "'e scm_env_scheme \<Rightarrow> BitBucketDataCenterOrchestrator \<Rightarrow> handled act \<Rightarrow> handled act" where
  "bbdc_unless_draft E bb k =
     bindE (bbdc_is_pr_draft E bb) (\<lambda>draft.
     if draft then thenE (query_first E (bb_context bb) pr_self_link_query) (returnE HNothing) else k)"

definition bbdc_execute_push_scan_workflow ::
  "'e scm_env_scheme \<Rightarrow> BitBucketDataCenterOrchestrator \<Rightarrow> CxOneFlowServices \<Rightarrow> handled act" where
  "bbdc_execute_push_scan_workflow E bb sv =
     bindE (bbdc_populate_common_push_data E bb) (\<lambda>d. run_push E sv (bbdc_orchestrator E sv bb False d))"

definition bbdc_execute_pr_scan_workflow ::
  "'e scm_env_scheme \<Rightarrow> BitBucketDataCenterOrchestrator \<Rightarrow> CxOneFlowServices \<Rightarrow> handled act" where
  "bbdc_execute_pr_scan_workflow E bb sv =
     bbdc_unless_draft E bb (bindE (bbdc_populate_common_pr_data E bb) (\<lambda>d. run_pr E sv (bbdc_orchestrator E sv bb False d)))"

definition bbdc_execute_pr_tag_update_workflow ::
  "'e scm_env_scheme \<Rightarrow> BitBucketDataCenterOrchestrator \<Rightarrow> CxOneFlowServices \<Rightarrow> handled act" where
  "bbdc_execute_pr_tag_update_workflow E bb sv =
     bbdc_unless_draft E bb (bindE (bbdc_populate_common_pr_data E bb) (\<lambda>d. run_pr_tags E sv (bbdc_orchestrator E sv bb False d)))"

definition bbdc_execute_delegated_push_scan_workflow ::
  "'e scm_env_scheme \<Rightarrow> BitBucketDataCenterOrchestrator \<Rightarrow> CxOneFlowServices option \<Rightarrow> string \<Rightarrow> handled act" where
  "bbdc_execute_delegated_push_scan_workflow E bb services scan_id =
     bindE (bbdc_populate_common_push_data E bb) (\<lambda>d.
     bindE (need services) (\<lambda>sv. run_delegated_push E sv (bbdc_orchestrator E sv bb True d) scan_id))"

definition bbdc_execute_delegated_pr_scan_workflow ::
  "'e scm_env_scheme \<Rightarrow> BitBucketDataCenterOrchestrator \<Rightarrow> CxOneFlowServices option \<Rightarrow> string \<Rightarrow> handled act" where
  "bbdc_execute_delegated_pr_scan_workflow E bb services scan_id =
     bindE (bbdc_populate_common_pr_data E bb) (\<lambda>d.
     bindE (need services) (\<lambda>sv. run_delegated_pr E sv (bbdc_orchestrator E sv bb True d) scan_id))"

definition bbdc_workflow_map ::
  "'e scm_env_scheme \<Rightarrow> BitBucketDataCenterOrchestrator \<Rightarrow> (string \<times> (CxOneFlowServices \<Rightarrow> handled act)) list" where
  "bbdc_workflow_map E bb =
     [(''repo:refs_changed'', bbdc_execute_push_scan_workflow E bb),
      (''pr:opened'', bbdc_execute_pr_scan_workflow E bb),
      (''pr:modified'', bbdc_execute_pr_scan_workflow E bb),
      (''pr:from_ref_updated'', bbdc_execute_pr_scan_workflow E bb),
      (''pr:merged'', bbdc_execute_pr_tag_update_workflow E bb),
      (''pr:declined'', bbdc_execute_pr_tag_update_workflow E bb),
      (''pr:deleted'', bbdc_execute_pr_tag_update_workflow E bb),
      (''pr:reviewer:unapproved'', bbdc_execute_pr_tag_update_workflow E bb),
      (''pr:reviewer:updated'', bbdc_execute_pr_tag_update_workflow E bb),
      (''pr:reviewer:approved'', bbdc_execute_pr_tag_update_workflow E bb),
      (''pr:reviewer:needs_work'', bbdc_execute_pr_tag_update_workflow E bb)]"

definition bbdc_delegate_scan_handler_map ::
  "'e scm_env_scheme \<Rightarrow> BitBucketDataCenterOrchestrator \<Rightarrow> (string \<times> (CxOneFlowServices option \<Rightarrow> string \<Rightarrow> handled act)) list" where
  "bbdc_delegate_scan_handler_map E bb =
     [(''repo:refs_changed'', bbdc_execute_delegated_push_scan_workflow E bb),
      (''pr:opened'', bbdc_execute_delegated_pr_scan_workflow E bb),
      (''pr:modified'', bbdc_execute_delegated_pr_scan_workflow E bb),
      (''pr:from_ref_updated'', bbdc_execute_delegated_pr_scan_workflow E bb)]"

definition bbdc_execute :: "'e scm_env_scheme \<Rightarrow> BitBucketDataCenterOrchestrator \<Rightarrow> CxOneFlowServices \<Rightarrow> handled act" where
  "bbdc_execute E bb services =
     bindE (liftE (lookup_event (bbdc_workflow_map E bb) (bb_event bb))) (\<lambda>found.
     case found of None \<Rightarrow> returnE HNothing | Some workflow \<Rightarrow> workflow services)"

definition bbdc_handle_delegated_scan ::
  "'e scm_env_scheme \<Rightarrow> BitBucketDataCenterOrchestrator \<Rightarrow> CxOneFlowServices option \<Rightarrow> string \<Rightarrow> handled act" where
  "bbdc_handle_delegated_scan E bb services scan_id =
     bindE (liftE (lookup_event (bbdc_delegate_scan_handler_map E bb) (bb_event bb))) (\<lambda>found.
     case found of None \<Rightarrow> returnE HNothing | Some workflow \<Rightarrow> workflow services scan_id)"

definition bbdc_handler :: "'e scm_env_scheme \<Rightarrow> EventContext \<Rightarrow> event_handler result" where
  "bbdc_handler E ec =
     (case make_BitBucketDataCenterOrchestrator E ec of
        Inl e \<Rightarrow> Inl e
      | Inr bb \<Rightarrow>
          Inr (if bb_isdiagnostic bb then diagnostic_handler ''bbdc'' (bbdc_is_signature_valid E ec)
               else \<lparr>eh_config_key = ''bbdc'', eh_is_diagnostic = False, eh_route_urls = Inr (bbdc_route_urls bb),
                     eh_signature_valid = bbdc_is_signature_valid E ec, eh_execute = bbdc_execute E bb,
                     eh_delegated = bbdc_handle_delegated_scan E bb\<rparr>))"

section \<open>The contract\<close>

lemma bbdc_populate_emits [emits_intros]:
  "emits ok (bbdc_populate_common_push_data E bb)" "emits ok (bbdc_populate_common_pr_data E bb)"
  unfolding bbdc_populate_common_push_data_def bbdc_populate_common_pr_data_def bbdc_ref_def Let_def
  by (intro emits_intros)+

lemma scm_only_bbdc: "scm_only (bbdc_orchestrator E sv bb dl d)"
  unfolding bbdc_orchestrator_def bbdc_get_protected_branches_def branch_display_def
  by (intro scm_only_orchestrator_of emits_intros)

lemma bbdc_delegated_after_scan: "emits after_scan (bbdc_handle_delegated_scan E bb sv sid)"
  unfolding bbdc_handle_delegated_scan_def
proof (rule lookup_emits)
  fix run assume "run \<in> snd ` set (bbdc_delegate_scan_handler_map E bb)"
  then have "run = bbdc_execute_delegated_push_scan_workflow E bb \<or> run = bbdc_execute_delegated_pr_scan_workflow E bb"
    by (auto simp: bbdc_delegate_scan_handler_map_def)
  then show "emits after_scan (run sv sid)"
    unfolding bbdc_execute_delegated_push_scan_workflow_def bbdc_execute_delegated_pr_scan_workflow_def
    by (auto intro!: emits_intros scm_only_bbdc)
qed

lemma bbdc_populate_finishes [finishes_intros]:
  "finishes (bbdc_populate_common_push_data E bb)" "finishes (bbdc_populate_common_pr_data E bb)"
  unfolding bbdc_populate_common_push_data_def bbdc_populate_common_pr_data_def bbdc_ref_def Let_def
  by (intro finishes_intros)+

lemma prompt_bbdc: "prompt (bbdc_orchestrator E sv bb dl d)"
  unfolding bbdc_orchestrator_def by (intro prompt_orchestrator_of finishes_intros)

lemma bbdc_delegated_finishes: "finishes (bbdc_handle_delegated_scan E bb sv sid)"
  unfolding bbdc_handle_delegated_scan_def
proof (rule lookup_finishes)
  fix run assume "run \<in> snd ` set (bbdc_delegate_scan_handler_map E bb)"
  then have "run = bbdc_execute_delegated_push_scan_workflow E bb \<or> run = bbdc_execute_delegated_pr_scan_workflow E bb"
    by (auto simp: bbdc_delegate_scan_handler_map_def)
  then show "finishes (run sv sid)"
    unfolding bbdc_execute_delegated_push_scan_workflow_def bbdc_execute_delegated_pr_scan_workflow_def
    by (auto intro!: finishes_intros prompt_bbdc)
qed

interpretation bbdc_events: scm_events "bbdc_handler E" "''bbdc''" "bbdc_is_signature_valid E" for E :: "'e scm_env_scheme"
  by unfold_locales
     (auto simp: bbdc_handler_def diagnostic_handler_def emits_intros finishes_intros bbdc_delegated_after_scan bbdc_delegated_finishes split: sum.splits if_splits)

end
