(* ===== verification/Github.thy ===== *)
theory Github
  imports Dispatch
begin

text \<open>
  \<^verbatim>\<open>src/orchestration/gh.py\<close>: events of GitHub, and the check of a GitHub application installation.
\<close>

definition gh_class :: string where "gh_class = ''orchestration.gh.GithubOrchestrator''"

definition gh_api_page_max :: nat where "gh_api_page_max = 100"

definition gh_expected_events :: "string list" where
  "gh_expected_events = [''pull_request'', ''pull_request_review'', ''push'']"

definition gh_expected_permissions :: "string dict" where
  "gh_expected_permissions = [(''contents'', ''read''), (''metadata'', ''read''), (''pull_requests'', ''write'')]"

definition gh_permission_weights :: "int dict" where
  "gh_permission_weights = [(''read'', 1), (''write'', 2)]"

record GithubOrchestrator =
  gh_context :: EventContext
  gh_isdiagnostic :: bool
  gh_event :: json
  gh_action :: "json option"
  gh_dispatch_event :: json
  gh_route_urls :: "json list"
  gh_clone_urls :: "json dict"

section \<open>Construction\<close>

definition gh_installation_route_urls :: "'e scm_env_scheme \<Rightarrow> EventContext \<Rightarrow> json list result" where
  "gh_installation_route_urls E ec = map_sum id (\<lambda>v. [v]) (first_match (query E ec ''$.installation.account.html_url''))"

definition gh_code_event_route_urls :: "'e scm_env_scheme \<Rightarrow> EventContext \<Rightarrow> json list result" where
  "gh_code_event_route_urls E ec = map_sum id (\<lambda>v. [v]) (first_match (query E ec ''$.repository[clone_url,ssh_url]''))"

definition gh_code_event_clone_urls :: "'e scm_env_scheme \<Rightarrow> EventContext \<Rightarrow> json dict result" where
  "gh_code_event_clone_urls E ec =
     (case first_match (query E ec ''$.repository.ssh_url'') of
        Inl e \<Rightarrow> Inl e
      | Inr ssh \<Rightarrow>
          (case first_match (query E ec ''$.repository.clone_url'') of
             Inl e \<Rightarrow> Inl e | Inr http \<Rightarrow> Inr [(''ssh'', ssh), (''http'', http)]))"

definition gh_route_url_parser_dispatch_map :: "'e scm_env_scheme \<Rightarrow> EventContext \<Rightarrow> (string \<times> json list result) list" where
  "gh_route_url_parser_dispatch_map E ec =
     [(''installation'', gh_installation_route_urls E ec), (''installation_repositories'', gh_installation_route_urls E ec),
      (''push'', gh_code_event_route_urls E ec), (''pull_request'', gh_code_event_route_urls E ec)]"

definition gh_clone_url_parser_dispatch_map :: "'e scm_env_scheme \<Rightarrow> EventContext \<Rightarrow> (string \<times> json dict result) list" where
  "gh_clone_url_parser_dispatch_map E ec =
     [(''push'', gh_code_event_clone_urls E ec), (''pull_request'', gh_code_event_clone_urls E ec)]"

definition gh_parse_urls :: "(string \<times> 'a list result) list \<Rightarrow> string option \<Rightarrow> 'a list result" where
  "gh_parse_urls table event =
     (case event of
        None \<Rightarrow> Inr []
      | Some ev \<Rightarrow> (case map_of table ev of None \<Rightarrow> Inr [] | Some urls \<Rightarrow> urls))"

definition make_GithubOrchestrator :: "'e scm_env_scheme \<Rightarrow> EventContext \<Rightarrow> GithubOrchestrator result" where
  "make_GithubOrchestrator E ec =
     (let event = get_header_key_safe ec ''X-Github-Event'' in
      if event = Some ''ping'' then
        Inr \<lparr>gh_context = ec, gh_isdiagnostic = True, gh_event = json_opt event, gh_action = None, gh_dispatch_event = JNull,
             gh_route_urls = [], gh_clone_urls = []\<rparr>
      else
        let action = (case query E ec ''$.action'' of [] \<Rightarrow> None | v # _ \<Rightarrow> Some v);
            dispatch_event = (case action of
              None \<Rightarrow> json_opt event
            | Some a \<Rightarrow> JStr (as_text E (json_opt event) @ '':'' @ (if a = JNull then [] else as_text E a)))
        in case gh_parse_urls (gh_route_url_parser_dispatch_map E ec) event of
             Inl e \<Rightarrow> Inl e
           | Inr route_urls \<Rightarrow>
               (case gh_parse_urls (gh_clone_url_parser_dispatch_map E ec) event of
                  Inl e \<Rightarrow> Inl e
                | Inr clone_urls \<Rightarrow>
                    Inr \<lparr>gh_context = ec, gh_isdiagnostic = False, gh_event = json_opt event, gh_action = action,
                         gh_dispatch_event = dispatch_event, gh_route_urls = route_urls, gh_clone_urls = clone_urls\<rparr>))"

definition gh_is_signature_valid :: "'e scm_env_scheme \<Rightarrow> EventContext \<Rightarrow> string \<Rightarrow> bool result" where
  "gh_is_signature_valid E ec = hmac_signature_valid E ec ''X-Hub-Signature-256''"

section \<open>Application installations\<close>

definition permission_weight :: "json \<Rightarrow> int result" where
  "permission_weight p =
     (case p of
        JStr s \<Rightarrow> (case map_of gh_permission_weights s of None \<Rightarrow> Inl KeyError | Some n \<Rightarrow> Inr n)
      | JList _ \<Rightarrow> Inl TypeError | JObj _ \<Rightarrow> Inl TypeError | _ \<Rightarrow> Inl KeyError)"

text \<open>The expected permissions that are left after those of the payload are taken out.\<close>

fun missing_permissions :: "string dict \<Rightarrow> (string \<times> json) list \<Rightarrow> string dict result" where
  "missing_permissions not_found [] = Inr not_found"
| "missing_permissions not_found ((p, granted) # ps) =
     (case map_of not_found p of
        None \<Rightarrow> missing_permissions not_found ps
      | Some wanted \<Rightarrow>
          (case permission_weight (JStr wanted) of
             Inl e \<Rightarrow> Inl e
           | Inr n \<Rightarrow>
               (case permission_weight granted of
                  Inl e \<Rightarrow> Inl e
                | Inr g \<Rightarrow> missing_permissions (if n \<le> g then filter (\<lambda>(k, _). k \<noteq> p) not_found else not_found) ps)))"

fun as_dict :: "json \<Rightarrow> (string \<times> json) list result" where
  "as_dict (JObj kvs) = Inr kvs"
| "as_dict _ = Inl AttributeError"

fun unhandled_events :: "json \<Rightarrow> string list \<Rightarrow> string list result" where
  "unhandled_events events [] = Inr []"
| "unhandled_events events (x # xs) =
     (case py_in x events of
        Inl e \<Rightarrow> Inl e
      | Inr found \<Rightarrow>
          (case unhandled_events events xs of Inl e \<Rightarrow> Inl e | Inr r \<Rightarrow> Inr (if found then r else x # r)))"

definition gh_log_app_install :: "'e scm_env_scheme \<Rightarrow> GithubOrchestrator \<Rightarrow> CxOneFlowServices \<Rightarrow> handled act" where
  "gh_log_app_install E gh services =
     (let ec = gh_context gh in
      bindE (query_first E ec ''$.sender.login'') (\<lambda>_.
      bindE (query_first E ec ''$.installation.account.login'') (\<lambda>_.
      bindE (query_first E ec ''$.installation.account.type'') (\<lambda>target_type.
      if gh_action gh \<in> {Some (JStr ''created''), Some (JStr ''new_permissions_accepted''), Some (JStr ''added'')} then
        bindE (query_first E ec ''$.installation.repository_selection'') (\<lambda>repo_selection.
        let warned = (target_type \<noteq> JStr ''Organization'' \<or> repo_selection \<noteq> JStr ''all'') in
        bindE (case query E ec ''$.installation.events'' of
                 [] \<Rightarrow> returnE gh_expected_events
               | events # _ \<Rightarrow> liftE (unhandled_events events gh_expected_events)) (\<lambda>unhandled.
        bindE (case query E ec ''$.installation.permissions'' of
                 [] \<Rightarrow> returnE gh_expected_permissions
               | permissions # _ \<Rightarrow>
                   bindE (liftE (as_dict permissions)) (\<lambda>ps. liftE (missing_permissions gh_expected_permissions ps))) (\<lambda>missing.
        returnE (HInstall (Some (warned, length unhandled > 0 \<or> length missing > 0))))))
      else returnE (HInstall None)))))"

section \<open>Payload data\<close>

definition gh_init_state_on_push :: "'e scm_env_scheme \<Rightarrow> GithubOrchestrator \<Rightarrow> scan_data act" where
  "gh_init_state_on_push E gh =
     (let ec = gh_context gh in
      bindE (query_first E ec ''$.ref'') (\<lambda>ref.
      bindE (liftE (norm_branch ref)) (\<lambda>branch.
      bindE (query_first E ec ''$.after'') (\<lambda>h.
      bindE (query_first E ec ''$.repository.name'') (\<lambda>key.
      bindE (query_first E ec ''$.repository.owner.name'') (\<lambda>org.
      returnE \<lparr>sd_source = (branch, h), sd_target = (branch, h), sd_project_key = key, sd_slug = key, sd_organization = org, sd_pr = None\<rparr>))))))"

text \<open>
  \<^verbatim>\<open>__get_pr_assignees\<close> appends the assignee to the list found in the payload itself, so the decoded message
  carried by the event context changes. The result is the list and the message after the call.
\<close>

definition json_update :: "json \<Rightarrow> string \<Rightarrow> (json \<Rightarrow> json) \<Rightarrow> json" where
  "json_update v k f =
     (case v of JObj kvs \<Rightarrow> JObj (map (\<lambda>(k', x). (k', if k' = k then f x else x)) kvs) | _ \<Rightarrow> v)"

definition gh_get_pr_assignees :: "'e scm_env_scheme \<Rightarrow> json \<Rightarrow> (json \<times> json) act" where
  "gh_get_pr_assignees E message =
     bindE (case jp_find E ''$.pull_request.assignees'' message of
              [] \<Rightarrow> returnE None
            | v # _ \<Rightarrow>
                if v = JNull then returnE None
                else bindE (liftE (py_len v)) (\<lambda>n. returnE (if n > 0 then Some v else None))) (\<lambda>found.
     let ret = (case found of None \<Rightarrow> JList [] | Some v \<Rightarrow> v) in
     case jp_find E ''$.pull_request.assignee'' message of
       [] \<Rightarrow> returnE (ret, message)
     | a # _ \<Rightarrow>
         if a = JNull then returnE (ret, message)
         else
           (case ret of
              JList l \<Rightarrow>
                returnE (JList (l @ [a]),
                  if found = None then message
                  else json_update message ''pull_request'' (\<lambda>pr. json_update pr ''assignees'' (\<lambda>_. JList (l @ [a]))))
            | _ \<Rightarrow> raiseE AttributeError))"

definition gh_get_pr_reviewers :: "'e scm_env_scheme \<Rightarrow> json \<Rightarrow> json" where
  "gh_get_pr_reviewers E message =
     (case jp_find E ''$.pull_request[requested_teams,requested_reviewers][*]'' message of
        [] \<Rightarrow> JList []
      | v # _ \<Rightarrow> if v \<noteq> JNull then v else JList [])"

text \<open>
  The populated attributes, with the page address and the draft flag, and the event context as it is after
  the assignees were read.
\<close>

record gh_data = scan_data +
  gd_is_draft :: bool
  gd_context :: EventContext

definition gh_populate_common_pr_data :: "'e scm_env_scheme \<Rightarrow> GithubOrchestrator \<Rightarrow> gh_data act" where
  "gh_populate_common_pr_data E gh =
     (let ec = gh_context gh in
      bindE (query_first E ec ''$.pull_request.html_url'') (\<lambda>_.
      bindE (query_first E ec ''$.number'') (\<lambda>pr_id.
      bindE (query_first E ec ''$.repository.name'') (\<lambda>key.
      bindE (query_first E ec ''$.repository.owner.login'') (\<lambda>org.
      bindE (query_first E ec ''$.pull_request.base.ref'') (\<lambda>target_branch.
      bindE (query_first E ec ''$.pull_request.head.ref'') (\<lambda>source_branch.
      bindE (query_first E ec ''$.pull_request.base.sha'') (\<lambda>target_hash.
      bindE (query_first E ec ''$.pull_request.head.sha'') (\<lambda>source_hash.
      bindE (query_first E ec ''$.pull_request.draft'') (\<lambda>draft.
      bindE (query_first E ec ''$.pull_request.state'') (\<lambda>state.
      bindE (gh_get_pr_assignees E (ec_message ec)) (\<lambda>(assignees, message).
      bindE (liftE (py_len assignees)) (\<lambda>n.
      bindE (if n > 0 then returnE ''REVIEWERS_ASSIGNED''
             else bindE (liftE (py_len (gh_get_pr_reviewers E message))) (\<lambda>m.
               returnE (if m > 0 then ''REVIEWERS_REQUESTED'' else ''NO_REVIEWERS''))) (\<lambda>status.
      returnE \<lparr>sd_source = (source_branch, source_hash), sd_target = (target_branch, target_hash), sd_project_key = key, sd_slug = key,
               sd_organization = org,
               sd_pr = Some (JStr (as_text E pr_id), JStr (as_text E state @ (if truthy draft then ''-draft'' else [])), JStr status),
               gd_is_draft = truthy draft, gd_context = ec\<lparr>ec_message := message\<rparr>\<rparr>))))))))))))))"

text \<open>\<^verbatim>\<open>data_extractor\<close> returns \<^verbatim>\<open>None\<close> for a failed response, which cannot be unpacked.\<close>

definition gh_branch_page :: "'e scm_env_scheme \<Rightarrow> SCMService \<Rightarrow> EventContext \<Rightarrow> json \<Rightarrow> json \<Rightarrow> nat \<Rightarrow> (json list \<times> bool) act" where
  "gh_branch_page E scm ec org key offset =
     bindE (scm_get E scm (Some ec) (''/repos/'' @ as_text E org @ ''/'' @ as_text E key @ ''/branches'')
              [(''protected'', JBool True), (''per_page'', JInt (int gh_api_page_max)), (''page'', JInt (int offset + 1))]) (\<lambda>resp.
     if rs_ok resp then
       bindE (liftE (answer (rs_json resp))) (\<lambda>body.
       let v = jp_find E ''$.[*].name'' body in
       returnE (v, length v < gh_api_page_max))
     else raiseE TypeError)"

definition gh_get_protected_branches :: "'e scm_env_scheme \<Rightarrow> SCMService \<Rightarrow> EventContext \<Rightarrow> json \<Rightarrow> json \<Rightarrow> json list act" where
  "gh_get_protected_branches E scm ec org key =
     bindE (gen_drain (page_fuel E) (gh_branch_page E scm ec org key) pager_init) (\<lambda>ret_branches.
     if length ret_branches = 0 then
       bindE (query_first E ec ''$.repository.default_branch'') (\<lambda>default_branch. returnE [default_branch])
     else returnE ret_branches)"

definition GithubProjectNaming :: "'e scm_env_scheme \<Rightarrow> json \<Rightarrow> json \<Rightarrow> string" where
  "GithubProjectNaming E organization repo_name = as_text E organization @ ''/'' @ as_text E repo_name"

definition gh_orchestrator ::
  "'e scm_env_scheme \<Rightarrow> CxOneFlowServices \<Rightarrow> GithubOrchestrator \<Rightarrow> EventContext \<Rightarrow> bool \<Rightarrow> scan_data \<Rightarrow> Orchestrator" where
  "gh_orchestrator E sv gh ec delegated d =
     orchestrator_of gh_class ec delegated d
       (gh_get_protected_branches E (sv_scm sv) ec (sd_organization d) (sd_project_key d))
       (select_clone_url (scm_cloner (sv_scm sv)) (gh_clone_urls gh))
       (returnE (GithubProjectNaming E (sd_organization d) (sd_slug d)))"

definition gh_pr_orchestrator :: "'e scm_env_scheme \<Rightarrow> CxOneFlowServices \<Rightarrow> GithubOrchestrator \<Rightarrow> bool \<Rightarrow> gh_data \<Rightarrow> Orchestrator" where
  "gh_pr_orchestrator E sv gh delegated d = gh_orchestrator E sv gh (gd_context d) delegated (scan_data.truncate d)"

section \<open>Workflows\<close>

definition gh_execute_push_scan_workflow :: "'e scm_env_scheme \<Rightarrow> GithubOrchestrator \<Rightarrow> CxOneFlowServices \<Rightarrow> handled act" where
  "gh_execute_push_scan_workflow E gh sv =
     bindE (gh_init_state_on_push E gh) (\<lambda>d. run_push E sv (gh_orchestrator E sv gh (gh_context gh) False d))"

definition gh_execute_pr_scan_workflow :: "'e scm_env_scheme \<Rightarrow> GithubOrchestrator \<Rightarrow> CxOneFlowServices \<Rightarrow> handled act" where
  "gh_execute_pr_scan_workflow E gh sv =
     bindE (gh_populate_common_pr_data E gh) (\<lambda>d.
     if gd_is_draft d then returnE HNothing else run_pr E sv (gh_pr_orchestrator E sv gh False d))"

definition gh_execute_pr_tag_update_workflow :: "'e scm_env_scheme \<Rightarrow> GithubOrchestrator \<Rightarrow> CxOneFlowServices \<Rightarrow> handled act" where
  "gh_execute_pr_tag_update_workflow E gh sv =
     bindE (gh_populate_common_pr_data E gh) (\<lambda>d. run_pr_tags E sv (gh_pr_orchestrator E sv gh False d))"

definition gh_execute_delegated_push_scan_workflow ::
  "'e scm_env_scheme \<Rightarrow> GithubOrchestrator \<Rightarrow> CxOneFlowServices option \<Rightarrow> string \<Rightarrow> handled act" where
  "gh_execute_delegated_push_scan_workflow E gh services scan_id =
     bindE (gh_init_state_on_push E gh) (\<lambda>d.
     bindE (need services) (\<lambda>sv. run_delegated_push E sv (gh_orchestrator E sv gh (gh_context gh) True d) scan_id))"

definition gh_execute_delegated_pr_scan_workflow ::
  "'e scm_env_scheme \<Rightarrow> GithubOrchestrator \<Rightarrow> CxOneFlowServices option \<Rightarrow> string \<Rightarrow> handled act" where
  "gh_execute_delegated_pr_scan_workflow E gh services scan_id =
     bindE (gh_populate_common_pr_data E gh) (\<lambda>d.
     bindE (need services) (\<lambda>sv. run_delegated_pr E sv (gh_pr_orchestrator E sv gh True d) scan_id))"

definition gh_workflow_map :: "'e scm_env_scheme \<Rightarrow> GithubOrchestrator \<Rightarrow> (string \<times> (CxOneFlowServices \<Rightarrow> handled act)) list" where
  "gh_workflow_map E gh =
     [(''installation:deleted'', gh_log_app_install E gh), (''installation:unsuspend'', gh_log_app_install E gh),
      (''installation:suspend'', gh_log_app_install E gh), (''installation:created'', gh_log_app_install E gh),
      (''installation_repositories:deleted'', gh_log_app_install E gh), (''installation_repositories:unsuspend'', gh_log_app_install E gh),
      (''installation_repositories:suspend'', gh_log_app_install E gh), (''installation_repositories:created'', gh_log_app_install E gh),
      (''push'', gh_execute_push_scan_workflow E gh),
      (''pull_request:opened'', gh_execute_pr_scan_workflow E gh),
      (''pull_request:synchronize'', gh_execute_pr_scan_workflow E gh),
      (''pull_request:ready_for_review'', gh_execute_pr_scan_workflow E gh),
      (''pull_request:reopened'', gh_execute_pr_scan_workflow E gh),
      (''pull_request:assigned'', gh_execute_pr_tag_update_workflow E gh),
      (''pull_request:unassigned'', gh_execute_pr_tag_update_workflow E gh),
      (''pull_request:review_request_removed'', gh_execute_pr_tag_update_workflow E gh),
      (''pull_request:review_requested'', gh_execute_pr_tag_update_workflow E gh),
      (''pull_request:closed'', gh_execute_pr_tag_update_workflow E gh),
      (''pull_request:converted_to_draft'', gh_execute_pr_tag_update_workflow E gh)]"

definition gh_delegate_scan_handler_map ::
  "'e scm_env_scheme \<Rightarrow> GithubOrchestrator \<Rightarrow> (string \<times> (CxOneFlowServices option \<Rightarrow> string \<Rightarrow> handled act)) list" where
  "gh_delegate_scan_handler_map E gh =
     [(''push'', gh_execute_delegated_push_scan_workflow E gh),
      (''pull_request:opened'', gh_execute_delegated_pr_scan_workflow E gh),
      (''pull_request:synchronize'', gh_execute_delegated_pr_scan_workflow E gh),
      (''pull_request:ready_for_review'', gh_execute_delegated_pr_scan_workflow E gh),
      (''pull_request:reopened'', gh_execute_delegated_pr_scan_workflow E gh)]"

definition gh_execute :: "'e scm_env_scheme \<Rightarrow> GithubOrchestrator \<Rightarrow> CxOneFlowServices \<Rightarrow> handled act" where
  "gh_execute E gh services =
     bindE (liftE (lookup_event (gh_workflow_map E gh) (gh_dispatch_event gh))) (\<lambda>found.
     case found of None \<Rightarrow> returnE HNothing | Some workflow \<Rightarrow> workflow services)"

definition gh_handle_delegated_scan :: "'e scm_env_scheme \<Rightarrow> GithubOrchestrator \<Rightarrow> CxOneFlowServices option \<Rightarrow> string \<Rightarrow> handled act" where
  "gh_handle_delegated_scan E gh services scan_id =
     bindE (liftE (lookup_event (gh_delegate_scan_handler_map E gh) (gh_dispatch_event gh))) (\<lambda>found.
     case found of None \<Rightarrow> returnE HNothing | Some workflow \<Rightarrow> workflow services scan_id)"

definition gh_handler :: "'e scm_env_scheme \<Rightarrow> EventContext \<Rightarrow> event_handler result" where
  "gh_handler E ec =
     (case make_GithubOrchestrator E ec of
        Inl e \<Rightarrow> Inl e
      | Inr gh \<Rightarrow>
          Inr (if gh_isdiagnostic gh then diagnostic_handler ''gh'' (gh_is_signature_valid E ec)
               else \<lparr>eh_config_key = ''gh'', eh_is_diagnostic = False, eh_route_urls = Inr (gh_route_urls gh),
                     eh_signature_valid = gh_is_signature_valid E ec, eh_execute = gh_execute E gh,
                     eh_delegated = gh_handle_delegated_scan E gh\<rparr>))"

section \<open>The contract\<close>

lemma gh_populate_emits [emits_intros]:
  "emits ok (gh_init_state_on_push E gh)" "emits ok (gh_populate_common_pr_data E gh)"
proof -
  have "emits ok (gh_get_pr_assignees E m)" for m
    unfolding gh_get_pr_assignees_def Let_def
    by (auto intro!: emits_intros split: json.splits)
  then show "emits ok (gh_populate_common_pr_data E gh)"
    unfolding gh_populate_common_pr_data_def Let_def by (intro emits_intros)
  show "emits ok (gh_init_state_on_push E gh)"
    unfolding gh_init_state_on_push_def Let_def by (intro emits_intros)
qed

lemma gen_drain_emits [emits_intros]: "(\<And>n. emits ok (fetch n)) \<Longrightarrow> emits ok (gen_drain fuel fetch g)"
  by (induction fuel arbitrary: g) (auto simp: gen_next_def intro!: emits_intros split: prod.splits)

lemma scm_only_gh: "scm_only (gh_orchestrator E sv gh ec dl d)" "scm_only (gh_pr_orchestrator E sv gh dl d')"
  unfolding gh_pr_orchestrator_def gh_orchestrator_def gh_get_protected_branches_def gh_branch_page_def Let_def
  by (intro scm_only_orchestrator_of emits_intros)+

lemma gh_delegated_after_scan: "emits after_scan (gh_handle_delegated_scan E gh sv sid)"
  unfolding gh_handle_delegated_scan_def
proof (rule lookup_emits)
  fix run assume "run \<in> snd ` set (gh_delegate_scan_handler_map E gh)"
  then have "run = gh_execute_delegated_push_scan_workflow E gh \<or> run = gh_execute_delegated_pr_scan_workflow E gh"
    by (auto simp: gh_delegate_scan_handler_map_def)
  then show "emits after_scan (run sv sid)"
    unfolding gh_execute_delegated_push_scan_workflow_def gh_execute_delegated_pr_scan_workflow_def
    by (auto intro!: emits_intros scm_only_gh)
qed

lemma gh_populate_finishes [finishes_intros]:
  "finishes (gh_init_state_on_push E gh)" "finishes (gh_populate_common_pr_data E gh)"
proof -
  have "finishes (gh_get_pr_assignees E m)" for m
    unfolding gh_get_pr_assignees_def Let_def
    by (auto intro!: finishes_intros split: json.splits list.splits)
  then show "finishes (gh_populate_common_pr_data E gh)"
    unfolding gh_populate_common_pr_data_def Let_def by (intro finishes_intros)
  show "finishes (gh_init_state_on_push E gh)"
    unfolding gh_init_state_on_push_def Let_def by (intro finishes_intros)
qed

lemma prompt_gh: "prompt (gh_orchestrator E sv gh ec dl d)" "prompt (gh_pr_orchestrator E sv gh dl d')"
  unfolding gh_pr_orchestrator_def gh_orchestrator_def by (intro prompt_orchestrator_of finishes_intros)+

lemma gh_delegated_finishes: "finishes (gh_handle_delegated_scan E gh sv sid)"
  unfolding gh_handle_delegated_scan_def
proof (rule lookup_finishes)
  fix run assume "run \<in> snd ` set (gh_delegate_scan_handler_map E gh)"
  then have "run = gh_execute_delegated_push_scan_workflow E gh \<or> run = gh_execute_delegated_pr_scan_workflow E gh"
    by (auto simp: gh_delegate_scan_handler_map_def)
  then show "finishes (run sv sid)"
    unfolding gh_execute_delegated_push_scan_workflow_def gh_execute_delegated_pr_scan_workflow_def
    by (auto intro!: finishes_intros prompt_gh)
qed

interpretation gh_events: scm_events "gh_handler E" "''gh''" "gh_is_signature_valid E" for E :: "'e scm_env_scheme"
  by unfold_locales
     (auto simp: gh_handler_def diagnostic_handler_def emits_intros finishes_intros gh_delegated_after_scan gh_delegated_finishes split: sum.splits if_splits)

section \<open>Protected branches\<close>

text \<open>
  What GitHub documents of \<^verbatim>\<open>GET /repos/{owner}/{repo}/branches\<close>: \<^verbatim>\<open>protected\<close> selects the branches that are (or are
  not) protected and all are listed without it, \<^verbatim>\<open>per_page\<close> is the size of a page, 30 by default and 100 at most, and
  \<^verbatim>\<open>page\<close> counts from 1. A branch is given here with its protection.
\<close>

definition gh_listed_branches :: "(json \<times> bool) list \<Rightarrow> json dict \<Rightarrow> (json \<times> bool) list" where
  "gh_listed_branches branches qry =
     (let selected = (case map_of qry ''protected'' of Some (JBool b) \<Rightarrow> filter (\<lambda>(_, p). p = b) branches | _ \<Rightarrow> branches);
          page_size = (case map_of qry ''per_page'' of Some (JInt n) \<Rightarrow> min (nat n) 100 | _ \<Rightarrow> 30);
          page = (case map_of qry ''page'' of Some (JInt n) \<Rightarrow> nat (n - 1) | _ \<Rightarrow> 0)
      in chunk page_size selected page)"

definition gh_branches_body :: "(json \<times> bool) list \<Rightarrow> json" where
  "gh_branches_body branches = JList (map (\<lambda>(name, p). JObj [(''name'', name), (''protected'', JBool p)]) branches)"

definition gh_branches_url :: "'e scm_env_scheme \<Rightarrow> SCMService \<Rightarrow> json \<Rightarrow> json \<Rightarrow> string" where
  "gh_branches_url E scm org key =
     rstrip_chars ''/'' (s_api_endpoint (scm_session scm)) @ ''/repos/'' @ as_text E org @ ''/'' @ as_text E key @ ''/branches''"

text \<open>
  A GitHub API that answers the listing of the branches of one repository in that way, and the JSON path library on what it
  answers. Nothing is assumed of any other request.
\<close>

definition gh_lists :: "'e scm_env_scheme \<Rightarrow> SCMService \<Rightarrow> json \<Rightarrow> json \<Rightarrow> (json \<times> bool) list \<Rightarrow> bool" where
  "gh_lists E scm org key branches \<longleftrightarrow>
     (\<forall>tr ec force. \<exists>a. net_auth E tr ec force = Inr a) \<and>
     (\<forall>bs. jp_find E ''$.[*].name'' (gh_branches_body bs) = map fst bs) \<and>
     (\<forall>tr rq. rq_method rq = ''GET'' \<longrightarrow> rq_url rq = gh_branches_url E scm org key \<longrightarrow>
        (\<exists>r. net_http E tr rq = Inr r \<and> rs_ok r \<and> rs_json r = Inr (gh_branches_body (gh_listed_branches branches (rq_query rq)))))"

definition protected_names :: "(json \<times> bool) list \<Rightarrow> json list" where
  "protected_names branches = map fst (filter snd branches)"

lemma gh_branch_page_content:
  assumes "gh_lists E scm org key branches" and "0 < s_retries (scm_session scm)"
  shows "fst (gh_branch_page E scm ec org key n w) =
    Inr (chunk gh_api_page_max (protected_names branches) n, length (chunk gh_api_page_max (protected_names branches) n) < gh_api_page_max)"
proof -
  let ?q = "[(''protected'', JBool True), (''per_page'', JInt (int gh_api_page_max)), (''page'', JInt (int n + 1))]"
  let ?path = "''/repos/'' @ as_text E org @ ''/'' @ as_text E key @ ''/branches''"
  let ?P = "\<lambda>r. rs_json r = Inr (gh_branches_body (gh_listed_branches branches ?q))"
  have url: "concat_path_to_endpoint (scm_session scm) ?path = gh_branches_url E scm org key"
    by (simp add: concat_path_to_endpoint_def gh_branches_url_def lstrip_chars_def)
  have auth: "\<exists>a. net_auth E tr ec force = Inr a" for tr ec force using assms(1) by (simp add: gh_lists_def)
  have server: "\<exists>r. net_http E tr rq = Inr r \<and> rs_ok r \<and> ?P r"
    if "rq_method rq = ''GET''" "rq_url rq = concat_path_to_endpoint (scm_session scm) ?path" "rq_query rq = ?q" for tr rq
    using assms(1) that unfolding gh_lists_def url by metis
  obtain r where r: "fst (scm_get E scm (Some ec) ?path ?q w) = Inr r" "rs_ok r" "?P r"
    using scm_get_answered [where P = ?P and ec = "Some ec" and qry = ?q and w = w, OF auth assms(2) server] by blast
  have "map fst (gh_listed_branches branches ?q) = chunk gh_api_page_max (protected_names branches) n"
    by (simp add: gh_listed_branches_def gh_api_page_max_def chunk_def protected_names_def take_map drop_map case_prod_unfold)
  then have "jp_find E ''$.[*].name'' (gh_branches_body (gh_listed_branches branches ?q)) = chunk gh_api_page_max (protected_names branches) n"
    using assms(1) by (simp add: gh_lists_def)
  with r show ?thesis
    by (auto simp: gh_branch_page_def py_simps Let_def split: prod.splits)
qed

lemma gh_paged:
  assumes "gh_lists E scm org key branches" and "0 < s_retries (scm_session scm)"
  shows "paged_source (gh_branch_page E scm ec org key) (chunk gh_api_page_max (protected_names branches))
    (\<lambda>n. length (chunk gh_api_page_max (protected_names branches) n) < gh_api_page_max) (chunk_count gh_api_page_max (protected_names branches))"
proof -
  have pos: "0 < gh_api_page_max" by (simp add: gh_api_page_max_def)
  show ?thesis
    by unfold_locales
       (rule gh_branch_page_content [OF assms], rule chunk_laws(1) [OF pos], assumption, rule chunk_laws(2) [OF pos], assumption,
        rule chunk_laws(3) [OF pos])
qed

lemma sum_lengths_concat: "sum_list (map (length \<circ> f) ns) = length (concat (map f ns))"
  by (simp add: length_concat comp_def)

text \<open>C25: the protected branches of a GitHub repository are exactly the branches GitHub holds as protected, however many
  there are beside the others and however many pages they fill, and the default branch of the repository when there
  is none.\<close>

theorem gh_protected_branches_complete:
  assumes "gh_lists E scm org key branches" and "0 < s_retries (scm_session scm)" and "length (protected_names branches) < page_fuel E"
    and "query E ec ''$.repository.default_branch'' = [d]"
  shows "\<exists>bs. fst (gh_get_protected_branches E scm ec org key w) = Inr bs \<and>
    set bs = (if protected_names branches = [] then {d} else {name. (name, True) \<in> set branches})"
proof -
  have pos: "0 < gh_api_page_max" by (simp add: gh_api_page_max_def)
  let ?names = "protected_names branches"
  let ?all = "concat (map (rev \<circ> chunk gh_api_page_max ?names) [0..<chunk_count gh_api_page_max ?names])"
  note paged = gh_paged [OF assms(1,2), of ec]
  have "sum_list (map (length \<circ> chunk gh_api_page_max ?names) [0..<chunk_count gh_api_page_max ?names]) = length ?names"
    using chunks_cover [OF pos, of ?names] by (simp only: sum_lengths_concat)
  with assms(3) have drain: "fst (gen_drain (page_fuel E) (gh_branch_page E scm ec org key) pager_init w) = Inr ?all"
    by (intro paged_source.drain_all [OF paged]) simp
  have set: "set ?all = set ?names"
    unfolding set_concat_rev using chunks_cover [OF pos, of ?names] by simp
  have names: "set ?names = {name. (name, True) \<in> set branches}" by (force simp: protected_names_def)
  from set have "?all = [] \<longleftrightarrow> ?names = []" by (metis set_empty)
  with drain set names assms(4) show ?thesis
    by (auto simp: gh_get_protected_branches_def query_first_def py_simps split: prod.splits)
qed

text \<open>A server with three branches, one of which is not protected.\<close>

definition demo_branches :: "(json \<times> bool) list" where
  "demo_branches = [(JStr ''main'', True), (JStr ''feature'', False), (JStr ''release'', True)]"

definition gh_demo_env :: scm_env where
  "gh_demo_env = quiet_scm_env\<lparr>
     net_http := (\<lambda>_ rq. Inr (
       if rq_method rq = ''GET'' \<and> rq_url rq = gh_branches_url quiet_scm_env (sv_scm demo_services) (JStr ''o'') (JStr ''r'')
       then ok_response (gh_branches_body (gh_listed_branches demo_branches (rq_query rq)))
       else \<lparr>rs_ok = False, rs_status = 404, rs_json = Inr JNull, rs_headers = []\<rparr>)),
     jp_find := (\<lambda>q v. if q = ''$.[*].name'' then (case v of JList xs \<Rightarrow> map (\<lambda>x. case x of JObj kvs \<Rightarrow> the (map_of kvs ''name'') | _ \<Rightarrow> x) xs | _ \<Rightarrow> [])
        else if q = ''$.repository.default_branch'' then [JStr ''main''] else [])\<rparr>"

theorem gh_protected_branches_complete_witness:
  "\<exists>bs. fst (gh_get_protected_branches gh_demo_env (sv_scm demo_services) demo_context (JStr ''o'') (JStr ''r'') world0) = Inr bs \<and>
     set bs = {JStr ''main'', JStr ''release''}"
proof -
  have env: "net_auth gh_demo_env = (\<lambda>_ _ _. Inr [])" "page_fuel gh_demo_env = 200" "py_repr gh_demo_env = py_repr quiet_scm_env"
    by (simp_all add: gh_demo_env_def quiet_scm_env_def quiet_orch_env_def quiet_resolver_env_def quiet_mq_env_def quiet_git_env_def quiet_env_def
        orch_env.defs scm_env.defs resolver_env.defs mq_env.defs git_env.defs cxone_env.defs)
  have url: "gh_branches_url gh_demo_env scm org key = gh_branches_url quiet_scm_env scm org key" for scm org key
    by (simp add: gh_branches_url_def as_text_def env)
  have names: "jp_find gh_demo_env ''$.[*].name'' (gh_branches_body bs) = map fst bs" for bs
    by (induction bs) (auto simp: gh_demo_env_def gh_branches_body_def)
  have "gh_lists gh_demo_env (sv_scm demo_services) (JStr ''o'') (JStr ''r'') demo_branches"
    unfolding gh_lists_def env url by (simp add: names) (simp add: gh_demo_env_def ok_response_def)
  moreover have "0 < s_retries (scm_session (sv_scm demo_services))" by (simp add: demo_services_def)
  moreover have "length (protected_names demo_branches) < page_fuel gh_demo_env"
    by (simp add: env protected_names_def demo_branches_def)
  moreover have "query gh_demo_env demo_context ''$.repository.default_branch'' = [JStr ''main'']"
    by (simp add: query_def gh_demo_env_def)
  ultimately have "\<exists>bs. fst (gh_get_protected_branches gh_demo_env (sv_scm demo_services) demo_context (JStr ''o'') (JStr ''r'') world0) = Inr bs \<and>
      set bs = (if protected_names demo_branches = [] then {JStr ''main''} else {name. (name, True) \<in> set demo_branches})"
    by (rule gh_protected_branches_complete)
  moreover have "protected_names demo_branches \<noteq> []" "{name. (name, True) \<in> set demo_branches} = {JStr ''main'', JStr ''release''}"
    by (auto simp: protected_names_def demo_branches_def)
  ultimately show ?thesis by simp
qed

end
