(* ===== verification/Gitlab.thy ===== *)
theory Gitlab
  imports Dispatch
begin

text \<open>
  \<^verbatim>\<open>src/orchestration/gl.py\<close>: events of GitLab. The protected branches of a project can be wildcards, which
  are matched with \<^verbatim>\<open>fnmatch\<close>.
\<close>

section \<open>Wildcards\<close>

text \<open>
  The part of \<^verbatim>\<open>fnmatch.fnmatch\<close> behind an opening bracket: the characters of the class, an exclamation mark
  in front of them negates it, a closing bracket in the first place belongs to it. Without a closing
  bracket the opening one stands for itself.
\<close>

fun split_class :: "string \<Rightarrow> string \<Rightarrow> (string \<times> string) option" where
  "split_class acc [] = None"
| "split_class acc (c # cs) = (if c = CHR '']'' then Some (rev acc, cs) else split_class (c # acc) cs)"

definition class_of :: "string \<Rightarrow> (bool \<times> string \<times> string) option" where
  "class_of p =
     (let (neg, body) = (case p of [] \<Rightarrow> (False, p) | c # cs \<Rightarrow> if c = CHR ''!'' then (True, cs) else (False, p)) in
      case body of
        [] \<Rightarrow> None
      | c # cs \<Rightarrow> (case split_class [c] cs of None \<Rightarrow> None | Some (items, rest) \<Rightarrow> Some (neg, items, rest)))"

fun in_class :: "string \<Rightarrow> char \<Rightarrow> bool" where
  "in_class (a # m # b # rest) c =
     (if m = CHR ''-'' then ((of_char a :: nat) \<le> of_char c \<and> (of_char c :: nat) \<le> of_char b) \<or> in_class rest c
      else a = c \<or> in_class (m # b # rest) c)"
| "in_class items c = (c \<in> set items)"

lemma split_class_length: "split_class acc s = Some (items, rest) \<Longrightarrow> length rest < length s"
  by (induction s arbitrary: acc) (auto split: if_splits dest: less_SucI)

lemma class_of_length: "class_of p = Some (neg, items, rest) \<Longrightarrow> length rest < length p"
  by (auto simp: class_of_def split: list.splits option.splits if_splits prod.splits dest!: split_class_length)

function fnmatch :: "string \<Rightarrow> string \<Rightarrow> bool" where
  "fnmatch s [] = (s = [])"
| "fnmatch s (p # ps) =
     (if p = CHR ''*'' then fnmatch s ps \<or> (case s of [] \<Rightarrow> False | _ # s' \<Rightarrow> fnmatch s' (p # ps))
      else case s of
        [] \<Rightarrow> False
      | c # s' \<Rightarrow>
          if p = CHR ''?'' then fnmatch s' ps
          else if p = CHR ''['' then
            (case class_of ps of
               None \<Rightarrow> c = p \<and> fnmatch s' ps
             | Some (neg, items, rest) \<Rightarrow> in_class items c \<noteq> neg \<and> fnmatch s' rest)
          else c = p \<and> fnmatch s' ps)"
  by pat_completeness auto
termination
  by (relation "measure (\<lambda>(s, p). length s + length p)") (auto dest: class_of_length)

section \<open>Construction\<close>

definition gl_class :: string where "gl_class = ''orchestration.gl.GitlabOrchestrator''"
definition gl_no_hash :: string where "gl_no_hash = replicate 40 (CHR ''0'')"
definition gl_pr_closed_states :: "json list" where "gl_pr_closed_states = [JStr ''closed'']"

record GitlabOrchestrator =
  gl_context :: EventContext
  gl_isdiagnostic :: bool
  gl_event :: json
  gl_clone_urls :: "json dict"

definition gl_event_of :: "'e scm_env_scheme \<Rightarrow> EventContext \<Rightarrow> json result" where
  "gl_event_of E ec =
     (let found = query E ec ''$.object_kind'' in
      case (if found \<noteq> [] then pop_match found
            else case py_has_key (ec_message ec) ''event_name'' of
              Inl e \<Rightarrow> Inl e
            | Inr has \<Rightarrow> if has then py_getitem (ec_message ec) ''event_name'' else Inr (JStr ''Unknown'')) of
        Inl e \<Rightarrow> Inl e
      | Inr event \<Rightarrow>
          if event = JStr ''push'' then
            let before = query E ec ''$.before''; after = query E ec ''$.after'';
                sub1 = (if before \<noteq> [] \<and> last before = JStr gl_no_hash then ''branch_create'' else ''actual'');
                sub2 = (if after \<noteq> [] \<and> last after = JStr gl_no_hash then ''branch_delete'' else sub1)
            in Inr (JStr (''push'' @ '':'' @ sub2))
          else Inr event)"

definition gl_clone_urls_of :: "'e scm_env_scheme \<Rightarrow> EventContext \<Rightarrow> json dict result" where
  "gl_clone_urls_of E ec =
     (let ssh = query E ec ''$.project.git_ssh_url''; http = query E ec ''$.project.git_http_url'';
          urls = (if ssh \<noteq> [] then [(''ssh'', last ssh)] else []) in
      if http = [] then Inr urls
      else case last http of
        JStr url \<Rightarrow> (case urlsplit url of Inl e \<Rightarrow> Inl e | Inr u \<Rightarrow> Inr (dict_set urls (us_scheme u) (JStr url)))
      | _ \<Rightarrow> Inl AttributeError)"

definition make_GitlabOrchestrator :: "'e scm_env_scheme \<Rightarrow> EventContext \<Rightarrow> GitlabOrchestrator result" where
  "make_GitlabOrchestrator E ec =
     (case py_has_key (ec_message ec) ''message'' of
        Inl e \<Rightarrow> Inl e
      | Inr has \<Rightarrow>
          if has \<and> py_getitem (ec_message ec) ''message'' = Inr (JStr ''Hello World'') then
            Inr \<lparr>gl_context = ec, gl_isdiagnostic = True, gl_event = JNull, gl_clone_urls = []\<rparr>
          else
            (case gl_event_of E ec of
               Inl e \<Rightarrow> Inl e
             | Inr event \<Rightarrow>
                 (case gl_clone_urls_of E ec of
                    Inl e \<Rightarrow> Inl e
                  | Inr urls \<Rightarrow> Inr \<lparr>gl_context = ec, gl_isdiagnostic = False, gl_event = event, gl_clone_urls = urls\<rparr>)))"

definition gl_is_signature_valid :: "EventContext \<Rightarrow> string \<Rightarrow> bool result" where
  "gl_is_signature_valid ec shared_secret = Inr (Some shared_secret = get_header_key_safe ec ''X-Gitlab-Token'')"

section \<open>Payload data\<close>

record gl_data = scan_data +
  ld_repo_name :: string
  ld_protected :: "json list"

definition gl_populate_common_event_data :: "'e scm_env_scheme \<Rightarrow> GitlabOrchestrator \<Rightarrow> (string \<times> string \<times> string) act" where
  "gl_populate_common_event_data E gl =
     bindE (query_pop E (gl_context gl) ''$.project.path_with_namespace'') (\<lambda>v.
     bindE (liftE (as_str v)) (\<lambda>key.
     returnE (key, last (split_on (CHR ''/'') key), str_join ''/'' (butlast (split_on (CHR ''/'') key)))))"

definition gl_populate_common_push_event_data :: "'e scm_env_scheme \<Rightarrow> GitlabOrchestrator \<Rightarrow> gl_data act" where
  "gl_populate_common_push_event_data E gl =
     (let ec = gl_context gl in
      bindE (query_pop E ec ''$.ref'') (\<lambda>ref.
      bindE (liftE (norm_branch ref)) (\<lambda>branch.
      bindE (query_pop E ec ''$.after'') (\<lambda>h.
      bindE (gl_populate_common_event_data E gl) (\<lambda>(key, name, org).
      bindE (query_pop E ec ''$.ref_protected'') (\<lambda>ref_protected.
      bindE (if truthy ref_protected then bindE (liftE (norm_branch branch)) (\<lambda>b. returnE [b]) else returnE []) (\<lambda>own.
      let found_default = query E ec ''$.project.default_branch'' in
      bindE (if length found_default > 0 then
               bindE (query_pop E ec ''$.project.default_branch'') (\<lambda>v. bindE (liftE (norm_branch v)) (\<lambda>b. returnE [b]))
             else returnE []) (\<lambda>default_branch.
      returnE \<lparr>sd_source = (branch, h), sd_target = (branch, h), sd_project_key = JStr key, sd_slug = JStr key, sd_organization = JStr org,
               sd_pr = None, ld_repo_name = name, ld_protected = own @ default_branch\<rparr>))))))))"

definition gl_populate_common_pr_data :: "'e scm_env_scheme \<Rightarrow> GitlabOrchestrator \<Rightarrow> gl_data act" where
  "gl_populate_common_pr_data E gl =
     (let ec = gl_context gl in
      bindE (gl_populate_common_event_data E gl) (\<lambda>(key, name, org).
      bindE (query_pop E ec ''$.object_attributes.source_branch'') (\<lambda>sb.
      bindE (liftE (norm_branch sb)) (\<lambda>source_branch.
      bindE (query_pop E ec ''$.object_attributes.target_branch'') (\<lambda>tb.
      bindE (liftE (norm_branch tb)) (\<lambda>target_branch.
      bindE (query_pop E ec ''$.object_attributes.last_commit.id'') (\<lambda>source_hash.
      bindE (query_pop E ec ''$.object_attributes.iid'') (\<lambda>pr_id.
      bindE (query_pop E ec ''$.object_attributes.state'') (\<lambda>state.
      bindE (query_pop E ec ''$.object_attributes.action'') (\<lambda>status.
      returnE \<lparr>sd_source = (source_branch, source_hash), sd_target = (target_branch, JNull), sd_project_key = JStr key, sd_slug = JStr key,
               sd_organization = JStr org, sd_pr = Some (JStr (as_text E pr_id), state, status),
               ld_repo_name = name, ld_protected = []\<rparr>))))))))))"

text \<open>
  Reading the protected branches of a delegated merge request would raise, the attribute being set by the
  scan workflow only; the delegated workflow does not read it.
\<close>

definition GitlabProjectNaming :: "string \<Rightarrow> string" where
  "GitlabProjectNaming repo_path_with_namespace = repo_path_with_namespace"

definition gl_default_name :: "gl_data \<Rightarrow> string act" where
  "gl_default_name d = bindE (liftE (as_str (sd_project_key d))) (\<lambda>key. returnE (GitlabProjectNaming key))"

definition gl_orchestrator ::
  "'e scm_env_scheme \<Rightarrow> CxOneFlowServices \<Rightarrow> GitlabOrchestrator \<Rightarrow> bool \<Rightarrow> gl_data \<Rightarrow> json list act \<Rightarrow> Orchestrator" where
  "gl_orchestrator E sv gl delegated d protected =
     orchestrator_of gl_class (gl_context gl) delegated (scan_data.truncate d) protected
       (select_clone_url (scm_cloner (sv_scm sv)) (gl_clone_urls gl)) (gl_default_name d)"

section \<open>Workflows\<close>

definition gl_is_pr_draft :: "'e scm_env_scheme \<Rightarrow> GitlabOrchestrator \<Rightarrow> bool act" where
  "gl_is_pr_draft E gl = bindE (query_pop E (gl_context gl) ''$.object_attributes.draft'') (\<lambda>v. returnE (truthy v))"

text \<open>What one protected branch of the project adds: its name, and the branches of the merge request it matches.\<close>

definition gl_protected_entry :: "string \<Rightarrow> string \<Rightarrow> json \<Rightarrow> json list result" where
  "gl_protected_entry target_branch source_branch pbranch =
     (case as_str pbranch of
        Inl e \<Rightarrow> Inl e
      | Inr b \<Rightarrow>
          let branch_value = normalize_branch_name b in
          Inr ([JStr branch_value] @
               (if fnmatch target_branch branch_value then [JStr (normalize_branch_name target_branch)] else []) @
               (if fnmatch source_branch branch_value then [JStr (normalize_branch_name source_branch)] else [])))"

definition gl_mr_protected_branches ::
  "'e scm_env_scheme \<Rightarrow> SCMService \<Rightarrow> json \<Rightarrow> string \<Rightarrow> string \<Rightarrow> json list act" where
  "gl_mr_protected_branches E scm project_id target_branch source_branch =
     bindE (attemptE (scm_get E scm None (''/projects/'' @ as_text E project_id) [])) (\<lambda>r1.
     bindE (attemptE (scm_get E scm None (''/projects/'' @ as_text E project_id @ ''/protected_branches'') [])) (\<lambda>r2.
     bindE (liftE r1) (\<lambda>default_branch_resp.
     bindE (liftE r2) (\<lambda>protected_branch_resp.
     bindE (liftE (answer (json_on_ok E default_branch_resp))) (\<lambda>default_body.
     let found_default = jp_find E ''$.default_branch'' default_body in
     bindE (if length found_default > 0 then
              bindE (liftE (pop_match found_default)) (\<lambda>v. bindE (liftE (norm_branch v)) (\<lambda>b. returnE [b]))
            else returnE []) (\<lambda>default_branch.
     bindE (liftE (answer (json_on_ok E protected_branch_resp))) (\<lambda>protected_body.
     bindE (mapE (jp_find E ''$[*].name'' protected_body) (\<lambda>p. liftE (gl_protected_entry target_branch source_branch p))) (\<lambda>entries.
     returnE (py_set E (default_branch @ concat entries))))))))))"

definition gl_execute_push_scan_workflow :: "'e scm_env_scheme \<Rightarrow> GitlabOrchestrator \<Rightarrow> CxOneFlowServices \<Rightarrow> handled act" where
  "gl_execute_push_scan_workflow E gl sv =
     bindE (gl_populate_common_push_event_data E gl) (\<lambda>d.
     run_push E sv (gl_orchestrator E sv gl False d (returnE (ld_protected d))))"

definition gl_execute_pr_scan_workflow :: "'e scm_env_scheme \<Rightarrow> GitlabOrchestrator \<Rightarrow> CxOneFlowServices \<Rightarrow> handled act" where
  "gl_execute_pr_scan_workflow E gl sv =
     bindE (gl_is_pr_draft E gl) (\<lambda>draft.
     if draft then thenE (query_pop E (gl_context gl) ''$.object_attributes.url'') (returnE HNothing)
     else
       bindE (gl_populate_common_pr_data E gl) (\<lambda>d.
       bindE (query_pop E (gl_context gl) ''$.project.id'') (\<lambda>project_id.
       bindE (gl_default_name d) (\<lambda>default_name.
       bindE (get_project_name (sv_naming sv) default_name (gl_context gl)) (\<lambda>name.
       bindE (liftE (pr_field (\<lambda>(pr_id, _, _). pr_id) (scan_data.truncate d))) (\<lambda>pr_id.
       bindE (find_pr_scans E name pr_id (snd (sd_source d))) (\<lambda>existing_scans.
       if length existing_scans > 0 then run_pr_tags E sv (gl_orchestrator E sv gl False d (returnE []))
       else
         bindE (liftE (pr_field (\<lambda>(_, state, _). state) (scan_data.truncate d))) (\<lambda>state.
         if state \<in> set gl_pr_closed_states then returnE HNothing
         else
           bindE (liftE (as_str (fst (sd_target d)))) (\<lambda>target_branch.
           bindE (liftE (as_str (fst (sd_source d)))) (\<lambda>source_branch.
           bindE (gl_mr_protected_branches E (sv_scm sv) project_id target_branch source_branch) (\<lambda>protected.
           run_pr E sv (gl_orchestrator E sv gl False d (returnE protected)))))))))))))"

definition gl_execute_delegated_push_scan_workflow ::
  "'e scm_env_scheme \<Rightarrow> GitlabOrchestrator \<Rightarrow> CxOneFlowServices option \<Rightarrow> string \<Rightarrow> handled act" where
  "gl_execute_delegated_push_scan_workflow E gl services scan_id =
     bindE (gl_populate_common_push_event_data E gl) (\<lambda>d.
     bindE (need services) (\<lambda>sv. run_delegated_push E sv (gl_orchestrator E sv gl True d (returnE (ld_protected d))) scan_id))"

definition gl_execute_delegated_pr_scan_workflow ::
  "'e scm_env_scheme \<Rightarrow> GitlabOrchestrator \<Rightarrow> CxOneFlowServices option \<Rightarrow> string \<Rightarrow> handled act" where
  "gl_execute_delegated_pr_scan_workflow E gl services scan_id =
     bindE (gl_populate_common_pr_data E gl) (\<lambda>d.
     bindE (need services) (\<lambda>sv. run_delegated_pr E sv (gl_orchestrator E sv gl True d (raiseE AttributeError)) scan_id))"

definition gl_workflow_map :: "'e scm_env_scheme \<Rightarrow> GitlabOrchestrator \<Rightarrow> (string \<times> (CxOneFlowServices \<Rightarrow> handled act)) list" where
  "gl_workflow_map E gl =
     [(''push:actual'', gl_execute_push_scan_workflow E gl), (''push:branch_create'', gl_execute_push_scan_workflow E gl),
      (''merge_request'', gl_execute_pr_scan_workflow E gl)]"

definition gl_delegate_scan_handler_map ::
  "'e scm_env_scheme \<Rightarrow> GitlabOrchestrator \<Rightarrow> (string \<times> (CxOneFlowServices option \<Rightarrow> string \<Rightarrow> handled act)) list" where
  "gl_delegate_scan_handler_map E gl =
     [(''push:actual'', gl_execute_delegated_push_scan_workflow E gl), (''push:branch_create'', gl_execute_delegated_push_scan_workflow E gl),
      (''merge_request'', gl_execute_delegated_pr_scan_workflow E gl)]"

definition gl_execute :: "'e scm_env_scheme \<Rightarrow> GitlabOrchestrator \<Rightarrow> CxOneFlowServices \<Rightarrow> handled act" where
  "gl_execute E gl services =
     bindE (liftE (lookup_event (gl_workflow_map E gl) (gl_event gl))) (\<lambda>found.
     case found of None \<Rightarrow> returnE HNothing | Some workflow \<Rightarrow> workflow services)"

definition gl_handle_delegated_scan :: "'e scm_env_scheme \<Rightarrow> GitlabOrchestrator \<Rightarrow> CxOneFlowServices option \<Rightarrow> string \<Rightarrow> handled act" where
  "gl_handle_delegated_scan E gl services scan_id =
     bindE (liftE (lookup_event (gl_delegate_scan_handler_map E gl) (gl_event gl))) (\<lambda>found.
     case found of None \<Rightarrow> returnE HNothing | Some workflow \<Rightarrow> workflow services scan_id)"

definition gl_handler :: "'e scm_env_scheme \<Rightarrow> EventContext \<Rightarrow> event_handler result" where
  "gl_handler E ec =
     (case make_GitlabOrchestrator E ec of
        Inl e \<Rightarrow> Inl e
      | Inr gl \<Rightarrow>
          Inr (if gl_isdiagnostic gl then diagnostic_handler ''gl'' (gl_is_signature_valid ec)
               else \<lparr>eh_config_key = ''gl'', eh_is_diagnostic = False, eh_route_urls = Inr (map snd (gl_clone_urls gl)),
                     eh_signature_valid = gl_is_signature_valid ec, eh_execute = gl_execute E gl,
                     eh_delegated = gl_handle_delegated_scan E gl\<rparr>))"

section \<open>The contract\<close>

lemma gl_populate_emits [emits_intros]:
  "emits ok (gl_populate_common_event_data E gl)" "emits ok (gl_populate_common_push_event_data E gl)" "emits ok (gl_populate_common_pr_data E gl)"
  unfolding gl_populate_common_push_event_data_def gl_populate_common_pr_data_def gl_populate_common_event_data_def Let_def
  by (intro emits_intros)+

lemma gl_default_name_emits [emits_intros]: "emits ok (gl_default_name d)"
  unfolding gl_default_name_def by (intro emits_intros)

lemma scm_only_gl: "emits is_scm_call protected \<Longrightarrow> scm_only (gl_orchestrator E sv gl dl d protected)"
  unfolding gl_orchestrator_def by (intro scm_only_orchestrator_of emits_intros)

lemma gl_delegated_after_scan: "emits after_scan (gl_handle_delegated_scan E gl sv sid)"
  unfolding gl_handle_delegated_scan_def
proof (rule lookup_emits)
  fix run assume "run \<in> snd ` set (gl_delegate_scan_handler_map E gl)"
  then have "run = gl_execute_delegated_push_scan_workflow E gl \<or> run = gl_execute_delegated_pr_scan_workflow E gl"
    by (auto simp: gl_delegate_scan_handler_map_def)
  then show "emits after_scan (run sv sid)"
    unfolding gl_execute_delegated_push_scan_workflow_def gl_execute_delegated_pr_scan_workflow_def
    by (auto intro!: emits_intros scm_only_gl)
qed

lemma gl_populate_finishes [finishes_intros]:
  "finishes (gl_populate_common_event_data E gl)" "finishes (gl_populate_common_push_event_data E gl)" "finishes (gl_populate_common_pr_data E gl)"
  unfolding gl_populate_common_push_event_data_def gl_populate_common_pr_data_def gl_populate_common_event_data_def Let_def
  by (intro finishes_intros)+

lemma prompt_gl: "prompt (gl_orchestrator E sv gl dl d protected)"
  unfolding gl_orchestrator_def by (intro prompt_orchestrator_of finishes_intros)

lemma gl_delegated_finishes: "finishes (gl_handle_delegated_scan E gl sv sid)"
  unfolding gl_handle_delegated_scan_def
proof (rule lookup_finishes)
  fix run assume "run \<in> snd ` set (gl_delegate_scan_handler_map E gl)"
  then have "run = gl_execute_delegated_push_scan_workflow E gl \<or> run = gl_execute_delegated_pr_scan_workflow E gl"
    by (auto simp: gl_delegate_scan_handler_map_def)
  then show "finishes (run sv sid)"
    unfolding gl_execute_delegated_push_scan_workflow_def gl_execute_delegated_pr_scan_workflow_def
    by (auto intro!: finishes_intros prompt_gl)
qed

interpretation gl_events: scm_events "gl_handler E" "''gl''" "gl_is_signature_valid" for E :: "'e scm_env_scheme"
  by unfold_locales
     (auto simp: gl_handler_def diagnostic_handler_def emits_intros finishes_intros gl_delegated_after_scan gl_delegated_finishes split: sum.splits if_splits)

section \<open>Wildcard branches\<close>

definition plain_pattern :: "string \<Rightarrow> bool" where
  "plain_pattern p \<longleftrightarrow> set p \<inter> set ''*?['' = {}"

lemma fnmatch_plain_append: "plain_pattern p \<Longrightarrow> fnmatch s (p @ q) \<longleftrightarrow> (\<exists>t. s = p @ t \<and> fnmatch t q)"
proof (induction p arbitrary: s)
  case (Cons a p)
  then have "plain_pattern p" "a \<noteq> CHR ''*''" "a \<noteq> CHR ''?''" "a \<noteq> CHR ''[''" by (auto simp: plain_pattern_def)
  with Cons.IH show ?case by (cases s) auto
qed simp

lemma fnmatch_plain: "plain_pattern p \<Longrightarrow> fnmatch s p \<longleftrightarrow> s = p"
  using fnmatch_plain_append [of p s "[]"] by simp

lemma fnmatch_star: "fnmatch s (CHR ''*'' # q) \<longleftrightarrow> (\<exists>m t. s = m @ t \<and> fnmatch t q)"
proof (induction s)
  case Nil
  then show ?case by simp
next
  case (Cons a s)
  have "fnmatch (a # s) (CHR ''*'' # q) \<longleftrightarrow> fnmatch (a # s) q \<or> fnmatch s (CHR ''*'' # q)" by simp
  also have "\<dots> \<longleftrightarrow> (\<exists>m t. a # s = m @ t \<and> fnmatch t q)"
    unfolding Cons by (metis append_Cons append_Nil list.exhaust list.inject)
  finally show ?case .
qed

lemma fnmatch_wildcard:
  assumes "plain_pattern p" and "plain_pattern q"
  shows "fnmatch s (p @ ''*'' @ q) \<longleftrightarrow> (\<exists>m. s = p @ m @ q)"
  using fnmatch_plain_append [OF assms(1), of s "''*'' @ q"] by (auto simp: fnmatch_star fnmatch_plain [OF assms(2)] simp del: fnmatch.simps)

text \<open>C26: a protected branch of GitLab with a wildcard protects exactly the branches of a merge request that begin with
  what is before the star and end with what is behind it, and always the name of the pattern itself.\<close>

theorem gl_wildcard_protects:
  assumes "plain_pattern p" and "plain_pattern q" and "normalize_branch_name (p @ ''*'' @ q) = p @ ''*'' @ q"
  shows "gl_protected_entry target source (JStr (p @ ''*'' @ q)) =
    Inr ([JStr (p @ ''*'' @ q)] @
         (if \<exists>m. target = p @ m @ q then [JStr (normalize_branch_name target)] else []) @
         (if \<exists>m. source = p @ m @ q then [JStr (normalize_branch_name source)] else []))"
  using assms(3) fnmatch_wildcard [OF assms(1,2)] by (simp add: gl_protected_entry_def Let_def del: fnmatch.simps)

theorem gl_wildcard_protects_witness:
  "gl_protected_entry ''release/1.2'' ''feature/x'' (JStr ''release/*'') = Inr [JStr ''release/*'', JStr ''release/1.2'']"
proof -
  have "normalize_branch_name (''release/'' @ ''*'' @ []) = ''release/'' @ ''*'' @ []" by code_simp
  moreover have "plain_pattern ''release/''" "plain_pattern []" by (simp_all add: plain_pattern_def)
  moreover have "normalize_branch_name ''release/1.2'' = ''release/1.2''" by code_simp
  moreover have "\<exists>m. ''release/1.2'' = ''release/'' @ m @ []" by (rule exI [of _ "''1.2''"]) simp
  moreover have "\<not> (\<exists>m. ''feature/x'' = ''release/'' @ m @ [])" by simp
  ultimately show ?thesis
    using gl_wildcard_protects [of "''release/''" "[]" "''release/1.2''" "''feature/x''"] by simp
qed

end
