(* ===== verification/Base64.thy ===== *)
theory Base64
  imports Cloner
begin

text \<open>
  \<^verbatim>\<open>base64.b64decode\<close> as the standard library does it: characters outside the alphabet are skipped, padding ends
  the input, an incomplete group is an error. It undoes the encoder used for clone credentials.
\<close>

text \<open>The state is the position in a group of four, the bits left over from the last character, and the padding seen.\<close>

definition b64_value :: "char \<Rightarrow> nat" where
  "b64_value c = length (takeWhile (\<lambda>x. x \<noteq> c) b64_alphabet)"

fun b64_decode_from :: "nat \<Rightarrow> nat \<Rightarrow> nat \<Rightarrow> string \<Rightarrow> string result" where
  "b64_decode_from quad left pads [] = (if quad = 0 then Inr [] else Inl ValueError)"
| "b64_decode_from quad left pads (c # cs) =
     (if c = CHR ''='' then
        (if 2 \<le> quad \<and> 4 \<le> quad + (pads + 1) then Inr []
         else b64_decode_from quad left (if 2 \<le> quad then pads + 1 else pads) cs)
      else if c \<notin> set b64_alphabet then b64_decode_from quad left pads cs
      else
        let v = b64_value c in
        if quad = 0 then b64_decode_from 1 v 0 cs
        else if quad = 1 then map_sum id (\<lambda>r. char_of (left * 4 + v div 16) # r) (b64_decode_from 2 (v mod 16) 0 cs)
        else if quad = 2 then map_sum id (\<lambda>r. char_of (left * 16 + v div 4) # r) (b64_decode_from 3 (v mod 4) 0 cs)
        else map_sum id (\<lambda>r. char_of (left * 64 + v) # r) (b64_decode_from 0 0 0 cs))"

definition b64decode :: "string \<Rightarrow> string result" where
  "b64decode s = (if list_all (\<lambda>c. (of_char c :: nat) \<le> 127) s then b64_decode_from 0 0 0 s else Inl ValueError)"

section \<open>Decoding what was encoded\<close>

lemma nth_prefix_index: "distinct xs \<Longrightarrow> i < length xs \<Longrightarrow> length (takeWhile (\<lambda>x. x \<noteq> xs ! i) xs) = i"
proof -
  assume d: "distinct xs" and i: "i < length xs"
  have "takeWhile (\<lambda>x. x \<noteq> xs ! i) xs = take i xs"
    using d i by (intro takeWhile_eq_take_P_nth) (auto simp: nth_eq_iff_index_eq)
  with i show ?thesis by simp
qed

lemma b64_alphabet_facts: "distinct b64_alphabet" "length b64_alphabet = 64" "CHR ''='' \<notin> set b64_alphabet"
  by (simp_all add: b64_alphabet_def)

lemma b64_value_nth [simp]: "i < 64 \<Longrightarrow> b64_value (b64_alphabet ! i) = i"
  by (simp add: b64_value_def nth_prefix_index b64_alphabet_facts)

lemma b64_alphabet_nth: "i < 64 \<Longrightarrow> b64_alphabet ! i \<in> set b64_alphabet \<and> b64_alphabet ! i \<noteq> CHR ''=''"
  by (metis b64_alphabet_facts(2,3) nth_mem)

lemma sextets:
  fixes a b c :: nat
  assumes "a < 256" "b < 256" "c < 256"
  defines "n \<equiv> a * 65536 + b * 256 + c"
  shows "n div 262144 mod 64 = a div 4" "n div 4096 mod 64 = (a mod 4) * 16 + b div 16"
    "n div 64 mod 64 = (b mod 16) * 4 + c div 64" "n mod 64 = c mod 64"
proof -
  define A r B t C u where defs: "A = a div 4" "r = a mod 4" "B = b div 16" "t = b mod 16" "C = c div 64" "u = c mod 64"
  have eqs: "a = 4 * A + r" "b = 16 * B + t" "c = 64 * C + u" by (simp_all add: defs)
  have lt: "r < 4" "t < 16" "u < 64" "A < 64" "B < 16" "C < 4" using assms by (auto simp: defs)
  have "n = (65536 * r + 256 * b + c) + 262144 * A" unfolding n_def eqs(1) by simp
  moreover have "65536 * r + 256 * b + c < 262144" using lt assms by simp
  ultimately have "n div 262144 = A" by simp
  then show "n div 262144 mod 64 = a div 4" using lt by (simp add: defs)
  have "n = (256 * t + c) + 4096 * (64 * A + (r * 16 + B))" unfolding n_def eqs(1,2) by simp
  moreover have "256 * t + c < 4096" using lt assms by simp
  ultimately have "n div 4096 = 64 * A + (r * 16 + B)" by simp
  moreover have "r * 16 + B < 64" using lt by simp
  ultimately show "n div 4096 mod 64 = (a mod 4) * 16 + b div 16" by (simp add: defs)
  have n3: "n = u + 64 * (64 * (16 * a + B) + (t * 4 + C))" unfolding n_def eqs(2,3) by simp
  then have "n div 64 = 64 * (16 * a + B) + (t * 4 + C)" using lt by simp
  moreover have "t * 4 + C < 64" using lt by simp
  ultimately have "n div 64 mod 64 = t * 4 + C" by (simp only: mod_mult_self4 mod_less)
  then show "n div 64 mod 64 = (b mod 16) * 4 + c div 64" by (simp add: defs)
  have "n mod 64 = u" unfolding n3 mod_mult_self2 using lt(3) by simp
  then show "n mod 64 = c mod 64" by (simp add: defs)
qed

lemma b64_step:
  assumes "i < 64"
  shows "b64_decode_from 0 l p (b64_alphabet ! i # cs) = b64_decode_from (Suc 0) i 0 cs"
    "b64_decode_from (Suc 0) l p (b64_alphabet ! i # cs) = map_sum id ((#) (char_of (l * 4 + i div 16))) (b64_decode_from 2 (i mod 16) 0 cs)"
    "b64_decode_from 2 l p (b64_alphabet ! i # cs) = map_sum id ((#) (char_of (l * 16 + i div 4))) (b64_decode_from 3 (i mod 4) 0 cs)"
    "b64_decode_from 3 l p (b64_alphabet ! i # cs) = map_sum id ((#) (char_of (l * 64 + i))) (b64_decode_from 0 0 0 cs)"
  using assms b64_alphabet_nth [OF assms] by (simp_all add: Let_def)

lemma b64_groups:
  "b64_group 4 n = [b64_alphabet ! (n div 262144 mod 64), b64_alphabet ! (n div 4096 mod 64), b64_alphabet ! (n div 64 mod 64), b64_alphabet ! (n mod 64)]"
  "b64_group 3 n = [b64_alphabet ! (n div 262144 mod 64), b64_alphabet ! (n div 4096 mod 64), b64_alphabet ! (n div 64 mod 64)]"
  "b64_group 2 n = [b64_alphabet ! (n div 262144 mod 64), b64_alphabet ! (n div 4096 mod 64)]"
  by (simp_all add: b64_group_def upt_rec)

lemma b64_pads: "b64_decode_from 2 l 0 ''=='' = Inr []" "b64_decode_from 3 l 0 ''='' = Inr []"
  by simp_all

lemma char_byte: "(of_char c :: nat) < 256"
  using nat_of_char_less_256 by simp

lemma decoded_bytes:
  "k < 16 \<Longrightarrow> char_of ((of_char c :: nat) div 4 * 4 + (of_char c mod 4 * 16 + k) div 16) = c"
  "k < 4 \<Longrightarrow> char_of ((of_char c :: nat) div 16 * 16 + (of_char c mod 16 * 4 + k) div 4) = c"
  "char_of ((of_char c :: nat) div 64 * 64 + of_char c mod 64) = c"
proof -
  show "char_of ((of_char c :: nat) div 4 * 4 + (of_char c mod 4 * 16 + k) div 16) = c" if "k < 16"
  proof -
    have "(of_char c mod 4 * 16 + k) div 16 = (of_char c mod 4 :: nat)" using that by simp
    then show ?thesis by (simp only: div_mult_mod_eq char_of_char)
  qed
  show "char_of ((of_char c :: nat) div 16 * 16 + (of_char c mod 16 * 4 + k) div 4) = c" if "k < 4"
  proof -
    have "(of_char c mod 16 * 4 + k) div 4 = (of_char c mod 16 :: nat)" using that by simp
    then show ?thesis by (simp only: div_mult_mod_eq char_of_char)
  qed
  show "char_of ((of_char c :: nat) div 64 * 64 + of_char c mod 64) = c" by (simp only: div_mult_mod_eq char_of_char)
qed

lemma sextet_bounds:
  fixes a b c :: nat
  assumes "a < 256" "b < 256" "c < 256"
  shows "a div 4 < 64" "a mod 4 * 16 + b div 16 < 64" "b mod 16 * 4 + c div 64 < 64" "c mod 64 < 64" "b div 16 < 16" "c div 64 < 4"
proof -
  have "a mod 4 < 4" "b mod 16 < 16" by simp_all
  moreover show "a div 4 < 64" "b div 16 < 16" "c div 64 < 4" "c mod 64 < 64" using assms by auto
  ultimately show "a mod 4 * 16 + b div 16 < 64" "b mod 16 * 4 + c div 64 < 64" by simp_all
qed

lemma b64_decode_encode: "b64_decode_from 0 l p (b64encode s) = Inr s"
proof (induction s arbitrary: l p rule: b64encode.induct)
  case 1
  then show ?case by simp
next
  case (2 a)
  from sextets [of "of_char a" 0 0] sextet_bounds [of "of_char a" 0 0] char_byte [of a] decoded_bytes(1) [of 0 a] show ?case
    by (simp add: b64_groups b64_step b64_pads del: b64_decode_from.simps(2))
next
  case (3 a b)
  from sextets [of "of_char a" "of_char b" 0] sextet_bounds [of "of_char a" "of_char b" 0] char_byte [of a] char_byte [of b]
    decoded_bytes(1) [of "of_char b div 16" a] decoded_bytes(2) [of 0 b] show ?case
    by (simp add: b64_groups b64_step b64_pads del: b64_decode_from.simps(2))
next
  case (4 a b c s)
  let ?a = "of_char a :: nat" and ?b = "of_char b :: nat" and ?c = "of_char c :: nat"
  note bounds = sextet_bounds [OF char_byte [of a] char_byte [of b] char_byte [of c]]
  have g: "b64_group 4 (?a * 65536 + ?b * 256 + ?c) = [b64_alphabet ! (?a div 4), b64_alphabet ! (?a mod 4 * 16 + ?b div 16),
      b64_alphabet ! (?b mod 16 * 4 + ?c div 64), b64_alphabet ! (?c mod 64)]"
    by (simp only: b64_groups sextets [OF char_byte [of a] char_byte [of b] char_byte [of c]])
  have m: "(?a mod 4 * 16 + ?b div 16) mod 16 = ?b div 16" "(?b mod 16 * 4 + ?c div 64) mod 4 = ?c div 64"
    using bounds by simp_all
  show ?case
    by (simp only: b64encode.simps g append.simps b64_step [OF bounds(1)] b64_step [OF bounds(2)] b64_step [OF bounds(3)]
        b64_step [OF bounds(4)] m 4 decoded_bytes(1) [OF bounds(5)] decoded_bytes(2) [OF bounds(6)] decoded_bytes(3) map_sum.simps)
qed

lemma b64_group_alphabet: "set (b64_group k n) \<subseteq> set b64_alphabet"
proof -
  have "b64_alphabet ! (m mod 64) \<in> set b64_alphabet" for m :: nat
    using b64_alphabet_facts(2) by (intro nth_mem) simp
  then show ?thesis by (auto simp: b64_group_def)
qed

lemma b64encode_alphabet: "set (b64encode s) \<subseteq> set b64_alphabet \<union> {CHR ''=''}"
  by (induction s rule: b64encode.induct) (use b64_group_alphabet in auto)

lemma b64_alphabet_ascii: "c \<in> set b64_alphabet \<union> {CHR ''=''} \<Longrightarrow> (of_char c :: nat) \<le> 127 \<and> c \<noteq> CHR '' ''"
  by (auto simp: b64_alphabet_def)

lemma b64decode_b64encode [simp]: "b64decode (b64encode s) = Inr s"
proof -
  have "list_all (\<lambda>c. (of_char c :: nat) \<le> 127) (b64encode s)"
    using b64encode_alphabet [of s] b64_alphabet_ascii by (auto simp: list_all_iff)
  then show ?thesis by (simp add: b64decode_def b64_decode_encode)
qed

lemma b64encode_no_space: "CHR '' '' \<notin> set (b64encode s)"
  using b64encode_alphabet [of s] b64_alphabet_ascii by blast

end
