(* ===== verification/Azure_DevOps.thy ===== *)
theory Azure_DevOps
  imports Dispatch Base64
begin

text \<open>
  \<^verbatim>\<open>src/orchestration/adoe.py\<close>: events of Azure DevOps. The protected branches come from the branch policies of
  the collection, listed page by page; the clone URLs from a request for the details of the repository.
\<close>

section \<open>Paths\<close>

text \<open>\<^verbatim>\<open>urllib.parse.urlparse(url).path\<close>: the parameters of the last segment are split off where the scheme has them.\<close>

definition uses_params :: "string list" where
  "uses_params = ['''', ''ftp'', ''hdl'', ''prospero'', ''http'', ''https'', ''shttp'', ''rtsp'', ''rtsps'', ''rtspu'', ''sip'', ''sips'', ''mms'', ''sftp'', ''tel'']"

definition strip_params :: "string \<Rightarrow> string" where
  "strip_params path =
     (let last_segment = last (split_on (CHR ''/'') path);
          front = take (length path - length last_segment) path
      in front @ takeWhile (\<lambda>c. c \<noteq> CHR '';'') last_segment)"

definition url_path :: "string \<Rightarrow> string result" where
  "url_path url =
     (case urlsplit url of
        Inl e \<Rightarrow> Inl e
      | Inr u \<Rightarrow> Inr (if us_scheme u \<in> set uses_params then strip_params (us_path u) else us_path u))"

text \<open>\<^verbatim>\<open>Path(p).name\<close>: the last component that is neither empty nor a single dot.\<close>

definition path_name :: "string \<Rightarrow> string" where
  "path_name p =
     (let components = filter (\<lambda>c. c \<noteq> [] \<and> c \<noteq> ''.'') (split_on (CHR ''/'') p)
      in if components = [] then [] else last components)"

section \<open>Construction\<close>

definition adoe_class :: string where "adoe_class = ''orchestration.adoe.AzureDevOpsEnterpriseOrchestrator''"
definition adoe_diag_id :: string where "adoe_diag_id = ''f844ec47-a9db-4511-8281-8b63f4eaf94e''"

definition adoe_pr_status_map :: "(int \<times> string) list" where
  "adoe_pr_status_map = [(-10, ''REJECTED''), (-5, ''WAIT_AUTHOR''), (0, ''NO_REVIEW''), (5, ''APPROVED_COMMENTS''), (10, ''APPROVED'')]"

record AzureDevOpsEnterpriseOrchestrator =
  ado_context :: EventContext
  ado_isdiagnostic :: bool
  ado_event :: json
  ado_route_urls :: "json list"
  ado_remote_url :: json
  ado_default_branches :: "json list"
  ado_repo_key :: json
  ado_repo_slug :: json
  ado_collection :: string
  ado_repo_id :: json

definition adoe_attributes :: "'e scm_env_scheme \<Rightarrow> EventContext \<Rightarrow> AzureDevOpsEnterpriseOrchestrator act" where
  "adoe_attributes E ec =
     bindE (query_first E ec ''$.eventType'') (\<lambda>event.
     let route_urls = query E ec ''$.resource.repository.remoteUrl'' in
     bindE (liftE (first_match route_urls)) (\<lambda>remote_url.
     bindE (mapE (query E ec ''$.resource.repository.defaultBranch'') (\<lambda>v. liftE (norm_branch v))) (\<lambda>default_branches.
     bindE (query_first E ec ''$.resource.repository.project.name'') (\<lambda>repo_key.
     bindE (query_first E ec ''$.resource.repository.name'') (\<lambda>repo_slug.
     bindE (query_first E ec ''$.resourceContainers.collection.baseUrl'') (\<lambda>collection_url.
     bindE (liftE (as_str collection_url)) (\<lambda>url.
     bindE (liftE (url_path url)) (\<lambda>path.
     bindE (query_first E ec ''$.resource.repository.id'') (\<lambda>repo_id.
     returnE \<lparr>ado_context = ec, ado_isdiagnostic = False, ado_event = event, ado_route_urls = route_urls, ado_remote_url = remote_url,
              ado_default_branches = default_branches, ado_repo_key = repo_key, ado_repo_slug = repo_slug,
              ado_collection = path_name path, ado_repo_id = repo_id\<rparr>)))))))))"

text \<open>The attributes are read from the payload alone, so the history they are read at does not matter.\<close>

definition make_AzureDevOpsEnterpriseOrchestrator ::
  "'e scm_env_scheme \<Rightarrow> EventContext \<Rightarrow> AzureDevOpsEnterpriseOrchestrator result" where
  "make_AzureDevOpsEnterpriseOrchestrator E ec =
     (if JStr adoe_diag_id \<in> set (query E ec ''$.resourceContainers.account.id'') then
        Inr \<lparr>ado_context = ec, ado_isdiagnostic = True, ado_event = JNull, ado_route_urls = [], ado_remote_url = JNull, ado_default_branches = [],
             ado_repo_key = JNull, ado_repo_slug = JNull, ado_collection = [], ado_repo_id = JNull\<rparr>
      else fst (adoe_attributes E ec world0))"

text \<open>The text after the last space is decoded and the part behind its last colon is the secret.\<close>

definition adoe_is_signature_valid :: "EventContext \<Rightarrow> string \<Rightarrow> bool result" where
  "adoe_is_signature_valid ec shared_secret =
     (case get_header_key_safe ec ''Authorization'' of
        None \<Rightarrow> Inr False
      | Some auth \<Rightarrow>
          (case b64decode (last (split_on (CHR '' '') auth)) of
             Inl e \<Rightarrow> Inl e
           | Inr bytes \<Rightarrow>
               if \<not> utf8_valid bytes then Inl ValueError
               else Inr (last (split_on (CHR '':'') bytes) = shared_secret)))"

section \<open>Protected branches\<close>

text \<open>
  The list of pages is followed by its continuation token; \<open>fetch\<close> is the request, given the token of the
  page before. The names of response headers are in lower case here, they are looked up without
  regard to case.
\<close>

definition continuation_token :: "http_response \<Rightarrow> string option" where
  "continuation_token resp = map_of (rs_headers resp) ''x-ms-continuationtoken''"

fun adoe_pages :: "nat \<Rightarrow> (string option \<Rightarrow> http_response act) \<Rightarrow> (http_response \<Rightarrow> 'a list act) \<Rightarrow> string option \<Rightarrow> 'a list act" where
  "adoe_pages 0 fetch extract token = raiseE OutOfFuel"
| "adoe_pages (Suc fuel) fetch extract token =
     bindE (fetch token) (\<lambda>resp.
     bindE (extract resp) (\<lambda>xs.
     case continuation_token resp of
       None \<Rightarrow> returnE xs
     | Some next_token \<Rightarrow> bindE (adoe_pages fuel fetch extract (Some next_token)) (\<lambda>ys. returnE (xs @ ys))))"

definition token_query :: "string option \<Rightarrow> json dict" where
  "token_query token = (case token of None \<Rightarrow> [] | Some t \<Rightarrow> [(''continuationToken'', JStr t)])"

text \<open>A policy scope gives the branch it names, and whether that name is a prefix.\<close>

definition policy_branch :: "json \<Rightarrow> json \<Rightarrow> (string \<times> bool) list act" where
  "policy_branch repo_id p =
     bindE (liftE (py_has_key p ''refName'')) (\<lambda>has.
     if has then
       bindE (liftE (py_getitem p ''repositoryId'')) (\<lambda>rid.
       if rid = repo_id then
         bindE (liftE (py_getitem p ''refName'')) (\<lambda>ref.
         bindE (liftE (as_str ref)) (\<lambda>r.
         bindE (liftE (py_getitem p ''matchKind'')) (\<lambda>kind.
         returnE [(normalize_branch_name r, kind = JStr ''Prefix'')])))
       else returnE [])
     else returnE [])"

definition policy_page :: "'e scm_env_scheme \<Rightarrow> json \<Rightarrow> http_response \<Rightarrow> (string \<times> bool) list act" where
  "policy_page E repo_id resp =
     bindE (liftE (answer (json_on_ok E resp))) (\<lambda>body.
     bindE (mapE (jp_find E ''$.value[*].settings.scope[*]'' body) (policy_branch repo_id)) (\<lambda>bs.
     returnE (concat bs)))"

text \<open>An alternative of escaped literals matches at the start of a name that has one of them as a prefix.\<close>

definition refs_page :: "'e scm_env_scheme \<Rightarrow> string list \<Rightarrow> http_response \<Rightarrow> string list act" where
  "refs_page E prefixes resp =
     bindE (liftE (answer (json_on_ok E resp))) (\<lambda>body.
     bindE (mapE (jp_find E ''$.value[*].name'' body) (\<lambda>v. liftE (as_str v))) (\<lambda>names.
     returnE (filter (\<lambda>b. list_ex (\<lambda>p. starts_with p b) prefixes) (map normalize_branch_name names))))"

definition adoe_get_protected_branches_from_policies ::
  "'e scm_env_scheme \<Rightarrow> SCMService \<Rightarrow> AzureDevOpsEnterpriseOrchestrator \<Rightarrow> json list act" where
  "adoe_get_protected_branches_from_policies E scm ado =
     (let base = ''/'' @ ado_collection ado @ ''/'' @ as_text E (ado_repo_key ado) @ ''/_apis/'' in
      bindE (adoe_pages (page_fuel E) (\<lambda>token. scm_get E scm None (base @ ''policy/configurations'') (token_query token))
               (policy_page E (ado_repo_id ado)) None) (\<lambda>policies.
      let branches = map fst policies; prefix_branches = map fst (filter snd policies) in
      bindE (if length prefix_branches > 0 then
               adoe_pages (page_fuel E)
                 (\<lambda>token. scm_get E scm None (base @ ''git/repositories/'' @ as_text E (ado_repo_id ado) @ ''/refs'') (token_query token))
                 (refs_page E prefix_branches) None
             else returnE []) (\<lambda>matching.
      returnE (py_set E (map JStr (branches @ matching))))))"

definition adoe_get_protected_branches ::
  "'e scm_env_scheme \<Rightarrow> SCMService \<Rightarrow> AzureDevOpsEnterpriseOrchestrator \<Rightarrow> json list act" where
  "adoe_get_protected_branches E scm ado =
     bindE (adoe_get_protected_branches_from_policies E scm ado) (\<lambda>bs. returnE (ado_default_branches ado @ bs))"

section \<open>Payload data\<close>

definition adoe_populate_common_push_data :: "'e scm_env_scheme \<Rightarrow> AzureDevOpsEnterpriseOrchestrator \<Rightarrow> scan_data act" where
  "adoe_populate_common_push_data E ado =
     (let ec = ado_context ado in
      bindE (query_first E ec ''$.resource.refUpdates..name'') (\<lambda>v.
      bindE (liftE (norm_branch v)) (\<lambda>branch.
      bindE (query_first E ec ''$.resource.refUpdates..newObjectId'') (\<lambda>h.
      returnE \<lparr>sd_source = (branch, h), sd_target = (branch, h), sd_project_key = ado_repo_key ado, sd_slug = ado_repo_slug ado,
               sd_organization = JStr (ado_collection ado), sd_pr = None\<rparr>))))"

fun vote_status :: "json \<Rightarrow> json result" where
  "vote_status (JInt v) = (case map_of adoe_pr_status_map v of None \<Rightarrow> Inl KeyError | Some s \<Rightarrow> Inr (JStr s))"
| "vote_status (JBool b) = (if b then Inl KeyError else Inr (JStr ''NO_REVIEW''))"
| "vote_status (JList _) = Inl TypeError"
| "vote_status (JObj _) = Inl TypeError"
| "vote_status _ = Inl KeyError"

definition adoe_populate_common_pr_data :: "'e scm_env_scheme \<Rightarrow> AzureDevOpsEnterpriseOrchestrator \<Rightarrow> scan_data act" where
  "adoe_populate_common_pr_data E ado =
     (let ec = ado_context ado in
      bindE (query_first E ec ''$.resource.sourceRefName'') (\<lambda>sv.
      bindE (liftE (norm_branch sv)) (\<lambda>source_branch.
      bindE (query_first E ec ''$.resource.targetRefName'') (\<lambda>tv.
      bindE (liftE (norm_branch tv)) (\<lambda>target_branch.
      bindE (query_first E ec ''$.resource.lastMergeSourceCommit[commitId]'') (\<lambda>source_hash.
      bindE (query_first E ec ''$.resource.lastMergeTargetCommit[commitId]'') (\<lambda>target_hash.
      bindE (query_first E ec ''$.resource.pullRequestId'') (\<lambda>pr_id.
      bindE (mapE (query E ec ''$.resource.reviewers[*].vote'') (\<lambda>v. liftE (vote_status v))) (\<lambda>statuses.
      bindE (liftE (join_statuses (py_set E statuses))) (\<lambda>status.
      bindE (query_first E ec ''$.resource.status'') (\<lambda>state.
      returnE \<lparr>sd_source = (source_branch, source_hash), sd_target = (target_branch, target_hash), sd_project_key = ado_repo_key ado,
               sd_slug = ado_repo_slug ado, sd_organization = JStr (ado_collection ado),
               sd_pr = Some (JStr (as_text E pr_id), state, status)\<rparr>)))))))))))"

definition AzureDevOpsProjectNaming :: "'e scm_env_scheme \<Rightarrow> json \<Rightarrow> json \<Rightarrow> json \<Rightarrow> string" where
  "AzureDevOpsProjectNaming E collection_name project_name repo_name =
     as_text E collection_name @ ''/'' @ as_text E project_name @ ''/'' @ as_text E repo_name"

definition adoe_default_name :: "'e scm_env_scheme \<Rightarrow> AzureDevOpsEnterpriseOrchestrator \<Rightarrow> string act" where
  "adoe_default_name E ado =
     bindE (liftE (as_str (ado_remote_url ado))) (\<lambda>url.
     bindE (liftE (answer (clone_url_org E url))) (\<lambda>org.
     returnE (AzureDevOpsProjectNaming E org (ado_repo_key ado) (ado_repo_slug ado))))"

section \<open>Workflows\<close>

text \<open>\<^verbatim>\<open>__common_execution_steps\<close>: the clone URLs of the repository.\<close>

definition adoe_common_execution_steps :: "'e scm_env_scheme \<Rightarrow> AzureDevOpsEnterpriseOrchestrator \<Rightarrow> CxOneFlowServices \<Rightarrow> json dict act" where
  "adoe_common_execution_steps E ado sv =
     bindE (scm_get E (sv_scm sv) None (''/'' @ ado_collection ado @ ''/'' @ as_text E (ado_repo_key ado) @ ''/_apis/git/repositories/'' @
              as_text E (ado_repo_slug ado)) []) (\<lambda>resp.
     bindE (liftE (answer (json_on_ok E resp))) (\<lambda>repo_details.
     bindE (liftE (as_str (ado_remote_url ado))) (\<lambda>url.
     bindE (liftE (urlsplit url)) (\<lambda>u.
     bindE (liftE (py_getitem repo_details ''sshUrl'')) (\<lambda>ssh.
     returnE (dict_set [(us_scheme u, JStr url)] ''ssh'' ssh))))))"

definition adoe_orchestrator ::
  "'e scm_env_scheme \<Rightarrow> CxOneFlowServices \<Rightarrow> AzureDevOpsEnterpriseOrchestrator \<Rightarrow> json dict \<Rightarrow> bool \<Rightarrow> scan_data \<Rightarrow> Orchestrator" where
  "adoe_orchestrator E sv ado clone_urls delegated d =
     orchestrator_of adoe_class (ado_context ado) delegated d (adoe_get_protected_branches E (sv_scm sv) ado)
       (select_clone_url (scm_cloner (sv_scm sv)) clone_urls) (adoe_default_name E ado)"

definition adoe_is_pr_draft :: "'e scm_env_scheme \<Rightarrow> AzureDevOpsEnterpriseOrchestrator \<Rightarrow> bool act" where
  "adoe_is_pr_draft E ado = bindE (query_first E (ado_context ado) ''$.resource.isDraft'') (\<lambda>v. returnE (truthy v))"

definition adoe_execute_push_scan_workflow ::
  "'e scm_env_scheme \<Rightarrow> AzureDevOpsEnterpriseOrchestrator \<Rightarrow> json dict \<Rightarrow> CxOneFlowServices \<Rightarrow> handled act" where
  "adoe_execute_push_scan_workflow E ado clone_urls sv =
     bindE (adoe_populate_common_push_data E ado) (\<lambda>d. run_push E sv (adoe_orchestrator E sv ado clone_urls False d))"

text \<open>The default branch of the repository replaces those of the payload, which a pull-request event does not have.\<close>

definition adoe_execute_pr_scan_workflow ::
  "'e scm_env_scheme \<Rightarrow> AzureDevOpsEnterpriseOrchestrator \<Rightarrow> json dict \<Rightarrow> CxOneFlowServices \<Rightarrow> handled act" where
  "adoe_execute_pr_scan_workflow E ado clone_urls sv =
     bindE (adoe_is_pr_draft E ado) (\<lambda>draft.
     if draft then thenE (query_first E (ado_context ado) ''$.resource._links.web.href'') (returnE HNothing)
     else
       bindE (adoe_populate_common_pr_data E ado) (\<lambda>d.
       bindE (adoe_default_name E ado) (\<lambda>default_name.
       bindE (get_project_name (sv_naming sv) default_name (ado_context ado)) (\<lambda>name.
       bindE (liftE (pr_field (\<lambda>(pr_id, _, _). pr_id) d)) (\<lambda>pr_id.
       bindE (find_pr_scans E name pr_id (snd (sd_source d))) (\<lambda>existing_scans.
       if length existing_scans > 0 then run_pr_tags E sv (adoe_orchestrator E sv ado clone_urls False d)
       else
         bindE (query_first E (ado_context ado) ''$.resource.repository.id'') (\<lambda>repository_id.
         bindE (scm_get E (sv_scm sv) None (ado_collection ado @ ''/'' @ as_text E (ado_repo_key ado) @ ''/_apis/git/repositories/'' @
                  as_text E repository_id) []) (\<lambda>repo_details.
         if \<not> rs_ok repo_details then returnE HNothing
         else
           bindE (liftE (answer (rs_json repo_details))) (\<lambda>body.
           bindE (liftE (py_getitem body ''defaultBranch'')) (\<lambda>v.
           bindE (liftE (norm_branch v)) (\<lambda>default_branch.
           run_pr E sv (adoe_orchestrator E sv (ado\<lparr>ado_default_branches := [default_branch]\<rparr>) clone_urls False d))))))))))))"

definition adoe_execute_delegated_push_scan_workflow ::
  "'e scm_env_scheme \<Rightarrow> AzureDevOpsEnterpriseOrchestrator \<Rightarrow> json dict \<Rightarrow> CxOneFlowServices \<Rightarrow> string \<Rightarrow> handled act" where
  "adoe_execute_delegated_push_scan_workflow E ado clone_urls sv scan_id =
     bindE (adoe_populate_common_push_data E ado) (\<lambda>d. run_delegated_push E sv (adoe_orchestrator E sv ado clone_urls True d) scan_id)"

definition adoe_execute_delegated_pr_scan_workflow ::
  "'e scm_env_scheme \<Rightarrow> AzureDevOpsEnterpriseOrchestrator \<Rightarrow> json dict \<Rightarrow> CxOneFlowServices \<Rightarrow> string \<Rightarrow> handled act" where
  "adoe_execute_delegated_pr_scan_workflow E ado clone_urls sv scan_id =
     bindE (adoe_populate_common_pr_data E ado) (\<lambda>d. run_delegated_pr E sv (adoe_orchestrator E sv ado clone_urls True d) scan_id)"

definition adoe_workflow_map ::
  "'e scm_env_scheme \<Rightarrow> AzureDevOpsEnterpriseOrchestrator \<Rightarrow> (string \<times> (json dict \<Rightarrow> CxOneFlowServices \<Rightarrow> handled act)) list" where
  "adoe_workflow_map E ado =
     [(''git.push'', adoe_execute_push_scan_workflow E ado),
      (''git.pullrequest.created'', adoe_execute_pr_scan_workflow E ado),
      (''git.pullrequest.updated'', adoe_execute_pr_scan_workflow E ado)]"

definition adoe_delegate_scan_handler_map ::
  "'e scm_env_scheme \<Rightarrow> AzureDevOpsEnterpriseOrchestrator \<Rightarrow> (string \<times> (json dict \<Rightarrow> CxOneFlowServices \<Rightarrow> string \<Rightarrow> handled act)) list" where
  "adoe_delegate_scan_handler_map E ado =
     [(''git.push'', adoe_execute_delegated_push_scan_workflow E ado),
      (''git.pullrequest.created'', adoe_execute_delegated_pr_scan_workflow E ado),
      (''git.pullrequest.updated'', adoe_execute_delegated_pr_scan_workflow E ado)]"

definition adoe_execute :: "'e scm_env_scheme \<Rightarrow> AzureDevOpsEnterpriseOrchestrator \<Rightarrow> CxOneFlowServices \<Rightarrow> handled act" where
  "adoe_execute E ado services =
     bindE (liftE (lookup_event (adoe_workflow_map E ado) (ado_event ado))) (\<lambda>found.
     case found of
       None \<Rightarrow> returnE HNothing
     | Some workflow \<Rightarrow> bindE (adoe_common_execution_steps E ado services) (\<lambda>clone_urls. workflow clone_urls services))"

definition adoe_handle_delegated_scan ::
  "'e scm_env_scheme \<Rightarrow> AzureDevOpsEnterpriseOrchestrator \<Rightarrow> CxOneFlowServices option \<Rightarrow> string \<Rightarrow> handled act" where
  "adoe_handle_delegated_scan E ado services scan_id =
     bindE (liftE (lookup_event (adoe_delegate_scan_handler_map E ado) (ado_event ado))) (\<lambda>found.
     case found of
       None \<Rightarrow> returnE HNothing
     | Some workflow \<Rightarrow>
         bindE (need services) (\<lambda>sv.
         bindE (adoe_common_execution_steps E ado sv) (\<lambda>clone_urls. workflow clone_urls sv scan_id)))"

definition adoe_handler :: "'e scm_env_scheme \<Rightarrow> EventContext \<Rightarrow> event_handler result" where
  "adoe_handler E ec =
     (case make_AzureDevOpsEnterpriseOrchestrator E ec of
        Inl e \<Rightarrow> Inl e
      | Inr ado \<Rightarrow>
          Inr (if ado_isdiagnostic ado then diagnostic_handler ''adoe'' (adoe_is_signature_valid ec)
               else \<lparr>eh_config_key = ''adoe'', eh_is_diagnostic = False, eh_route_urls = Inr (ado_route_urls ado),
                     eh_signature_valid = adoe_is_signature_valid ec, eh_execute = adoe_execute E ado,
                     eh_delegated = adoe_handle_delegated_scan E ado\<rparr>))"

section \<open>The contract\<close>

lemma adoe_populate_emits [emits_intros]:
  "emits ok (adoe_populate_common_push_data E ado)" "emits ok (adoe_populate_common_pr_data E ado)"
  unfolding adoe_populate_common_push_data_def adoe_populate_common_pr_data_def Let_def
  by (intro emits_intros)+

lemma adoe_default_name_emits [emits_intros]: "emits ok (adoe_default_name E ado)"
  unfolding adoe_default_name_def by (intro emits_intros)

lemma adoe_pages_emits [emits_intros]:
  assumes "\<And>t. emits ok (fetch t)" and "\<And>r. emits ok (extract r)"
  shows "emits ok (adoe_pages fuel fetch extract token)"
  by (induction fuel arbitrary: token) (auto intro!: emits_intros assms)

lemma page_extract_emits [emits_intros]: "emits ok (policy_page E rid resp)" "emits ok (refs_page E prefixes resp)"
  unfolding policy_page_def policy_branch_def refs_page_def by (intro emits_intros)+

lemma adoe_common_steps_emits [emits_intros]: "emits after_scan (adoe_common_execution_steps E ado sv)"
  unfolding adoe_common_execution_steps_def by (intro emits_intros)

lemma scm_only_adoe: "scm_only (adoe_orchestrator E sv ado urls dl d)"
  unfolding adoe_orchestrator_def adoe_get_protected_branches_def adoe_get_protected_branches_from_policies_def Let_def
  by (intro scm_only_orchestrator_of emits_intros)

lemma adoe_delegated_after_scan: "emits after_scan (adoe_handle_delegated_scan E ado sv sid)"
  unfolding adoe_handle_delegated_scan_def
proof (rule lookup_emits)
  fix run assume "run \<in> snd ` set (adoe_delegate_scan_handler_map E ado)"
  then have "run = adoe_execute_delegated_push_scan_workflow E ado \<or> run = adoe_execute_delegated_pr_scan_workflow E ado"
    by (auto simp: adoe_delegate_scan_handler_map_def)
  then show "emits after_scan (bindE (need sv) (\<lambda>sv. bindE (adoe_common_execution_steps E ado sv) (\<lambda>clone_urls. run clone_urls sv sid)))"
    unfolding adoe_execute_delegated_push_scan_workflow_def adoe_execute_delegated_pr_scan_workflow_def
    by (auto intro!: emits_intros scm_only_adoe)
qed

lemma vote_status_not_fuel [simp, finishes_intros]: "vote_status v \<noteq> Inl OutOfFuel"
  by (cases v) (auto split: option.splits)

lemma urlsplit_not_fuel [simp, finishes_intros]: "urlsplit u \<noteq> Inl OutOfFuel"
  by (simp add: urlsplit_def Let_def split: prod.splits)

lemma adoe_populate_finishes [finishes_intros]:
  "finishes (adoe_populate_common_push_data E ado)" "finishes (adoe_populate_common_pr_data E ado)"
  "finishes (adoe_common_execution_steps E ado sv)"
  unfolding adoe_populate_common_push_data_def adoe_populate_common_pr_data_def adoe_common_execution_steps_def Let_def
  by (intro finishes_intros)+

lemma prompt_adoe: "prompt (adoe_orchestrator E sv ado urls dl d)"
  unfolding adoe_orchestrator_def by (intro prompt_orchestrator_of finishes_intros)

lemma adoe_delegated_finishes: "finishes (adoe_handle_delegated_scan E ado sv sid)"
  unfolding adoe_handle_delegated_scan_def
proof (rule lookup_finishes)
  fix run assume "run \<in> snd ` set (adoe_delegate_scan_handler_map E ado)"
  then have "run = adoe_execute_delegated_push_scan_workflow E ado \<or> run = adoe_execute_delegated_pr_scan_workflow E ado"
    by (auto simp: adoe_delegate_scan_handler_map_def)
  then show "finishes (bindE (need sv) (\<lambda>sv. bindE (adoe_common_execution_steps E ado sv) (\<lambda>clone_urls. run clone_urls sv sid)))"
    unfolding adoe_execute_delegated_push_scan_workflow_def adoe_execute_delegated_pr_scan_workflow_def
    by (auto intro!: finishes_intros prompt_adoe)
qed

interpretation adoe_events: scm_events "adoe_handler E" "''adoe''" "adoe_is_signature_valid" for E :: "'e scm_env_scheme"
  by unfold_locales
     (auto simp: adoe_handler_def diagnostic_handler_def emits_intros finishes_intros adoe_delegated_after_scan adoe_delegated_finishes split: sum.splits if_splits)

section \<open>Secrets and pages\<close>

text \<open>C28: a webhook of Azure DevOps configured with basic credentials is accepted exactly for the service whose shared
  secret is the password, whatever the user name.\<close>

theorem adoe_credentials_roundtrip:
  assumes "map_of (ec_headers ec) ''Authorization'' = Some (''Basic '' @ b64encode (user @ '':'' @ secret))"
    and "CHR '':'' \<notin> set secret" and "utf8_valid (user @ '':'' @ secret)"
  shows "adoe_is_signature_valid ec s = Inr (secret = s)"
proof -
  have "split_on (CHR '' '') (''Basic'' @ CHR '' '' # b64encode (user @ '':'' @ secret)) = [''Basic'', b64encode (user @ '':'' @ secret)]"
    using b64encode_no_space by (subst split_on_append_sep) (simp_all add: split_on_no_sep)
  moreover have "last (split_on (CHR '':'') (user @ '':'' @ secret)) = secret" for user
  proof (induction user)
    case Nil
    then show ?case using assms(2) by (simp add: split_on_no_sep)
  next
    case (Cons c user)
    obtain w ws where ws: "split_on (CHR '':'') (user @ '':'' @ secret) = w # ws" by (cases "split_on (CHR '':'') (user @ '':'' @ secret)") auto
    have "ws \<noteq> []"
      using str_join_split_on [of "CHR '':''" "user @ '':'' @ secret"] split_on_parts_clean [of w "CHR '':''" "user @ '':'' @ secret"] ws by auto
    with ws Cons show ?case by auto
  qed
  ultimately show ?thesis
    using assms(1,3) by (simp add: adoe_is_signature_valid_def get_header_key_safe_def)
qed

theorem adoe_credentials_roundtrip_witness:
  "adoe_is_signature_valid \<lparr>ec_raw_event_payload = [], ec_headers = [(''Authorization'', ''Basic '' @ b64encode ''bob:s3cret'')], ec_message = JNull\<rparr> ''s3cret'' = Inr True"
  using adoe_credentials_roundtrip [of "\<lparr>ec_raw_event_payload = [], ec_headers = [(''Authorization'', ''Basic '' @ b64encode ''bob:s3cret'')], ec_message = JNull\<rparr>"
      "''bob''" "''s3cret''" "''s3cret''"]
  by (simp add: utf8_valid_ascii)

text \<open>A shared secret with a colon in it is never accepted.\<close>

lemma adoe_colon_secret_rejected: "CHR '':'' \<in> set s \<Longrightarrow> adoe_is_signature_valid ec s \<noteq> Inr True"
proof -
  assume colon: "CHR '':'' \<in> set s"
  have "last (split_on (CHR '':'') bytes) \<noteq> s" for bytes
    using colon split_on_parts_clean [of s "CHR '':''" bytes] by (metis last_in_set split_on_nonempty)
  then show ?thesis by (simp add: adoe_is_signature_valid_def split: option.splits sum.splits)
qed

text \<open>The responses \<open>pages\<close> are what \<open>fetch\<close> is answered when every continuation token is followed.\<close>

fun page_chain :: "(string option \<Rightarrow> http_response act) \<Rightarrow> string option \<Rightarrow> http_response list \<Rightarrow> bool" where
  "page_chain fetch token [] = False"
| "page_chain fetch token [r] = ((\<forall>w. fst (fetch token w) = Inr r) \<and> continuation_token r = None)"
| "page_chain fetch token (r # r2 # rs) =
     ((\<forall>w. fst (fetch token w) = Inr r) \<and> continuation_token r \<noteq> None \<and> page_chain fetch (continuation_token r) (r2 # rs))"

lemma adoe_pages_chain:
  assumes "page_chain fetch token pages" and "length pages \<le> fuel"
    and "list_all2 (\<lambda>r xs. \<forall>w. fst (extract r w) = Inr xs) pages contents"
  shows "fst (adoe_pages fuel fetch extract token w) = Inr (concat contents)"
  using assms
proof (induction pages arbitrary: contents token fuel w)
  case Nil
  then show ?case by simp
next
  case (Cons r rs)
  then obtain n where fuel: "fuel = Suc n" by (cases fuel) auto
  have fetch: "fst (fetch token w) = Inr r" using Cons.prems(1) by (cases rs) auto
  obtain xs xss where contents: "contents = xs # xss" "list_all2 (\<lambda>r xs. \<forall>w. fst (extract r w) = Inr xs) rs xss"
    and page: "\<And>w'. fst (extract r w') = Inr xs"
    using Cons.prems(3) by (auto simp: list_all2_Cons1)
  show ?case
  proof (cases rs)
    case Nil
    with Cons.prems contents show ?thesis
      by (simp add: fuel fst_bindE [of "fetch token" w, OF fetch] fst_bindE [of "extract r", OF page] returnE_apply)
  next
    case rs: (Cons r2 rs')
    with Cons.prems obtain t where t: "continuation_token r = Some t" "page_chain fetch (Some t) rs" by auto
    have "fst (adoe_pages n fetch extract (Some t) w') = Inr (concat xss)" for w'
      using Cons.IH [OF t(2) _ contents(2)] Cons.prems fuel by simp
    then show ?thesis
      by (simp add: fuel t contents fst_bindE [of "fetch token" w, OF fetch] fst_bindE [of "extract r", OF page]
          fst_bindE [of "adoe_pages n fetch extract (Some t)"] returnE_apply)
  qed
qed

subsection \<open>A server with continuation tokens\<close>

text \<open>
  What Azure DevOps documents of a listing in pages: a request without \<^verbatim>\<open>continuationToken\<close> is answered with the first
  page, every page but the last comes with a token in a response header, and a request with that token is answered with the
  next page; any other token is an error. \<open>token k\<close> is the token of page \<open>k\<close>.
\<close>

definition ado_page :: "(nat \<Rightarrow> string) \<Rightarrow> json list \<Rightarrow> nat \<Rightarrow> http_response" where
  "ado_page token bodies k = \<lparr>rs_ok = True, rs_status = 200, rs_json = Inr (bodies ! k),
     rs_headers = (if Suc k < length bodies then [(''x-ms-continuationtoken'', token (Suc k))] else [])\<rparr>"

definition ado_bad_request :: http_response where
  "ado_bad_request = \<lparr>rs_ok = False, rs_status = 400, rs_json = Inr JNull, rs_headers = []\<rparr>"

definition ado_answer :: "(nat \<Rightarrow> string) \<Rightarrow> json list \<Rightarrow> json dict \<Rightarrow> http_response" where
  "ado_answer token bodies qry =
     (case map_of qry ''continuationToken'' of
        None \<Rightarrow> ado_page token bodies 0
      | Some v \<Rightarrow> (case find (\<lambda>k. v = JStr (token k)) [1..<length bodies] of
            None \<Rightarrow> ado_bad_request
          | Some k \<Rightarrow> ado_page token bodies k))"

definition ado_serves :: "'e scm_env_scheme \<Rightarrow> SCMService \<Rightarrow> string \<Rightarrow> (nat \<Rightarrow> string) \<Rightarrow> json list \<Rightarrow> bool" where
  "ado_serves E scm path token bodies \<longleftrightarrow> bodies \<noteq> [] \<and> length bodies \<le> page_fuel E \<and> inj_on token {1..<length bodies} \<and>
     (\<forall>tr rq. rq_method rq = ''GET'' \<longrightarrow> rq_url rq = concat_path_to_endpoint (scm_session scm) path \<longrightarrow>
        net_http E tr rq = Inr (ado_answer token bodies (rq_query rq)))"

text \<open>Every request is authenticated, and \<^verbatim>\<open>json_on_ok\<close> gives the JSON of a success.\<close>

definition ado_session :: "'e scm_env_scheme \<Rightarrow> SCMService \<Rightarrow> bool" where
  "ado_session E scm \<longleftrightarrow> (\<forall>tr ec force. \<exists>a. net_auth E tr ec force = Inr a) \<and> 0 < s_retries (scm_session scm) \<and>
     (\<forall>r. rs_ok r \<longrightarrow> json_on_ok E r = rs_json r)"

fun page_token :: "(nat \<Rightarrow> string) \<Rightarrow> nat \<Rightarrow> string option" where
  "page_token token 0 = None"
| "page_token token (Suc k) = Some (token (Suc k))"

lemma find_index: "inj_on t (set xs) \<Longrightarrow> k \<in> set xs \<Longrightarrow> find (\<lambda>i. JStr (t k) = JStr (t i)) xs = Some k"
  by (induction xs) (auto simp: inj_on_def)

lemma ado_answer_token:
  assumes "inj_on token {1..<length bodies}" and "k < length bodies"
  shows "ado_answer token bodies (token_query (page_token token k)) = ado_page token bodies k"
proof (cases k)
  case (Suc j)
  with assms have "find (\<lambda>i. JStr (token k) = JStr (token i)) [1..<length bodies] = Some k"
    by (intro find_index) auto
  with Suc show ?thesis by (simp add: ado_answer_def token_query_def)
qed (simp add: ado_answer_def token_query_def)

lemma ado_page_fetched:
  assumes session: "ado_session E scm" and server: "ado_serves E scm path token bodies" and k: "k < length bodies"
  shows "fst (scm_get E scm None path (token_query (page_token token k)) w) = Inr (ado_page token bodies k)"
proof -
  let ?P = "\<lambda>r. r = ado_page token bodies k"
  have inj: "inj_on token {1..<length bodies}" using server by (simp add: ado_serves_def)
  have auth: "\<exists>a. net_auth E tr ec force = Inr a" and tries: "0 < s_retries (scm_session scm)" for tr ec force
    using session by (simp_all add: ado_session_def)
  have "\<exists>r. net_http E tr rq = Inr r \<and> rs_ok r \<and> ?P r"
    if "rq_method rq = ''GET''" "rq_url rq = concat_path_to_endpoint (scm_session scm) path" "rq_query rq = token_query (page_token token k)" for tr rq
    using server that ado_answer_token [OF inj k] by (simp add: ado_serves_def ado_page_def)
  from scm_get_answered [where P = ?P and ec = None and w = w, OF auth tries this] show ?thesis by blast
qed

lemma ado_page_chain:
  assumes "ado_session E scm" and "ado_serves E scm path token bodies" and "k < length bodies"
  shows "page_chain (\<lambda>t. scm_get E scm None path (token_query t)) (page_token token k) (map (ado_page token bodies) [k..<length bodies])"
  using assms(3)
proof (induction "length bodies - k" arbitrary: k)
  case (Suc n)
  note fetched = ado_page_fetched [OF assms(1,2) Suc.prems]
  have upt: "[k..<length bodies] = k # [Suc k..<length bodies]" using Suc.prems by (rule upt_conv_Cons)
  show ?case
  proof (cases "Suc k < length bodies")
    case True
    then have "[Suc k..<length bodies] = Suc k # [Suc (Suc k)..<length bodies]" by (rule upt_conv_Cons)
    moreover have "page_chain (\<lambda>t. scm_get E scm None path (token_query t)) (page_token token (Suc k)) (map (ado_page token bodies) [Suc k..<length bodies])"
      using Suc.hyps(2) True by (intro Suc.hyps(1)) auto
    moreover have "continuation_token (ado_page token bodies k) = Some (token (Suc k))"
      using True by (simp add: ado_page_def continuation_token_def)
    ultimately show ?thesis using fetched by (simp add: upt)
  next
    case False
    with fetched show ?thesis by (simp add: upt ado_page_def continuation_token_def)
  qed
qed simp

text \<open>Whatever a page holds that the extractor can read, all of it is collected.\<close>

lemma ado_listing_complete:
  assumes "ado_session E scm" and server: "ado_serves E scm path token (map body xs)"
    and page: "\<And>k w. k < length xs \<Longrightarrow> fst (extract (ado_page token (map body xs) k) w) = Inr (content (xs ! k))"
  shows "fst (adoe_pages (page_fuel E) (\<lambda>t. scm_get E scm None path (token_query t)) extract None w) = Inr (concat (map content xs))"
proof -
  have bounds: "0 < length (map body xs)" "length (map body xs) \<le> page_fuel E" using server by (auto simp: ado_serves_def)
  show ?thesis
    using ado_page_chain [OF assms(1,2) bounds(1)] bounds(2)
    by (intro adoe_pages_chain) (auto simp: list_all2_conv_all_nth page)
qed

subsection \<open>The protected branches\<close>

text \<open>
  The scopes of the branch policies of a project, each with its repository and, when it is about branches, the name of a ref
  and whether that name is a prefix, as the listing of the policies gives them; and the listing of the refs of a repository.
\<close>

type_synonym policy_scope = "json \<times> (string \<times> bool) option"

fun scope_json :: "policy_scope \<Rightarrow> json" where
  "scope_json (rid, None) = JObj [(''repositoryId'', rid)]"
| "scope_json (rid, Some (ref, is_prefix)) =
     JObj [(''refName'', JStr ref), (''matchKind'', JStr (if is_prefix then ''Prefix'' else ''Exact'')), (''repositoryId'', rid)]"

definition policies_body :: "policy_scope list list \<Rightarrow> json" where
  "policies_body policies = JObj [(''value'', JList (map (\<lambda>scopes.
     JObj [(''settings'', JObj [(''scope'', JList (map scope_json scopes))])]) policies))]"

definition refs_body :: "string list \<Rightarrow> json" where
  "refs_body refs = JObj [(''value'', JList (map (\<lambda>ref. JObj [(''name'', JStr ref)]) refs))]"

text \<open>The JSON path library on these two listings.\<close>

definition ado_paths :: "'e scm_env_scheme \<Rightarrow> bool" where
  "ado_paths E \<longleftrightarrow>
     (\<forall>policies. jp_find E ''$.value[*].settings.scope[*]'' (policies_body policies) = map scope_json (concat policies)) \<and>
     (\<forall>refs. jp_find E ''$.value[*].name'' (refs_body refs) = map JStr refs)"

text \<open>The names with a policy in one repository, and the branches they protect: the names themselves and the refs a prefix matches.\<close>

definition repo_policies :: "json \<Rightarrow> policy_scope list \<Rightarrow> (string \<times> bool) list" where
  "repo_policies rid scopes = concat (map (\<lambda>(r, s). case s of None \<Rightarrow> []
     | Some (ref, is_prefix) \<Rightarrow> if r = rid then [(normalize_branch_name ref, is_prefix)] else []) scopes)"

definition protected_by_policies :: "(string \<times> bool) list \<Rightarrow> string list \<Rightarrow> string set" where
  "protected_by_policies policies refs = fst ` set policies \<union>
     {b \<in> normalize_branch_name ` set refs. \<exists>p. (p, True) \<in> set policies \<and> starts_with p b}"

lemma policy_branch_scope:
  "policy_branch rid (scope_json (r, s)) w = (Inr (repo_policies rid [(r, s)]), w)"
proof (cases s)
  case (Some p)
  then show ?thesis by (cases p) (simp add: policy_branch_def repo_policies_def py_simps)
qed (simp add: policy_branch_def repo_policies_def py_simps)

lemma mapE_pure: "(\<And>x w. x \<in> set xs \<Longrightarrow> f x w = (Inr (g x), w)) \<Longrightarrow> mapE xs f w = (Inr (map g xs), w)"
  by (induction xs arbitrary: w) (simp_all add: py_simps)

lemma repo_policies_concat: "concat (map (repo_policies rid) xss) = repo_policies rid (concat xss)"
  by (induction xss) (simp_all add: repo_policies_def)

lemma policy_page_content:
  assumes "ado_session E scm" and "ado_paths E" and "bodies ! k = policies_body policies"
  shows "fst (policy_page E rid (ado_page token bodies k) w) = Inr (repo_policies rid (concat policies))"
proof -
  have scopes: "mapE (map scope_json (concat policies)) (policy_branch rid) w' = (Inr (map (\<lambda>s. repo_policies rid [s]) (concat policies)), w')" for w'
  proof -
    have "mapE (map scope_json scopes) (policy_branch rid) w' = (Inr (map (\<lambda>s. repo_policies rid [s]) scopes), w')" for scopes
      by (induction scopes arbitrary: w') (auto simp: py_simps policy_branch_scope)
    then show ?thesis .
  qed
  moreover have "concat (map (\<lambda>s. repo_policies rid [s]) scopes) = repo_policies rid scopes" for scopes
    using repo_policies_concat [of rid "map (\<lambda>s. [s]) scopes"] by (simp add: o_def)
  ultimately show ?thesis
    using assms by (simp add: policy_page_def ado_session_def ado_paths_def ado_page_def py_simps scopes)
qed

lemma refs_page_content:
  assumes "ado_session E scm" and "ado_paths E" and "bodies ! k = refs_body refs"
  shows "fst (refs_page E prefixes (ado_page token bodies k) w) =
    Inr (filter (\<lambda>b. list_ex (\<lambda>p. starts_with p b) prefixes) (map normalize_branch_name refs))"
proof -
  have refs: "mapE (map JStr refs) (\<lambda>v. liftE (as_str v)) w' = (Inr refs, w')" for w'
    by (induction refs arbitrary: w') (simp_all add: py_simps)
  show ?thesis using assms by (simp add: refs_page_def ado_session_def ado_paths_def ado_page_def py_simps refs)
qed

definition ado_policies_path :: "'e scm_env_scheme \<Rightarrow> AzureDevOpsEnterpriseOrchestrator \<Rightarrow> string" where
  "ado_policies_path E ado = ''/'' @ ado_collection ado @ ''/'' @ as_text E (ado_repo_key ado) @ ''/_apis/policy/configurations''"

definition ado_refs_path :: "'e scm_env_scheme \<Rightarrow> AzureDevOpsEnterpriseOrchestrator \<Rightarrow> string" where
  "ado_refs_path E ado = ''/'' @ ado_collection ado @ ''/'' @ as_text E (ado_repo_key ado) @ ''/_apis/git/repositories/'' @
     as_text E (ado_repo_id ado) @ ''/refs''"

lemma concat_pages: "concat (concat xss) = concat (map concat xss)"
  by (induction xss) simp_all

lemma path_policies:
  "(''/'' @ ado_collection ado @ ''/'' @ as_text E (ado_repo_key ado) @ ''/_apis/'') @ ''policy/configurations'' = ado_policies_path E ado"
  by (simp add: ado_policies_path_def)

lemma path_refs:
  "(''/'' @ ado_collection ado @ ''/'' @ as_text E (ado_repo_key ado) @ ''/_apis/'') @ ''git/repositories/'' @ as_text E (ado_repo_id ado) @ ''/refs''
   = ado_refs_path E ado"
  by (simp add: ado_refs_path_def)

text \<open>C27: the branches protected by the policies of an Azure DevOps project are exactly the names with a policy in this
  repository and the refs of the repository one of its prefix policies matches, on whatever pages of the two listings they
  stand: every continuation token is sent back in the next request, until the server sends none.\<close>

theorem adoe_policy_branches_complete:
  assumes session: "ado_session E scm" and paths: "ado_paths E" and py_set: "\<And>xs. set (py_set E xs) = set xs"
    and policies: "ado_serves E scm (ado_policies_path E ado) ptoken (map policies_body policies)"
    and refs: "ado_serves E scm (ado_refs_path E ado) rtoken (map refs_body refs)"
  shows "\<exists>bs. fst (adoe_get_protected_branches_from_policies E scm ado w) = Inr bs \<and>
    set bs = JStr ` protected_by_policies (repo_policies (ado_repo_id ado) (concat (concat policies))) (concat refs)"
proof -
  let ?rid = "ado_repo_id ado"
  define own where "own = repo_policies ?rid (concat (concat policies))"
  define prefixes where "prefixes = map fst (filter snd own)"
  define matching where "matching = filter (\<lambda>b. list_ex (\<lambda>p. starts_with p b) prefixes) (map normalize_branch_name (concat refs))"
  have own: "fst (adoe_pages (page_fuel E) (\<lambda>t. scm_get E scm None (ado_policies_path E ado) (token_query t)) (policy_page E ?rid) None w')
      = Inr own" for w'
    using ado_listing_complete [OF session policies, where content = "\<lambda>page. repo_policies ?rid (concat page)"]
      policy_page_content [OF session paths] repo_policies_concat [of ?rid "map concat policies"]
      concat_pages [of policies]
    by (simp add: o_def own_def)
  have refs: "fst (adoe_pages (page_fuel E) (\<lambda>t. scm_get E scm None (ado_refs_path E ado) (token_query t)) (refs_page E prefixes) None w')
      = Inr matching" for w'
    using ado_listing_complete [OF session refs, where content = "\<lambda>page. filter (\<lambda>b. list_ex (\<lambda>p. starts_with p b) prefixes) (map normalize_branch_name page)"]
      refs_page_content [OF session paths]
    by (simp add: filter_concat map_concat o_def matching_def)
  have run: "fst (adoe_get_protected_branches_from_policies E scm ado w) =
      Inr (py_set E (map JStr (map fst own @ (if length prefixes > 0 then matching else []))))"
    unfolding adoe_get_protected_branches_from_policies_def Let_def path_policies path_refs fst_bindE [OF own] prefixes_def [symmetric]
    by (cases "length prefixes > 0") (simp_all only: if_True if_False fst_bindE [OF refs] bindE_returnE_left returnE_apply fst_conv)
  have prefix: "p \<in> set prefixes \<longleftrightarrow> (p, True) \<in> set own" for p by (force simp: prefixes_def)
  have "set matching = {b \<in> normalize_branch_name ` set (concat refs). \<exists>p. (p, True) \<in> set own \<and> starts_with p b}"
    by (simp add: matching_def list_ex_iff prefix Bex_def)
  moreover have "set (if length prefixes > 0 then matching else []) = set matching"
    by (cases "prefixes = []") (simp_all add: matching_def)
  ultimately have "set (map fst own @ (if length prefixes > 0 then matching else [])) = protected_by_policies own (concat refs)"
    by (simp only: set_append set_map protected_by_policies_def)
  then have "set (py_set E (map JStr (map fst own @ (if length prefixes > 0 then matching else [])))) = JStr ` protected_by_policies own (concat refs)"
    by (simp only: py_set set_map)
  with run show ?thesis unfolding own_def by blast
qed

text \<open>
  Two pages of policies, a prefix policy on the second one, and two pages of refs. The policies of another repository and one
  that is not about branches do not count.
\<close>

definition ado_demo :: AzureDevOpsEnterpriseOrchestrator where
  "ado_demo = \<lparr>ado_context = demo_context, ado_isdiagnostic = False, ado_event = JStr ''git.push'', ado_route_urls = [], ado_remote_url = JNull,
     ado_default_branches = [], ado_repo_key = JStr ''p'', ado_repo_slug = JStr ''r'', ado_collection = ''c'', ado_repo_id = JStr ''1''\<rparr>"

definition demo_policies :: "policy_scope list list list" where
  "demo_policies = [[[(JStr ''1'', Some (''refs/heads/main'', False))], [(JStr ''2'', Some (''refs/heads/other'', False))]],
     [[(JStr ''1'', None), (JStr ''1'', Some (''refs/heads/rel'', True))]]]"

definition demo_refs :: "string list list" where
  "demo_refs = [[''refs/heads/main'', ''refs/heads/feature''], [''refs/heads/rel/1'']]"

definition demo_token :: "nat \<Rightarrow> string" where
  "demo_token k = replicate k (CHR ''t'')"

definition ado_demo_env :: scm_env where
  "ado_demo_env = quiet_scm_env\<lparr>
     net_http := (\<lambda>_ rq. Inr (
       if rq_url rq = concat_path_to_endpoint (scm_session (sv_scm demo_services)) (ado_policies_path quiet_scm_env ado_demo)
       then ado_answer demo_token (map policies_body demo_policies) (rq_query rq)
       else if rq_url rq = concat_path_to_endpoint (scm_session (sv_scm demo_services)) (ado_refs_path quiet_scm_env ado_demo)
       then ado_answer demo_token (map refs_body demo_refs) (rq_query rq)
       else ado_bad_request)),
     jp_find := (\<lambda>q v. case v of
         JObj [(_, JList xs)] \<Rightarrow>
           if q = ''$.value[*].settings.scope[*]''
           then concat (map (\<lambda>x. case x of JObj [(_, JObj [(_, JList ys)])] \<Rightarrow> ys | _ \<Rightarrow> []) xs)
           else map (\<lambda>x. case x of JObj [(_, n)] \<Rightarrow> n | _ \<Rightarrow> JNull) xs
       | _ \<Rightarrow> [])\<rparr>"

theorem adoe_policy_branches_complete_witness:
  "\<exists>bs. fst (adoe_get_protected_branches_from_policies ado_demo_env (sv_scm demo_services) ado_demo world0) = Inr bs \<and>
     set bs = {JStr ''main'', JStr ''rel'', JStr ''rel/1''}"
proof -
  have env: "net_auth ado_demo_env = (\<lambda>_ _ _. Inr [])" "page_fuel ado_demo_env = 200" "py_repr ado_demo_env = py_repr quiet_scm_env"
      "json_on_ok ado_demo_env = rs_json" "py_set ado_demo_env = remdups"
    by (simp_all add: ado_demo_env_def quiet_scm_env_def quiet_orch_env_def quiet_resolver_env_def quiet_mq_env_def quiet_git_env_def quiet_env_def
        orch_env.defs scm_env.defs resolver_env.defs mq_env.defs git_env.defs cxone_env.defs)
  have session: "ado_session ado_demo_env (sv_scm demo_services)"
    by (simp add: ado_session_def env) (simp add: demo_services_def)
  have scopes: "concat (map (\<lambda>x. case x of JObj [(_, JObj [(_, JList ys)])] \<Rightarrow> ys | _ \<Rightarrow> [])
      (map (\<lambda>scopes. JObj [(''settings'', JObj [(''scope'', JList (map scope_json scopes))])]) policies)) = map scope_json (concat policies)" for policies
    by (induction policies) simp_all
  have paths: "ado_paths ado_demo_env"
    unfolding ado_paths_def using scopes
    by (simp add: ado_demo_env_def policies_body_def refs_body_def o_def)
  have urls: "ado_policies_path ado_demo_env ado_demo = ado_policies_path quiet_scm_env ado_demo"
      "ado_refs_path ado_demo_env ado_demo = ado_refs_path quiet_scm_env ado_demo"
    by (simp_all add: ado_policies_path_def ado_refs_path_def as_text_def env)
  have token: "inj_on demo_token A" for A by (auto simp: inj_on_def demo_token_def)
  have policies: "ado_serves ado_demo_env (sv_scm demo_services) (ado_policies_path ado_demo_env ado_demo) demo_token (map policies_body demo_policies)"
    unfolding ado_serves_def urls env by (simp add: token) (simp add: ado_demo_env_def demo_policies_def)
  have refs: "ado_serves ado_demo_env (sv_scm demo_services) (ado_refs_path ado_demo_env ado_demo) demo_token (map refs_body demo_refs)"
    unfolding ado_serves_def urls env
    by (simp add: token) (simp add: ado_demo_env_def demo_refs_def concat_path_to_endpoint_def ado_refs_path_def ado_policies_path_def ado_demo_def lstrip_chars_def)
  have "set (py_set ado_demo_env xs) = set xs" for xs by (simp add: env)
  from adoe_policy_branches_complete [OF session paths this policies refs, of world0]
  have "\<exists>bs. fst (adoe_get_protected_branches_from_policies ado_demo_env (sv_scm demo_services) ado_demo world0) = Inr bs \<and>
      set bs = JStr ` protected_by_policies (repo_policies (ado_repo_id ado_demo) (concat (concat demo_policies))) (concat demo_refs)" .
  moreover have "protected_by_policies (repo_policies (ado_repo_id ado_demo) (concat (concat demo_policies))) (concat demo_refs)
      = {''main'', ''rel'', ''rel/1''}"
  proof -
    have own: "repo_policies (ado_repo_id ado_demo) (concat (concat demo_policies)) = [(''main'', False), (''rel'', True)]" by code_simp
    have names: "normalize_branch_name ` set (concat demo_refs) = {''main'', ''feature'', ''rel/1''}" by code_simp
    have prefix: "(\<exists>p. (p, True) \<in> set [(''main'', False), (''rel'', True)] \<and> starts_with p b) \<longleftrightarrow> starts_with ''rel'' b" for b by simp
    have "{b \<in> {''main'', ''feature'', ''rel/1''}. starts_with ''rel'' b} = set (filter (starts_with ''rel'') [''main'', ''feature'', ''rel/1''])"
      unfolding set_filter by (simp only: list.set)
    also have "filter (starts_with ''rel'') [''main'', ''feature'', ''rel/1''] = [''rel/1'']" by code_simp
    finally have "{b \<in> {''main'', ''feature'', ''rel/1''}. starts_with ''rel'' b} = {''rel/1''}" by (simp only: list.set)
    then show ?thesis
      unfolding protected_by_policies_def own names prefix by (simp add: insert_commute)
  qed
  ultimately show ?thesis by simp
qed

end
