(* ===== verification/Webhooks.thy ===== *)
theory Webhooks
  imports Bitbucket Github Gitlab Azure_DevOps
begin

text \<open>
  What holds for the events of all four source control servers: which payloads are acted upon at all, what
  the results agent does with a scan that comes back from an agent, and which events are never scanned.
  The facts of the dispatcher are those of its locale, interpreted for each orchestrator.
\<close>

datatype scm = BBDC | GH | GL | ADOE

fun scm_key :: "scm \<Rightarrow> string" where
  "scm_key BBDC = ''bbdc''"
| "scm_key GH = ''gh''"
| "scm_key GL = ''gl''"
| "scm_key ADOE = ''adoe''"

fun scm_handler :: "'e scm_env_scheme \<Rightarrow> scm \<Rightarrow> EventContext \<Rightarrow> event_handler result" where
  "scm_handler E BBDC = bbdc_handler E"
| "scm_handler E GH = gh_handler E"
| "scm_handler E GL = gl_handler E"
| "scm_handler E ADOE = adoe_handler E"

section \<open>Authentic events\<close>

text \<open>An event proves that its sender knows the secret.\<close>

fun authentic :: "'e scm_env_scheme \<Rightarrow> scm \<Rightarrow> EventContext \<Rightarrow> string \<Rightarrow> bool" where
  "authentic E BBDC ec secret \<longleftrightarrow>
     (\<exists>alg h. map_of (ec_headers ec) ''X-Hub-Signature'' = Some (alg @ ''='' @ h) \<and> hmac E alg secret (ec_raw_event_payload ec) = Inr h)"
| "authentic E GH ec secret \<longleftrightarrow>
     (\<exists>alg h. map_of (ec_headers ec) ''X-Hub-Signature-256'' = Some (alg @ ''='' @ h) \<and> hmac E alg secret (ec_raw_event_payload ec) = Inr h)"
| "authentic E GL ec secret \<longleftrightarrow> map_of (ec_headers ec) ''X-Gitlab-Token'' = Some secret"
| "authentic E ADOE ec secret \<longleftrightarrow>
     (\<exists>auth creds. map_of (ec_headers ec) ''Authorization'' = Some auth \<and> b64decode (last (split_on (CHR '' '') auth)) = Inr creds \<and>
        (creds = secret \<or> (\<exists>user. creds = user @ '':'' @ secret)))"

lemma unpack_signatureD: "unpack_signature s = Inr (a, h) \<Longrightarrow> s = a @ ''='' @ h"
  using str_join_split_on [of "CHR ''=''" s] by (auto simp: unpack_signature_def split: list.splits)

lemma last_split_on: "last (split_on c s) = t \<Longrightarrow> s = t \<or> (\<exists>u. s = u @ [c] @ t)"
proof (induction s arbitrary: t)
  case Nil
  then show ?case by simp
next
  case (Cons x xs)
  show ?case
  proof (cases "x = c")
    case True
    with Cons show ?thesis by (metis append_Cons append_Nil last_ConsR split_on.simps(2) split_on_nonempty)
  next
    case False
    obtain w ws where ws: "split_on c xs = w # ws" by (cases "split_on c xs") auto
    show ?thesis
    proof (cases "ws = []")
      case True
      with ws False Cons.prems str_join_split_on [of c xs] show ?thesis by auto
    next
      case nonempty: False
      with ws False Cons.prems have t: "t = last (split_on c xs)" by auto
      have "xs \<noteq> t"
      proof
        assume "xs = t"
        with t have "c \<notin> set xs" using split_on_parts_clean [of t c xs] by (metis last_in_set split_on_nonempty)
        with ws nonempty show False by (simp add: split_on_no_sep)
      qed
      with Cons.IH [OF t [symmetric]] show ?thesis by (metis append_Cons)
    qed
  qed
qed

lemma hmac_signature_validD:
  assumes "hmac_signature_valid E ec header secret = Inr True"
  shows "\<exists>alg h. map_of (ec_headers ec) header = Some (alg @ ''='' @ h) \<and> hmac E alg secret (ec_raw_event_payload ec) = Inr h"
  using assms
  by (auto simp: hmac_signature_valid_def get_header_key_safe_def split: option.splits sum.splits prod.splits dest!: unpack_signatureD) blast

lemma adoe_signature_validD:
  assumes "adoe_is_signature_valid ec secret = Inr True"
  shows "\<exists>auth creds. map_of (ec_headers ec) ''Authorization'' = Some auth \<and> b64decode (last (split_on (CHR '' '') auth)) = Inr creds \<and>
     (creds = secret \<or> (\<exists>user. creds = user @ '':'' @ secret))"
  using assms last_split_on [of "CHR '':''" _ secret]
  by (auto simp: adoe_is_signature_valid_def get_header_key_safe_def split: option.splits sum.splits if_splits)

lemma event_authentic:
  assumes h: "scm_handler E kind ec = Inr h" and acts: "new_events (OrchestrationDispatch_execute E table h) w \<noteq> []"
  shows "\<exists>services entries. map_of table (scm_key kind) = Some entries \<and> services \<in> set entries \<and>
     authentic E kind ec (scm_shared_secret (sv_scm services))"
proof (cases kind)
  case BBDC
  with bbdc_events.acts_only_when_valid [OF _ acts] h show ?thesis
    by (fastforce simp: bbdc_is_signature_valid_def dest: hmac_signature_validD)
next
  case GH
  with gh_events.acts_only_when_valid [OF _ acts] h show ?thesis
    by (fastforce simp: gh_is_signature_valid_def dest: hmac_signature_validD)
next
  case GL
  with gl_events.acts_only_when_valid [OF _ acts] h show ?thesis
    by (fastforce simp: gl_is_signature_valid_def get_header_key_safe_def)
next
  case ADOE
  with adoe_events.acts_only_when_valid [OF _ acts] h show ?thesis
    by (fastforce dest: adoe_signature_validD)
qed

text \<open>C1: whatever a webhook event makes the server do, down to a single request, it does for an event that proves
  knowledge of the shared secret of a service configured for that kind of source control server: an
  HMAC of the payload for Bitbucket and GitHub, the token itself for GitLab, and the password of
  basic credentials for Azure DevOps.\<close>

theorem event_acted_upon_only_if_authentic:
  assumes h: "scm_handler E kind ec = Inr h" and acts: "new_events (OrchestrationDispatch_execute E table h) w \<noteq> []"
  shows "\<exists>services entries. map_of table (scm_key kind) = Some entries \<and> services \<in> set entries \<and>
     authentic E kind ec (scm_shared_secret (sv_scm services))"
  using event_authentic [OF h acts] .

text \<open>A push to the default branch of a GitLab project, on a server that knows its token.\<close>

definition gl_demo_env :: scm_env where
  "gl_demo_env = quiet_scm_env\<lparr>re_match := (\<lambda>_ _. True),
     jp_find := (\<lambda>q _. case map_of [(''$.object_kind'', ''push''), (''$.before'', ''b''), (''$.after'', ''c''), (''$.project.git_http_url'', ''https://gl/g/r''),
        (''$.ref'', ''refs/heads/main''), (''$.project.path_with_namespace'', ''g/r''), (''$.ref_protected'', ''yes''),
        (''$.project.default_branch'', ''main'')] q of None \<Rightarrow> [] | Some v \<Rightarrow> [JStr v])\<rparr>"

definition gl_demo_event :: EventContext where
  "gl_demo_event = \<lparr>ec_raw_event_payload = [], ec_headers = [(''X-Gitlab-Token'', ''secret'')], ec_message = JObj []\<rparr>"

definition gl_demo_handler :: event_handler where
  "gl_demo_handler = (case gl_handler gl_demo_env gl_demo_event of Inl _ \<Rightarrow> diagnostic_handler [] (\<lambda>_. Inr False) | Inr h \<Rightarrow> h)"

lemma gl_demo_handler: "scm_handler gl_demo_env GL gl_demo_event = Inr gl_demo_handler"
proof -
  have "isl (gl_handler gl_demo_env gl_demo_event) = False" by code_simp
  then show ?thesis by (cases "gl_handler gl_demo_env gl_demo_event") (auto simp: gl_demo_handler_def)
qed

lemma gl_demo_acts: "(new_events (OrchestrationDispatch_execute gl_demo_env [(''gl'', [demo_services])] gl_demo_handler) world0 = []) = False"
  by code_simp

theorem event_acted_upon_only_if_authentic_witness:
  "authentic gl_demo_env GL gl_demo_event (scm_shared_secret (sv_scm demo_services))"
  using event_acted_upon_only_if_authentic [OF gl_demo_handler, of "[(''gl'', [demo_services])]" world0] gl_demo_acts by auto

section \<open>Delegated scans that come back\<close>

text \<open>
  \<^verbatim>\<open>__orchestrator_factory\<close>: the class a message names, applied to the event context. The constructors of the
  kickoff orchestrators need more arguments than that. Another name is one that cannot be imported, or one that is not
  in the module it names; modules from outside of the package \<^verbatim>\<open>orchestration\<close> are not told apart.
\<close>

definition kickoff_classes :: "string list" where
  "kickoff_classes = [''orchestration.kickoff.adoe.AzureDevOpsKickoffOrchestrator'', ''orchestration.kickoff.bbdc.BitBucketDataCenterKickoffOrchestrator'',
     ''orchestration.kickoff.gh.GithubKickoffOrchestrator'', ''orchestration.kickoff.gl.GitlabKickoffOrchestrator'']"

definition orchestrator_modules :: "string list" where
  "orchestrator_modules = map (\<lambda>c. str_join ''.'' (butlast (split_on CHR ''.'' c))) ([bbdc_class, gh_class, gl_class, adoe_class] @ kickoff_classes)"

text \<open>\<^verbatim>\<open>importlib.import_module\<close> and \<^verbatim>\<open>getattr\<close> on the name of no orchestrator.\<close>

definition import_error :: "string \<Rightarrow> exn" where
  "import_error name =
     (let module = str_join ''.'' (butlast (split_on CHR ''.'' name)) in
      if module = [] then ValueError
      else if starts_with ''.'' module then TypeError
      else if module \<in> set orchestrator_modules then AttributeError
      else LibError True ''ModuleNotFoundError'')"

definition orchestrator_factory :: "'e scm_env_scheme \<Rightarrow> string \<Rightarrow> EventContext \<Rightarrow> event_handler result" where
  "orchestrator_factory E name ec =
     (case map_of [(bbdc_class, BBDC), (gh_class, GH), (gl_class, GL), (adoe_class, ADOE)] name of
        Some kind \<Rightarrow> scm_handler E kind ec
      | None \<Rightarrow> Inl (if name \<in> set kickoff_classes then TypeError else import_error name))"

lemma scm_delegated:
  assumes "scm_handler E kind ec = Inr h"
  shows "emits after_scan (dispatch_delegated_scan_workflow E table h scan_id)"
    and "finishes (dispatch_delegated_scan_workflow E table h scan_id)"
  using assms bbdc_events.delegated_dispatch_after_scan gh_events.delegated_dispatch_after_scan gl_events.delegated_dispatch_after_scan
    adoe_events.delegated_dispatch_after_scan bbdc_events.delegated_dispatch_finishes gh_events.delegated_dispatch_finishes
    gl_events.delegated_dispatch_finishes adoe_events.delegated_dispatch_finishes
  by (cases kind; fastforce)+

text \<open>The part of the agent between reading the message and settling it.\<close>

definition process_result :: "'e scm_env_scheme \<Rightarrow> routes \<Rightarrow> DelegatedScanResultMessage \<Rightarrow> unit act" where
  "process_result E table m =
     (case dsr_scan_id m of
        None \<Rightarrow> returnE ()
      | Some scan_id \<Rightarrow>
          bindE (liftE (answer (orchestrator_factory E (dsd_orchestrator (dsm_details m)) (dsd_event_context (dsm_details m))))) (\<lambda>h.
          thenE (dispatch_delegated_scan_workflow E table h scan_id) (returnE ())))"

lemma process_result_quiet: "emits after_scan (process_result E table m)" "finishes (process_result E table m)"
proof -
  let ?f = "liftE (answer (orchestrator_factory E (dsd_orchestrator (dsm_details m)) (dsd_event_context (dsm_details m)))) :: event_handler act"
  let ?Q = "\<lambda>h. \<exists>kind. scm_handler E kind (dsd_event_context (dsm_details m)) = Inr h"
  have Q: "yields ?Q ?f"
    by (rule yields_liftE) (auto simp: orchestrator_factory_def split: option.splits)
  show "emits after_scan (process_result E table m)"
    unfolding process_result_def
    by (intro emits_case_option emits_returnE emits_bindE_post [OF emits_liftE Q] emits_thenE) (auto dest: scm_delegated(1))
  have "finishes ?f" by (intro finishes_intros)
  then show "finishes (process_result E table m)"
    unfolding process_result_def
    by (intro finishes_case_option finishes_returnE finishes_bindE_post [OF _ Q] finishes_thenE) (auto dest: scm_delegated(2))
qed

lemma ResolverResultsAgent_settled:
  assumes "broker_up E" and "im_body msg = Inr m"
  shows "settled (\<lambda>_. True) (\<lambda>w. ResolverResultsAgent_call E table (orchestrator_factory E) svc msg w)"
    and "emits (\<lambda>e. after_scan e \<or> is_settle e) (\<lambda>w. ResolverResultsAgent_call E table (orchestrator_factory E) svc msg w)"
proof -
  let ?sig = "liftE (answer (signature_valid E svc (dsm_details_signature m) (details_to_binary E (dsm_details m)))) :: bool act"
  let ?logs = "if resolver_capture_logs (rs_workflow svc) \<and> (case dsr_logs m of None \<Rightarrow> False | Some logs \<Rightarrow> \<not> utf8_valid logs)
       then raiseE ValueError else returnE () :: unit act"
  let ?work = "catchE (bindE ?sig (\<lambda>valid. if \<not> valid then raiseE AttributeError
       else thenE ?logs (thenE (process_result E table m) (msg_ack E)))) (\<lambda>_. msg_nack E False)"
  have run: "(\<lambda>w. ResolverResultsAgent_call E table (orchestrator_factory E) svc msg w) = ?work"
    by (rule ext) (simp only: ResolverResultsAgent_call_def process_result_def bindE_apply [of "safe_deserialize_body E msg"] safe_deserialize_ok [OF assms(2)]
        prod.case sum.case)
  have quiet: "emits (\<lambda>e. \<not> is_settle e) (process_result E table m)"
    by (rule emits_mono [OF process_result_quiet(1)]) (simp add: after_scan_def)
  have "settling (\<lambda>_. True) (raiseE AttributeError)"
    by (simp add: settling_def raiseE_apply)
  then show "settled (\<lambda>_. True) (\<lambda>w. ResolverResultsAgent_call E table (orchestrator_factory E) svc msg w)"
    unfolding run
    by (intro settled_catchE settling_bindE settling_if settling_thenE settled_settling [OF settled_ack] settled_nack assms(1) quiet
        process_result_quiet(2) emits_intros finishes_intros) simp_all
  have "emits (\<lambda>e. after_scan e \<or> is_settle e) (process_result E table m)"
    by (rule emits_mono [OF process_result_quiet(1)]) simp
  then show "emits (\<lambda>e. after_scan e \<or> is_settle e) (\<lambda>w. ResolverResultsAgent_call E table (orchestrator_factory E) svc msg w)"
    unfolding run by (intro emits_intros) simp_all
qed

text \<open>C3: a readable result message of a delegated scan is settled exactly once, as the last thing the results agent
  does, and on the way nothing is cloned, submitted or delegated again: a scan that was delegated once is
  never scanned a second time for its result. A message whose signature does not verify is rejected with no
  other effect.\<close>

theorem delegated_result_settled:
  assumes up: "broker_up E" and body: "im_body msg = Inr m"
  shows "\<exists>new s w'. ResolverResultsAgent_call E table (orchestrator_factory E) svc msg w = (Inr (), w') \<and> w_trace w' = w_trace w @ new @ [s] \<and>
     is_settle s \<and> list_all after_scan new \<and>
     (signature_valid E svc (dsm_details_signature m) (details_to_binary E (dsm_details m)) = Inr False \<longrightarrow> new = [] \<and> s = EvNack False)"
proof -
  let ?run = "\<lambda>w. ResolverResultsAgent_call E table (orchestrator_factory E) svc msg w"
  obtain new s where run: "fst (?run w) = Inr ()" "w_trace (snd (?run w)) = w_trace w @ new @ [s]" "is_settle s" "list_all (\<lambda>e. \<not> is_settle e) new"
    using ResolverResultsAgent_settled(1) [OF up body, of table svc] unfolding settled_def settled_run_def by blast
  obtain ev where "w_trace (snd (?run w)) = w_trace w @ ev" "list_all (\<lambda>e. after_scan e \<or> is_settle e) ev"
    using ResolverResultsAgent_settled(2) [OF up body, of table svc] by (rule emitsD)
  with run have new: "list_all after_scan new" by (auto simp: list_all_iff)
  have "new = [] \<and> s = EvNack False"
    if "signature_valid E svc (dsm_details_signature m) (details_to_binary E (dsm_details m)) = Inr False"
    using run(2) that
    by (simp add: ResolverResultsAgent_call_def bindE_apply safe_deserialize_ok [OF body] catchE_apply liftE_apply raiseE_apply msg_nack_up [OF up])
  with run new show ?thesis by (intro exI [of _ new] exI [of _ s] exI [of _ "snd (?run w)"]) (auto simp: prod_eq_iff)
qed

definition demo_result :: "string \<Rightarrow> DelegatedScanResultMessage" where
  "demo_result sig = \<lparr>sm_timestamp = sm_timestamp (demo_delegated sig), sm_correlation_id = sm_correlation_id (demo_delegated sig), sh_moniker = ''svc'', sh_state = StDONE,
     sh_workflow = WfPUSH, dsm_details = (dsm_details (demo_delegated sig))\<lparr>dsd_orchestrator := gl_class, dsd_event_context := gl_demo_event\<rparr>,
     dsm_details_signature = sig, dsr_resolver_exit_code = Some 0, dsr_scan_id = Some ''s'', dsr_logs = None\<rparr>"

lemma broker_up_gl_demo: "broker_up gl_demo_env"
  by (auto simp: broker_up_def gl_demo_env_def quiet_scm_env_def quiet_orch_env_def quiet_resolver_env_def quiet_mq_env_def quiet_git_env_def
      orch_env.defs scm_env.defs resolver_env.defs mq_env.defs git_env.defs)

theorem delegated_result_settled_witness:
  "\<exists>new s w'. ResolverResultsAgent_call gl_demo_env [(''gl'', [demo_services])] (orchestrator_factory gl_demo_env) demo_resolver
       \<lparr>im_body = Inr (demo_result ''forged''), im_headers = JNull, im_routing_key = ''r''\<rparr> world0 = (Inr (), w') \<and> w_trace w' = [EvNack False]"
proof -
  let ?m = "\<lparr>im_body = Inr (demo_result ''forged''), im_headers = JNull, im_routing_key = ''r''\<rparr>"
  have "signature_valid gl_demo_env demo_resolver (dsm_details_signature (demo_result ''forged''))
      (details_to_binary gl_demo_env (dsm_details (demo_result ''forged''))) = Inr False"
    by code_simp
  moreover have "im_body ?m = Inr (demo_result ''forged'')" by simp
  ultimately show ?thesis
    using delegated_result_settled [OF broker_up_gl_demo, of ?m "demo_result ''forged''" "[(''gl'', [demo_services])]" demo_resolver world0]
    by fastforce
qed

end
