(* ===== verification/Kickoff_Client.thy ===== *)
theory Kickoff_Client
  imports Kickoff
begin

text \<open>
  \<^verbatim>\<open>src/cxoneflow_kickoff_api/kickoff_client.py\<close>: the client an operator's script uses to request the first scans.
  The client object keeps its token between requests, so that its coroutines run on the pair of the object and the
  world; the lock around the token makes its renewal atomic. The loop around the server's answer 429 has no bound
  of its own: it is given a number of rounds.
\<close>

section \<open>Model\<close>

record KickoffClient =
  kc_pkey :: string
  kc_key_type :: key_type
  kc_service_url :: string
  kc_user_agent :: string
  kc_jwt :: "string option"
  kc_jwt_exp :: "int option"

record client_env =
  kc_time :: "trace \<Rightarrow> int" \<comment> \<open>\<^verbatim>\<open>int(time.time())\<close>\<close>
  kc_jwt_encode :: "json \<Rightarrow> string \<Rightarrow> string \<Rightarrow> string result" \<comment> \<open>payload, key, algorithm\<close>
  kc_post :: "trace \<Rightarrow> http_request \<Rightarrow> http_response result"
  kc_response :: "json \<Rightarrow> KickoffResponseMsg result" \<comment> \<open>\<^verbatim>\<open>KickoffResponseMsg.from_dict\<close>\<close>

type_synonym 'a client_act = "(KickoffClient \<times> world, 'a) py"

definition get_client :: "KickoffClient client_act" where
  "get_client = (\<lambda>(c, w). (Inr c, (c, w)))"

definition set_client :: "(KickoffClient \<Rightarrow> KickoffClient) \<Rightarrow> unit client_act" where
  "set_client f = (\<lambda>(c, w). (Inr (), (f c, w)))"

definition JWT_TIMEOUT :: int where "JWT_TIMEOUT = 600"
definition JWT_JITTER :: int where "JWT_JITTER = 60"
definition SLEEP_SECONDS :: int where "SLEEP_SECONDS = 15"
definition SLEEP_MAX_SECONDS :: int where "SLEEP_MAX_SECONDS = 180"

definition make_KickoffClient :: "(string \<Rightarrow> key_type result) \<Rightarrow> string \<Rightarrow> string \<Rightarrow> string \<Rightarrow> KickoffClient result" where
  "make_KickoffClient load_key private_ssh_key cxoneflow_ko_url user_agent =
     (case load_key private_ssh_key of
        Inl e \<Rightarrow> Inl e
      | Inr kt \<Rightarrow> Inr \<lparr>kc_pkey = private_ssh_key, kc_key_type = kt, kc_service_url = cxoneflow_ko_url, kc_user_agent = user_agent,
          kc_jwt = None, kc_jwt_exp = None\<rparr>)"

definition jwt_stale :: "int \<Rightarrow> KickoffClient \<Rightarrow> bool" where
  "jwt_stale now c \<longleftrightarrow> kc_jwt c = None \<or> (case kc_jwt_exp c of None \<Rightarrow> True | Some exp \<Rightarrow> now \<ge> exp - JWT_JITTER)"

definition get_jwt :: "client_env \<Rightarrow> bool \<Rightarrow> string option client_act" where
  "get_jwt E force =
     bindE get_client (\<lambda>c.
     bindE (on_world (look (\<lambda>tr. Inr (kc_time E tr)))) (\<lambda>now.
     thenE
       (if force \<or> jwt_stale now c then
          bindE (liftE (get_signature_alg (kc_key_type c))) (\<lambda>alg.
          thenE (set_client (\<lambda>c. c\<lparr>kc_jwt_exp := Some (now + JWT_TIMEOUT)\<rparr>)) (
          bindE (liftE (answer (kc_jwt_encode E (JObj [(''exp'', JInt (now + JWT_TIMEOUT)), (''alg'', JStr alg)]) (kc_pkey c) alg))) (\<lambda>token.
          set_client (\<lambda>c. c\<lparr>kc_jwt := Some token\<rparr>))))
        else returnE ())
     (bindE get_client (\<lambda>c. returnE (kc_jwt c)))))"

definition kickoff_post :: "KickoffClient \<Rightarrow> string \<Rightarrow> string option \<Rightarrow> http_request" where
  "kickoff_post c body token =
     \<lparr>rq_method = ''POST'', rq_url = kc_service_url c, rq_query = [], rq_body = Some body,
      rq_headers = [(''Authorization'', ''Bearer '' @ (case token of None \<Rightarrow> ''None'' | Some t \<Rightarrow> t)), (''User-Agent'', kc_user_agent c)],
      rq_auth = ''''\<rparr>"

definition send_request :: "client_env \<Rightarrow> string \<Rightarrow> bool \<Rightarrow> http_response client_act" where
  "send_request E body auth_retried =
     bindE (get_jwt E auth_retried) (\<lambda>token.
     bindE get_client (\<lambda>c.
     on_world (ask (EvHttp (kickoff_post c body token)) (\<lambda>tr. kc_post E tr (kickoff_post c body token)))))"

definition execute_request :: "client_env \<Rightarrow> string \<Rightarrow> http_response client_act" where
  "execute_request E body =
     bindE (send_request E body False) (\<lambda>resp.
     if rs_status resp = 401 then send_request E body True else returnE resp)"

type_synonym waiting_callback = "trace \<Rightarrow> KickoffStatusCodes \<Rightarrow> KickoffResponseMsg \<Rightarrow> int \<Rightarrow> bool result"

definition read_response :: "client_env \<Rightarrow> http_response \<Rightarrow> (KickoffStatusCodes \<times> KickoffResponseMsg option) client_act" where
  "read_response E resp =
     bindE (liftE (status_of (rs_status resp))) (\<lambda>resp_status.
     if rs_ok resp \<or> resp_status = SCAN_EXISTS \<or> resp_status = TOO_MANY_SCANS then
       bindE (liftE (answer (rs_json resp))) (\<lambda>body.
       bindE (liftE (answer (kc_response E body))) (\<lambda>msg. returnE (resp_status, Some msg)))
     else returnE (resp_status, None))"

fun kickoff_scan_loop ::
  "nat \<Rightarrow> client_env \<Rightarrow> string \<Rightarrow> waiting_callback option \<Rightarrow> int \<Rightarrow> (KickoffStatusCodes \<times> KickoffResponseMsg option) client_act" where
  "kickoff_scan_loop 0 E body cb cur_sleep_delay = raiseE OutOfFuel"
| "kickoff_scan_loop (Suc n) E body cb cur_sleep_delay =
     bindE (execute_request E body) (\<lambda>resp.
     bindE (read_response E resp) (\<lambda>(resp_status, resp_msg).
     case (resp_status, resp_msg) of
       (SCAN_STARTED, Some m) \<Rightarrow> returnE (SCAN_STARTED, Some m)
     | (SCAN_STARTED, None) \<Rightarrow> raiseE AttributeError
     | (SCAN_EXISTS, _) \<Rightarrow> returnE (SCAN_EXISTS, resp_msg)
     | (TOO_MANY_SCANS, Some m) \<Rightarrow>
         bindE (case cb of None \<Rightarrow> returnE True | Some f \<Rightarrow> on_world (look (\<lambda>tr. f tr TOO_MANY_SCANS m cur_sleep_delay))) (\<lambda>wait.
         if \<not> wait then returnE (TOO_MANY_SCANS, Some m)
         else
           thenE (on_world (emit (EvSleep cur_sleep_delay)))
           (kickoff_scan_loop n E body cb (min SLEEP_MAX_SECONDS (cur_sleep_delay + SLEEP_SECONDS))))
     | _ \<Rightarrow> raiseE (KickoffClientException (rs_status resp))))"

definition kickoff_scan ::
  "nat \<Rightarrow> client_env \<Rightarrow> string \<Rightarrow> waiting_callback option \<Rightarrow> (KickoffStatusCodes \<times> KickoffResponseMsg option) client_act" where
  "kickoff_scan rounds E body cb = kickoff_scan_loop rounds E body cb SLEEP_SECONDS"

section \<open>The token\<close>

lemma client_apply [py_simps]: "get_client (c, w) = (Inr c, (c, w))" "set_client f (c, w) = (Inr (), (f c, w))"
  by (simp_all add: get_client_def set_client_def)





lemma get_jwt_world [simp]: "snd (snd (get_jwt E force (c, w))) = w"
  by (auto simp: get_jwt_def py_simps split: sum.splits)

lemma get_jwt_not_fuel: "fst (get_jwt E force (c, w)) \<noteq> Inl OutOfFuel"
proof -
  have "get_signature_alg k \<noteq> Inl OutOfFuel" for k by (cases k) auto
  then show ?thesis by (auto simp: get_jwt_def py_simps answer_def split: sum.splits if_splits)
qed




definition demo_client :: KickoffClient where
  "demo_client = \<lparr>kc_pkey = ''private-key'', kc_key_type = EllipticCurve, kc_service_url = ''https://flow/gh/kickoff'', kc_user_agent = ''script'',
     kc_jwt = None, kc_jwt_exp = None\<rparr>"

text \<open>
  Tokens for every expiry: the name of the signing key and the decimal numeral of the expiry. The decoder checks the
  key and the expiry. The client signs at the time 1000, its server answers 429 to everything.
\<close>

definition demo_jwt_encode :: "json \<Rightarrow> string \<Rightarrow> string \<Rightarrow> string result" where
  "demo_jwt_encode payload key alg =
     (case payload of
        JObj [(k1, JInt exp), (k2, JStr a)] \<Rightarrow>
          if k1 = ''exp'' \<and> k2 = ''alg'' \<and> a = alg \<and> 0 \<le> exp then Inr (key @ ''.'' @ show_nat (nat exp)) else Inl TypeError
      | _ \<Rightarrow> Inl TypeError)"


definition demo_client_env :: client_env where
  "demo_client_env = \<lparr>kc_time = (\<lambda>_. 1000), kc_jwt_encode = demo_jwt_encode,
     kc_post = (\<lambda>_ _. Inr \<lparr>rs_ok = False, rs_status = 429, rs_json = Inr JNull, rs_headers = []\<rparr>),
     kc_response = (\<lambda>_. Inr \<lparr>kr_running_scans = [], kr_started_scan = None\<rparr>)\<rparr>"









section \<open>Waiting for a free slot\<close>

fun sleeps :: "trace \<Rightarrow> int list" where
  "sleeps [] = []"
| "sleeps (EvSleep d # tr) = d # sleeps tr"
| "sleeps (_ # tr) = sleeps tr"

lemma sleeps_append [simp]: "sleeps (a @ b) = sleeps a @ sleeps b"
  by (induction a rule: sleeps.induct) auto

lemma sleeps_http: "list_all is_http tr \<Longrightarrow> sleeps tr = []"
  by (induction tr rule: sleeps.induct) auto

definition next_delay :: "int \<Rightarrow> int" where
  "next_delay d = min SLEEP_MAX_SECONDS (d + SLEEP_SECONDS)"

lemma send_request_run:
  "\<exists>new. w_trace (snd (snd (send_request E body retry (c, w)))) = w_trace w @ new \<and> list_all is_http new \<and> length new \<le> 1 \<and>
     fst (send_request E body retry (c, w)) \<noteq> Inl OutOfFuel"
proof -
  obtain r c1 where jwt: "get_jwt E retry (c, w) = (r, (c1, w))"
    using get_jwt_world by (metis prod.collapse)
  then have "r \<noteq> Inl OutOfFuel" using get_jwt_not_fuel by (metis fst_conv)
  with jwt show ?thesis by (auto simp: send_request_def py_simps split: sum.splits)
qed

lemma execute_request_run:
  "\<exists>new. w_trace (snd (snd (execute_request E body (c, w)))) = w_trace w @ new \<and> list_all is_http new \<and> length new \<le> 2 \<and>
     fst (execute_request E body (c, w)) \<noteq> Inl OutOfFuel"
proof -
  obtain r c1 w1 where one: "send_request E body False (c, w) = (r, (c1, w1))" by (cases "send_request E body False (c, w)") auto
  obtain r2 c2 w2 where two: "send_request E body True (c1, w1) = (r2, (c2, w2))" by (cases "send_request E body True (c1, w1)") auto
  obtain n1 where n1: "w_trace w1 = w_trace w @ n1" "list_all is_http n1" "length n1 \<le> 1" "r \<noteq> Inl OutOfFuel"
    using send_request_run [of E body False c w] one by auto
  obtain n2 where n2: "w_trace w2 = w_trace w1 @ n2" "list_all is_http n2" "length n2 \<le> 1" "r2 \<noteq> Inl OutOfFuel"
    using send_request_run [of E body True c1 w1] two by auto
  show ?thesis
    using one two n1 n2
    by (cases "\<exists>x. r = Inr x \<and> rs_status x = 401")
       (auto simp: execute_request_def py_simps split: sum.splits intro: exI [of _ "n1 @ n2"] exI [of _ n1])
qed

lemma read_response_state: "\<exists>r. r \<noteq> Inl OutOfFuel \<and> read_response E resp s = (r, s)"
proof -
  have "status_of code \<noteq> Inl OutOfFuel" for code by (auto simp: status_of_def split: option.splits)
  then show ?thesis by (auto simp: read_response_def py_simps answer_def split: sum.splits if_splits)
qed

text \<open>One round either ends the loop or sleeps, with the consent of the callback, and goes on with a longer delay.\<close>

lemma loop_round:
  obtains (stop) c1 w1 new r where "kickoff_scan_loop (Suc n) E body cb d (c, w) = (r, (c1, w1))" and "r \<noteq> Inl OutOfFuel"
      and "w_trace w1 = w_trace w @ new" and "list_all is_http new" and "length new \<le> 2"
  | (wait) c1 w1 new m where "kickoff_scan_loop (Suc n) E body cb d (c, w) = kickoff_scan_loop n E body cb (next_delay d) (c1, log_event (EvSleep d) w1)"
      and "w_trace w1 = w_trace w @ new" and "list_all is_http new" and "length new \<le> 2"
      and "\<And>f. cb = Some f \<Longrightarrow> f (w_trace w1) TOO_MANY_SCANS m d = Inr True"
proof -
  obtain r c1 w1 where req: "execute_request E body (c, w) = (r, (c1, w1))" by (cases "execute_request E body (c, w)") auto
  obtain new where new: "w_trace w1 = w_trace w @ new" "list_all is_http new" "length new \<le> 2" and fuel: "r \<noteq> Inl OutOfFuel"
    using execute_request_run [of E body c w] req by auto
  show thesis
  proof (cases r)
    case (Inl e)
    have "kickoff_scan_loop (Suc n) E body cb d (c, w) = (Inl e, (c1, w1))" by (simp add: py_simps req Inl)
    then show thesis using stop new fuel Inl by blast
  next
    case (Inr resp)
    obtain rr where rr: "rr \<noteq> Inl OutOfFuel" "read_response E resp (c1, w1) = (rr, (c1, w1))"
      using read_response_state by blast
    show thesis
    proof (cases "\<exists>m. rr = Inr (TOO_MANY_SCANS, Some m)")
      case False
      have "\<exists>q. q \<noteq> Inl OutOfFuel \<and> kickoff_scan_loop (Suc n) E body cb d (c, w) = (q, (c1, w1))"
        using rr req Inr False
        by (cases rr) (auto simp: py_simps split: prod.splits KickoffStatusCodes.splits option.splits)
      then show thesis using stop new by blast
    next
      case True
      then obtain m where m: "rr = Inr (TOO_MANY_SCANS, Some m)" by blast
      let ?go = "case cb of None \<Rightarrow> Inr True | Some f \<Rightarrow> answer (f (w_trace w1) TOO_MANY_SCANS m d)"
      have step: "kickoff_scan_loop (Suc n) E body cb d (c, w) =
          (case ?go of Inl e \<Rightarrow> (Inl e, (c1, w1)) | Inr False \<Rightarrow> (Inr (TOO_MANY_SCANS, Some m), (c1, w1))
           | Inr True \<Rightarrow> kickoff_scan_loop n E body cb (next_delay d) (c1, log_event (EvSleep d) w1))"
        using req Inr rr m by (simp add: py_simps next_delay_def split: option.splits sum.splits bool.splits)
      show thesis
      proof (cases "?go = Inr True")
        case True
        show thesis
          by (rule wait [OF _ new, of c1 m]) (use step True in \<open>auto split: option.splits\<close>)
      next
        case False
        have "\<exists>q. q \<noteq> Inl OutOfFuel \<and> kickoff_scan_loop (Suc n) E body cb d (c, w) = (q, (c1, w1))"
          using step False by (auto split: sum.splits bool.splits option.splits)
        then show thesis using stop new by blast
      qed
    qed
  qed
qed

lemma loop_sleeps:
  "\<exists>new. w_trace (snd (snd (kickoff_scan_loop n E body cb d (c, w)))) = w_trace w @ new \<and>
     sleeps new = map (\<lambda>k. (next_delay ^^ k) d) [0..<length (sleeps new)] \<and> length (filter is_http new) \<le> 2 * (length (sleeps new) + 1)"
proof (induction n arbitrary: d c w)
  case 0
  then show ?case by (simp add: py_simps)
next
  case (Suc n)
  show ?case
  proof (cases rule: loop_round [of n E body cb d c w])
    case (stop c1 w1 new r)
    then show ?thesis by (intro exI [of _ new]) (auto simp: sleeps_http intro: order_trans [OF length_filter_le])
  next
    case (wait c1 w1 new m)
    obtain rest where rest: "w_trace (snd (snd (kickoff_scan_loop n E body cb (next_delay d) (c1, log_event (EvSleep d) w1)))) = w_trace w1 @ [EvSleep d] @ rest"
      "sleeps rest = map (\<lambda>k. (next_delay ^^ k) (next_delay d)) [0..<length (sleeps rest)]" "length (filter is_http rest) \<le> 2 * (length (sleeps rest) + 1)"
      using Suc.IH [of "next_delay d" c1 "log_event (EvSleep d) w1"] by auto
    have "d # sleeps rest = map (\<lambda>k. (next_delay ^^ k) d) [0..<Suc (length (sleeps rest))]"
      using rest(2) by (simp add: upt_conv_Cons map_Suc_upt [symmetric] funpow_swap1 comp_def del: upt_Suc)
    moreover have "length (filter is_http new) \<le> 2" using wait(4) by (meson le_trans length_filter_le)
    ultimately show ?thesis
      using wait rest by (intro exI [of _ "new @ [EvSleep d] @ rest"]) (simp add: sleeps_http)
  qed
qed

lemma delays_closed: "(next_delay ^^ k) SLEEP_SECONDS = min SLEEP_MAX_SECONDS (SLEEP_SECONDS * (int k + 1))"
  by (induction k) (auto simp: next_delay_def SLEEP_SECONDS_def SLEEP_MAX_SECONDS_def)

lemma loop_declined:
  assumes "\<And>tr st m x. limit \<le> x \<Longrightarrow> f tr st m x = Inr False" and "limit \<le> SLEEP_MAX_SECONDS"
      and "limit \<le> d + SLEEP_SECONDS * int n" and "d \<le> SLEEP_MAX_SECONDS"
  shows "fst (kickoff_scan_loop (Suc n) E body (Some f) d (c, w)) \<noteq> Inl OutOfFuel"
  using assms(3,4)
proof (induction n arbitrary: d c w)
  case 0
  then show ?case
    by (cases rule: loop_round [of 0 E body "Some f" d c w]) (use assms(1) in auto)
next
  case (Suc n)
  show ?case
  proof (cases rule: loop_round [of "Suc n" E body "Some f" d c w])
    case (stop c1 w1 new r)
    then show ?thesis by simp
  next
    case (wait c1 w1 new m)
    have "d < limit" using wait(5) assms(1) by (metis linorder_not_le sum.inject(2))
    then have "limit \<le> next_delay d + SLEEP_SECONDS * int n" "next_delay d \<le> SLEEP_MAX_SECONDS"
      using Suc.prems assms(2) by (auto simp: next_delay_def SLEEP_SECONDS_def)
    with Suc.IH wait(1) show ?thesis by simp
  qed
qed

text \<open>C30: while the server answers that too many scans are running, the client waits 15 seconds more each time, at most 180
  seconds, and sends at most two requests per wait (the second only to renew a refused token). A callback that
  declines to wait some delay of at most 180 seconds ends the loop: a round for each 15 seconds is enough.\<close>

theorem kickoff_client_waits:
  "(\<exists>new. w_trace (snd (snd (kickoff_scan n E body cb (c, w)))) = w_trace w @ new \<and>
      sleeps new = map (\<lambda>k. min SLEEP_MAX_SECONDS (SLEEP_SECONDS * (int k + 1))) [0..<length (sleeps new)] \<and>
      length (filter is_http new) \<le> 2 * (length (sleeps new) + 1)) \<and>
   ((\<forall>tr st m x. limit \<le> x \<longrightarrow> f tr st m x = Inr False) \<and> limit \<le> SLEEP_MAX_SECONDS \<and> limit \<le> SLEEP_SECONDS * (int n + 1) \<longrightarrow>
      fst (kickoff_scan (Suc n) E body (Some f) (c, w)) \<noteq> Inl OutOfFuel)"
proof
  show "\<exists>new. w_trace (snd (snd (kickoff_scan n E body cb (c, w)))) = w_trace w @ new \<and>
      sleeps new = map (\<lambda>k. min SLEEP_MAX_SECONDS (SLEEP_SECONDS * (int k + 1))) [0..<length (sleeps new)] \<and>
      length (filter is_http new) \<le> 2 * (length (sleeps new) + 1)"
    using loop_sleeps [of n E body cb SLEEP_SECONDS c w] by (simp add: kickoff_scan_def delays_closed)
  show "(\<forall>tr st m x. limit \<le> x \<longrightarrow> f tr st m x = Inr False) \<and> limit \<le> SLEEP_MAX_SECONDS \<and> limit \<le> SLEEP_SECONDS * (int n + 1) \<longrightarrow>
      fst (kickoff_scan (Suc n) E body (Some f) (c, w)) \<noteq> Inl OutOfFuel"
    using loop_declined [of limit f SLEEP_SECONDS n E body c w]
    by (auto simp: kickoff_scan_def SLEEP_SECONDS_def SLEEP_MAX_SECONDS_def)
qed

theorem kickoff_client_waits_witness:
  "fst (kickoff_scan 3 demo_client_env ''{}'' (Some (\<lambda>_ _ _ x. Inr (x < 45))) (demo_client, world0)) \<noteq> Inl OutOfFuel"
  using kickoff_client_waits [of 2 demo_client_env "''{}''" None demo_client world0 "45" "\<lambda>_ _ _ x. Inr (x < 45)"]
  by (simp add: SLEEP_SECONDS_def SLEEP_MAX_SECONDS_def numeral_3_eq_3)

end
