(* ===== verification/Config.thy ===== *)
theory Config
  imports Kickoff
begin

text \<open>
  \<^verbatim>\<open>src/config/__init__.py\<close> and \<^verbatim>\<open>src/config/server/__init__.py\<close>: how the service table the dispatcher consults is
  built from the YAML configuration. The decoded document is a dynamic value; the files below the secret root, the
  environment, regular expressions, user modules and the password policy are parameters. The records of the
  services are typed: a setting whose value has another type than the service stores, which Python would carry
  along until its first use, is a type error here. The broker connection and the CheckmarxOne client are read for
  their errors and not stored, since the model talks to both through its environment.
\<close>

section \<open>Reading values\<close>

record config_env = kickoff_env +
  cfg_environ :: "string dict"
  cfg_path_exists :: "string \<Rightarrow> bool"
  cfg_file :: "string \<Rightarrow> string option" \<comment> \<open>the text of a file, \<open>None\<close> when it is not a file\<close>
  cfg_re_compile :: "string \<Rightarrow> unit result"
  cfg_matches_uuid :: "string \<Rightarrow> bool" \<comment> \<open>whether the pattern is found in a random UUID\<close>
  cfg_key_copy :: "string \<Rightarrow> string result" \<comment> \<open>the private copy of a key file\<close>
  cfg_import :: "string \<Rightarrow> naming_coro result"
  cfg_password_test :: "string \<Rightarrow> string list" \<comment> \<open>the failed requirements\<close>
  cfg_iam_regions :: "string list"
  cfg_api_regions :: "string list"

definition missing_key_path :: "string \<Rightarrow> exn" where
  "missing_key_path key_path = ConfigurationException (''Missing key at path: '' @ key_path)"

definition secret_load_error :: "string \<Rightarrow> exn" where
  "secret_load_error key_path = ConfigurationException (''Could not load secret defined at: '' @ key_path)"

definition invalid_value :: "string \<Rightarrow> exn" where
  "invalid_value key_path = ConfigurationException (''The value configured at '' @ key_path @ '' is invalid'')"

definition no_wildcard_routes :: "string \<Rightarrow> exn" where
  "no_wildcard_routes key_path = ConfigurationException (''A wildcard route that matches an arbitrary value is not valid for '' @ key_path)"

text \<open>The list in these messages is the text of a Python list of paths.\<close>

definition path_list :: "string \<Rightarrow> string list \<Rightarrow> string" where
  "path_list key_path keys =
     ''['' @ str_join '', '' (map (\<lambda>k. [CHR 0x27] @ key_path @ ''/'' @ k @ [CHR 0x27]) keys) @ '']''"

definition missing_keys :: "string \<Rightarrow> string list \<Rightarrow> exn" where
  "missing_keys key_path keys = ConfigurationException (''One or more of these elements are missing: '' @ path_list key_path keys)"

definition missing_at_least_one_key_path :: "string \<Rightarrow> string list \<Rightarrow> exn" where
  "missing_at_least_one_key_path key_path keys = ConfigurationException (''At least one of these elements is required: '' @ path_list key_path keys)"

definition mutually_exclusive :: "string \<Rightarrow> string list \<Rightarrow> exn" where
  "mutually_exclusive key_path keys = ConfigurationException (''Only one should be defined: '' @ path_list key_path keys)"

definition module_load_error :: "string \<Rightarrow> string \<Rightarrow> exn" where
  "module_load_error key_path module_name = ConfigurationException (''Error loading module '' @ module_name @ '' at '' @ key_path)"

definition get_value_for_key_or_fail :: "string \<Rightarrow> string \<Rightarrow> json \<Rightarrow> json result" where
  "get_value_for_key_or_fail config_path key config_dict =
     bindR (py_has_key config_dict key) (\<lambda>has.
     if \<not> has then Inl (missing_key_path (config_path @ ''/'' @ key)) else py_getitem config_dict key)"

definition get_value_for_key_or_default :: "string \<Rightarrow> json \<Rightarrow> json \<Rightarrow> json result" where
  "get_value_for_key_or_default key config_dict dflt =
     (if config_dict = JNull then Inr dflt
      else bindR (py_has_key config_dict key) (\<lambda>has. if \<not> has then Inr dflt else py_getitem config_dict key))"

text \<open>The value of the deprecated key is never read: the branch that selects it falls through to the default.\<close>

definition get_value_for_key_or_default_warn_deprecated :: "string \<Rightarrow> string \<Rightarrow> json \<Rightarrow> json \<Rightarrow> json result" where
  "get_value_for_key_or_default_warn_deprecated desired_key deprecated_key config_dict dflt =
     (if config_dict = JNull then Inr dflt
      else
        bindR (py_has_key config_dict deprecated_key) (\<lambda>deprecated.
        if deprecated then Inr dflt
        else
          bindR (py_has_key config_dict desired_key) (\<lambda>has. if has then py_getitem config_dict desired_key else Inr dflt)))"

text \<open>\<^verbatim>\<open>Path(a) / Path(b)\<close> and \<^verbatim>\<open>s.strip()\<close>.\<close>

definition join_path :: "string \<Rightarrow> string \<Rightarrow> string" where
  "join_path root p = (if starts_with ''/'' p then p else root @ ''/'' @ p)"

definition is_space :: "char \<Rightarrow> bool" where
  "is_space c = (let n = (of_char c :: nat) in n = 32 \<or> (9 \<le> n \<and> n \<le> 13) \<or> (28 \<le> n \<and> n \<le> 31))"

definition str_strip :: "string \<Rightarrow> string" where
  "str_strip s = rev (dropWhile is_space (rev (dropWhile is_space s)))"

definition get_file_contents_or_default :: "'e config_env_scheme \<Rightarrow> string \<Rightarrow> json \<Rightarrow> string \<Rightarrow> string option \<Rightarrow> string option result" where
  "get_file_contents_or_default C root config_dict key dflt =
     bindR (py_has_key config_dict key) (\<lambda>has.
     if \<not> has then Inr dflt
     else
       bindR (py_getitem config_dict key) (\<lambda>v.
       bindR (path_of v) (\<lambda>p.
       case cfg_file C (join_path root p) of None \<Rightarrow> Inr dflt | Some contents \<Rightarrow> Inr (Some (str_strip contents)))))"

text \<open>Registering a secret for the redaction of the log returns it unchanged.\<close>

definition get_secret_or_default :: "'e config_env_scheme \<Rightarrow> string \<Rightarrow> json \<Rightarrow> string \<Rightarrow> string option \<Rightarrow> string option result" where
  "get_secret_or_default C root config_dict key dflt = get_file_contents_or_default C root config_dict key dflt"

definition get_secret_or_fail :: "'e config_env_scheme \<Rightarrow> string \<Rightarrow> string \<Rightarrow> string \<Rightarrow> json \<Rightarrow> string result" where
  "get_secret_or_fail C root config_path key config_dict =
     bindR (get_secret_or_default C root config_dict key None) (\<lambda>v.
     case v of None \<Rightarrow> Inl (secret_load_error (config_path @ ''/'' @ key)) | Some s \<Rightarrow> Inr s)"

definition get_default_ssl_verify_value :: "'e config_env_scheme \<Rightarrow> json" where
  "get_default_ssl_verify_value C =
     (case map_of (cfg_environ C) ''REQUESTS_CA_BUNDLE'' of
        Some bundle \<Rightarrow> JStr bundle
      | None \<Rightarrow>
          (case find (cfg_path_exists C) [''/etc/pki/tls/certs/ca-bundle.crt'', ''/etc/ssl/certs/ca-certificates.crt''] of
             Some bundle \<Rightarrow> JStr bundle | None \<Rightarrow> JBool False))"

definition default_amqp_url :: string where "default_amqp_url = ''amqp://localhost:5672''"

record amqp_settings =
  aq_url :: "string option"
  aq_user :: "string option"
  aq_password :: "string option"
  aq_ssl_verify :: json

definition default_amqp :: amqp_settings where
  "default_amqp = \<lparr>aq_url = Some default_amqp_url, aq_user = None, aq_password = None, aq_ssl_verify = JBool True\<rparr>"

definition load_amqp_settings :: "'e config_env_scheme \<Rightarrow> string \<Rightarrow> string \<Rightarrow> json \<Rightarrow> amqp_settings result" where
  "load_amqp_settings C root config_path kwargs =
     bindR (get_value_for_key_or_default ''amqp'' kwargs JNull) (\<lambda>amqp_dict.
     if amqp_dict \<noteq> JNull then
       bindR (get_value_for_key_or_fail config_path ''amqp-url'' amqp_dict) (\<lambda>default_url.
       bindR (path_of default_url) (\<lambda>default_url.
       bindR (get_secret_or_default C root amqp_dict ''amqp-url'' (Some default_url)) (\<lambda>amqp_url.
       bindR (get_secret_or_default C root amqp_dict ''amqp-user'' None) (\<lambda>amqp_user.
       bindR (get_secret_or_default C root amqp_dict ''amqp-password'' None) (\<lambda>amqp_password.
       bindR (get_value_for_key_or_default ''ssl-verify'' amqp_dict (get_default_ssl_verify_value C)) (\<lambda>ssl_verify.
       Inr \<lparr>aq_url = amqp_url, aq_user = amqp_user, aq_password = amqp_password, aq_ssl_verify = ssl_verify\<rparr>))))))
     else Inr default_amqp)"

text \<open>The CheckmarxOne client, as the arguments it is created with.\<close>

datatype endpoint = RegionEndpoint string | NamedEndpoint string

datatype cx_credentials = ApiKey string | OAuth string string

record cxone_client =
  cc_tenant :: json
  cc_credentials :: cx_credentials
  cc_iam :: endpoint
  cc_api :: endpoint
  cc_timeout :: json
  cc_retries :: json
  cc_retry_delay :: json
  cc_proxy :: json
  cc_ssl_verify :: json

definition region_or_name :: "string list \<Rightarrow> json \<Rightarrow> endpoint result" where
  "region_or_name regions v = bindR (path_of v) (\<lambda>s. Inr (if s \<in> set regions then RegionEndpoint s else NamedEndpoint s))"

definition cxone_client_factory :: "'e config_env_scheme \<Rightarrow> string \<Rightarrow> string \<Rightarrow> json \<Rightarrow> cxone_client result" where
  "cxone_client_factory C root config_path kwargs =
     bindR (as_obj kwargs) (\<lambda>kvs.
     if \<not> list_all (\<lambda>k. k \<in> set (dict_keys kvs)) [''tenant'', ''iam-endpoint'', ''api-endpoint'']
     then Inl (missing_keys config_path [''tenant'', ''iam-endpoint'', ''api-endpoint''])
     else if length (filter (\<lambda>k. k \<in> set (dict_keys kvs)) [''api-key'', ''oauth'']) \<noteq> 1
     then Inl (mutually_exclusive config_path [''api-key'', ''oauth''])
     else
       bindR (get_value_for_key_or_fail config_path ''tenant'' kwargs) (\<lambda>tenant_name.
       bindR (get_value_for_key_or_fail config_path ''iam-endpoint'' kwargs) (\<lambda>iam_value.
       bindR (region_or_name (cfg_iam_regions C) iam_value) (\<lambda>tenant_auth_endpoint.
       bindR (get_value_for_key_or_fail config_path ''api-endpoint'' kwargs) (\<lambda>api_value.
       bindR (region_or_name (cfg_api_regions C) api_value) (\<lambda>tenant_api_endpoint.
       bindR (if ''api-key'' \<in> set (dict_keys kvs) then
                bindR (get_secret_or_fail C root config_path ''api-key'' kwargs) (\<lambda>key. Inr (ApiKey key))
              else
                bindR (get_value_for_key_or_fail config_path ''oauth'' kwargs) (\<lambda>oauth_params.
                bindR (get_secret_or_fail C root (config_path @ ''/oauth'') ''client-id'' oauth_params) (\<lambda>oauth_id.
                bindR (get_secret_or_fail C root (config_path @ ''/oauth'') ''client-secret'' oauth_params) (\<lambda>oauth_secret.
                Inr (OAuth oauth_id oauth_secret))))) (\<lambda>credentials.
       bindR (get_value_for_key_or_default ''timeout-seconds'' kwargs (JInt 60)) (\<lambda>timeout.
       bindR (get_value_for_key_or_default ''retries'' kwargs (JInt 3)) (\<lambda>retries.
       bindR (get_value_for_key_or_default ''retry-delay'' kwargs (JInt 30)) (\<lambda>delay.
       bindR (get_value_for_key_or_default ''proxies'' kwargs JNull) (\<lambda>proxy.
       bindR (get_value_for_key_or_default ''ssl-verify'' kwargs (get_default_ssl_verify_value C)) (\<lambda>ssl.
       Inr \<lparr>cc_tenant = tenant_name, cc_credentials = credentials, cc_iam = tenant_auth_endpoint, cc_api = tenant_api_endpoint,
         cc_timeout = timeout, cc_retries = retries, cc_retry_delay = delay, cc_proxy = proxy, cc_ssl_verify = ssl\<rparr>))))))))))))"

section \<open>Services\<close>

fun int_of :: "json \<Rightarrow> int result" where
  "int_of (JInt i) = Inr i"
| "int_of _ = Inl TypeError"

fun text_of :: "json \<Rightarrow> string option result" where
  "text_of JNull = Inr None"
| "text_of (JStr s) = Inr (Some s)"
| "text_of _ = Inl TypeError"

fun strings_of :: "json \<Rightarrow> string list result" where
  "strings_of (JList xs) = mapR path_of xs"
| "strings_of _ = Inl TypeError"

text \<open>Without a section the service gets the disabled workflow; a project tag key of \<^verbatim>\<open>None\<close> is the empty string here.\<close>

definition resolver_service_factory :: "'e config_env_scheme \<Rightarrow> string \<Rightarrow> string \<Rightarrow> string \<Rightarrow> json \<Rightarrow> ResolverScanService result" where
  "resolver_service_factory C root config_path moniker section =
     bindR (as_obj section) (\<lambda>kvs.
     if length kvs = 0 then make_ResolverScanService moniker DummyResolver JNull [] None
     else
       bindR (get_secret_or_fail C root config_path ''private-key'' section) (\<lambda>msg_private_key.
       bindR (get_value_for_key_or_default ''capture-resolver-logs'' section (JBool False)) (\<lambda>capture_resolver_logs.
       bindR (get_value_for_key_or_default ''default-agent-tag'' section JNull) (\<lambda>default_tag.
       bindR (get_value_for_key_or_default ''resolver-tag-key'' section (JStr ''resolver'')) (\<lambda>project_tag_key.
       bindR (path_of project_tag_key) (\<lambda>project_tag_key.
       bindR (get_value_for_key_or_default ''allowed-agent-tags'' section (JList [])) (\<lambda>tags.
       bindR (py_iter tags) (\<lambda>tags.
       let agent_tag_list = py_set C tags in
       if default_tag \<noteq> JNull \<and> default_tag \<notin> set agent_tag_list
       then Inl (missing_keys (config_path @ ''/allowed-agent-tags'') [py_str (py_repr C) default_tag])
       else
         bindR (load_amqp_settings C root config_path section) (\<lambda>_.
         bindR (get_value_for_key_or_default ''scan-retries'' section (JInt DEFAULT_SCAN_RETRIES)) (\<lambda>scan_retries.
         bindR (int_of scan_retries) (\<lambda>scan_retries.
         bindR (get_value_for_key_or_default ''scan-timeout-seconds'' section (JInt DEFAULT_SCAN_TIMEOUT)) (\<lambda>scan_timeout.
         bindR (int_of scan_timeout) (\<lambda>scan_timeout.
         bindR (mapR path_of agent_tag_list) (\<lambda>agent_tags.
         make_ResolverScanService moniker (from_private_key (truthy capture_resolver_logs) msg_private_key scan_retries scan_timeout)
           default_tag project_tag_key (Some agent_tags)))))))))))))))"

definition DEFAULT_MAX_POLL_INT_SECS :: int where "DEFAULT_MAX_POLL_INT_SECS = 600"
definition DEFAULT_POLL_INTERVAL_SECS :: int where "DEFAULT_POLL_INTERVAL_SECS = 60"
definition DEFAULT_POLL_BACKOFF_SCALAR :: int where "DEFAULT_POLL_BACKOFF_SCALAR = 2"
definition DEFAULT_SCAN_TIMEOUT_HOURS :: int where "DEFAULT_SCAN_TIMEOUT_HOURS = 48"

definition polling_service_factory ::
  "'e config_env_scheme \<Rightarrow> string \<Rightarrow> string \<Rightarrow> feedback_service list \<Rightarrow> json \<Rightarrow> ScanPollingService result" where
  "polling_service_factory C root config_path services section =
     bindR (as_obj section) (\<lambda>kvs.
     if length kvs = 0
     then Inr \<lparr>sps_services = services, sps_max_interval = DEFAULT_MAX_POLL_INT_SECS, sps_backoff = DEFAULT_POLL_BACKOFF_SCALAR\<rparr>
     else
       bindR (get_value_for_key_or_default ''scan-monitor'' section (JObj [])) (\<lambda>scan_monitor_dict.
       bindR (get_value_for_key_or_default ''poll-max-interval-seconds'' scan_monitor_dict (JInt DEFAULT_MAX_POLL_INT_SECS)) (\<lambda>max_interval.
       bindR (int_of max_interval) (\<lambda>max_interval.
       bindR (get_value_for_key_or_default ''poll-backoff-multiplier'' scan_monitor_dict (JInt DEFAULT_POLL_BACKOFF_SCALAR)) (\<lambda>backoff.
       bindR (int_of backoff) (\<lambda>backoff.
       bindR (load_amqp_settings C root config_path section) (\<lambda>_.
       Inr \<lparr>sps_services = services, sps_max_interval = max_interval, sps_backoff = backoff\<rparr>)))))))"

text \<open>
  A value that is not a member of the enumeration is reported with the path of the list it is in; the text does not
  repeat the names of the members.
\<close>

definition excluded_values :: "string \<Rightarrow> (json \<Rightarrow> 'a result) \<Rightarrow> json \<Rightarrow> 'a list result" where
  "excluded_values config_path member v =
     bindR (py_iter v) (\<lambda>vs. case mapR member vs of
       Inl e \<Rightarrow> Inl (if e = ValueError then ConfigurationException (config_path @ '': must be one of the listed names'') else e)
     | Inr xs \<Rightarrow> Inr xs)"

definition monitor_int :: "string \<Rightarrow> json \<Rightarrow> int \<Rightarrow> int result" where
  "monitor_int key scan_monitor_dict dflt = bindR (get_value_for_key_or_default key scan_monitor_dict (JInt dflt)) py_int"

definition pr_feedback_service_factory ::
  "'e config_env_scheme \<Rightarrow> string \<Rightarrow> string \<Rightarrow> string \<Rightarrow> string \<Rightarrow> json \<Rightarrow> PRFeedbackService result" where
  "pr_feedback_service_factory C root server_base_url config_path moniker section =
     bindR (as_obj section) (\<lambda>kvs.
     if length kvs = 0
     then Inr \<lparr>pfs_moniker = moniker, pfs_server_base_url = server_base_url,
       pfs_workflow = \<lparr>pw_enabled = False, pw_interval = 60, pw_scan_timeout = 48, prw_excluded_severities = [], prw_excluded_states = []\<rparr>\<rparr>
     else
       bindR (get_value_for_key_or_default ''pull-request'' section (JObj [])) (\<lambda>pr_workflow_dict.
       bindR (get_value_for_key_or_default ''scan-monitor'' section (JObj [])) (\<lambda>scan_monitor_dict.
       bindR (get_value_for_key_or_default ''exclusions'' section (JObj [])) (\<lambda>exclusions_dict.
       bindR (get_value_for_key_or_default ''state'' exclusions_dict (JList [])) (\<lambda>states.
       bindR (excluded_values (config_path @ ''/exclusions/state'') ResultStates_of states) (\<lambda>excluded_states.
       bindR (get_value_for_key_or_default ''severity'' exclusions_dict (JList [])) (\<lambda>severities.
       bindR (excluded_values (config_path @ ''/exclusions/severity'') ResultSeverity_of severities) (\<lambda>excluded_severities.
       bindR (get_value_for_key_or_default ''enabled'' pr_workflow_dict (JBool False)) (\<lambda>is_enabled.
       bindR (monitor_int ''poll-interval-seconds'' scan_monitor_dict DEFAULT_POLL_INTERVAL_SECS) (\<lambda>interval.
       bindR (monitor_int ''scan-timeout-hours'' scan_monitor_dict DEFAULT_SCAN_TIMEOUT_HOURS) (\<lambda>timeout.
       bindR (load_amqp_settings C root config_path section) (\<lambda>_.
       Inr \<lparr>pfs_moniker = moniker, pfs_server_base_url = server_base_url,
         pfs_workflow = \<lparr>pw_enabled = truthy is_enabled, pw_interval = interval, pw_scan_timeout = timeout,
           prw_excluded_severities = excluded_severities, prw_excluded_states = excluded_states\<rparr>\<rparr>))))))))))))"

definition http_delivery_agent :: "'e config_env_scheme \<Rightarrow> string \<Rightarrow> string \<Rightarrow> json \<Rightarrow> delivery_agent result" where
  "http_delivery_agent C root cur_path http_delivery =
     bindR (get_secret_or_fail C root cur_path ''shared-secret'' http_delivery) (\<lambda>shared_secret.
     bindR (get_value_for_key_or_fail cur_path ''endpoint-url'' http_delivery) (\<lambda>url.
     bindR (path_of url) (\<lambda>url.
     bindR (get_value_for_key_or_default ''delivery-retries'' http_delivery (JInt 2)) (\<lambda>retries.
     bindR (int_of retries) (\<lambda>retries.
     bindR (get_value_for_key_or_default ''delivery-retry-delay-seconds'' http_delivery (JInt 60)) (\<lambda>delay.
     bindR (int_of delay) (\<lambda>delay.
     Inr (HttpDeliveryAgent shared_secret url retries delay))))))))"

definition amqp_delivery_agent :: "'e config_env_scheme \<Rightarrow> string \<Rightarrow> string \<Rightarrow> string \<Rightarrow> json \<Rightarrow> delivery_agent result" where
  "amqp_delivery_agent C root config_path moniker amqp_delivery_dict =
     bindR (py_has_key amqp_delivery_dict ''amqp'') (\<lambda>has.
     if \<not> has then Inl (missing_key_path (config_path @ ''/via-amqp/amqp''))
     else
       bindR (get_value_for_key_or_fail (config_path @ ''/via-amqp'') ''exchange'' amqp_delivery_dict) (\<lambda>exchange.
       bindR (path_of exchange) (\<lambda>exchange.
       bindR (get_value_for_key_or_default ''topic-prefix'' amqp_delivery_dict JNull) (\<lambda>prefix.
       bindR (text_of prefix) (\<lambda>prefix.
       bindR (get_value_for_key_or_default ''topic-suffix'' amqp_delivery_dict JNull) (\<lambda>suffix.
       bindR (text_of suffix) (\<lambda>suffix.
       bindR (get_secret_or_fail C root (config_path @ ''/via-amqp'') ''shared-secret'' amqp_delivery_dict) (\<lambda>shared_secret.
       bindR (load_amqp_settings C root config_path amqp_delivery_dict) (\<lambda>_.
       Inr (AmqpDeliveryAgent moniker shared_secret exchange prefix suffix))))))))))"

fun http_delivery_agents :: "'e config_env_scheme \<Rightarrow> string \<Rightarrow> string \<Rightarrow> nat \<Rightarrow> json list \<Rightarrow> delivery_agent list result" where
  "http_delivery_agents C root config_path counter [] = Inr []"
| "http_delivery_agents C root config_path counter (d # ds) =
     bindR (http_delivery_agent C root (config_path @ ''/via-http-post['' @ show_nat counter @ '']'') d) (\<lambda>agent.
     bindR (http_delivery_agents C root config_path (Suc counter) ds) (\<lambda>agents. Inr (agent # agents)))"

definition disabled_push_workflow :: "string \<Rightarrow> PushFeedbackService" where
  "disabled_push_workflow moniker =
     \<lparr>ufs_moniker = moniker, ufs_agents = [], ufs_workflow = \<lparr>pw_enabled = False, pw_interval = 60, pw_scan_timeout = 48\<rparr>\<rparr>"

definition push_feedback_service_factory ::
  "'e config_env_scheme \<Rightarrow> string \<Rightarrow> string \<Rightarrow> string \<Rightarrow> json \<Rightarrow> PushFeedbackService result" where
  "push_feedback_service_factory C root config_path moniker section =
     bindR (as_obj section) (\<lambda>kvs.
     case map_of kvs ''push'' of
       None \<Rightarrow> Inr (disabled_push_workflow moniker)
     | Some push_config_dict \<Rightarrow>
         bindR (get_value_for_key_or_default ''enabled'' push_config_dict (JBool False)) (\<lambda>is_enabled.
         if \<not> truthy is_enabled then Inr (disabled_push_workflow moniker)
         else
           bindR (get_value_for_key_or_default ''scan-monitor'' section (JObj [])) (\<lambda>scan_monitor_dict.
           bindR (get_value_for_key_or_default ''sarif-opts'' push_config_dict JNull) (\<lambda>_.
           bindR (get_value_for_key_or_default ''via-amqp'' push_config_dict JNull) (\<lambda>amqp_delivery_dict.
           bindR (get_value_for_key_or_default ''via-http-post'' push_config_dict JNull) (\<lambda>http_delivery_list.
           if amqp_delivery_dict = JNull \<and> http_delivery_list = JNull
           then Inl (missing_at_least_one_key_path config_path [''via-amqp'', ''via-http''])
           else
             bindR (if amqp_delivery_dict \<noteq> JNull
                    then bindR (amqp_delivery_agent C root config_path moniker amqp_delivery_dict) (\<lambda>a. Inr [a])
                    else Inr []) (\<lambda>amqp_agents.
             bindR (case http_delivery_list of
                      JNull \<Rightarrow> Inr []
                    | JList ds \<Rightarrow> http_delivery_agents C root config_path 0 ds
                    | _ \<Rightarrow> Inl (invalid_value (config_path @ ''/via-http-post''))) (\<lambda>http_agents.
             bindR (monitor_int ''poll-interval-seconds'' scan_monitor_dict DEFAULT_POLL_INTERVAL_SECS) (\<lambda>interval.
             bindR (monitor_int ''scan-timeout-hours'' scan_monitor_dict DEFAULT_SCAN_TIMEOUT_HOURS) (\<lambda>timeout.
             bindR (load_amqp_settings C root config_path section) (\<lambda>_.
             Inr \<lparr>ufs_moniker = moniker, ufs_agents = amqp_agents @ http_agents,
               ufs_workflow = \<lparr>pw_enabled = True, pw_interval = interval, pw_scan_timeout = timeout\<rparr>\<rparr>)))))))))))"

definition kickoff_service_factory :: "'e config_env_scheme \<Rightarrow> string \<Rightarrow> json \<Rightarrow> string \<Rightarrow> string \<Rightarrow> KickoffService result" where
  "kickoff_service_factory C root config_dict config_path moniker =
     (if config_dict = JNull then Inr DummyKickoffService
      else
        bindR (get_value_for_key_or_default ''max-concurrent-scans'' config_dict (JInt 3)) (\<lambda>v.
        bindR (py_int v) (\<lambda>n.
        let max_scans = max (min 10 n) 1 in
        bindR (get_secret_or_fail C root config_path ''ssh-public-key'' config_dict) (\<lambda>public_key.
        make_KickoffService C public_key moniker max_scans))))"

definition setup_naming :: "'e config_env_scheme \<Rightarrow> string \<Rightarrow> json \<Rightarrow> (naming_coro option \<times> bool) result" where
  "setup_naming C config_path config_dict =
     (if config_dict = JNull then Inr (None, False)
      else
        bindR (get_value_for_key_or_fail config_path ''module'' config_dict) (\<lambda>module_name.
        bindR (path_of module_name) (\<lambda>module_name.
        case cfg_import C module_name of
          Inl e \<Rightarrow> Inl (if e = LibError True ''ModuleNotFoundError'' then module_load_error config_path module_name else e)
        | Inr coro \<Rightarrow> bindR (get_value_for_key_or_default ''update-name'' config_dict (JBool False)) (\<lambda>u. Inr (Some coro, truthy u)))))"

fun assignment_rules :: "'e config_env_scheme \<Rightarrow> string \<Rightarrow> nat \<Rightarrow> json list \<Rightarrow> Route list \<Rightarrow> Route list result" where
  "assignment_rules C config_path i [] routes = Inr routes"
| "assignment_rules C config_path i (assign # rest) routes =
     (let path = config_path @ ''/group-assignments['' @ show_nat i @ '']'' in
      bindR (get_value_for_key_or_fail path ''repo-match'' assign) (\<lambda>repo_match.
      bindR (get_value_for_key_or_fail path ''groups'' assign) (\<lambda>gs.
      bindR (path_of repo_match) (\<lambda>regex.
      bindR (cfg_re_compile C regex) (\<lambda>_.
      bindR (strings_of gs) (\<lambda>gs. assignment_rules C config_path (Suc i) rest (add_assignment_rule routes regex gs)))))))"

definition setup_grouping :: "'e config_env_scheme \<Rightarrow> string \<Rightarrow> json \<Rightarrow> (Route list \<times> bool) result" where
  "setup_grouping C config_path config_dict =
     (if config_dict = JNull then Inr ([], False)
      else
        bindR (get_value_for_key_or_default ''group-assignments'' config_dict JNull) (\<lambda>spelled.
        bindR (get_value_for_key_or_default ''group-assigments'' config_dict spelled) (\<lambda>assignments.
        if assignments = JNull then Inl (missing_key_path (config_path @ ''/group-assignments''))
        else
          bindR (get_value_for_key_or_default ''update-groups'' config_dict (JBool False)) (\<lambda>update_flag.
          bindR (py_iter assignments) (\<lambda>assigns.
          bindR (assignment_rules C config_path 0 assigns []) (\<lambda>routes. Inr (routes, truthy update_flag)))))))"

section \<open>Credentials\<close>

definition has_value :: "string \<Rightarrow> json \<Rightarrow> bool result" where
  "has_value key config_dict =
     bindR (py_has_key config_dict key) (\<lambda>has. if has then bindR (py_getitem config_dict key) (\<lambda>v. Inr (v \<noteq> JNull)) else Inr False)"

definition has_basic_auth :: "json \<Rightarrow> bool result" where
  "has_basic_auth config_dict =
     bindR (py_has_key config_dict ''username'') (\<lambda>u.
     if \<not> u then Inr False
     else
       bindR (py_has_key config_dict ''password'') (\<lambda>p.
       if \<not> p then Inr False
       else bindR (has_value ''username'' config_dict) (\<lambda>u. bindR (has_value ''password'' config_dict) (\<lambda>p. Inr (u \<and> p)))))"

definition has_token_auth :: "json \<Rightarrow> bool result" where
  "has_token_auth config_dict = has_value ''token'' config_dict"

definition has_ssh_auth :: "json \<Rightarrow> bool result" where
  "has_ssh_auth config_dict = has_value ''ssh'' config_dict"

definition basic_auth_cloner :: "'e config_env_scheme \<Rightarrow> string \<Rightarrow> string \<Rightarrow> json \<Rightarrow> bool \<Rightarrow> Cloner result" where
  "basic_auth_cloner C root config_path config_dict ssl_no_verify =
     bindR (get_secret_or_fail C root config_path ''username'' config_dict) (\<lambda>username.
     bindR (get_secret_or_fail C root config_path ''password'' config_dict) (\<lambda>password.
     Inr (using_basic_auth (Some username) password ssl_no_verify True)))"

definition ssh_cloner :: "'e config_env_scheme \<Rightarrow> string \<Rightarrow> string \<Rightarrow> json \<Rightarrow> Cloner result" where
  "ssh_cloner C root config_path config_dict =
     bindR (get_value_for_key_or_fail config_path ''ssh'' config_dict) (\<lambda>v.
     bindR (path_of v) (\<lambda>p.
     bindR (get_value_for_key_or_default ''ssh-port'' config_dict JNull) (\<lambda>port.
     bindR (if port = JNull then Inr None else bindR (int_of port) (\<lambda>n. Inr (Some n))) (\<lambda>port.
     bindR (cfg_key_copy C (join_path root p)) (\<lambda>keyfile. Inr (using_ssh_auth keyfile port))))))"

text \<open>
  The four cloner factories differ in what a token means: a bearer header for Bitbucket, the password of an empty
  user in a header for Azure DevOps, the password of the user \<open>git\<close> in the URL for GitHub and GitLab; GitHub also
  knows the key of an application. \<open>None\<close> means that nothing fits.
\<close>

definition bbdc_cloner_factory :: "'e config_env_scheme \<Rightarrow> string \<Rightarrow> string \<Rightarrow> json \<Rightarrow> bool \<Rightarrow> Cloner option result" where
  "bbdc_cloner_factory C root config_path config_dict ssl_no_verify =
     bindR (has_basic_auth config_dict) (\<lambda>basic.
     if basic then bindR (basic_auth_cloner C root config_path config_dict ssl_no_verify) (\<lambda>c. Inr (Some c))
     else
       bindR (has_token_auth config_dict) (\<lambda>token.
       if token then
         bindR (get_secret_or_fail C root config_path ''token'' config_dict) (\<lambda>token. Inr (Some (using_token_auth token ssl_no_verify)))
       else
         bindR (has_ssh_auth config_dict) (\<lambda>ssh.
         if ssh then bindR (ssh_cloner C root config_path config_dict) (\<lambda>c. Inr (Some c))
         else Inr None)))"

definition adoe_cloner_factory :: "'e config_env_scheme \<Rightarrow> string \<Rightarrow> string \<Rightarrow> json \<Rightarrow> bool \<Rightarrow> Cloner option result" where
  "adoe_cloner_factory C root config_path config_dict ssl_no_verify =
     bindR (has_basic_auth config_dict) (\<lambda>basic.
     if basic then bindR (basic_auth_cloner C root config_path config_dict ssl_no_verify) (\<lambda>c. Inr (Some c))
     else
       bindR (has_token_auth config_dict) (\<lambda>token.
       if token then
         bindR (get_secret_or_fail C root config_path ''token'' config_dict) (\<lambda>token. Inr (Some (using_basic_auth (Some []) token ssl_no_verify True)))
       else
         bindR (has_ssh_auth config_dict) (\<lambda>ssh.
         if ssh then bindR (ssh_cloner C root config_path config_dict) (\<lambda>c. Inr (Some c))
         else Inr None)))"

definition gh_cloner_factory :: "'e config_env_scheme \<Rightarrow> string \<Rightarrow> string \<Rightarrow> json \<Rightarrow> bool \<Rightarrow> Cloner option result" where
  "gh_cloner_factory C root config_path config_dict ssl_no_verify =
     bindR (has_basic_auth config_dict) (\<lambda>basic.
     if basic then bindR (basic_auth_cloner C root config_path config_dict ssl_no_verify) (\<lambda>c. Inr (Some c))
     else
       bindR (has_token_auth config_dict) (\<lambda>token.
       if token then
         bindR (get_secret_or_fail C root config_path ''token'' config_dict) (\<lambda>token. Inr (Some (using_basic_auth (Some ''git'') token ssl_no_verify False)))
       else
         bindR (has_ssh_auth config_dict) (\<lambda>ssh.
         if ssh then bindR (ssh_cloner C root config_path config_dict) (\<lambda>c. Inr (Some c))
         else 
           bindR (py_has_key config_dict ''app-private-key'') (\<lambda>app.
           if app then
             bindR (get_secret_or_fail C root config_path ''app-private-key'' config_dict) (\<lambda>_. Inr (Some (using_github_app_auth ssl_no_verify)))
           else Inr None))))"

definition gl_cloner_factory :: "'e config_env_scheme \<Rightarrow> string \<Rightarrow> string \<Rightarrow> json \<Rightarrow> bool \<Rightarrow> Cloner option result" where
  "gl_cloner_factory C root config_path config_dict ssl_no_verify =
     bindR (has_basic_auth config_dict) (\<lambda>basic.
     if basic then bindR (basic_auth_cloner C root config_path config_dict ssl_no_verify) (\<lambda>c. Inr (Some c))
     else
       bindR (has_token_auth config_dict) (\<lambda>token.
       if token then
         bindR (get_secret_or_fail C root config_path ''token'' config_dict) (\<lambda>token. Inr (Some (using_basic_auth (Some ''git'') token ssl_no_verify False)))
       else
         bindR (has_ssh_auth config_dict) (\<lambda>ssh.
         if ssh then bindR (ssh_cloner C root config_path config_dict) (\<lambda>c. Inr (Some c))
         else Inr None)))"

fun scm_cloner_factory :: "'e config_env_scheme \<Rightarrow> scm \<Rightarrow> string \<Rightarrow> string \<Rightarrow> json \<Rightarrow> bool \<Rightarrow> Cloner option result" where
  "scm_cloner_factory C BBDC = bbdc_cloner_factory C"
| "scm_cloner_factory C ADOE = adoe_cloner_factory C"
| "scm_cloner_factory C GH = gh_cloner_factory C"
| "scm_cloner_factory C GL = gl_cloner_factory C"

definition cloner_factory :: "'e config_env_scheme \<Rightarrow> scm \<Rightarrow> string \<Rightarrow> json \<Rightarrow> string \<Rightarrow> bool \<Rightarrow> Cloner result" where
  "cloner_factory C kind root clone_auth_dict config_path ssl_no_verify =
     bindR (scm_cloner_factory C kind root root clone_auth_dict ssl_no_verify) (\<lambda>c.
     case c of
       None \<Rightarrow> Inl (ConfigurationException (config_path @ '' SCM clone authorization configuration is invalid!''))
     | Some cloner \<Rightarrow> Inr cloner)"

datatype api_auth = BasicAuth string string | BearerAuth string | GithubAppAuth string string

definition basic_api_auth :: "'e config_env_scheme \<Rightarrow> string \<Rightarrow> string \<Rightarrow> json \<Rightarrow> api_auth result" where
  "basic_api_auth C root config_path config_dict =
     bindR (get_secret_or_fail C root config_path ''username'' config_dict) (\<lambda>username.
     bindR (get_secret_or_fail C root config_path ''password'' config_dict) (\<lambda>password. Inr (BasicAuth username password)))"

definition adoe_api_auth_factory :: "'e config_env_scheme \<Rightarrow> string \<Rightarrow> string \<Rightarrow> json \<Rightarrow> api_auth option result" where
  "adoe_api_auth_factory C root config_path config_dict =
     bindR (has_token_auth config_dict) (\<lambda>token.
     if token then bindR (get_secret_or_fail C root config_path ''token'' config_dict) (\<lambda>t. Inr (Some (BasicAuth [] t)))
     else
       bindR (has_basic_auth config_dict) (\<lambda>basic.
       if basic then bindR (basic_api_auth C root config_path config_dict) (\<lambda>a. Inr (Some a)) else Inr None))"

definition common_api_auth_factory :: "'e config_env_scheme \<Rightarrow> string \<Rightarrow> string \<Rightarrow> json \<Rightarrow> api_auth option result" where
  "common_api_auth_factory C root config_path config_dict =
     bindR (has_token_auth config_dict) (\<lambda>token.
     if token then bindR (get_secret_or_fail C root config_path ''token'' config_dict) (\<lambda>t. Inr (Some (BearerAuth t)))
     else
       bindR (has_basic_auth config_dict) (\<lambda>basic.
       if basic then bindR (basic_api_auth C root config_path config_dict) (\<lambda>a. Inr (Some a)) else Inr None))"

definition github_api_auth_factory :: "'e config_env_scheme \<Rightarrow> string \<Rightarrow> string \<Rightarrow> string \<Rightarrow> json \<Rightarrow> api_auth option result" where
  "github_api_auth_factory C root api_url config_path config_dict =
     bindR (common_api_auth_factory C root config_path config_dict) (\<lambda>common.
     case common of
       Some a \<Rightarrow> Inr (Some a)
     | None \<Rightarrow>
         bindR (has_value ''app-private-key'' config_dict) (\<lambda>app.
         if app then bindR (get_secret_or_fail C root config_path ''app-private-key'' config_dict) (\<lambda>key. Inr (Some (GithubAppAuth key api_url)))
         else Inr None))"

fun api_auth_factory :: "'e config_env_scheme \<Rightarrow> scm \<Rightarrow> string \<Rightarrow> string \<Rightarrow> string \<Rightarrow> json \<Rightarrow> api_auth option result" where
  "api_auth_factory C BBDC root api_url config_path config_dict = common_api_auth_factory C root config_path config_dict"
| "api_auth_factory C ADOE root api_url config_path config_dict = adoe_api_auth_factory C root config_path config_dict"
| "api_auth_factory C GH root api_url config_path config_dict = github_api_auth_factory C root api_url config_path config_dict"
| "api_auth_factory C GL root api_url config_path config_dict = common_api_auth_factory C root config_path config_dict"

definition scm_api_auth_factory :: "'e config_env_scheme \<Rightarrow> scm \<Rightarrow> string \<Rightarrow> string \<Rightarrow> json \<Rightarrow> string \<Rightarrow> api_auth result" where
  "scm_api_auth_factory C kind root api_url config_dict config_path =
     bindR (if config_dict = JNull then Inr None
            else bindR (dict_of config_dict) (\<lambda>kvs.
              if length kvs > 0 then api_auth_factory C kind root api_url config_path config_dict else Inr None)) (\<lambda>retval.
     case retval of
       None \<Rightarrow> Inl (ConfigurationException (config_path @ '' SCM API authorization configuration is invalid!''))
     | Some a \<Rightarrow> Inr a)"

section \<open>A service definition\<close>

definition ssl_no_verify_git :: "json \<Rightarrow> bool result" where
  "ssl_no_verify_git ssl_verify =
     (case ssl_verify of JBool b \<Rightarrow> Inr (\<not> b) | v \<Rightarrow> bindR (as_str v) (\<lambda>s. Inr (str_lower s = ''false'')))"

text \<open>\<^verbatim>\<open>len(v)\<close> and the use of the tag and engine dictionaries.\<close>

definition dict_setting :: "string \<Rightarrow> json \<Rightarrow> json dict result" where
  "dict_setting key config_dict = bindR (get_value_for_key_or_default key config_dict (JObj [])) as_obj"

definition setup_cxone_service :: "'e config_env_scheme \<Rightarrow> string \<Rightarrow> string \<Rightarrow> json \<Rightarrow> (CxOneService \<times> naming_coro option) result" where
  "setup_cxone_service C config_path service_moniker config_dict =
     bindR (get_value_for_key_or_default ''scan-config'' config_dict (JObj [])) (\<lambda>scan_config_dict.
     bindR (get_value_for_key_or_default ''project-naming'' config_dict JNull) (\<lambda>naming_dict.
     bindR (setup_naming C (config_path @ ''/project-naming'') naming_dict) (\<lambda>(naming_coro, naming_update_flag).
     bindR (get_value_for_key_or_default ''project-groups'' config_dict JNull) (\<lambda>groups_dict.
     bindR (setup_grouping C (config_path @ ''/project-groups'') groups_dict) (\<lambda>(routes, group_update_flag).
     bindR (dict_setting ''default-scan-engines'' scan_config_dict) (\<lambda>engines.
     bindR (dict_setting ''default-scan-tags'' scan_config_dict) (\<lambda>scan_tags.
     bindR (dict_setting ''default-project-tags'' scan_config_dict) (\<lambda>project_tags.
     Inr (make_CxOneService service_moniker engines (Some scan_tags) (Some project_tags) naming_update_flag group_update_flag routes, naming_coro)))))))))"

definition setup_scm_service :: "'e config_env_scheme \<Rightarrow> scm \<Rightarrow> string \<Rightarrow> string \<Rightarrow> string \<Rightarrow> json \<Rightarrow> SCMService result" where
  "setup_scm_service C kind root config_path service_moniker config_dict =
     bindR (get_value_for_key_or_fail config_path ''connection'' config_dict) (\<lambda>connection.
     bindR (get_value_for_key_or_fail (config_path @ ''/connection'') ''api-auth'' connection) (\<lambda>api_auth_dict.
     bindR (get_value_for_key_or_fail (config_path @ ''/connection'') ''base-url'' connection) (\<lambda>api_base_url.
     bindR (path_of api_base_url) (\<lambda>base_url.
     bindR (get_value_for_key_or_default ''base-display-url'' connection api_base_url) (\<lambda>display_url.
     bindR (path_of display_url) (\<lambda>display_url.
     bindR (get_value_for_key_or_default ''api-url-suffix'' connection JNull) (\<lambda>suffix.
     bindR (text_of suffix) (\<lambda>suffix.
     let api_url = form_api_endpoint base_url suffix in
     bindR (get_value_for_key_or_default ''ssl-verify'' connection (get_default_ssl_verify_value C)) (\<lambda>ssl_verify.
     bindR (ssl_no_verify_git ssl_verify) (\<lambda>no_verify.
     bindR (scm_api_auth_factory C kind root api_url api_auth_dict (config_path @ ''/connection/api-auth'')) (\<lambda>_.
     bindR (get_value_for_key_or_default ''retries'' connection (JInt 3)) (\<lambda>retries.
     bindR (int_of retries) (\<lambda>retries.
     let api_session = \<lparr>s_api_endpoint = api_url, s_retries = retries, s_headers = [(''User-Agent'', ''CxOneFlow/'' @ app_version C)]\<rparr> in
     bindR (get_secret_or_fail C root (config_path @ ''/connection'') ''shared-secret'' connection) (\<lambda>scm_shared_secret.
     if \<not> length (cfg_password_test C scm_shared_secret) = 0
     then Inl (ConfigurationException (config_path @ ''/connection/shared-secret fails some complexity requirements''))
     else
       bindR (get_value_for_key_or_default ''clone-auth'' connection JNull) (\<lambda>clone_auth_dict.
       bindR (if clone_auth_dict = JNull
              then cloner_factory C kind root api_auth_dict (config_path @ ''/connection/api-auth'') no_verify
              else cloner_factory C kind root clone_auth_dict (config_path @ ''/connection/clone-auth'') no_verify) (\<lambda>cloner.
       Inr \<lparr>scm_display_url = display_url, scm_moniker = service_moniker, scm_session = api_session,
         scm_shared_secret = scm_shared_secret, scm_cloner = cloner\<rparr>))))))))))))))))"

definition setup_scm :: "'e config_env_scheme \<Rightarrow> string \<Rightarrow> string \<Rightarrow> scm \<Rightarrow> json \<Rightarrow> string \<Rightarrow> CxOneFlowServices result" where
  "setup_scm C root server_base_url kind config_dict config_path =
     bindR (get_value_for_key_or_fail config_path ''repo-match'' config_dict) (\<lambda>repo_match.
     bindR (path_of repo_match) (\<lambda>repo_match.
     bindR (cfg_re_compile C repo_match) (\<lambda>_.
     if cfg_matches_uuid C repo_match then Inl (no_wildcard_routes (config_path @ ''/repo-match''))
     else
       bindR (get_value_for_key_or_fail config_path ''service-name'' config_dict) (\<lambda>service_moniker.
       bindR (path_of service_moniker) (\<lambda>service_moniker.
       bindR (get_value_for_key_or_fail config_path ''cxone'' config_dict) (\<lambda>cxone_dict.
       bindR (cxone_client_factory C root (config_path @ ''/cxone'') cxone_dict) (\<lambda>_.
       bindR (get_value_for_key_or_default ''feedback'' config_dict (JObj [])) (\<lambda>feedback.
       bindR (pr_feedback_service_factory C root server_base_url (config_path @ ''/feedback'') service_moniker feedback) (\<lambda>pr.
       bindR (push_feedback_service_factory C root (config_path @ ''/feedback'') service_moniker feedback) (\<lambda>push.
       bindR (polling_service_factory C root (config_path @ ''/feedback'') [PRService pr, PushService push] feedback) (\<lambda>poll.
       bindR (get_value_for_key_or_default_warn_deprecated ''scan-agent'' ''resolver'' config_dict (JObj [])) (\<lambda>agent_dict.
       bindR (resolver_service_factory C root (config_path @ ''/scan-agent'') service_moniker agent_dict) (\<lambda>resolver.
       bindR (setup_cxone_service C config_path service_moniker config_dict) (\<lambda>(cxone, naming).
       bindR (setup_scm_service C kind root config_path service_moniker config_dict) (\<lambda>scm.
       bindR (get_value_for_key_or_default ''kickoff'' config_dict JNull) (\<lambda>kickoff_dict.
       bindR (kickoff_service_factory C root kickoff_dict (config_path @ ''/kickoff'') service_moniker) (\<lambda>kickoff.
       Inr \<lparr>sv_matcher = repo_match, sv_cxone = cxone, sv_scm = scm, sv_pr = pr, sv_poll = poll, sv_push = push,
         sv_resolver = resolver, sv_kickoff = kickoff, sv_naming = naming\<rparr>)))))))))))))))))"

section \<open>The service tables\<close>

record config_state =
  cs_by_moniker :: "(string \<times> CxOneFlowServices) list"
  cs_ordered :: routes

definition register_services :: "config_state \<Rightarrow> scm \<Rightarrow> CxOneFlowServices \<Rightarrow> config_state result" where
  "register_services st kind services =
     (let moniker = scm_moniker (sv_scm services) in
      if moniker \<in> fst ` set (cs_by_moniker st) then Inl (ConfigurationException (''Service '' @ moniker @ '' is defined more than once.''))
      else Inr (st\<lparr>cs_by_moniker := cs_by_moniker st @ [(moniker, services)],
        cs_ordered := (case map_of (cs_ordered st) (scm_key kind) of
            None \<Rightarrow> dict_set (cs_ordered st) (scm_key kind) [services]
          | Some entries \<Rightarrow> dict_set (cs_ordered st) (scm_key kind) (entries @ [services]))\<rparr>))"

fun setup_repos :: "'e config_env_scheme \<Rightarrow> string \<Rightarrow> string \<Rightarrow> scm \<Rightarrow> nat \<Rightarrow> json list \<Rightarrow> config_state \<Rightarrow> config_state result" where
  "setup_repos C root server_base_url kind i [] st = Inr st"
| "setup_repos C root server_base_url kind i (repo_config_dict # rest) st =
     bindR (setup_scm C root server_base_url kind repo_config_dict (''/'' @ scm_key kind @ ''['' @ show_nat i @ '']'')) (\<lambda>services.
     bindR (register_services st kind services) (\<lambda>st. setup_repos C root server_base_url kind (Suc i) rest st))"

fun setup_scms :: "'e config_env_scheme \<Rightarrow> string \<Rightarrow> string \<Rightarrow> json \<Rightarrow> scm list \<Rightarrow> config_state \<Rightarrow> config_state result" where
  "setup_scms C root server_base_url raw_yaml [] st = Inr st"
| "setup_scms C root server_base_url raw_yaml (kind # kinds) st =
     bindR (py_has_key raw_yaml (scm_key kind)) (\<lambda>has.
     if has then
       bindR (py_getitem raw_yaml (scm_key kind)) (\<lambda>v.
       bindR (py_iter v) (\<lambda>repos.
       bindR (setup_repos C root server_base_url kind 0 repos st) (\<lambda>st. setup_scms C root server_base_url raw_yaml kinds st)))
     else setup_scms C root server_base_url raw_yaml kinds st)"

definition all_scms :: "scm list" where "all_scms = [BBDC, ADOE, GH, GL]"

definition bootstrap :: "'e config_env_scheme \<Rightarrow> json result \<Rightarrow> config_state result" where
  "bootstrap C yaml =
     bindR yaml (\<lambda>raw_yaml.
     bindR (get_value_for_key_or_fail [] ''server-base-url'' raw_yaml) (\<lambda>url.
     bindR (path_of url) (\<lambda>server_base_url.
     bindR (get_value_for_key_or_fail [] ''secret-root-path'' raw_yaml) (\<lambda>root.
     bindR (path_of root) (\<lambda>root.
     bindR (get_value_for_key_or_default ''script-path'' raw_yaml JNull) (\<lambda>_.
     bindR (dict_of raw_yaml) (\<lambda>kvs.
     if list_all (\<lambda>k. k \<notin> set (dict_keys kvs)) (map scm_key all_scms)
     then Inl (missing_at_least_one_key_path ''/'' (map scm_key all_scms))
     else setup_scms C root server_base_url raw_yaml all_scms \<lparr>cs_by_moniker = [], cs_ordered = []\<rparr>)))))))"

definition get_service_monikers :: "config_state \<Rightarrow> string list" where
  "get_service_monikers st = map fst (cs_by_moniker st)"

definition retrieve_services_by_moniker :: "config_state \<Rightarrow> string \<Rightarrow> CxOneFlowServices result" where
  "retrieve_services_by_moniker st moniker = (case map_of (cs_by_moniker st) moniker of None \<Rightarrow> Inl KeyError | Some s \<Rightarrow> Inr s)"

definition retrieve_scm_services :: "routes \<Rightarrow> string \<Rightarrow> SCMService list result" where
  "retrieve_scm_services table key = (case map_of table key of None \<Rightarrow> Inl KeyError | Some entries \<Rightarrow> Inr (map sv_scm entries))"

section \<open>What a loaded configuration guarantees\<close>

fun kickoff_ok :: "string \<Rightarrow> KickoffService \<Rightarrow> bool" where
  "kickoff_ok moniker (KickoffService _ _ m n) \<longleftrightarrow> m = moniker \<and> 1 \<le> n \<and> n \<le> 10"
| "kickoff_ok moniker DummyKickoffService \<longleftrightarrow> True"

definition resolver_ok :: "ResolverScanService \<Rightarrow> bool" where
  "resolver_ok rs \<longleftrightarrow> (rs_workflow rs = DummyResolver \<and> rs_default_tag rs = JNull) \<or>
     (\<exists>tags. rs_agent_tags rs = Some tags \<and> (rs_default_tag rs \<noteq> JNull \<longrightarrow> rs_default_tag rs \<in> JStr ` set tags) \<and>
        (\<forall>t \<in> set tags. list_all tag_char_allowed t))"

definition service_ok :: "'e config_env_scheme \<Rightarrow> CxOneFlowServices \<Rightarrow> bool" where
  "service_ok C s \<longleftrightarrow> (let moniker = scm_moniker (sv_scm s) in
     \<not> cfg_matches_uuid C (sv_matcher s) \<and> cfg_password_test C (scm_shared_secret (sv_scm s)) = [] \<and>
     cs_moniker (sv_cxone s) = moniker \<and> pfs_moniker (sv_pr s) = moniker \<and> ufs_moniker (sv_push s) = moniker \<and> rs_moniker (sv_resolver s) = moniker \<and>
     sps_services (sv_poll s) = [PRService (sv_pr s), PushService (sv_push s)] \<and> kickoff_ok moniker (sv_kickoff s) \<and> resolver_ok (sv_resolver s))"

lemma make_KickoffServiceD: "make_KickoffService C key m n = Inr ks \<Longrightarrow> \<exists>alg. ks = KickoffService key alg m n"
  by (auto simp: make_KickoffService_def split: sum.splits)

lemma kickoff_service_ok: "kickoff_service_factory C root d p m = Inr ks \<Longrightarrow> kickoff_ok m ks"
  by (auto simp: kickoff_service_factory_def bindR_eq_Inr Let_def split: if_splits dest!: make_KickoffServiceD)

lemma setup_scm_service_ok:
  "setup_scm_service C kind root p m d = Inr s \<Longrightarrow> scm_moniker s = m \<and> cfg_password_test C (scm_shared_secret s) = []"
  by (auto simp: setup_scm_service_def bindR_eq_Inr Let_def split: if_splits)

lemma pr_service_moniker: "pr_feedback_service_factory C root u p m d = Inr s \<Longrightarrow> pfs_moniker s = m"
  by (auto simp: pr_feedback_service_factory_def bindR_eq_Inr split: if_splits)

lemma push_service_moniker: "push_feedback_service_factory C root p m d = Inr s \<Longrightarrow> ufs_moniker s = m"
  by (auto simp: push_feedback_service_factory_def disabled_push_workflow_def bindR_eq_Inr split: if_splits option.splits)

lemma poll_service_ok: "polling_service_factory C root p ss d = Inr s \<Longrightarrow> sps_services s = ss"
  by (auto simp: polling_service_factory_def bindR_eq_Inr split: if_splits)

lemma cxone_service_moniker: "setup_cxone_service C p m d = Inr (s, n) \<Longrightarrow> cs_moniker s = m"
  by (auto simp: setup_cxone_service_def make_CxOneService_def bindR_eq_Inr)

lemma mapR_path_of: "mapR path_of vs = Inr ss \<longleftrightarrow> vs = map JStr ss"
proof (induction vs arbitrary: ss)
  case Nil
  then show ?case by auto
next
  case (Cons v vs)
  then show ?case by (cases v; cases ss) (auto simp: bindR_eq_Inr)
qed

lemma make_ResolverScanServiceD:
  assumes "make_ResolverScanService m flow dt key tags = Inr s"
  shows "s = \<lparr>rs_moniker = m, rs_default_tag = dt, rs_project_tag_key = key, rs_agent_tags = tags, rs_workflow = flow\<rparr> \<and>
     (\<forall>ts. tags = Some ts \<longrightarrow> (\<forall>t \<in> set ts. list_all tag_char_allowed t))"
  using assms by (auto simp: make_ResolverScanService_def validate_tags_ok list_all_iff split: sum.splits option.splits)

lemma resolver_service_ok:
  assumes "resolver_service_factory C root p m d = Inr s"
  shows "rs_moniker s = m \<and> resolver_ok s"
  using assms
  by (auto simp: resolver_service_factory_def resolver_ok_def bindR_eq_Inr Let_def mapR_path_of
      dest!: make_ResolverScanServiceD split: if_splits)

lemma setup_scm_ok: "setup_scm C root u kind d p = Inr s \<Longrightarrow> service_ok C s"
  by (auto simp: setup_scm_def service_ok_def bindR_eq_Inr Let_def split: if_splits prod.splits
      dest!: kickoff_service_ok setup_scm_service_ok pr_service_moniker push_service_moniker poll_service_ok cxone_service_moniker resolver_service_ok)

text \<open>
  The two tables hold the same services; every moniker names one service, its own; every service is well formed; and
  the keys of the route table are those of the source control servers.
\<close>

definition config_ok :: "'e config_env_scheme \<Rightarrow> config_state \<Rightarrow> bool" where
  "config_ok C st \<longleftrightarrow> distinct (map fst (cs_by_moniker st)) \<and>
     (\<forall>(m, s) \<in> set (cs_by_moniker st). m = scm_moniker (sv_scm s) \<and> service_ok C s) \<and>
     (\<forall>s. (\<exists>key entries. map_of (cs_ordered st) key = Some entries \<and> s \<in> set entries) \<longleftrightarrow> s \<in> snd ` set (cs_by_moniker st)) \<and>
     dom (map_of (cs_ordered st)) \<subseteq> set (map scm_key all_scms)"

lemma config_ok_empty: "config_ok C \<lparr>cs_by_moniker = [], cs_ordered = []\<rparr>"
  by (simp add: config_ok_def)

lemma register_services_ok:
  assumes ok: "config_ok C st" and s: "service_ok C s" and run: "register_services st kind s = Inr st'"
  shows "config_ok C st'"
proof -
  let ?m = "scm_moniker (sv_scm s)"
  let ?old = "case map_of (cs_ordered st) (scm_key kind) of None \<Rightarrow> [] | Some es \<Rightarrow> es"
  have fresh: "?m \<notin> fst ` set (cs_by_moniker st)"
    and st': "cs_by_moniker st' = cs_by_moniker st @ [(?m, s)]" "map_of (cs_ordered st') = (map_of (cs_ordered st))(scm_key kind \<mapsto> ?old @ [s])"
    using run by (auto simp: register_services_def Let_def split: if_splits option.splits)
  have "scm_key kind \<in> set (map scm_key all_scms)" by (cases kind) (simp_all add: all_scms_def)
  moreover have "(\<exists>key entries. map_of (cs_ordered st') key = Some entries \<and> x \<in> set entries) \<longleftrightarrow>
      x = s \<or> (\<exists>key entries. map_of (cs_ordered st) key = Some entries \<and> x \<in> set entries)" for x
    unfolding st' by (cases "x \<in> set ?old") (auto split: option.splits if_splits, metis option.inject)
  ultimately show ?thesis
    using ok fresh s unfolding config_ok_def st' by auto
qed

lemma setup_repos_ok:
  "config_ok C st \<Longrightarrow> setup_repos C root u kind i repos st = Inr st' \<Longrightarrow> config_ok C st'"
proof (induction repos arbitrary: i st)
  case (Cons d rest)
  obtain s st1 where s: "setup_scm C root u kind d (''/'' @ scm_key kind @ ''['' @ show_nat i @ '']'') = Inr s"
      and st1: "register_services st kind s = Inr st1" and rest: "setup_repos C root u kind (Suc i) rest st1 = Inr st'"
    using Cons.prems(2) by (auto simp: bindR_eq_Inr)
  show ?case by (rule Cons.IH [OF register_services_ok [OF Cons.prems(1) setup_scm_ok [OF s] st1] rest])
qed simp

lemma setup_scms_ok:
  "config_ok C st \<Longrightarrow> setup_scms C root u yaml kinds st = Inr st' \<Longrightarrow> config_ok C st'"
proof (induction kinds arbitrary: st)
  case (Cons kind kinds)
  then show ?case by (auto simp: bindR_eq_Inr split: if_splits intro: setup_repos_ok)
qed simp

text \<open>C12: a configuration that loads is well formed. Every service is registered once under its own moniker and is reachable
  by that moniker and by its route table alike; its route does not match arbitrary text, its shared secret passes the
  password policy, its parts carry its moniker, it allows between one and ten concurrent kickoff scans, and the default
  tag of its scan agents is one of the allowed tags.\<close>

theorem bootstrap_well_formed:
  assumes "bootstrap C yaml = Inr st"
  shows "config_ok C st"
  using assms setup_scms_ok [OF config_ok_empty]
  by (auto simp: bootstrap_def bindR_eq_Inr split: if_splits)

text \<open>C33: the section \<^verbatim>\<open>resolver\<close> that earlier releases documented is accepted and then ignored: a service definition that has
  it loads with scan agents disabled, whatever the section says, and even when \<^verbatim>\<open>scan-agent\<close> is there as well.\<close>

theorem deprecated_resolver_section_ignored:
  assumes "setup_scm C root u kind d p = Inr s" and "py_has_key d ''resolver'' = Inr True"
  shows "rs_workflow (sv_resolver s) = DummyResolver"
proof -
  have "\<exists>agent_dict m. get_value_for_key_or_default_warn_deprecated ''scan-agent'' ''resolver'' d (JObj []) = Inr agent_dict \<and>
      resolver_service_factory C root (p @ ''/scan-agent'') m agent_dict = Inr (sv_resolver s)"
    using assms(1) by (auto simp: setup_scm_def bindR_eq_Inr split: if_splits prod.splits)
  then obtain agent_dict m where dict: "get_value_for_key_or_default_warn_deprecated ''scan-agent'' ''resolver'' d (JObj []) = Inr agent_dict"
    and svc: "resolver_service_factory C root (p @ ''/scan-agent'') m agent_dict = Inr (sv_resolver s)"
    by blast
  have "agent_dict = JObj []"
    using dict assms(2) by (auto simp: get_value_for_key_or_default_warn_deprecated_def split: if_splits)
  with svc show ?thesis
    by (auto simp: resolver_service_factory_def dest!: make_ResolverScanServiceD)
qed

text \<open>A document with one GitHub service that still has a \<^verbatim>\<open>resolver\<close> section.\<close>

definition demo_cfg_env :: config_env where
  "demo_cfg_env = kickoff_env.extend ko_demo_env
     (config_env.fields [] (\<lambda>_. False) (\<lambda>p. Some (p @ [CHR 0x0A])) (\<lambda>_. Inr ()) (\<lambda>r. r = ''.*'') (\<lambda>p. Inr p)
        (\<lambda>_. Inl (LibError True ''ModuleNotFoundError'')) (\<lambda>s. if length s < 20 then [''length''] else []) [''US''] [''US''])"

definition demo_repo_cfg :: json where
  "demo_repo_cfg = JObj [(''repo-match'', JStr ''.*github.corp.com''), (''service-name'', JStr ''GH''),
     (''cxone'', JObj [(''tenant'', JStr ''t''), (''iam-endpoint'', JStr ''US''), (''api-endpoint'', JStr ''US''), (''api-key'', JStr ''key'')]),
     (''connection'', JObj [(''base-url'', JStr ''https://github.corp.com/''), (''shared-secret'', JStr ''webhook-secret-file''),
        (''api-auth'', JObj [(''token'', JStr ''gh-token'')])]),
     (''resolver'', JObj [(''private-key'', JStr ''pk''), (''allowed-agent-tags'', JList [JStr ''linux''])])]"

definition demo_yaml :: json where
  "demo_yaml = JObj [(''server-base-url'', JStr ''https://flow''), (''secret-root-path'', JStr ''/run/secrets''), (''gh'', JList [demo_repo_cfg])]"

lemma demo_bootstrap: "bootstrap demo_cfg_env (Inr demo_yaml) = Inr (projr (bootstrap demo_cfg_env (Inr demo_yaml)))"
proof -
  have "isl (bootstrap demo_cfg_env (Inr demo_yaml)) = False" by code_simp
  then show ?thesis by (cases "bootstrap demo_cfg_env (Inr demo_yaml)") auto
qed

theorem bootstrap_well_formed_witness: "config_ok demo_cfg_env (projr (bootstrap demo_cfg_env (Inr demo_yaml)))"
  by (rule bootstrap_well_formed [OF demo_bootstrap])

lemma demo_setup: "setup_scm demo_cfg_env ''/run/secrets'' ''https://flow'' GH demo_repo_cfg ''/gh[0]'' =
    Inr (projr (setup_scm demo_cfg_env ''/run/secrets'' ''https://flow'' GH demo_repo_cfg ''/gh[0]''))"
proof -
  have "isl (setup_scm demo_cfg_env ''/run/secrets'' ''https://flow'' GH demo_repo_cfg ''/gh[0]'') = False" by code_simp
  then show ?thesis by (cases "setup_scm demo_cfg_env ''/run/secrets'' ''https://flow'' GH demo_repo_cfg ''/gh[0]''") auto
qed

theorem deprecated_resolver_section_ignored_witness:
  "rs_workflow (sv_resolver (projr (setup_scm demo_cfg_env ''/run/secrets'' ''https://flow'' GH demo_repo_cfg ''/gh[0]''))) = DummyResolver"
  by (rule deprecated_resolver_section_ignored [OF demo_setup]) (simp add: demo_repo_cfg_def)

end
