(* ===== verification/Endpoints.thy ===== *)
theory Endpoints
  imports Config
begin

text \<open>
  The webhook endpoints of \<^verbatim>\<open>src/wsgi.py\<close>: what the server answers to a request and which event it hands to a
  background task. A body that is not JSON is turned down by the web framework before the endpoint's own code runs.
  The last section puts the configuration, the endpoints and the dispatcher together.
\<close>

section \<open>Model\<close>

fun webhook_context :: "'e kickoff_env_scheme \<Rightarrow> scm \<Rightarrow> string \<Rightarrow> string dict \<Rightarrow> EventContext result" where
  "webhook_context E BBDC payload headers = make_EventContext (json_loads E) payload headers"
| "webhook_context E ADOE payload headers = make_EventContext (json_loads E) payload headers"
| "webhook_context E GH payload headers =
     make_HeaderFilteredEventContext (json_loads E) (re_match E) payload headers ''User-Agent|X-(Git)?[H|h]ub''"
| "webhook_context E GL payload headers =
     make_HeaderFilteredEventContext (json_loads E) (re_match E) payload headers ''User-Agent|X-Gitlab|Idempotency-Key''"

fun accepted_status :: "scm \<Rightarrow> int" where
  "accepted_status GL = 201"
| "accepted_status _ = 204"

text \<open>A diagnostic event has no route: every configured secret is tried in turn.\<close>

fun any_signature_valid :: "event_handler \<Rightarrow> SCMService list \<Rightarrow> bool result" where
  "any_signature_valid h [] = Inr False"
| "any_signature_valid h (service # rest) =
     bindR (eh_signature_valid h (scm_shared_secret service)) (\<lambda>valid. if valid then Inr True else any_signature_valid h rest)"

definition answer_event :: "routes \<Rightarrow> scm \<Rightarrow> event_handler \<Rightarrow> (int \<times> event_handler option) result" where
  "answer_event table kind h =
     (if kind \<noteq> BBDC \<and> eh_is_diagnostic h then
        bindR (retrieve_scm_services table (eh_config_key h)) (\<lambda>services.
        bindR (any_signature_valid h services) (\<lambda>valid. Inr (if valid then 200 else 401, None)))
      else Inr (accepted_status kind, Some h))"

definition webhook_endpoint ::
  "'e kickoff_env_scheme \<Rightarrow> routes \<Rightarrow> scm \<Rightarrow> string \<Rightarrow> string dict \<Rightarrow> (int \<times> event_handler option) result" where
  "webhook_endpoint E table kind payload headers =
     bindR (json_loads E payload) (\<lambda>_.
     case bindR (webhook_context E kind payload headers) (\<lambda>ec. bindR (scm_handler E kind ec) (answer_event table kind)) of
       Inl e \<Rightarrow> if derives_from_Exception e then Inr (400, None) else Inl e
     | Inr reply \<Rightarrow> Inr reply)"

definition bbdc_webhook_endpoint ::
  "'e kickoff_env_scheme \<Rightarrow> routes \<Rightarrow> string \<Rightarrow> string dict \<Rightarrow> (int \<times> event_handler option) result" where
  "bbdc_webhook_endpoint E table = webhook_endpoint E table BBDC"

definition github_webhook_endpoint ::
  "'e kickoff_env_scheme \<Rightarrow> routes \<Rightarrow> string \<Rightarrow> string dict \<Rightarrow> (int \<times> event_handler option) result" where
  "github_webhook_endpoint E table = webhook_endpoint E table GH"

definition adoe_webhook_endpoint ::
  "'e kickoff_env_scheme \<Rightarrow> routes \<Rightarrow> string \<Rightarrow> string dict \<Rightarrow> (int \<times> event_handler option) result" where
  "adoe_webhook_endpoint E table = webhook_endpoint E table ADOE"

definition gitlab_webhook_endpoint ::
  "'e kickoff_env_scheme \<Rightarrow> routes \<Rightarrow> string \<Rightarrow> string dict \<Rightarrow> (int \<times> event_handler option) result" where
  "gitlab_webhook_endpoint E table = webhook_endpoint E table GL"

section \<open>Diagnostic events\<close>




lemma webhook_endpointD:
  assumes "webhook_endpoint E table kind payload headers = Inr (code, task)" and "code \<noteq> 400"
  obtains ec h where "webhook_context E kind payload headers = Inr ec" and "scm_handler E kind ec = Inr h"
    and "answer_event table kind h = Inr (code, task)"
  using assms by (auto simp: webhook_endpoint_def bindR_eq_Inr split: sum.splits if_splits)


section \<open>The configured server\<close>

text \<open>C10: on a server whose configuration has loaded, a webhook request has an effect beyond its answer only when the event proves
  knowledge of the shared secret of a configured service, and that secret passes the password policy.\<close>

theorem configured_server_authentic:
  assumes cfg: "bootstrap C yaml = Inr st" and reply: "webhook_endpoint C (cs_ordered st) kind payload headers = Inr (code, Some h)"
      and acts: "new_events (OrchestrationDispatch_execute C (cs_ordered st) h) w \<noteq> []"
  shows "\<exists>ec services. webhook_context C kind payload headers = Inr ec \<and> services \<in> snd ` set (cs_by_moniker st) \<and>
     authentic C kind ec (scm_shared_secret (sv_scm services)) \<and> cfg_password_test C (scm_shared_secret (sv_scm services)) = []"
proof -
  have "code \<noteq> 400" using reply by (cases kind) (auto simp: webhook_endpoint_def answer_event_def bindR_eq_Inr split: sum.splits if_splits)
  with reply obtain ec h' where ec: "webhook_context C kind payload headers = Inr ec" and h': "scm_handler C kind ec = Inr h'"
      and a: "answer_event (cs_ordered st) kind h' = Inr (code, Some h)"
    by (rule webhook_endpointD)
  from a have "h' = h" by (auto simp: answer_event_def bindR_eq_Inr split: if_splits)
  with h' event_authentic [OF _ acts] obtain services entries where s: "map_of (cs_ordered st) (scm_key kind) = Some entries" "services \<in> set entries"
      "authentic C kind ec (scm_shared_secret (sv_scm services))"
    by blast
  have ok: "config_ok C st" using cfg setup_scms_ok [OF config_ok_empty] by (auto simp: bootstrap_def bindR_eq_Inr split: if_splits)
  with s have "services \<in> snd ` set (cs_by_moniker st)" unfolding config_ok_def by blast
  moreover from this ok have "service_ok C services" unfolding config_ok_def by auto
  ultimately show ?thesis using ec s by (auto simp: service_ok_def Let_def)
qed

text \<open>A GitLab server loaded from a document, and a push to the default branch of one of its projects.\<close>

definition demo_server :: config_env where
  "demo_server = demo_cfg_env\<lparr>jp_find := jp_find gl_demo_env\<rparr>"

definition demo_gl_yaml :: json where
  "demo_gl_yaml = JObj [(''server-base-url'', JStr ''https://flow''), (''secret-root-path'', JStr ''/run/secrets''),
     (''gl'', JList [JObj [(''repo-match'', JStr ''.*gl''), (''service-name'', JStr ''GL''),
        (''cxone'', JObj [(''tenant'', JStr ''t''), (''iam-endpoint'', JStr ''US''), (''api-endpoint'', JStr ''US''), (''api-key'', JStr ''key'')]),
        (''connection'', JObj [(''base-url'', JStr ''https://gl''), (''shared-secret'', JStr ''webhook-secret''), (''api-auth'', JObj [(''token'', JStr ''t'')])])]])]"

definition demo_config :: config_state where
  "demo_config = projr (bootstrap demo_server (Inr demo_gl_yaml))"

definition demo_headers :: "string dict" where
  "demo_headers = [(''X-Gitlab-Token'', ''/run/secrets/webhook-secret'')]"

definition demo_task :: event_handler where
  "demo_task = the (snd (projr (webhook_endpoint demo_server (cs_ordered demo_config) GL [] demo_headers)))"

lemma demo_config_loads: "bootstrap demo_server (Inr demo_gl_yaml) = Inr demo_config"
proof -
  have "isl (bootstrap demo_server (Inr demo_gl_yaml)) = False" by code_simp
  then show ?thesis by (cases "bootstrap demo_server (Inr demo_gl_yaml)") (auto simp: demo_config_def)
qed

lemma demo_accepted: "webhook_endpoint demo_server (cs_ordered demo_config) GL [] demo_headers = Inr (201, Some demo_task)"
proof -
  have "(case webhook_endpoint demo_server (cs_ordered demo_config) GL [] demo_headers of Inl _ \<Rightarrow> False | Inr (c, t) \<Rightarrow> c = 201 \<and> (case t of None \<Rightarrow> False | Some _ \<Rightarrow> True)) = True"
    by code_simp
  then show ?thesis by (auto simp: demo_task_def split: sum.splits option.splits)
qed

lemma demo_task_acts: "(new_events (OrchestrationDispatch_execute demo_server (cs_ordered demo_config) demo_task) world0 = []) = False"
  by code_simp

theorem configured_server_authentic_witness:
  "\<exists>services. services \<in> snd ` set (cs_by_moniker demo_config) \<and> cfg_password_test demo_server (scm_shared_secret (sv_scm services)) = []"
  using configured_server_authentic [OF demo_config_loads demo_accepted, of world0] demo_task_acts by blast


end
