(* ===== verification/Resolver_Runner.thy ===== *)
theory Resolver_Runner
  imports Orchestration
begin

text \<open>
  How a scan agent runs the dependency resolver: the command line built from configured options
  (\<^verbatim>\<open>src/agent/__init__.py\<close>, \<^verbatim>\<open>src/agent/resolver/resolver_opts.py\<close>), the work directory and the execution of the
  command (\<^verbatim>\<open>resolver_runner.py\<close>), and the runners that start it in a shell, in a container, not at all, or after a
  script of the user (\<^verbatim>\<open>shell_runner.py\<close>, \<^verbatim>\<open>toolkit_runner.py\<close>, \<^verbatim>\<open>noresolver_runner.py\<close>, \<^verbatim>\<open>two_stage_runner.py\<close>).
  Processes and the file system answer through \<open>agent_env\<close>.
\<close>

section \<open>Environment\<close>

datatype unpickled = PickledSCM SCMService | PickledCxOne CxOneService | PickledOther

text \<open>
  \<open>run_process\<close> answers a command and its \<^verbatim>\<open>HOME\<close> with the exit code and the combined output. \<open>captured_output\<close> is
  the standard output a failed git command leaves in its exception, which \<open>exn\<close> does not carry.
\<close>

record agent_env = orch_env +
  run_process :: "trace \<Rightarrow> string list \<Rightarrow> string \<Rightarrow> (int \<times> string) result"
  path_exists :: "trace \<Rightarrow> string \<Rightarrow> bool"
  path_is_file :: "trace \<Rightarrow> string \<Rightarrow> bool"
  fs_mkdir :: "trace \<Rightarrow> string \<Rightarrow> unit result"
  fs_chmod :: "trace \<Rightarrow> string \<Rightarrow> unit result"
  fs_copy :: "trace \<Rightarrow> string \<Rightarrow> string \<Rightarrow> unit result"
  agent_uid_gid :: string
  unpickle :: "trace \<Rightarrow> string \<Rightarrow> unpickled result"
  captured_output :: "exn \<Rightarrow> string option"

definition os_mkdir :: "'e agent_env_scheme \<Rightarrow> string \<Rightarrow> unit act" where
  "os_mkdir E path = ask (EvMkdir path) (\<lambda>tr. fs_mkdir E tr path)"

definition os_chmod :: "'e agent_env_scheme \<Rightarrow> string \<Rightarrow> unit act" where
  "os_chmod E path = ask (EvChmod path) (\<lambda>tr. fs_chmod E tr path)"

definition copy_if_file :: "'e agent_env_scheme \<Rightarrow> string \<Rightarrow> string \<Rightarrow> unit act" where
  "copy_if_file E src dest =
     bindE (look (\<lambda>tr. Inr (path_exists E tr src \<and> path_is_file E tr src))) (\<lambda>there.
     if there then ask (EvCopyFile src dest) (\<lambda>tr. fs_copy E tr src dest) else returnE ())"

section \<open>Command line options\<close>

definition option_flag :: "string \<Rightarrow> string" where
  "option_flag k = (if length k = 1 then ''-'' @ k else ''--'' @ k)"

text \<open>
  \<^verbatim>\<open>DictCmdLineOpts._compile\<close>. The processor \<open>proc\<close> found for one option stays in force for the options after it,
  until another is found.
\<close>

fun compile_opts ::
  "(string \<Rightarrow> bool) \<Rightarrow> (string \<times> (string \<Rightarrow> string)) list \<Rightarrow> (string \<Rightarrow> string) \<Rightarrow> json dict \<Rightarrow> string list" where
  "compile_opts valid procs proc [] = []"
| "compile_opts valid procs proc ((k, v) # opts) =
     (let proc' = (case map_of procs k of None \<Rightarrow> proc | Some p \<Rightarrow> p) in
      if length k = 0 \<or> \<not> valid k then compile_opts valid procs proc' opts
      else (case v of
          JNull \<Rightarrow> option_flag k # compile_opts valid procs proc' opts
        | JStr s \<Rightarrow> option_flag k # proc' s # compile_opts valid procs proc' opts
        | _ \<Rightarrow> compile_opts valid procs proc' opts))"

text \<open>Indexing a list or a string by its own elements, which only an empty one survives.\<close>

definition self_index_error :: "json \<Rightarrow> json list \<Rightarrow> exn" where
  "self_index_error x xs =
     (case x of JInt i \<Rightarrow> if - int (length xs) \<le> i \<and> i < int (length xs) then TypeError else IndexError
      | JBool b \<Rightarrow> if (if b then 1 else 0) < length xs then TypeError else IndexError
      | _ \<Rightarrow> TypeError)"

fun opts_as_args :: "(string \<Rightarrow> bool) \<Rightarrow> json \<Rightarrow> (string \<times> (string \<Rightarrow> string)) list \<Rightarrow> string list result" where
  "opts_as_args valid JNull procs = Inr []"
| "opts_as_args valid (JObj opts) procs = Inr (compile_opts valid procs (\<lambda>x. x) opts)"
| "opts_as_args valid (JList []) procs = Inr []"
| "opts_as_args valid (JList (x # xs)) procs = Inl (self_index_error x (x # xs))"
| "opts_as_args valid (JStr []) procs = Inr []"
| "opts_as_args valid _ procs = Inl TypeError"

fun has_one_of :: "json \<Rightarrow> string list \<Rightarrow> bool result" where
  "has_one_of JNull keys = Inr False"
| "has_one_of (JObj opts) keys = Inr (filter (\<lambda>k. k \<in> set (dict_keys opts)) keys \<noteq> [])"
| "has_one_of _ [] = Inr False"
| "has_one_of _ (k # ks) = Inl AttributeError"

definition forbidden_opts :: "string list" where
  "forbidden_opts =
     [''logs-path'', ''a'', ''account'', ''containers-result-path'', ''resolver-result-path'', ''project-name'',
      ''authentication-server-url'', ''p'', ''password'', ''sso-provider'', ''sca-app-url'', ''s'', ''scan-path'', ''server-url'',
      ''u'', ''username'', ''project-tags'', ''scan-tags'', ''bypass-exitcode'', ''no-upload-manifest'', ''help'', ''manifests-path'',
      ''t'', ''project-teams'', ''q'', ''quiet'', ''save-evidence-path'', ''severity-threshold'', ''report-content'',
      ''report-extension'', ''report-path'', ''report-type'', ''sast-result-path'', ''cxpassword'', ''cxuser'', ''cxprojectid'',
      ''cxprojectname'', ''cxserver'']"

definition ResolverOpts_validate_arg :: "string \<Rightarrow> bool" where
  "ResolverOpts_validate_arg arg_name \<longleftrightarrow> arg_name \<notin> set forbidden_opts"

section \<open>Runners and their execution contexts\<close>

datatype base_runner =
    ResolverShellRunner "string option" json string "string option" \<comment> \<open>work path, options, resolver, user\<close>
  | ResolverToolkitRunner "string option" json string \<comment> \<open>work path, options, tag of the built container\<close>
  | NoResolverRunner

record two_stage_runner =
  ts_workpath :: "string option"
  ts_resolver :: base_runner
  ts_resolver_before :: bool
  ts_container_tag :: string
  ts_shell :: string
  ts_script :: string
  ts_as_agent :: bool

text \<open>The resolver of a two-stage runner is one of the others: the configuration builds no deeper nesting.\<close>

datatype resolver_runner = BaseRunner base_runner | ResolverTwoStageRunner two_stage_runner

text \<open>The runner and the context both strip the path and add a slash; doing it twice changes nothing.\<close>

definition norm_workpath :: "string option \<Rightarrow> string option" where
  "norm_workpath workpath = map_option (\<lambda>p. rstrip_chars ''/'' p @ ''/'') workpath"

record exec_context =
  xc_home :: "string option"
  xc_work_root :: "string option"

definition work_root :: "exec_context \<Rightarrow> string result" where
  "work_root c = (case xc_work_root c of None \<Rightarrow> Inl ResolverAgentException | Some r \<Rightarrow> Inr r)"

definition in_work_root :: "string \<Rightarrow> exec_context \<Rightarrow> string result" where
  "in_work_root name c = bindR (work_root c) (\<lambda>r. Inr (rstrip_chars ''/'' r @ ''/'' @ name))"

definition clone_path :: "exec_context \<Rightarrow> string result" where "clone_path = in_work_root ''clone''"
definition resolver_loc :: "exec_context \<Rightarrow> string result" where "resolver_loc = in_work_root ''resolver''"
definition container_loc :: "exec_context \<Rightarrow> string result" where "container_loc = in_work_root ''container''"

definition result_resolver_out_file_path :: "exec_context \<Rightarrow> string result" where
  "result_resolver_out_file_path c = bindR (resolver_loc c) (\<lambda>d. Inr (d @ ''/resolver.json''))"

definition result_container_out_file_path :: "exec_context \<Rightarrow> string result" where
  "result_container_out_file_path c = bindR (container_loc c) (\<lambda>d. Inr (d @ ''/container.json''))"

text \<open>The paths as the resolver sees them: a container has its own.\<close>

fun execution_clone_path :: "base_runner \<Rightarrow> exec_context \<Rightarrow> string result" where
  "execution_clone_path (ResolverToolkitRunner _ _ _) c = Inr ''/sandbox/input_sandbox''"
| "execution_clone_path _ c = clone_path c"

fun execution_resolver_out_file_path :: "base_runner \<Rightarrow> exec_context \<Rightarrow> string result" where
  "execution_resolver_out_file_path (ResolverToolkitRunner _ _ _) c = Inr ''/sandbox/output/resolver/resolver.json''"
| "execution_resolver_out_file_path _ c = result_resolver_out_file_path c"

fun execution_container_out_file_path :: "base_runner \<Rightarrow> exec_context \<Rightarrow> string result" where
  "execution_container_out_file_path (ResolverToolkitRunner _ _ _) c = Inr ''/sandbox/output/container/container.json''"
| "execution_container_out_file_path _ c = result_container_out_file_path c"

definition docker_cmd :: "string list" where "docker_cmd = [''docker'', ''run'', ''-t'', ''--rm'']"

text \<open>
  \<^verbatim>\<open>_get_resolver_exec_cmd\<close>. Without a resolver on the file system the shell context adds a list to \<^verbatim>\<open>None\<close>, which
  raises; it never answers \<^verbatim>\<open>None\<close>, so \<^verbatim>\<open>can_execute\<close> is true whenever it has a value.
\<close>

definition shell_exec_cmd :: "'e agent_env_scheme \<Rightarrow> string \<Rightarrow> string option \<Rightarrow> exec_context \<Rightarrow> string list act" where
  "shell_exec_cmd E resolver_path user c =
     (let runas = (case user of None \<Rightarrow> []
            | Some u \<Rightarrow> [''sudo'', ''-u'', u, ''HOME='' @ (case xc_home c of None \<Rightarrow> ''None'' | Some h \<Rightarrow> h)]) in
      bindE (look (\<lambda>tr. Inr (if path_exists E tr resolver_path \<and> path_is_file E tr resolver_path then Some [resolver_path]
                             else if path_exists E tr ''ScaResolver'' then Some [''ScaResolver''] else None))) (\<lambda>cmd.
      case cmd of None \<Rightarrow> raiseE TypeError | Some words \<Rightarrow> returnE (runas @ words)))"

definition toolkit_exec_cmd :: "string \<Rightarrow> exec_context \<Rightarrow> string list result" where
  "toolkit_exec_cmd container_tag c =
     bindR (clone_path c) (\<lambda>code.
     bindR (work_root c) (\<lambda>root.
     Inr (docker_cmd @ [''-v'', code @ '':/sandbox/input:ro'', ''-v'', root @ '':/sandbox/output'', container_tag])))"

fun get_resolver_exec_cmd :: "'e agent_env_scheme \<Rightarrow> base_runner \<Rightarrow> exec_context \<Rightarrow> string list act" where
  "get_resolver_exec_cmd E (ResolverShellRunner _ _ resolver_path user) c = shell_exec_cmd E resolver_path user c"
| "get_resolver_exec_cmd E (ResolverToolkitRunner _ _ container_tag) c = liftE (toolkit_exec_cmd container_tag c)"
| "get_resolver_exec_cmd E NoResolverRunner c = returnE []"

definition can_execute :: "'e agent_env_scheme \<Rightarrow> base_runner \<Rightarrow> exec_context \<Rightarrow> bool act" where
  "can_execute E r c = bindE (get_resolver_exec_cmd E r c) (\<lambda>_. returnE True)"

section \<open>Running a command\<close>

record CompletedProcess =
  cp_returncode :: int
  cp_stdout :: "string option"

text \<open>\<^verbatim>\<open>execute_cmd\<close> and \<^verbatim>\<open>execute_cmd_async\<close>: any other exit code than 0 is an exception.\<close>

definition execute_cmd :: "'e agent_env_scheme \<Rightarrow> string list \<Rightarrow> string option \<Rightarrow> CompletedProcess act" where
  "execute_cmd E args home =
     (case home of
        None \<Rightarrow> raiseE TypeError
      | Some h \<Rightarrow>
          bindE (ask (EvRunCmd args) (\<lambda>tr. run_process E tr args h)) (\<lambda>(code, output).
          if code \<noteq> 0 then raiseE (CalledProcessError code output)
          else returnE \<lparr>cp_returncode = code, cp_stdout = Some output\<rparr>))"

text \<open>The handler that turns a failed command into its result.\<close>

definition completed_anyway :: "CompletedProcess act \<Rightarrow> CompletedProcess act" where
  "completed_anyway m = catchE m (\<lambda>e. case e of
     CalledProcessError code output \<Rightarrow> returnE \<lparr>cp_returncode = code, cp_stdout = Some output\<rparr> | _ \<Rightarrow> raiseE e)"

fun runner_opts :: "base_runner \<Rightarrow> json" where
  "runner_opts (ResolverShellRunner _ opts _ _) = opts"
| "runner_opts (ResolverToolkitRunner _ opts _) = opts"
| "runner_opts NoResolverRunner = JNull"

fun runner_workpath :: "base_runner \<Rightarrow> string option" where
  "runner_workpath (ResolverShellRunner w _ _ _) = w"
| "runner_workpath (ResolverToolkitRunner w _ _) = w"
| "runner_workpath NoResolverRunner = None"

definition context_execute_resolver ::
  "'e agent_env_scheme \<Rightarrow> base_runner \<Rightarrow> exec_context \<Rightarrow> string \<Rightarrow> json \<Rightarrow> CompletedProcess act" where
  "context_execute_resolver E r c project_name exclusions =
     bindE (get_resolver_exec_cmd E r c) (\<lambda>cmd.
     let merge_exclusions = (\<lambda>x. x @ '','' @ py_str (py_repr E) exclusions) in
     bindE (liftE (opts_as_args ResolverOpts_validate_arg (runner_opts r)
              [(''e'', merge_exclusions), (''excludes'', merge_exclusions)])) (\<lambda>resolver_opts.
     bindE (liftE (has_one_of (runner_opts r) [''excludes'', ''e''])) (\<lambda>excluded.
     let exclude_opts = (if \<not> excluded then [JStr ''--excludes'', exclusions] else []) in
     bindE (liftE (work_root c)) (\<lambda>root.
     bindE (liftE (execution_clone_path r c)) (\<lambda>code.
     bindE (liftE (execution_container_out_file_path r c)) (\<lambda>container_out.
     bindE (liftE (execution_resolver_out_file_path r c)) (\<lambda>resolver_out.
     completed_anyway (
       bindE (liftE (mapR path_of exclude_opts)) (\<lambda>exclude_words.
       execute_cmd E
         (cmd @ [''offline''] @ resolver_opts @ exclude_words @
          [''--logs-path'', root, ''--scan-path'', code, ''--containers-result-path'', container_out,
           ''--resolver-result-path'', resolver_out, ''--project-name'', project_name])
         (xc_home c))))))))))"

text \<open>
  \<^verbatim>\<open>__recurse_chmod\<close>: a directory below the clone is changed by its parent and again when it is entered.
\<close>

fun chmod_targets :: "string \<Rightarrow> (string \<times> fs_entry) list \<Rightarrow> string list" where
  "chmod_targets path [] = []"
| "chmod_targets path ((name, FsDir sub) # rest) =
     [path @ ''/'' @ name, path @ ''/'' @ name] @ chmod_targets (path @ ''/'' @ name) sub @ chmod_targets path rest"
| "chmod_targets path ((name, _) # rest) = (path @ ''/'' @ name) # chmod_targets path rest"

definition recurse_chmod :: "'e agent_env_scheme \<Rightarrow> string \<Rightarrow> unit act" where
  "recurse_chmod E path =
     thenE (os_chmod E path) (
     bindE (look (\<lambda>tr. fs_tree E tr path)) (\<lambda>tree.
     forE (chmod_targets path tree) (os_chmod E)))"

fun execute_base_resolver ::
  "'e agent_env_scheme \<Rightarrow> base_runner \<Rightarrow> exec_context \<Rightarrow> string \<Rightarrow> json \<Rightarrow> CompletedProcess act" where
  "execute_base_resolver E (ResolverShellRunner w opts path user) c project_name exclusions =
     thenE (if user \<noteq> None then bindE (liftE (clone_path c)) (recurse_chmod E) else returnE ())
     (context_execute_resolver E (ResolverShellRunner w opts path user) c project_name exclusions)"
| "execute_base_resolver E (ResolverToolkitRunner w opts tag) c project_name exclusions =
     context_execute_resolver E (ResolverToolkitRunner w opts tag) c project_name exclusions"
| "execute_base_resolver E NoResolverRunner c project_name exclusions =
     returnE \<lparr>cp_returncode = 0, cp_stdout = None\<rparr>"

section \<open>The runner with a script of the user\<close>

text \<open>The resolver runs in the work directory of the script; only its home directory is its own.\<close>

definition inner_context :: "two_stage_runner \<Rightarrow> exec_context \<Rightarrow> exec_context" where
  "inner_context ts c = c\<lparr>xc_home := norm_workpath (runner_workpath (ts_resolver ts))\<rparr>"

definition script_command :: "'e agent_env_scheme \<Rightarrow> two_stage_runner \<Rightarrow> string \<Rightarrow> string list" where
  "script_command E ts code =
     docker_cmd @ (if ts_as_agent ts then [''-u'', agent_uid_gid E] else []) @
     [''-v'', code @ '':/code'', ''-w'', ''/code'', ''--entrypoint'', ts_shell ts, ts_container_tag ts, ''-c'', ts_script ts]"

text \<open>
  The outer handler: a cancellation goes on, anything else ends the run with the exit code known so far and an
  empty log.
\<close>

definition task_cancelled :: exn where "task_cancelled = LibError False ''CancelledError''"

definition ended_early :: "int \<Rightarrow> exn \<Rightarrow> CompletedProcess act" where
  "ended_early exit_code e =
     (if e = task_cancelled then raiseE e else returnE \<lparr>cp_returncode = exit_code, cp_stdout = Some []\<rparr>)"

definition output_of :: "CompletedProcess \<Rightarrow> string" where
  "output_of p = (case cp_stdout p of None \<Rightarrow> [] | Some s \<Rightarrow> s)"

text \<open>The first failure decides the exit code, in the order the stages ran.\<close>

definition later_exit :: "int \<Rightarrow> CompletedProcess \<Rightarrow> int" where
  "later_exit exit_code p = (if exit_code = 0 then cp_returncode p else exit_code)"

definition two_stage_execute ::
  "'e agent_env_scheme \<Rightarrow> two_stage_runner \<Rightarrow> exec_context \<Rightarrow> string \<Rightarrow> json \<Rightarrow> CompletedProcess act" where
  "two_stage_execute E ts c project_name exclusions =
     (let run_resolver = completed_anyway (execute_base_resolver E (ts_resolver ts) (inner_context ts c) project_name exclusions);
          run_script = completed_anyway (bindE (liftE (clone_path c)) (\<lambda>code. execute_cmd E (script_command E ts code) (Some ''/code'')))
      in
      bindE (attemptE (if ts_resolver_before ts then bindE run_resolver (\<lambda>p. returnE (Some p)) else returnE None)) (\<lambda>stage1.
      case stage1 of Inl e \<Rightarrow> ended_early 0 e
      | Inr before \<Rightarrow>
          let exit1 = (case before of None \<Rightarrow> 0 | Some p \<Rightarrow> cp_returncode p) in
          bindE (attemptE run_script) (\<lambda>stage2.
          case stage2 of Inl e \<Rightarrow> ended_early exit1 e
          | Inr shell_result \<Rightarrow>
              let exit2 = later_exit exit1 shell_result in
              bindE (attemptE (case before of Some p \<Rightarrow> returnE p | None \<Rightarrow> run_resolver)) (\<lambda>stage3.
              case stage3 of Inl e \<Rightarrow> ended_early exit2 e
              | Inr resolver_result \<Rightarrow>
                  returnE \<lparr>cp_returncode = later_exit exit2 resolver_result,
                           cp_stdout = Some (output_of resolver_result @ output_of shell_result)\<rparr>))))"

section \<open>Entering and leaving a context\<close>

definition enter_work_root :: "'e agent_env_scheme \<Rightarrow> string option \<Rightarrow> exec_context act" where
  "enter_work_root E workpath =
     bindE (make_temp_dir E (norm_workpath workpath)) (\<lambda>root.
     returnE \<lparr>xc_home = norm_workpath workpath, xc_work_root = Some root\<rparr>)"

definition make_dir :: "'e agent_env_scheme \<Rightarrow> string result \<Rightarrow> unit act" where
  "make_dir E dir = bindE (liftE dir) (\<lambda>p. thenE (os_mkdir E p) (os_chmod E p))"

definition enter_resolver_context :: "'e agent_env_scheme \<Rightarrow> string option \<Rightarrow> exec_context act" where
  "enter_resolver_context E workpath =
     bindE (enter_work_root E workpath) (\<lambda>c.
     thenE (bindE (liftE (work_root c)) (os_chmod E)) (
     thenE (make_dir E (clone_path c)) (
     thenE (make_dir E (resolver_loc c)) (
     thenE (make_dir E (container_loc c)) (
     returnE c)))))"

fun enter_context :: "'e agent_env_scheme \<Rightarrow> resolver_runner \<Rightarrow> exec_context act" where
  "enter_context E (BaseRunner r) = enter_resolver_context E (runner_workpath r)"
| "enter_context E (ResolverTwoStageRunner ts) = enter_resolver_context E (ts_workpath ts)"

definition exit_context :: "'e agent_env_scheme \<Rightarrow> exec_context \<Rightarrow> unit act" where
  "exit_context E c = bindE (liftE (work_root c)) (remove_temp_dir E)"

text \<open>
  \<^verbatim>\<open>async with ... as runner\<close>. The exit method of the two-stage context returns the context itself, a true
  value, which tells Python to drop the exception that ended the block. With either context an exception of the
  exit method itself, when the work directory cannot be removed, leaves the statement in place of the block's outcome.
\<close>

fun in_context :: "'e agent_env_scheme \<Rightarrow> resolver_runner \<Rightarrow> exec_context \<Rightarrow> unit act \<Rightarrow> unit act" where
  "in_context E (BaseRunner r) c body = finallyE body (exit_context E c)"
| "in_context E (ResolverTwoStageRunner ts) c body = bindE (attemptE body) (\<lambda>_. exit_context E c)"

fun runner_can_execute :: "'e agent_env_scheme \<Rightarrow> resolver_runner \<Rightarrow> exec_context \<Rightarrow> bool act" where
  "runner_can_execute E (BaseRunner r) c = can_execute E r c"
| "runner_can_execute E (ResolverTwoStageRunner ts) c = can_execute E (ts_resolver ts) (inner_context ts c)"

fun execute_resolver ::
  "'e agent_env_scheme \<Rightarrow> resolver_runner \<Rightarrow> exec_context \<Rightarrow> string \<Rightarrow> json \<Rightarrow> CompletedProcess act" where
  "execute_resolver E (BaseRunner r) c project_name exclusions = execute_base_resolver E r c project_name exclusions"
| "execute_resolver E (ResolverTwoStageRunner ts) c project_name exclusions = two_stage_execute E ts c project_name exclusions"

section \<open>Which options reach the resolver\<close>

text \<open>
  Whatever a configuration lists, every option on the command line is one of its options, has a name, and is not
  one of those the agent sets itself.
\<close>

lemma compile_opts_allowed:
  "\<exists>kept. compile_opts valid procs proc opts = concat (map (\<lambda>(k, vs). option_flag k # vs) kept) \<and>
     (\<forall>(k, vs) \<in> set kept. k \<in> set (dict_keys opts) \<and> valid k \<and> k \<noteq> [] \<and> length vs \<le> 1)"
proof (induction opts arbitrary: proc)
  case Nil
  show ?case by (intro exI [of _ "[]"]) simp
next
  case (Cons p opts)
  obtain k v where p: "p = (k, v)" by (cases p)
  let ?proc = "case map_of procs k of None \<Rightarrow> proc | Some q \<Rightarrow> q"
  from Cons [of ?proc] obtain kept where
    kept: "compile_opts valid procs ?proc opts = concat (map (\<lambda>(k, vs). option_flag k # vs) kept)"
    and all: "\<forall>(k, vs) \<in> set kept. k \<in> set (dict_keys opts) \<and> valid k \<and> k \<noteq> [] \<and> length vs \<le> 1" by blast
  have wider: "\<forall>(k', vs) \<in> set kept. k' \<in> set (dict_keys (p # opts)) \<and> valid k' \<and> k' \<noteq> [] \<and> length vs \<le> 1"
    using all by (auto simp: dict_keys_def)
  consider (omit) "compile_opts valid procs proc (p # opts) = compile_opts valid procs ?proc opts"
    | (keep) vs where "compile_opts valid procs proc (p # opts) = option_flag k # vs @ compile_opts valid procs ?proc opts"
        "length vs \<le> 1" "valid k" "k \<noteq> []"
    by (cases "k = [] \<or> \<not> valid k"; cases v) (auto simp: p Let_def intro: that(2) [of "[]"] that(2) [of "[_]"])
  then show ?case
  proof cases
    case omit
    with kept wider show ?thesis by (intro exI [of _ kept]) simp
  next
    case keep
    with kept wider show ?thesis by (intro exI [of _ "(k, vs) # kept"]) (auto simp: p dict_keys_def)
  qed
qed

lemma configured_options_allowed:
  assumes "opts_as_args ResolverOpts_validate_arg opts procs = Inr args"
  shows "\<exists>kept. args = concat (map (\<lambda>(k, vs). option_flag k # vs) kept) \<and>
     (\<forall>(k, vs) \<in> set kept. k \<notin> set forbidden_opts \<and> k \<noteq> [] \<and> length vs \<le> 1)"
proof (cases "\<exists>d. opts = JObj d")
  case True
  then obtain d where "args = compile_opts ResolverOpts_validate_arg procs (\<lambda>x. x) d" using assms by auto
  with compile_opts_allowed [of ResolverOpts_validate_arg procs "\<lambda>x. x" d] show ?thesis
    by (fastforce simp: ResolverOpts_validate_arg_def)
next
  case False
  with assms have "args = []"
    by (cases "(ResolverOpts_validate_arg, opts, procs)" rule: opts_as_args.cases) auto
  then show ?thesis by (intro exI [of _ "[]"]) simp
qed

text \<open>The exclusions of the scan are also added to the value of every option after \<^verbatim>\<open>e\<close> or \<^verbatim>\<open>excludes\<close>.\<close>

lemma exclusions_leak:
  "compile_opts ResolverOpts_validate_arg [(''e'', \<lambda>x. x @ '',!**/test'')] (\<lambda>x. x)
     [(''e'', JStr ''*.md''), (''log-level'', JStr ''Debug'')] =
   [''-e'', ''*.md,!**/test'', ''--log-level'', ''Debug,!**/test'']"
  by (simp add: ResolverOpts_validate_arg_def forbidden_opts_def option_flag_def)

section \<open>What running the resolver can do\<close>

lemma recurse_chmod_emits [emits_intros]: "(\<And>p. ok (EvChmod p)) \<Longrightarrow> emits ok (recurse_chmod E path)"
  unfolding recurse_chmod_def os_chmod_def by (intro emits_intros)

lemma completed_anyway_emits [emits_intros]: "emits ok m \<Longrightarrow> emits ok (completed_anyway m)"
  unfolding completed_anyway_def by (intro emits_intros) (auto split: exn.splits intro: emits_intros)

lemma shell_exec_cmd_emits [emits_intros]: "emits ok (shell_exec_cmd E p user c)"
  unfolding shell_exec_cmd_def Let_def by (intro emits_intros)

lemma get_resolver_exec_cmd_emits [emits_intros]: "emits ok (get_resolver_exec_cmd E r c)"
  by (cases r) (auto intro!: emits_intros)

lemma execute_cmd_emits [emits_intros]: "(\<And>c. ok (EvRunCmd c)) \<Longrightarrow> emits ok (execute_cmd E args home)"
  unfolding execute_cmd_def by (intro emits_intros) auto

lemma execute_base_resolver_emits [emits_intros]:
  "(\<And>c. ok (EvRunCmd c)) \<Longrightarrow> (\<And>p. ok (EvChmod p)) \<Longrightarrow> emits ok (execute_base_resolver E r c n x)"
  by (cases r) (auto simp: context_execute_resolver_def Let_def intro!: emits_intros)

lemma ended_early_emits [emits_intros]: "emits ok (ended_early n e)"
  unfolding ended_early_def by (intro emits_intros)

lemma execute_resolver_emits [emits_intros]:
  assumes "\<And>c. ok (EvRunCmd c)" and "\<And>p. ok (EvChmod p)"
  shows "emits ok (execute_resolver E r c n x)"
  by (cases r) (auto simp: two_stage_execute_def Let_def intro!: emits_intros assms)

lemma enter_context_emits [emits_intros]:
  assumes "\<And>p. ok (EvTempDir p)" and "\<And>p. ok (EvMkdir p)" and "\<And>p. ok (EvChmod p)"
  shows "emits ok (enter_context E r)"
  by (cases r) (auto simp: enter_resolver_context_def enter_work_root_def make_dir_def os_mkdir_def os_chmod_def
      intro!: emits_intros assms)

lemma runner_can_execute_emits [emits_intros]: "emits ok (runner_can_execute E r c)"
  by (cases r) (auto simp: can_execute_def intro!: emits_intros)

lemma copy_if_file_emits [emits_intros]: "ok (EvCopyFile src dest) \<Longrightarrow> emits ok (copy_if_file E src dest)"
  unfolding copy_if_file_def by (intro emits_intros)

subsection \<open>It always comes to an end\<close>

lemma work_root_not_fuel [simp, finishes_intros]:
  "work_root c \<noteq> Inl OutOfFuel" "clone_path c \<noteq> Inl OutOfFuel" "resolver_loc c \<noteq> Inl OutOfFuel" "container_loc c \<noteq> Inl OutOfFuel"
  "result_resolver_out_file_path c \<noteq> Inl OutOfFuel" "result_container_out_file_path c \<noteq> Inl OutOfFuel"
  by (auto simp: work_root_def clone_path_def resolver_loc_def container_loc_def in_work_root_def
      result_resolver_out_file_path_def result_container_out_file_path_def intro!: bindR_not_fuel split: option.splits)

lemma execution_paths_not_fuel [simp, finishes_intros]:
  "execution_clone_path r c \<noteq> Inl OutOfFuel" "execution_resolver_out_file_path r c \<noteq> Inl OutOfFuel"
  "execution_container_out_file_path r c \<noteq> Inl OutOfFuel"
  by (cases r; simp)+

lemma opts_not_fuel [simp, finishes_intros]:
  "opts_as_args valid opts procs \<noteq> Inl OutOfFuel" "has_one_of opts keys \<noteq> Inl OutOfFuel"
proof -
  show "opts_as_args valid opts procs \<noteq> Inl OutOfFuel"
    by (cases "(valid, opts, procs)" rule: opts_as_args.cases) (auto simp: self_index_error_def split: json.splits)
  show "has_one_of opts keys \<noteq> Inl OutOfFuel"
    by (cases "(opts, keys)" rule: has_one_of.cases) auto
qed

lemma finishes_case_sum [finishes_intros]:
  "(\<And>e. r = Inl e \<Longrightarrow> finishes (f e)) \<Longrightarrow> (\<And>x. r = Inr x \<Longrightarrow> finishes (g x)) \<Longrightarrow>
   finishes (case r of Inl e \<Rightarrow> f e | Inr x \<Rightarrow> g x)"
  by (cases r) auto

lemma toolkit_exec_cmd_not_fuel [finishes_intros]: "toolkit_exec_cmd tag c \<noteq> Inl OutOfFuel"
  unfolding toolkit_exec_cmd_def by (intro bindR_not_fuel work_root_not_fuel) simp

lemma shell_exec_cmd_finishes [finishes_intros]: "finishes (shell_exec_cmd E p user c)"
  unfolding shell_exec_cmd_def Let_def by (intro finishes_intros) simp_all

lemma get_resolver_exec_cmd_finishes [finishes_intros]: "finishes (get_resolver_exec_cmd E r c)"
  by (cases r) (auto intro!: finishes_intros)

lemma completed_anyway_finishes [finishes_intros]: "finishes m \<Longrightarrow> finishes (completed_anyway m)"
  unfolding completed_anyway_def by (intro finishes_intros) (auto split: exn.splits intro: finishes_intros)

lemma execute_cmd_finishes [finishes_intros]: "finishes (execute_cmd E args home)"
  unfolding execute_cmd_def by (intro finishes_intros) auto

lemma execute_base_resolver_finishes [finishes_intros]: "finishes (execute_base_resolver E r c n x)"
  by (cases r) (auto simp: context_execute_resolver_def recurse_chmod_def os_chmod_def Let_def
      intro!: finishes_intros mapR_not_fuel)

lemma attempted_not_fuel: "yields (\<lambda>r. r \<noteq> Inl OutOfFuel) (attemptE m)"
  by (auto simp: yields_def attemptE_apply split: prod.splits sum.splits if_splits)

lemma finishes_stage:
  assumes "finishes m" and "\<And>y. finishes (f y)"
  shows "finishes (bindE (attemptE m) (\<lambda>s. case s of Inl e \<Rightarrow> ended_early k e | Inr y \<Rightarrow> f y))"
proof (rule finishes_bindE_post [OF finishes_attemptE [OF assms(1)] attempted_not_fuel])
  show "finishes (case s of Inl e \<Rightarrow> ended_early k e | Inr y \<Rightarrow> f y)" if "s \<noteq> Inl OutOfFuel" for s
    using that assms(2) by (cases s) (auto simp: ended_early_def intro!: finishes_intros)
qed

lemma execute_resolver_finishes [finishes_intros]: "finishes (execute_resolver E r c n x)"
proof (cases r)
  case (ResolverTwoStageRunner ts)
  show ?thesis
    unfolding ResolverTwoStageRunner execute_resolver.simps two_stage_execute_def Let_def
    by (intro finishes_stage) (auto intro!: finishes_intros)
qed (auto intro!: finishes_intros)

lemma runner_can_execute_finishes [finishes_intros]: "finishes (runner_can_execute E r c)"
  by (cases r) (auto simp: can_execute_def intro!: finishes_intros)

lemma copy_if_file_finishes [finishes_intros]: "finishes (copy_if_file E src dest)"
  unfolding copy_if_file_def by (intro finishes_intros)

end
