(* ===== verification/Scan_Agent.thy ===== *)
theory Scan_Agent
  imports Resolver_Runner Dispatch
begin

text \<open>
  \<^verbatim>\<open>src/agent/resolver/runner_agent.py\<close>: the agent that takes a delegated scan from the queue of its tag, clones
  the code, runs the resolver on it, submits the scan and answers with the outcome.
\<close>

section \<open>Model\<close>

record ResolverRunnerAgent =
  ra_tag :: string
  ra_public_key :: string
  ra_runner :: resolver_runner

definition agent_route_key :: "ResolverRunnerAgent \<Rightarrow> string" where
  "agent_route_key ra = ROUTEKEY_RESOLVER_RESULT_STUB @ ''.'' @ ra_tag ra"

definition agent_workflow :: "ResolverRunnerAgent \<Rightarrow> DelegatedScanMessage \<Rightarrow> resolver_workflow" where
  "agent_workflow ra m = from_public_key (dsm_capture_logs m) (ra_public_key ra)"

definition agent_result_message ::
  "'e agent_env_scheme \<Rightarrow> trace \<Rightarrow> DelegatedScanMessage \<Rightarrow> ScanStates \<Rightarrow> int option \<Rightarrow> string option \<Rightarrow> string option \<Rightarrow>
   DelegatedScanResultMessage" where
  "agent_result_message E tr m state exit_code scan_id logs =
     \<lparr>sm_timestamp = msg_timestamp E tr, sm_correlation_id = process_uuid E, sh_moniker = sh_moniker m,
      sh_state = state, sh_workflow = sh_workflow m, dsm_details = dsm_details m,
      dsm_details_signature = dsm_details_signature m, dsr_resolver_exit_code = exit_code, dsr_scan_id = scan_id, dsr_logs = logs\<rparr>"

definition agent_answer ::
  "'e agent_env_scheme \<Rightarrow> ResolverRunnerAgent \<Rightarrow> DelegatedScanMessage \<Rightarrow> ScanStates \<Rightarrow> int option \<Rightarrow> string option \<Rightarrow> string option \<Rightarrow>
   unit act" where
  "agent_answer E ra m state exit_code scan_id logs =
     bindE (look (\<lambda>tr. Inr (agent_result_message E tr m state exit_code scan_id logs))) (\<lambda>result_msg.
     thenE (mq_client E) (
     thenE (deliver_delegated_scan_outcome E (agent_workflow ra m) (agent_route_key ra) result_msg EXCHANGE_RESOLVER_SCAN)
     (returnE ())))"

definition send_failure_response ::
  "'e agent_env_scheme \<Rightarrow> ResolverRunnerAgent \<Rightarrow> DelegatedScanMessage \<Rightarrow> int option \<Rightarrow> string option \<Rightarrow> unit act" where
  "send_failure_response E ra m resolver_exit_code logs = agent_answer E ra m StFAILURE resolver_exit_code None logs"

definition load_scm_service :: "'e agent_env_scheme \<Rightarrow> string \<Rightarrow> SCMService act" where
  "load_scm_service E pickled =
     bindE (look (\<lambda>tr. unpickle E tr pickled)) (\<lambda>v. case v of PickledSCM s \<Rightarrow> returnE s | _ \<Rightarrow> raiseE ResolverAgentException)"

definition load_cxone_service :: "'e agent_env_scheme \<Rightarrow> string \<Rightarrow> CxOneService act" where
  "load_cxone_service E pickled =
     bindE (look (\<lambda>tr. unpickle E tr pickled)) (\<lambda>v. case v of PickledCxOne s \<Rightarrow> returnE s | _ \<Rightarrow> raiseE ResolverAgentException)"

definition resolver_tag_value :: "int \<Rightarrow> json" where
  "resolver_tag_value return_code = JStr (if return_code = 0 then ''success'' else ''failure'')"

text \<open>What happens inside the clone: everything up to the submitted scan, with the exit code and the log.\<close>

definition scan_cloned_repo ::
  "'e agent_env_scheme \<Rightarrow> ResolverRunnerAgent \<Rightarrow> exec_context \<Rightarrow> DelegatedScanMessage \<Rightarrow> CxOneService \<Rightarrow> ProjectRepoConfig \<Rightarrow> string \<Rightarrow>
   (CompletedProcess \<times> ScanInspector) act" where
  "scan_cloned_repo E ra c m cxone_service project_config loc =
     (let d = dsm_details m; cloned_repo_loc = rstrip_chars ''/'' loc in
      thenE (reset_head E cloned_repo_loc (dsd_commit_hash d)) (
      bindE (execute_resolver E (ra_runner ra) c (pc_name project_config) (dsd_file_filters d)) (\<lambda>resolver_exec_result.
      thenE (bindE (liftE (result_resolver_out_file_path c)) (\<lambda>res. copy_if_file E res (cloned_repo_loc @ ''/.cxsca-results.json''))) (
      thenE (bindE (liftE (result_container_out_file_path c)) (\<lambda>res. copy_if_file E res (cloned_repo_loc @ ''/.cxsca-container-results.json''))) (
      bindE (exec_local_scan E cxone_service cloned_repo_loc (dsd_scan_branch d) project_config
               (dict_union (dsd_scan_tags d) [(''resolver'', resolver_tag_value (cp_returncode resolver_exec_result))])) (\<lambda>(inspector, _).
      returnE (resolver_exec_result, inspector)))))))"

definition process_delegated_scan ::
  "'e agent_env_scheme \<Rightarrow> ResolverRunnerAgent \<Rightarrow> exec_context \<Rightarrow> DelegatedScanMessage \<Rightarrow> unit act" where
  "process_delegated_scan E ra c m =
     (let d = dsm_details m in
      bindE (load_scm_service E (dsd_pickled_scm_service d)) (\<lambda>scm_service.
      bindE (load_cxone_service E (dsd_pickled_cxone_service d)) (\<lambda>cxone_service.
      bindE (load_project_config_by_id E (dsd_project_id d)) (\<lambda>project_config.
      bindE (liftE (clone_path c)) (\<lambda>path.
      bindE (clone_repo E (scm_cloner scm_service) (dsd_clone_url d) (Some (dsd_event_context d)) False
               (Some (rstrip_chars ''/'' path @ ''/'')) False) (\<lambda>clone_worker.
      with_worker E clone_worker
        (bindE (worker_loc E clone_worker) (\<lambda>loc.
         bindE (scan_cloned_repo E ra c m cxone_service project_config loc) (\<lambda>(resolver_exec_result, inspector).
         let return_code = cp_returncode resolver_exec_result in
         agent_answer E ra m (if return_code = 0 then StDONE else StFAILURE) (Some return_code) (Some (si_scan_id inspector))
           (cp_stdout resolver_exec_result))))))))))"

text \<open>The block below \<^verbatim>\<open>async with\<close>. A message whose signature does not verify is only logged.\<close>

definition agent_block :: "'e agent_env_scheme \<Rightarrow> ResolverRunnerAgent \<Rightarrow> DelegatedScanMessage \<Rightarrow> exec_context \<Rightarrow> unit act" where
  "agent_block E ra m c =
     bindE (liftE (answer (validate_signature E (agent_workflow ra m) (dsm_details_signature m) (details_to_binary E (dsm_details m))))) (\<lambda>valid.
     if \<not> valid then returnE ()
     else bindE (runner_can_execute E (ra_runner ra) c) (\<lambda>can.
       if \<not> can then send_failure_response E ra m None None
       else process_delegated_scan E ra c m))"

text \<open>
  \<^verbatim>\<open>ResolverRunnerAgent.__call__\<close>. The handlers use the variable \<^verbatim>\<open>workflow\<close>, which is bound once the context has
  been entered; before that they raise themselves and the message stays unsettled.
\<close>

definition ResolverRunnerAgent_call :: "'e agent_env_scheme \<Rightarrow> ResolverRunnerAgent \<Rightarrow> DelegatedScanMessage incoming \<Rightarrow> unit act" where
  "ResolverRunnerAgent_call E ra msg =
     bindE (safe_deserialize_body E msg) (\<lambda>scan_msg.
     bindE (attemptE (enter_context E (ra_runner ra))) (\<lambda>entered.
     case entered of
       Inl _ \<Rightarrow> raiseE (LibError True ''UnboundLocalError'')
     | Inr c \<Rightarrow>
         bindE (attemptE (in_context E (ra_runner ra) c (agent_block E ra scan_msg c))) (\<lambda>outcome.
         case outcome of
           Inr _ \<Rightarrow> msg_ack E
         | Inl e \<Rightarrow>
             thenE (case e of
                 CalledProcessError code _ \<Rightarrow> send_failure_response E ra scan_msg (Some code) (captured_output E e)
               | _ \<Rightarrow> send_failure_response E ra scan_msg None None)
             (msg_nack E False))))"

section \<open>Forged requests\<close>

definition is_work_dir :: "event \<Rightarrow> bool" where
  "is_work_dir e \<longleftrightarrow> (\<exists>p. e = EvTempDir p \<or> e = EvMkdir p \<or> e = EvChmod p \<or> e = EvCleanup p)"

lemma exit_context_emits [emits_intros]: "(\<And>p. ok (EvCleanup p)) \<Longrightarrow> emits ok (exit_context E c)"
  unfolding exit_context_def by (intro emits_intros)

lemma exit_context_finishes [finishes_intros]: "finishes (exit_context E c)"
  unfolding exit_context_def by (intro finishes_intros)

lemma in_context_emits [emits_intros]:
  "emits ok body \<Longrightarrow> (\<And>p. ok (EvCleanup p)) \<Longrightarrow> emits ok (in_context E r c body)"
  by (cases r) (auto intro!: emits_intros)

lemma invalid_signature:
  assumes "asym_verify E (ra_public_key ra) (dsm_details_signature m) (details_to_binary E (dsm_details m)) = Inl e" "derives_from_Exception e"
  shows "agent_block E ra m c = returnE ()"
  using assms by (simp add: agent_block_def agent_workflow_def from_public_key_def)

lemma work_root_entered [simp]: "xc_work_root c = Some root \<Longrightarrow> work_root c = Inr root"
  by (simp add: work_root_def)

lemma exit_context_run:
  "xc_work_root c = Some root \<Longrightarrow> exit_context E c w = (answer (dir_cleanup E (w_trace w) root), log_event (EvCleanup root) w)"
  by (simp add: exit_context_def remove_temp_dir_def py_simps)

text \<open>A context that has been entered has made its work directory.\<close>

definition entered_dir :: "exec_context result \<Rightarrow> trace \<Rightarrow> bool" where
  "entered_dir r new \<longleftrightarrow> list_all is_work_dir new \<and>
     (\<forall>c. r = Inr c \<longrightarrow> (\<exists>root. xc_work_root c = Some root \<and> EvTempDir root \<in> set new))"

lemma enter_context_makes_dir: "spec (enter_context E r) entered_dir"
proof -
  have "spec (enter_resolver_context E wp) entered_dir" for wp
    unfolding enter_resolver_context_def
  proof (rule spec_bindE [where R = entered_dir])
    show "spec (enter_work_root E wp) entered_dir"
      by (auto simp: spec_def enter_work_root_def make_temp_dir_def py_simps entered_dir_def is_work_dir_def split: sum.splits)
  next
    fix c n1
    assume "entered_dir (Inr c) n1"
    then obtain root where c: "xc_work_root c = Some root" "EvTempDir root \<in> set n1" "list_all is_work_dir n1"
      by (auto simp: entered_dir_def)
    let ?rest = "thenE (bindE (liftE (work_root c)) (os_chmod E)) (thenE (make_dir E (clone_path c)) (
       thenE (make_dir E (resolver_loc c)) (thenE (make_dir E (container_loc c)) (returnE c))))"
    have "spec ?rest (gives is_work_dir (\<lambda>x. x = c))"
      by (rule spec_gives) (auto simp: make_dir_def os_mkdir_def os_chmod_def is_work_dir_def intro!: emits_intros yields_intros)
    then show "spec ?rest (\<lambda>r n2. entered_dir r (n1 @ n2))"
      by (rule spec_mono) (use c in \<open>auto simp: gives_def entered_dir_def\<close>)
  qed (simp add: entered_dir_def)
  then show ?thesis by (cases r) simp_all
qed

lemma enter_context_yields: "yields (\<lambda>c. \<exists>root. xc_work_root c = Some root) (enter_context E r)"
proof -
  have "\<exists>root. xc_work_root c = Some root" if "enter_context E r w = (Inr c, w')" for w c w'
    using spec_new_events [OF enter_context_makes_dir, of E r w] that by (auto simp: entered_dir_def)
  then show ?thesis by (auto simp: yields_def)
qed

lemma attempt_enter_yields:
  "yields (\<lambda>r. case r of Inl _ \<Rightarrow> True | Inr c \<Rightarrow> \<exists>root. xc_work_root c = Some root) (attemptE (enter_context E r))"
  unfolding attemptE_def
  by (rule yields_catchE; (rule yields_bindE_post [OF enter_context_yields])?) (auto intro!: yields_intros)

lemma safe_deserialize_bind: "im_body msg = Inr b \<Longrightarrow> bindE (safe_deserialize_body E msg) f = f b"
  by (rule ext) (simp add: bindE_apply safe_deserialize_ok)

lemma idle_context:
  "xc_work_root c = Some root \<Longrightarrow> in_context E r c (returnE ()) = remove_temp_dir E root"
  by (rule ext; cases r) (auto simp: exit_context_def attemptE_apply py_simps split: prod.splits sum.splits)

text \<open>The answer to a request, and the two ways a request without a scan is settled.\<close>

definition answer_event :: "ResolverRunnerAgent \<Rightarrow> DelegatedScanResultMessage \<Rightarrow> event" where
  "answer_event ra res = EvPublish EXCHANGE_RESOLVER_SCAN (agent_route_key ra) (DelegatedResultBody res) None None"

definition is_rejection :: "ResolverRunnerAgent \<Rightarrow> event \<Rightarrow> bool" where
  "is_rejection ra e \<longleftrightarrow> e = EvNack False \<or> (\<exists>res. e = answer_event ra res \<and> sh_state res = StFAILURE)"

text \<open>No removal of a directory ever fails.\<close>

definition dirs_removable :: "'e git_env_scheme \<Rightarrow> bool" where
  "dirs_removable E \<longleftrightarrow> (\<forall>tr p. dir_cleanup E tr p = Inr ())"

lemma send_failure_emits:
  assumes "\<And>res. sh_state res = StFAILURE \<Longrightarrow> ok (answer_event ra res)"
  shows "emits ok (send_failure_response E ra m code logs)"
  unfolding send_failure_response_def agent_answer_def
proof (rule emits_bindE_post [where Q = "\<lambda>res. sh_state res = StFAILURE"])
  show "yields (\<lambda>res. sh_state res = StFAILURE) (look (\<lambda>tr. Inr (agent_result_message E tr m StFAILURE code None logs)))"
    by (auto simp: yields_def look_apply agent_result_message_def)
  show "emits ok (thenE (mq_client E) (thenE (deliver_delegated_scan_outcome E (agent_workflow ra m) (agent_route_key ra) res EXCHANGE_RESOLVER_SCAN)
      (returnE ())))" if "sh_state res = StFAILURE" for res
    unfolding agent_workflow_def from_public_key_def deliver_delegated_scan_outcome.simps
    by (intro emits_intros) (use assms [OF that] in \<open>simp add: answer_event_def\<close>)
qed (rule emits_look)

lemma dirs_removableD: "dirs_removable E \<Longrightarrow> dir_cleanup E tr p = Inr ()"
  by (simp add: dirs_removable_def)

lemma removal_outcome: "yields (\<lambda>r. dirs_removable E \<longrightarrow> r = Inr ()) (attemptE (remove_temp_dir E root))"
  by (auto simp: yields_def attemptE_apply remove_temp_dir_def ask_apply dirs_removableD split: prod.splits sum.splits if_splits)

text \<open>C6: a request whose signature does not verify under the key of the agent has no effect beyond the creation
  and removal of a work directory: nothing is cloned, run or submitted, and nothing is answered, the message being
  acknowledged at most. The one exception is a work directory that cannot be removed: the exception of the removal is
  answered, even to a forged request, with a result that says failure and a rejection.\<close>

theorem agent_ignores_forged_request:
  assumes body: "im_body msg = Inr m"
      and forged: "asym_verify E (ra_public_key ra) (dsm_details_signature m) (details_to_binary E (dsm_details m)) = Inl e" "derives_from_Exception e"
  shows "list_all (\<lambda>e. is_work_dir e \<or> e = EvAck \<or> \<not> dirs_removable E \<and> is_rejection ra e)
     (new_events (ResolverRunnerAgent_call E ra msg) w)"
proof -
  let ?ok = "\<lambda>e. is_work_dir e \<or> e = EvAck \<or> \<not> dirs_removable E \<and> is_rejection ra e"
  have reject: "emits ?ok (thenE (case e of CalledProcessError code _ \<Rightarrow> send_failure_response E ra m (Some code) (captured_output E e)
        | _ \<Rightarrow> send_failure_response E ra m None None) (msg_nack E False))" if "\<not> dirs_removable E" for e
    using that by (intro emits_thenE msg_nack_emits) (auto simp: is_rejection_def intro!: send_failure_emits split: exn.splits)
  have "emits ?ok (ResolverRunnerAgent_call E ra msg)"
    unfolding ResolverRunnerAgent_call_def safe_deserialize_bind [OF body]
  proof (rule emits_bindE_post [OF _ attempt_enter_yields], goal_cases)
    case 1
    show ?case by (intro emits_intros) (simp_all add: is_work_dir_def)
  next
    case (2 entered)
    then show ?case
    proof (cases entered)
      case (Inr c)
      with 2 obtain root where "xc_work_root c = Some root" by auto
      then show ?thesis
        unfolding Inr sum.case invalid_signature [OF forged] idle_context [OF \<open>xc_work_root c = Some root\<close>]
      proof (intro emits_bindE_post [OF _ removal_outcome] attemptE_emits remove_temp_dir_emits, goal_cases)
        case (2 outcome)
        show ?case
        proof (cases outcome)
          case (Inl e)
          with 2 have "\<not> dirs_removable E" by auto
          from reject [OF this, of e] show ?thesis unfolding Inl sum.case .
        qed (simp add: msg_ack_emits)
      qed (simp add: is_work_dir_def)
    qed (simp add: emits_raiseE)
  qed
  then show ?thesis
    by (auto simp: list_all_iff dest: emits_new_events)
qed

section \<open>Authentic requests\<close>

fun is_publish :: "event \<Rightarrow> bool" where
  "is_publish (EvPublish _ _ _ _ _) = True"
| "is_publish _ = False"

definition is_quiet :: "event \<Rightarrow> bool" where
  "is_quiet e \<longleftrightarrow> \<not> is_settle e \<and> \<not> is_publish e"

lemma is_quiet_simps [simp]:
  "is_quiet (EvTempDir p)" "is_quiet (EvMkdir p)" "is_quiet (EvChmod p)" "is_quiet (EvCleanup p)" "is_quiet (EvCopyFile p q)" "is_quiet (EvRunCmd c)"
  "is_quiet (EvClone c)" "is_quiet (EvResetHead p h)" "is_quiet (EvZip p)" "is_quiet (EvEnabledScanners i b)" "is_quiet (EvScanFilters i)"
  "is_quiet (EvScanSubmit i b e t)" "\<not> is_quiet EvAck" "\<not> is_quiet (EvNack rq)" "\<not> is_quiet (EvPublish ex k body xp rt)"
  by (simp_all add: is_quiet_def)

text \<open>What an answer repeats of its request, and the events up to the answer.\<close>

definition answers_request :: "DelegatedScanMessage \<Rightarrow> DelegatedScanResultMessage \<Rightarrow> bool" where
  "answers_request m res \<longleftrightarrow> dsm_details res = dsm_details m \<and> dsm_details_signature res = dsm_details_signature m \<and>
     sh_moniker res = sh_moniker m \<and> sh_workflow res = sh_workflow m"

definition answering :: "ResolverRunnerAgent \<Rightarrow> DelegatedScanMessage \<Rightarrow> 'a result \<Rightarrow> trace \<Rightarrow> bool" where
  "answering ra m r new \<longleftrightarrow> list_all (\<lambda>e. \<not> is_settle e) new \<and>
     (case r of Inl _ \<Rightarrow> filter is_publish new = []
      | Inr _ \<Rightarrow> \<exists>res. filter is_publish new = [answer_event ra res] \<and> answers_request m res)"

lemma quiet_filter: "list_all is_quiet es \<Longrightarrow> filter is_publish es = [] \<and> filter is_settle es = []"
  by (induction es) (auto simp: is_quiet_def)

lemma quiet_not_settle: "list_all is_quiet es \<Longrightarrow> list_all (\<lambda>e. \<not> is_settle e) es"
  by (induction es) (auto simp: is_quiet_def)


lemma answering_then: "answering ra m r new \<Longrightarrow> list_all is_quiet post \<Longrightarrow> answering ra m r (new @ post)"
  by (auto simp: answering_def quiet_filter quiet_not_settle split: sum.splits)


lemma agent_answer_run:
  assumes "broker_up E"
  shows "\<exists>res. agent_answer E ra m state code scan logs w = (Inr (), log_event (answer_event ra res) w) \<and> answers_request m res \<and> sh_state res = state"
proof -
  let ?res = "agent_result_message E (w_trace w) m state code scan logs"
  obtain r where "publish E (agent_route_key ra) (DelegatedResultBody ?res) None None EXCHANGE_RESOLVER_SCAN w
      = (Inr r, log_event (answer_event ra ?res) w)"
    using publish_up [OF assms] unfolding answer_event_def by blast
  then show ?thesis
    by (intro exI [of _ ?res])
       (simp add: agent_answer_def py_simps broker_simps [OF assms] agent_workflow_def from_public_key_def answers_request_def
          agent_result_message_def)
qed







lemma agent_answer_finishes [finishes_intros]: "finishes (agent_answer E ra m state code scan logs)"
  unfolding agent_answer_def agent_workflow_def from_public_key_def by (simp add: finishes_intros)

lemma agent_block_finishes: "finishes (agent_block E ra m c)"
proof -
  have services: "finishes (load_scm_service E p)" "finishes (load_cxone_service E p)" "finishes (load_project_config_by_id E i)" for p i
    unfolding load_scm_service_def load_cxone_service_def load_project_config_by_id_def
    by (auto intro!: finishes_intros split: unpickled.splits)
  have clone: "finishes (clone_repo E cl url ec force root mk)" "finishes (worker_loc E cw)" "finishes (reset_head E p h)"
      "finishes (worker_exit E cw)" "finishes (exec_local_scan E svc p b pc tags)" for cl url ec force root mk cw p h svc b pc tags
    unfolding clone_repo_def fix_clone_url_def worker_loc_def do_clone_def run_git_def reset_head_def worker_exit_def exec_local_scan_def Let_def
    by (auto intro!: finishes_intros simp: classify_not_fuel split: json.splits clone_auth.splits)
  have "finishes (process_delegated_scan E ra c m)"
    unfolding process_delegated_scan_def scan_cloned_repo_def with_worker_def Let_def
    by (intro finishes_intros services clone)
  then show ?thesis
    unfolding agent_block_def send_failure_response_def by (intro finishes_intros) simp_all
qed


lemma send_failure_run:
  assumes "broker_up E"
  shows "\<exists>res. thenE (case e of CalledProcessError code _ \<Rightarrow> send_failure_response E ra m (Some code) (captured_output E e)
                   | _ \<Rightarrow> send_failure_response E ra m None None) (msg_nack E False) w =
     (Inr (), log_event (EvNack False) (log_event (answer_event ra res) w)) \<and> answers_request m res \<and> sh_state res = StFAILURE"
proof -
  have run: "\<exists>res. thenE (send_failure_response E ra m code logs) (msg_nack E False) w =
     (Inr (), log_event (EvNack False) (log_event (answer_event ra res) w)) \<and> answers_request m res \<and> sh_state res = StFAILURE" for code logs
    using agent_answer_run [OF assms, of ra m StFAILURE code None logs w]
    by (auto simp: send_failure_response_def py_simps broker_simps [OF assms])
  then show ?thesis by (cases e) simp_all
qed

text \<open>
  How a request is finished once its block has ended, by the outcome of the statement around it.
\<close>

definition finish_request :: "'e agent_env_scheme \<Rightarrow> ResolverRunnerAgent \<Rightarrow> DelegatedScanMessage \<Rightarrow> unit result \<Rightarrow> unit act" where
  "finish_request E ra m outcome =
     (case outcome of
        Inr _ \<Rightarrow> msg_ack E
      | Inl e \<Rightarrow>
          thenE (case e of
              CalledProcessError code _ \<Rightarrow> send_failure_response E ra m (Some code) (captured_output E e)
            | _ \<Rightarrow> send_failure_response E ra m None None)
          (msg_nack E False))"

lemma call_entered:
  assumes "im_body msg = Inr m" and "enter_context E (ra_runner ra) w = (Inr c, w1)"
    and "in_context E (ra_runner ra) c (agent_block E ra m c) w1 = (outcome, w2)" and "outcome \<noteq> Inl OutOfFuel"
  shows "ResolverRunnerAgent_call E ra msg w = finish_request E ra m outcome w2"
  using assms
  by (cases outcome) (simp_all add: ResolverRunnerAgent_call_def safe_deserialize_bind bindE_apply attemptE_apply finish_request_def)




section \<open>A script of the user loses the answer\<close>

text \<open>C31: behind a two-stage runner no failure is answered: whatever exception ends the processing of an authentic
  request, a failed clone or a rejected submission for instance, the message is acknowledged as if it had been
  processed, and nothing is published after the failure. Only when the work directory cannot be removed either does a
  failure reach the server, that of the removal, and the message is rejected.\<close>

theorem two_stage_failure_acknowledged:
  assumes up: "broker_up E" and body: "im_body msg = Inr m" and runner: "ra_runner ra = ResolverTwoStageRunner ts"
      and enter: "enter_context E (ra_runner ra) w = (Inr c, w1)"
      and failed: "agent_block E ra m c w1 = (Inl e, w2)"
  shows "\<exists>root. xc_work_root c = Some root \<and>
    (case dir_cleanup E (w_trace w2) root of
       Inr _ \<Rightarrow> ResolverRunnerAgent_call E ra msg w = (Inr (), log_event EvAck (log_event (EvCleanup root) w2))
     | Inl _ \<Rightarrow> \<exists>res. answers_request m res \<and> sh_state res = StFAILURE \<and>
         ResolverRunnerAgent_call E ra msg w =
           (Inr (), log_event (EvNack False) (log_event (answer_event ra res) (log_event (EvCleanup root) w2))))"
proof -
  obtain root where root: "xc_work_root c = Some root"
    using enter_context_yields [of E "ra_runner ra"] enter by (auto simp: yields_def)
  let ?w3 = "log_event (EvCleanup root) w2"
  have "e \<noteq> OutOfFuel" using agent_block_finishes [of E ra m c] failed by (metis finishes_def fst_conv)
  then have ctx: "in_context E (ra_runner ra) c (agent_block E ra m c) w1 = (answer (dir_cleanup E (w_trace w2) root), ?w3)"
    using failed by (simp add: runner bindE_apply attemptE_apply exit_context_run [OF root])
  note run = call_entered [OF body enter ctx answer_not_fuel]
  show ?thesis
  proof (cases "dir_cleanup E (w_trace w2) root")
    case (Inr u)
    then show ?thesis by (simp add: root run finish_request_def broker_simps [OF up])
  next
    case (Inl e')
    then obtain e'' where e'': "answer (dir_cleanup E (w_trace w2) root) = Inl e''" by (simp add: answer_def)
    from send_failure_run [OF up, where e = e'' and ra = ra and m = m and w = ?w3]
    show ?thesis unfolding run e'' finish_request_def sum.case by (auto simp: root Inl)
  qed
qed

section \<open>A worked example\<close>

definition demo_agent_env :: agent_env where
  "demo_agent_env = orch_env.extend quiet_orch_env
     (agent_env.fields (\<lambda>_ _ _. Inr (0, ''resolved'')) (\<lambda>_ _. True) (\<lambda>_ _. True) (\<lambda>_ _. Inr ()) (\<lambda>_ _. Inr ()) (\<lambda>_ _ _. Inr ()) ''1000:1000''
        (\<lambda>_ s. Inr (if s = ''scm'' then PickledSCM (sv_scm demo_services) else PickledOther)) (\<lambda>_. None))"

definition demo_agent :: "resolver_runner \<Rightarrow> ResolverRunnerAgent" where
  "demo_agent r = \<lparr>ra_tag = ''linux'', ra_public_key = ''key'', ra_runner = r\<rparr>"

definition demo_request :: "string \<Rightarrow> DelegatedScanMessage incoming" where
  "demo_request sig = \<lparr>im_body = Inr (demo_delegated sig), im_headers = JNull, im_routing_key = ''r''\<rparr>"

definition demo_two_stage :: two_stage_runner where
  "demo_two_stage = \<lparr>ts_workpath = Some ''/tmp'', ts_resolver = NoResolverRunner, ts_resolver_before = False, ts_container_tag = ''img'',
     ts_shell = ''/bin/sh'', ts_script = ''make'', ts_as_agent = True\<rparr>"

lemma broker_up_demo_agent: "broker_up demo_agent_env"
  using broker_up_quiet_resolver
  by (simp add: broker_up_def demo_agent_env_def quiet_orch_env_def resolver_env.defs orch_env.defs agent_env.defs)

lemma removable_demo_agent: "dirs_removable demo_agent_env"
  by (simp add: dirs_removable_def demo_agent_env_def quiet_orch_env_def quiet_resolver_env_def quiet_mq_env_def quiet_git_env_def
      git_env.defs cxone_env.defs resolver_env.defs orch_env.defs mq_env.defs agent_env.defs)

lemma demo_temp_dir: "temp_dir demo_agent_env tr p = Inr ''/tmp/x''"
  by (simp add: demo_agent_env_def quiet_orch_env_def quiet_resolver_env_def quiet_mq_env_def quiet_git_env_def
      git_env.defs cxone_env.defs resolver_env.defs orch_env.defs mq_env.defs agent_env.defs)

lemma demo_agent_simps [simp]:
  "asym_verify demo_agent_env = (\<lambda>k s d. if s = k @ d then Inr () else Inl (LibError True ''InvalidSignature''))"
  "details_to_binary demo_agent_env = dsd_clone_url"
  "unpickle demo_agent_env = (\<lambda>_ s. Inr (if s = ''scm'' then PickledSCM (sv_scm demo_services) else PickledOther))"
  "fs_mkdir demo_agent_env = (\<lambda>_ _. Inr ())" "fs_chmod demo_agent_env = (\<lambda>_ _. Inr ())"
  by (simp_all add: demo_agent_env_def quiet_orch_env_def quiet_resolver_env_def resolver_env.defs orch_env.defs mq_env.defs agent_env.defs)

theorem agent_ignores_forged_request_witness:
  "list_all (\<lambda>e. is_work_dir e \<or> e = EvAck)
     (new_events (ResolverRunnerAgent_call demo_agent_env (demo_agent (BaseRunner NoResolverRunner)) (demo_request ''evil'')) world0)"
proof -
  have "im_body (demo_request ''evil'') = Inr (demo_delegated ''evil'')"
    "asym_verify demo_agent_env (ra_public_key (demo_agent (BaseRunner NoResolverRunner))) (dsm_details_signature (demo_delegated ''evil''))
       (details_to_binary demo_agent_env (dsm_details (demo_delegated ''evil''))) = Inl (LibError True ''InvalidSignature'')"
    "derives_from_Exception (LibError True ''InvalidSignature'')"
    by (simp_all add: demo_request_def demo_delegated_def demo_agent_def)
  from agent_ignores_forged_request [OF this, of world0] show ?thesis by (simp add: removable_demo_agent)
qed

lemma demo_request_authentic:
  "im_body (demo_request ''keyu'') = Inr (demo_delegated ''keyu'')"
  "asym_verify demo_agent_env (ra_public_key (demo_agent r)) (dsm_details_signature (demo_delegated ''keyu''))
     (details_to_binary demo_agent_env (dsm_details (demo_delegated ''keyu''))) = Inr ()"
  by (simp_all add: demo_request_def demo_delegated_def demo_agent_def)

lemma demo_entered:
  "\<exists>c w1. enter_context demo_agent_env r world0 = (Inr c, w1) \<and> (\<exists>root. xc_work_root c = Some root)"
  by (cases r) (simp_all add: enter_resolver_context_def enter_work_root_def make_temp_dir_def demo_temp_dir make_dir_def os_mkdir_def os_chmod_def py_simps
      work_root_def clone_path_def resolver_loc_def container_loc_def in_work_root_def)


theorem two_stage_failure_acknowledged_witness:
  "fst (ResolverRunnerAgent_call demo_agent_env (demo_agent (ResolverTwoStageRunner demo_two_stage)) (demo_request ''keyu'') world0) = Inr ()"
proof -
  let ?ra = "demo_agent (ResolverTwoStageRunner demo_two_stage)"
  obtain c w1 where enter: "enter_context demo_agent_env (ra_runner ?ra) world0 = (Inr c, w1)"
    using demo_entered [of "ra_runner ?ra"] by blast
  have "agent_block demo_agent_env ?ra (demo_delegated ''keyu'') c w1 = (Inl ResolverAgentException, w1)"
    by (simp add: agent_block_def agent_workflow_def from_public_key_def demo_agent_def demo_delegated_def demo_two_stage_def can_execute_def
        process_delegated_scan_def load_scm_service_def Let_def py_simps)
  moreover have "ra_runner ?ra = ResolverTwoStageRunner demo_two_stage" by (simp add: demo_agent_def)
  ultimately show ?thesis
    using two_stage_failure_acknowledged [OF broker_up_demo_agent demo_request_authentic(1) _ enter]
    by (fastforce simp: dirs_removableD [OF removable_demo_agent])
qed

end
