(* ===== verification/Agent_Config.thy ===== *)
theory Agent_Config
  imports Config Scan_Agent
begin

text \<open>
  \<^verbatim>\<open>src/config/resolver/__init__.py\<close>: the scan agents of a configuration file, one for each serviced tag, and the
  constructor of \<^verbatim>\<open>toolkit_runner.py\<close>, which builds a container while the configuration loads. Settings are typed as in
  \<open>Config\<close>.
\<close>

section \<open>Model\<close>

text \<open>A command is refused when it is a file that does not exist, which no file is.\<close>

definition check_cmd_on_path_or_fail :: "'e agent_env_scheme \<Rightarrow> string \<Rightarrow> unit act" where
  "check_cmd_on_path_or_fail E cmd_name =
     bindE (look (\<lambda>tr. Inr (\<not> path_exists E tr cmd_name \<and> path_is_file E tr cmd_name))) (\<lambda>missing.
     if missing then raiseE ResolverAgentException else returnE ())"

definition build_container_command :: "string \<Rightarrow> string \<Rightarrow> bool \<Rightarrow> bool \<Rightarrow> string list" where
  "build_container_command toolkit_path container_tag inherit_uid inherit_gid =
     [toolkit_path @ ''autobuild.sh'', ''-t'', container_tag, ''-d'', toolkit_path] @
     (if inherit_uid then [''-u''] else []) @ (if inherit_gid then [''-g''] else [])"

definition make_toolkit_runner ::
  "'e agent_env_scheme \<Rightarrow> string option \<Rightarrow> json \<Rightarrow> string \<Rightarrow> string \<Rightarrow> bool \<Rightarrow> bool \<Rightarrow> base_runner act" where
  "make_toolkit_runner E workpath opts toolkit_path container_tag inherit_uid inherit_gid =
     thenE (check_cmd_on_path_or_fail E ''docker'') (
     thenE (check_cmd_on_path_or_fail E ''bash'') (
     bindE (execute_cmd E (build_container_command (rstrip_chars ''/'' toolkit_path @ ''/'') container_tag inherit_uid inherit_gid)
              (norm_workpath workpath)) (\<lambda>p.
     returnE (ResolverToolkitRunner workpath opts (rstrip_chars [CHR 0x0A] (output_of p))))))"

fun optional_str :: "json \<Rightarrow> string option result" where
  "optional_str JNull = Inr None"
| "optional_str v = bindR (as_str v) (\<lambda>s. Inr (Some s))"

definition toolkit_runner_of ::
  "'e agent_env_scheme \<Rightarrow> string \<Rightarrow> json \<Rightarrow> json \<Rightarrow> json \<Rightarrow> base_runner act" where
  "toolkit_runner_of E config_path work_path opts cfg =
     (let path = config_path @ ''/run-resolver-with-container'' in
      bindE (liftE (get_value_for_key_or_fail path ''supply-chain-toolkit-path'' cfg)) (\<lambda>toolkit_path.
      bindE (liftE (get_value_for_key_or_fail path ''container-image-tag'' cfg)) (\<lambda>container_tag.
      bindE (liftE (get_value_for_key_or_default ''use-running-uid'' cfg (JBool True))) (\<lambda>uid.
      bindE (liftE (get_value_for_key_or_default ''use-running-gid'' cfg (JBool True))) (\<lambda>gid.
      bindE (liftE (optional_str work_path)) (\<lambda>work_path.
      bindE (liftE (as_str toolkit_path)) (\<lambda>toolkit_path.
      bindE (liftE (path_of container_tag)) (\<lambda>container_tag.
      make_toolkit_runner E work_path opts toolkit_path container_tag (truthy uid) (truthy gid)))))))))"

definition base_runner_factory :: "'e agent_env_scheme \<Rightarrow> string \<Rightarrow> json \<Rightarrow> json \<Rightarrow> json \<Rightarrow> base_runner act" where
  "base_runner_factory E config_path config_dict work_path opts =
     bindE (liftE (get_value_for_key_or_default_warn_deprecated ''run-resolver-with-container'' ''run-with-container'' config_dict JNull)) (\<lambda>container_runner_cfg.
     bindE (liftE (get_value_for_key_or_default ''disable-resolver'' config_dict (JBool False))) (\<lambda>disable_resolver.
     bindE (liftE (get_value_for_key_or_default ''resolver-path'' config_dict JNull)) (\<lambda>resolver_path.
     if truthy disable_resolver then returnE NoResolverRunner
     else if resolver_path \<noteq> JNull then
       bindE (liftE (get_value_for_key_or_default ''resolver-run-as'' config_dict JNull)) (\<lambda>user.
       bindE (liftE (optional_str work_path)) (\<lambda>work_path.
       bindE (liftE (path_of resolver_path)) (\<lambda>resolver_path.
       bindE (liftE (optional_str user)) (\<lambda>user.
       returnE (ResolverShellRunner work_path opts resolver_path user)))))
     else if container_runner_cfg \<noteq> JNull then toolkit_runner_of E config_path work_path opts container_runner_cfg
     else raiseE (missing_at_least_one_key_path config_path [''disable-resolver'', ''run-resolver-with-container'', ''resolver-path'']))))"

definition resolver_runner_factory :: "'e agent_env_scheme \<Rightarrow> string \<Rightarrow> json \<Rightarrow> resolver_runner act" where
  "resolver_runner_factory E config_path config_dict =
     bindE (liftE (get_value_for_key_or_default ''resolver-opts'' config_dict JNull)) (\<lambda>opts.
     bindE (liftE (get_value_for_key_or_default_warn_deprecated ''scan-agent-work-path'' ''resolver-work-path'' config_dict (JStr ''/tmp''))) (\<lambda>work_path.
     bindE (base_runner_factory E config_path config_dict work_path opts) (\<lambda>runner.
     bindE (liftE (get_value_for_key_or_default ''pre-scan'' config_dict JNull)) (\<lambda>prescan_dict.
     if prescan_dict = JNull then returnE (BaseRunner runner)
     else
       bindE (liftE (get_value_for_key_or_default ''resolver-before-script'' prescan_dict (JBool False))) (\<lambda>before.
       bindE (liftE (get_value_for_key_or_fail (config_path @ ''/pre-scan'') ''container-image-tag'' prescan_dict)) (\<lambda>tag.
       bindE (liftE (get_value_for_key_or_default ''shell'' prescan_dict (JStr ''/bin/sh''))) (\<lambda>shell.
       bindE (liftE (get_value_for_key_or_fail (config_path @ ''/pre-scan'') ''script'' prescan_dict)) (\<lambda>script.
       bindE (liftE (get_value_for_key_or_default ''run-as-agent'' prescan_dict (JBool True))) (\<lambda>as_agent.
       bindE (liftE (optional_str work_path)) (\<lambda>work_path.
       bindE (liftE (path_of tag)) (\<lambda>tag.
       bindE (liftE (path_of shell)) (\<lambda>shell.
       bindE (liftE (path_of script)) (\<lambda>script.
       returnE (ResolverTwoStageRunner \<lparr>ts_workpath = work_path, ts_resolver = runner, ts_resolver_before = truthy before,
         ts_container_tag = tag, ts_shell = shell, ts_script = script, ts_as_agent = truthy as_agent\<rparr>))))))))))))))"

definition agent_factory ::
  "'c config_env_scheme \<Rightarrow> 'e agent_env_scheme \<Rightarrow> string \<Rightarrow> string \<Rightarrow> string \<Rightarrow> json \<Rightarrow> ResolverRunnerAgent act" where
  "agent_factory C E root config_path agent_tag config_dict =
     bindE (liftE (answer (get_secret_or_fail C root config_path ''public-key'' config_dict))) (\<lambda>public_key.
     bindE (resolver_runner_factory E config_path config_dict) (\<lambda>runner.
     bindE (liftE (answer (load_amqp_settings C root config_path config_dict))) (\<lambda>_.
     returnE \<lparr>ra_tag = agent_tag, ra_public_key = public_key, ra_runner = runner\<rparr>)))"

text \<open>\<^verbatim>\<open>ResolverConfig.bootstrap\<close> on the decoded document.\<close>

definition agent_bootstrap :: "'c config_env_scheme \<Rightarrow> 'e agent_env_scheme \<Rightarrow> json \<Rightarrow> ResolverRunnerAgent list act" where
  "agent_bootstrap C E raw_yaml =
     bindE (liftE (get_value_for_key_or_fail [] ''secret-root-path'' raw_yaml)) (\<lambda>secret_root.
     bindE (liftE (path_of secret_root)) (\<lambda>root.
     bindE (liftE (get_value_for_key_or_fail [] ''serviced-tags'' raw_yaml)) (\<lambda>serviced_tags.
     case serviced_tags of
       JNull \<Rightarrow> returnE []
     | JObj tags \<Rightarrow> mapE tags (\<lambda>(tag, config). agent_factory C E root (''serviced-tags/'' @ tag) tag config)
     | _ \<Rightarrow> raiseE TypeError)))"

section \<open>Lemmas\<close>

text \<open>The presence check of a command finds nothing missing, whatever the file system holds.\<close>

lemma check_cmd_never_fails:
  assumes "\<And>tr p. path_is_file E tr p \<Longrightarrow> path_exists E tr p"
  shows "check_cmd_on_path_or_fail E cmd = returnE ()"
  using assms by (intro ext) (auto simp: check_cmd_on_path_or_fail_def py_simps)

text \<open>The section under its deprecated name is not read: the agent is refused for having no runner at all.\<close>

lemma deprecated_container_section_refused:
  assumes "map_of kvs ''run-with-container'' = Some v" and "map_of kvs ''disable-resolver'' = None" and "map_of kvs ''resolver-path'' = None"
  shows "base_runner_factory E config_path (JObj kvs) work_path opts =
     raiseE (missing_at_least_one_key_path config_path [''disable-resolver'', ''run-resolver-with-container'', ''resolver-path''])"
proof -
  have "''run-with-container'' \<in> fst ` set kvs" "''disable-resolver'' \<notin> fst ` set kvs" "''resolver-path'' \<notin> fst ` set kvs"
    using assms by (auto simp: map_of_eq_None_iff dest: map_of_SomeD intro: rev_image_eqI)
  then show ?thesis
    by (simp add: base_runner_factory_def get_value_for_key_or_default_warn_deprecated_def get_value_for_key_or_default_def)
qed

text \<open>One agent for each serviced tag, in the order of the file.\<close>

lemma agent_factory_tag: "yields (\<lambda>a. ra_tag a = tag) (agent_factory C E root path tag d)"
  unfolding agent_factory_def by (intro yields_intros) simp

lemma mapE_yields_keys:
  assumes "\<And>k v. yields (\<lambda>a. f a = k) (g (k, v))"
  shows "yields (\<lambda>as. map f as = map fst kvs) (mapE kvs g)"
proof (induction kvs)
  case Nil
  show ?case by (simp add: yields_returnE)
next
  case (Cons p kvs)
  obtain k v where "p = (k, v)" by (cases p)
  then show ?case
    using assms [of k v] Cons.IH by (auto intro!: yields_bindE_post yields_returnE)
qed

lemma agents_serve_tags:
  assumes "agent_bootstrap C E raw w = (Inr agents, w')"
      and "py_getitem raw ''serviced-tags'' = Inr (JObj tags)"
  shows "map ra_tag agents = map fst tags"
proof -
  obtain root w1 where run: "mapE tags (\<lambda>(tag, config). agent_factory C E root (''serviced-tags/'' @ tag) tag config) w1 = (Inr agents, w')"
    using assms by (auto simp: agent_bootstrap_def bindE_apply liftE_apply get_value_for_key_or_fail_def bindR_eq_Inr
        split: sum.splits if_splits)
  have "yields (\<lambda>as. map ra_tag as = map fst tags) (mapE tags (\<lambda>(tag, config). agent_factory C E root (''serviced-tags/'' @ tag) tag config))"
    by (rule mapE_yields_keys) (simp add: agent_factory_tag)
  with run show ?thesis by (auto simp: yields_def)
qed

end
