(* ===== verification/Pr_Decoration.thy ===== *)
theory Pr_Decoration
  imports Dispatch "HOL-Library.List_Lexorder" "HOL-Library.Char_ord" "HOL-Library.Multiset"
begin

text \<open>
  \<^verbatim>\<open>src/workflows/pr.py\<close>: the text of the comment a scan leaves on a pull request, its sorted tables of results, and
  the reading of the report they come from. The JSON path queries are those of the environment.
\<close>

section \<open>Severities are ordered\<close>

fun severity_index :: "ResultSeverity \<Rightarrow> nat" where
  "severity_index CRITICAL = 0"
| "severity_index HIGH = 1"
| "severity_index MEDIUM = 2"
| "severity_index LOW = 3"
| "severity_index INFO = 4"

lemma severity_index_inject [simp]: "severity_index s = severity_index t \<longleftrightarrow> s = t"
  by (cases s; cases t) simp_all

lemma ResultSeverity_rank_index: "ResultSeverity_rank s = JInt (int (severity_index s))"
  by (cases s) (simp_all add: ResultSeverity_rank_def)

instantiation ResultSeverity :: linorder
begin

definition less_eq_ResultSeverity :: "ResultSeverity \<Rightarrow> ResultSeverity \<Rightarrow> bool" where
  "less_eq_ResultSeverity s t \<longleftrightarrow> severity_index s \<le> severity_index t"

definition less_ResultSeverity :: "ResultSeverity \<Rightarrow> ResultSeverity \<Rightarrow> bool" where
  "less_ResultSeverity s t \<longleftrightarrow> severity_index s < severity_index t"

instance
  by standard (auto simp: less_eq_ResultSeverity_def less_ResultSeverity_def)

end

section \<open>Tables of results\<close>

definition nl :: string where "nl = [CHR 0x0A]"

text \<open>\<^verbatim>\<open>f"{i:03}"\<close>.\<close>

definition zero_padded :: "int \<Rightarrow> string" where
  "zero_padded i =
     (let digits = show_nat (nat \<bar>i\<bar>) in
      if i < 0 then ''-'' @ replicate (2 - length digits) CHR ''0'' @ digits
      else replicate (3 - length digits) CHR ''0'' @ digits)"

record detail_row =
  dr_severity :: ResultSeverity
  dr_output_order :: "string list"
  dr_field_data :: "json dict"

fun int_rank :: "json \<Rightarrow> int" where
  "int_rank (JInt i) = i"
| "int_rank _ = 0"

definition severity_rank_key :: "detail_row \<Rightarrow> string" where
  "severity_rank_key r = zero_padded (int_rank (ResultSeverity_rank (dr_severity r)))"

definition row_getitem :: "detail_row \<Rightarrow> string \<Rightarrow> json" where
  "row_getitem r key = (case map_of (dr_field_data r) key of None \<Rightarrow> JStr [] | Some v \<Rightarrow> v)"

definition row_str :: "detail_row \<Rightarrow> string result" where
  "row_str r =
     bindR (mapR (\<lambda>field. bindR (py_getitem (JObj (dr_field_data r)) field) path_of) (dr_output_order r)) (\<lambda>cells.
     Inr (''| '' @ str_join '' | '' cells @ '' |''))"

text \<open>
  A \<^verbatim>\<open>SortedList\<close> with a key function: a row goes behind every row whose key is not greater. The key of a row is
  kept beside it.
\<close>

type_synonym detail_rows = "(string \<times> detail_row) list"

fun insert_row :: "string \<Rightarrow> detail_row \<Rightarrow> detail_rows \<Rightarrow> detail_rows" where
  "insert_row k r [] = [(k, r)]"
| "insert_row k r ((k', r') # rows) = (if k' \<le> k then (k', r') # insert_row k r rows else (k, r) # (k', r') # rows)"

datatype row_kind = SastRows | ScaRows | IacRows | ResolvedRows

fun header_order :: "row_kind \<Rightarrow> string list" where
  "header_order SastRows = [''severity_image_link'', ''issue'', ''source_permalink'', ''viewer_link'']"
| "header_order ScaRows = [''severity_image_link'', ''cve'', ''package'', ''viewer_link'']"
| "header_order IacRows = [''severity_image_link'', ''technology'', ''source_permalink'', ''query'', ''viewer_link'']"
| "header_order ResolvedRows = [''severity_image_link'', ''name'', ''viewer_link'']"

fun key_fields :: "row_kind \<Rightarrow> string list" where
  "key_fields SastRows = [''issue'']"
| "key_fields ScaRows = [''package_name'', ''package_version'', ''cve'']"
| "key_fields IacRows = [''technology'']"
| "key_fields ResolvedRows = [''name'']"

definition row_key :: "row_kind \<Rightarrow> detail_row \<Rightarrow> string result" where
  "row_key kind r =
     bindR (mapR (\<lambda>field. path_of (row_getitem r field)) (key_fields kind)) (\<lambda>parts.
     Inr (severity_rank_key r @ concat parts))"

definition add_row :: "row_kind \<Rightarrow> ResultSeverity \<Rightarrow> json dict \<Rightarrow> detail_rows \<Rightarrow> detail_rows result" where
  "add_row kind severity field_data rows =
     (let r = \<lparr>dr_severity = severity, dr_output_order = header_order kind, dr_field_data = field_data\<rparr> in
      bindR (row_key kind r) (\<lambda>k. Inr (insert_row k r rows)))"

definition rows_str :: "detail_rows \<Rightarrow> string result" where
  "rows_str rows = bindR (mapR (\<lambda>(k, r). row_str r) rows) (\<lambda>lines. Inr (str_join nl lines))"

definition normalized_version :: "json \<Rightarrow> json result" where
  "normalized_version version =
     bindR (as_str version) (\<lambda>s.
     case mapR (\<lambda>x. bindR (read_int x) (\<lambda>i. Inr (zero_padded i))) (split_on CHR ''.'' s) of
       Inl e \<Rightarrow> if e = ValueError then Inr version else Inl e
     | Inr padded_elements \<Rightarrow> Inr (JStr (str_join ''.'' padded_elements)))"

section \<open>The comment\<close>

text \<open>An entry of the details section is a line, or a table whose text is made when the comment is.\<close>

datatype detail_item = DetailLine string | DetailTable row_kind

record PullRequestDecoration =
  prd_server_base_url :: string
  prd_annotation :: "string list"
  prd_summary :: "string list"
  prd_details :: "detail_item list"
  prd_rows :: "row_kind \<Rightarrow> detail_rows"

definition comment_identifier :: string where "comment_identifier = ''[//]:#cxoneflow''"

text \<open>\<^verbatim>\<open>re.compile("\[//\]:#cxoneflow").match\<close> on the text without its line breaks.\<close>

definition matches_identifier :: "json \<Rightarrow> bool result" where
  "matches_identifier v = bindR (as_str v) (\<lambda>s. Inr (starts_with comment_identifier (filter (\<lambda>c. c \<noteq> CHR 0x0A) s)))"

definition pr_link :: "string \<Rightarrow> string \<Rightarrow> string" where
  "pr_link url display_name = ''['' @ display_name @ ''](''  @ url @ '')''"

definition pr_image :: "string \<Rightarrow> string \<Rightarrow> string" where
  "pr_image url display_name = ''!['' @ display_name @ ''](''  @ url @ '')''"

definition form_artifact_url :: "string \<Rightarrow> string \<Rightarrow> string" where
  "form_artifact_url server_base_url artifact_path =
     rstrip_chars ''/'' server_base_url @ ''/artifacts/'' @ url_quote ''/'' (lstrip_chars ''/'' artifact_path)"

definition header_image :: "string \<Rightarrow> string" where
  "header_image server_base_url = pr_image (form_artifact_url server_base_url ''checkmarx.png'') ''CheckmarxOne''"

definition severity_map :: "string dict" where
  "severity_map = [(''critical'', ''critical.png''), (''high'', ''high.png''), (''medium'', ''medium.png''), (''low'', ''low.png''),
     (''information'', ''info.png''), (''info'', ''info.png''), (''informational'', ''info.png'')]"

definition severity_indicator :: "string \<Rightarrow> json \<Rightarrow> string result" where
  "severity_indicator server_base_url severity =
     bindR (as_str severity) (\<lambda>s.
     let img = (case map_of severity_map (str_lower s) of Some img \<Rightarrow> img | None \<Rightarrow> ''info.png'') in
     Inr (pr_image (form_artifact_url server_base_url img) s))"

definition scan_link :: "string \<Rightarrow> string \<Rightarrow> string \<Rightarrow> json \<Rightarrow> string result" where
  "scan_link display_url project_id scanid branch =
     bindR (path_of branch) (\<lambda>b.
     Inr (pr_link (display_url @ path_div (path_div ''projects'' project_id)
            (''scans?id='' @ scanid @ ''&filter_by_Scan_Id='' @ scanid @ ''&branch='' @ quote_plus b)) scanid))"

definition sca_result_link :: "string \<Rightarrow> string \<Rightarrow> string \<Rightarrow> string \<Rightarrow> string \<Rightarrow> string \<Rightarrow> string" where
  "sca_result_link display_url project_id scanid title cve package_id =
     pr_link (display_url @ path_div (path_div (path_div ''results'' project_id) scanid) ''sca?internalPath='' @
       ''%2Fvulnerabilities%2F'' @ cve @ ''%253A'' @ package_id @ ''%2FvulnerabilityDetailsGql'') title"

definition make_PullRequestDecoration :: "string \<Rightarrow> PullRequestDecoration" where
  "make_PullRequestDecoration server_base_url =
     \<lparr>prd_server_base_url = server_base_url, prd_annotation = [], prd_summary = [], prd_details = [], prd_rows = (\<lambda>_. [])\<rparr>"

definition add_to_annotation :: "string \<Rightarrow> PullRequestDecoration \<Rightarrow> PullRequestDecoration" where
  "add_to_annotation line d = d\<lparr>prd_annotation := prd_annotation d @ [line]\<rparr>"

definition add_detail :: "row_kind \<Rightarrow> ResultSeverity \<Rightarrow> json dict \<Rightarrow> PullRequestDecoration \<Rightarrow> PullRequestDecoration result" where
  "add_detail kind severity field_data d =
     bindR (add_row kind severity field_data (prd_rows d kind)) (\<lambda>rows. Inr (d\<lparr>prd_rows := (prd_rows d)(kind := rows)\<rparr>))"

fun detail_title :: "row_kind \<Rightarrow> string list" where
  "detail_title SastRows = [nl, ''# SAST Results'', ''| Severity | Issue | Source | Checkmarx Insight |'', ''| :-: | - | - | - |'']"
| "detail_title ScaRows = [nl, ''# SCA Results'', nl, ''| Severity | CVE | Package | Checkmarx Insight |'', ''| :-: | - | - | - |'']"
| "detail_title IacRows = [nl, ''# IAC Results'', nl, ''| Severity | Technology | Source | Query | Checkmarx Insight |'', ''| :-: | - | - | - | - |'']"
| "detail_title ResolvedRows = [nl, ''# Resolved SAST Results'', nl, ''| Severity | Name | Checkmarx Insight |'', ''| :-: | - | - |'']"

definition start_detail_section :: "row_kind \<Rightarrow> PullRequestDecoration \<Rightarrow> PullRequestDecoration" where
  "start_detail_section kind d = d\<lparr>prd_details := prd_details d @ map DetailLine (detail_title kind) @ [DetailTable kind]\<rparr>"

definition severity_value :: "ResultSeverity \<Rightarrow> string" where
  "severity_value s = (case hd (ResultSeverity_values s) of JStr v \<Rightarrow> v | _ \<Rightarrow> [])"

definition start_summary_section :: "ResultSeverity list \<Rightarrow> PullRequestDecoration \<Rightarrow> PullRequestDecoration" where
  "start_summary_section included_severities d =
     d\<lparr>prd_summary := prd_summary d @
        [nl, ''# Summary of Vulnerabilities'', nl, ''| Engine | '' @ str_join '' | '' (map severity_value included_severities) @ '' |'',
         ''|--'' @ concat (replicate (length included_severities) ''| :-: '') @ ''|'']\<rparr>"

definition add_summary_entry ::
  "string \<Rightarrow> (ResultSeverity \<Rightarrow> string) \<Rightarrow> ResultSeverity list \<Rightarrow> PullRequestDecoration \<Rightarrow> PullRequestDecoration" where
  "add_summary_entry engine counts_by_sev included_severities d =
     d\<lparr>prd_summary := prd_summary d @ [''|'' @ engine @ ''|'' @ str_join ''|'' (map counts_by_sev included_severities) @ ''|'']\<rparr>"

section \<open>Its text\<close>

fun item_str :: "PullRequestDecoration \<Rightarrow> detail_item \<Rightarrow> string result" where
  "item_str d (DetailLine s) = Inr s"
| "item_str d (DetailTable kind) = rows_str (prd_rows d kind)"

datatype comment_key =
    KeyIdentifier | KeyHeaderBegin | KeyHeaderEnd | KeyAnnotationBegin | KeyAnnotationEnd
  | KeySummaryBegin | KeySummaryEnd | KeyDetailsBegin | KeyDetailsEnd

definition comment_keys :: "comment_key list" where
  "comment_keys = [KeyIdentifier, KeyHeaderBegin, KeyHeaderEnd, KeyAnnotationBegin, KeyAnnotationEnd, KeySummaryBegin, KeySummaryEnd,
     KeyDetailsBegin, KeyDetailsEnd]"

text \<open>The items of a section; the section ends have none.\<close>

fun section_items :: "PullRequestDecoration \<Rightarrow> comment_key \<Rightarrow> detail_item list" where
  "section_items d KeyIdentifier = [DetailLine comment_identifier]"
| "section_items d KeyHeaderBegin = [DetailLine (header_image (prd_server_base_url d))]"
| "section_items d KeyAnnotationBegin = map DetailLine (prd_annotation d)"
| "section_items d KeySummaryBegin = map DetailLine (prd_summary d)"
| "section_items d KeyDetailsBegin = prd_details d"
| "section_items d _ = []"

definition get_content :: "PullRequestDecoration \<Rightarrow> comment_key list \<Rightarrow> string result" where
  "get_content d keys =
     bindR (mapR (\<lambda>k. bindR (mapR (item_str d) (section_items d k)) (\<lambda>items. Inr (nl # items))) keys) (\<lambda>content.
     Inr (str_join nl (concat content)))"

definition summary_content :: "PullRequestDecoration \<Rightarrow> string result" where
  "summary_content d = get_content d (filter (\<lambda>k. k \<notin> {KeyDetailsBegin, KeyDetailsEnd}) comment_keys)"

definition full_content :: "PullRequestDecoration \<Rightarrow> string result" where
  "full_content d = get_content d comment_keys"

text \<open>\<^verbatim>\<open>PullRequestAnnotation\<close>.\<close>

definition make_PullRequestAnnotation ::
  "string \<Rightarrow> string \<Rightarrow> string \<Rightarrow> string \<Rightarrow> json \<Rightarrow> string \<Rightarrow> PullRequestDecoration result" where
  "make_PullRequestAnnotation display_url project_id scanid annotation branch server_base_url =
     bindR (scan_link display_url project_id scanid branch) (\<lambda>l.
     Inr (add_to_annotation (annotation @ '': '' @ l) (make_PullRequestDecoration server_base_url)))"

section \<open>A link that names project and scan in the wrong order\<close>

text \<open>
  \<^verbatim>\<open>urllib.parse.urlparse\<close> and \<^verbatim>\<open>urlunparse\<close>: \<open>urlsplit\<close> and its inverse, with the parameters of the last path segment
  apart for the schemes that have them.
\<close>

definition uses_params :: "string list" where
  "uses_params = [[], ''ftp'', ''hdl'', ''prospero'', ''http'', ''https'', ''shttp'', ''rtsp'', ''rtsps'', ''sip'', ''sips'', ''mms'', ''sftp'', ''tel'']"

definition uses_netloc :: "string list" where
  "uses_netloc = [[], ''ftp'', ''http'', ''gopher'', ''nntp'', ''telnet'', ''imap'', ''wais'', ''file'', ''mms'', ''https'', ''shttp'', ''snews'',
     ''prospero'', ''rtsp'', ''rtsps'', ''rtspu'', ''rsync'', ''svn'', ''svn+ssh'', ''sftp'', ''nfs'', ''git'', ''git+ssh'', ''ws'', ''wss'', ''itms-services'']"

definition split_params :: "string \<Rightarrow> string \<times> string" where
  "split_params path =
     (let segments = split_on CHR ''/'' path; (seg, params) = split_first CHR '';'' (last segments) in
      (str_join ''/'' (butlast segments @ [seg]), params))"

definition urlunsplit_any :: "split_url \<Rightarrow> string" where
  "urlunsplit_any u =
     (if us_netloc u \<noteq> [] then urlunsplit u
      else
        let path = us_path u;
            url = (if take 2 path = ''//'' \<or> (us_scheme u \<noteq> [] \<and> us_scheme u \<in> set uses_netloc \<and> (path = [] \<or> hd path = CHR ''/''))
                   then ''//'' @ path else path);
            url = (if us_scheme u \<noteq> [] then us_scheme u @ '':'' @ url else url);
            url = (if us_query u \<noteq> [] then url @ ''?'' @ us_query u else url)
        in if us_fragment u \<noteq> [] then url @ ''#'' @ us_fragment u else url)"

text \<open>
  The path of a resolved result ends in the scan and the project; the last two components change places. A link
  that does not end in the project is left as it is.
\<close>

definition fix_path_components :: "string \<Rightarrow> string list \<Rightarrow> string list" where
  "fix_path_components project_id path_components =
     (let rest = butlast path_components; n = length rest - 1 in take n rest @ [project_id] @ drop n rest)"

definition fixed_link :: "string \<Rightarrow> string \<Rightarrow> string result" where
  "fixed_link project_id link =
     bindR (urlsplit link) (\<lambda>parsed_url.
     let (path, params) = (if us_scheme parsed_url \<in> set uses_params \<and> CHR '';'' \<in> set (us_path parsed_url)
                           then split_params (us_path parsed_url) else (us_path parsed_url, []));
         path_components = split_on CHR ''/'' path in
     if last path_components = project_id then
       let path' = str_join ''/'' (fix_path_components project_id path_components) in
       Inr (urlunsplit_any (parsed_url\<lparr>us_path := (if params \<noteq> [] then path' @ '';'' @ params else path')\<rparr>))
     else Inr link)"

section \<open>The report\<close>

text \<open>\<^verbatim>\<open>for x in xs\<close> over a state that may raise.\<close>

fun foldR :: "('a \<Rightarrow> 'b \<Rightarrow> 'b result) \<Rightarrow> 'a list \<Rightarrow> 'b \<Rightarrow> 'b result" where
  "foldR f [] s = Inr s"
| "foldR f (x # xs) s = bindR (f x s) (foldR f xs)"

definition items_of :: "json \<Rightarrow> string \<Rightarrow> json list result" where
  "items_of v key = bindR (py_getitem v key) as_list"

text \<open>A value that is no member of the enumeration is not excluded.\<close>

definition test_in_enum :: "(json \<Rightarrow> 'a result) \<Rightarrow> json \<Rightarrow> 'a list \<Rightarrow> bool" where
  "test_in_enum member v exclusions = (case member v of Inl _ \<Rightarrow> False | Inr x \<Rightarrow> x \<in> set exclusions)"

record feedback =
  fb_excluded_severities :: "ResultSeverity list"
  fb_excluded_states :: "ResultStates list"
  fb_display_url :: string
  fb_project_id :: string
  fb_scanid :: string
  fb_report :: json
  fb_permalink :: "json \<Rightarrow> json \<Rightarrow> string" \<comment> \<open>the permalink function at the repository and branch of the pull request\<close>
  fb_server_base_url :: string

text \<open>Whether a result is left out: its severity is looked at only when its state is not excluded.\<close>

definition result_excluded :: "feedback \<Rightarrow> json \<Rightarrow> bool result" where
  "result_excluded fb r =
     bindR (py_getitem r ''state'') (\<lambda>state.
     if test_in_enum ResultStates_of state (fb_excluded_states fb) then Inr True
     else bindR (py_getitem r ''severity'') (\<lambda>severity. Inr (test_in_enum ResultSeverity_of severity (fb_excluded_severities fb))))"

text \<open>A row of a kind, with the title of its section before the first one.\<close>

type_synonym feedback_state = "PullRequestDecoration \<times> bool"

definition add_titled ::
  "row_kind \<Rightarrow> json \<Rightarrow> (string \<Rightarrow> json dict result) \<Rightarrow> feedback_state \<Rightarrow> feedback_state result" where
  "add_titled kind severity row_data st =
     (case st of (d, title_added) \<Rightarrow>
        let d = (if title_added then d else start_detail_section kind d) in
        bindR (ResultSeverity_of severity) (\<lambda>sev.
        bindR (severity_indicator (prd_server_base_url d) severity) (\<lambda>img.
        bindR (row_data img) (\<lambda>fs.
        bindR (add_detail kind sev fs d) (\<lambda>d. Inr (d, True))))))"

definition add_sast_result :: "'e scm_env_scheme \<Rightarrow> feedback \<Rightarrow> string \<Rightarrow> json \<Rightarrow> feedback_state \<Rightarrow> feedback_state result" where
  "add_sast_result E fb describe_link vuln st =
     bindR (result_excluded fb vuln) (\<lambda>excluded.
     if excluded then Inr st
     else
       bindR (py_getitem vuln ''severity'') (\<lambda>severity.
       add_titled SastRows severity (\<lambda>img.
         bindR (py_getitem vuln ''sourceFileName'') (\<lambda>file.
         bindR (py_getitem vuln ''sourceLine'') (\<lambda>line.
         bindR (py_getitem vuln ''resultViewerLink'') (\<lambda>viewer.
         Inr [(''severity_image_link'', JStr img), (''issue'', JStr describe_link),
              (''source_permalink'', JStr (''`'' @ as_text E file @ ''`;'' @ pr_link (fb_permalink fb file line) (as_text E line))),
              (''viewer_link'', JStr (pr_link (as_text E viewer) ''Attack Vector''))])))) st))"

definition add_sast_details :: "'e scm_env_scheme \<Rightarrow> feedback \<Rightarrow> feedback_state \<Rightarrow> feedback_state result" where
  "add_sast_details E fb =
     foldR (\<lambda>x st.
       bindR (py_getitem x ''queryDescriptionLink'') (\<lambda>desc.
       bindR (py_getitem x ''queryName'') (\<lambda>name.
       bindR (items_of x ''vulnerabilities'') (\<lambda>vulns.
       foldR (add_sast_result E fb (pr_link (as_text E desc) (as_text E name))) vulns st))))
       (jp_find E ''$.scanResults.resultsList[*]'' (fb_report fb))"

definition add_sca_result :: "'e scm_env_scheme \<Rightarrow> feedback \<Rightarrow> json \<Rightarrow> json \<Rightarrow> feedback_state \<Rightarrow> feedback_state result" where
  "add_sca_result E fb x cat_result st =
     bindR (result_excluded fb cat_result) (\<lambda>excluded.
     if excluded then Inr st
     else
       bindR (py_getitem cat_result ''severity'') (\<lambda>severity.
       add_titled ScaRows severity (\<lambda>img.
         bindR (py_getitem cat_result ''cve'') (\<lambda>cve.
         bindR (py_getitem x ''packageName'') (\<lambda>name.
         bindR (py_getitem x ''packageVersion'') (\<lambda>version.
         bindR (py_getitem x ''packageId'') (\<lambda>package_id.
         bindR (normalized_version version) (\<lambda>normalized.
         Inr [(''severity_image_link'', JStr img), (''cve'', cve), (''package'', JStr (as_text E name @ '':'' @ as_text E version)),
              (''viewer_link'', JStr (sca_result_link (fb_display_url fb) (fb_project_id fb) (fb_scanid fb) ''Risk Details'' (as_text E cve)
                                        (as_text E package_id))),
              (''package_name'', name), (''package_version'', normalized)])))))) st))"

definition add_sca_details :: "'e scm_env_scheme \<Rightarrow> feedback \<Rightarrow> feedback_state \<Rightarrow> feedback_state result" where
  "add_sca_details E fb =
     foldR (\<lambda>x st.
       bindR (items_of x ''packageCategory'') (\<lambda>categories.
       foldR (\<lambda>category st. bindR (items_of category ''categoryResults'') (\<lambda>rs. foldR (add_sca_result E fb x) rs st)) categories st))
       (jp_find E ''$.scaScanResults.packages[*]'' (fb_report fb))"

definition add_iac_result :: "'e scm_env_scheme \<Rightarrow> feedback \<Rightarrow> json \<Rightarrow> json \<Rightarrow> json \<Rightarrow> feedback_state \<Rightarrow> feedback_state result" where
  "add_iac_result E fb x qry r st =
     bindR (result_excluded fb r) (\<lambda>excluded.
     if excluded then Inr st
     else
       bindR (py_getitem r ''severity'') (\<lambda>severity.
       add_titled IacRows severity (\<lambda>img.
         bindR (py_getitem x ''name'') (\<lambda>name.
         bindR (py_getitem r ''fileName'') (\<lambda>file.
         bindR (py_getitem qry ''queryName'') (\<lambda>query_name.
         bindR (py_getitem r ''resultViewerLink'') (\<lambda>viewer.
         Inr [(''severity_image_link'', JStr img), (''technology'', name),
              (''source_permalink'', JStr (''`'' @ as_text E file @ ''`'' @ pr_link (fb_permalink fb file (JInt 1)) ''view'')),
              (''query'', query_name), (''viewer_link'', JStr (pr_link (as_text E viewer) ''Risk Details''))]))))) st))"

definition add_iac_details :: "'e scm_env_scheme \<Rightarrow> feedback \<Rightarrow> feedback_state \<Rightarrow> feedback_state result" where
  "add_iac_details E fb =
     foldR (\<lambda>x st.
       bindR (items_of x ''queries'') (\<lambda>queries.
       foldR (\<lambda>qry st. bindR (items_of qry ''resultsList'') (\<lambda>rs. foldR (add_iac_result E fb x qry) rs st)) queries st))
       (jp_find E ''$.iacScanResults.technology[*]'' (fb_report fb))"

text \<open>Resolved results are filtered by severity only. The link is fixed before the row is begun, the title is added before.\<close>

definition add_resolved_result :: "'e scm_env_scheme \<Rightarrow> feedback \<Rightarrow> json \<Rightarrow> json \<Rightarrow> feedback_state \<Rightarrow> feedback_state result" where
  "add_resolved_result E fb vuln r st =
     bindR (py_getitem r ''severity'') (\<lambda>severity.
     if test_in_enum ResultSeverity_of severity (fb_excluded_severities fb) then Inr st
     else
       bindR (py_getitem r ''vulnerabilityLink'') (\<lambda>link.
       bindR (as_str link) (\<lambda>link.
       bindR (fixed_link (fb_project_id fb) link) (\<lambda>fixed.
       add_titled ResolvedRows severity (\<lambda>img.
         bindR (py_getitem vuln ''vulnerabilityName'') (\<lambda>name.
         Inr [(''severity_image_link'', JStr img), (''name'', name), (''viewer_link'', JStr (pr_link fixed ''View''))])) st))))"

definition add_resolved_details :: "'e scm_env_scheme \<Rightarrow> feedback \<Rightarrow> feedback_state \<Rightarrow> feedback_state result" where
  "add_resolved_details E fb =
     foldR (\<lambda>resolved st.
       bindR (items_of resolved ''resolvedVulnerabilities'') (\<lambda>vulns.
       foldR (\<lambda>vuln st. bindR (items_of vuln ''resolvedResults'') (\<lambda>rs. foldR (add_resolved_result E fb vuln) rs st)) vulns st))
       (jp_find E ''$.resolvedVulnerabilities'' (fb_report fb))"

definition translate_engine_status :: "json \<Rightarrow> string" where
  "translate_engine_status status = (if status = JStr ''Completed'' then ''&#x2705;'' else ''&#x274c;'')"

definition add_annotation_section :: "'e scm_env_scheme \<Rightarrow> feedback \<Rightarrow> json \<Rightarrow> PullRequestDecoration \<Rightarrow> PullRequestDecoration result" where
  "add_annotation_section E fb source_branch d =
     bindR (scan_link (fb_display_url fb) (fb_project_id fb) (fb_scanid fb) source_branch) (\<lambda>l.
     let d = add_to_annotation (''**Results for Scan ID '' @ l @ ''**'') d in
     bindR (mapR (\<lambda>v. bindR (py_getitem v ''status'') (\<lambda>status. bindR (py_getitem v ''name'') (\<lambda>name.
              Inr (translate_engine_status status @ ''&nbsp;**'' @ as_text E name @ ''**&nbsp;&nbsp;''))))
            (jp_find E ''$.scanInformation.scannerStatus[*]'' (fb_report fb))) (\<lambda>stats.
     Inr (add_to_annotation (nl @ concat stats) d)))"

definition included_severities :: "ResultSeverity list \<Rightarrow> ResultSeverity list" where
  "included_severities excluded_severities = filter (\<lambda>s. s \<notin> set excluded_severities) ResultSeverity_members"

text \<open>Of the values a severity is written with, the first that occurs is counted.\<close>

fun first_count :: "(json \<Rightarrow> nat) \<Rightarrow> json list \<Rightarrow> string" where
  "first_count hits [] = ''-''"
| "first_count hits (v # vs) = (if hits v > 0 then show_nat (hits v) else first_count hits vs)"

definition get_result_count_map :: "'e scm_env_scheme \<Rightarrow> feedback \<Rightarrow> (string \<Rightarrow> string) \<Rightarrow> ResultSeverity \<Rightarrow> string" where
  "get_result_count_map E fb query_gen sev =
     (if sev \<in> set (included_severities (fb_excluded_severities fb))
      then first_count (\<lambda>v. length (jp_ext_find E (query_gen (as_text E v)) (fb_report fb))) (ResultSeverity_values sev)
      else ''-'')"

definition result_filter :: "string \<Rightarrow> string \<Rightarrow> string" where
  "result_filter path sev_value =
     (let q = [CHR 0x27] in path @ ''[?(@.state!='' @ q @ ''Not Exploitable'' @ q @ '' & @.severity=='' @ q @ sev_value @ q @ '')]'')"

definition add_summary_section :: "'e scm_env_scheme \<Rightarrow> feedback \<Rightarrow> PullRequestDecoration \<Rightarrow> PullRequestDecoration" where
  "add_summary_section E fb d =
     (let sev_incl = included_severities (fb_excluded_severities fb);
          entry = (\<lambda>engine path. add_summary_entry engine (get_result_count_map E fb (result_filter path)) sev_incl) in
      entry ''IaC'' ''$.iacScanResults.technology[*].queries[*].resultsList''
        (entry ''SCA'' ''$.scaScanResults.packages[*].packageCategory[*].categoryResults''
          (entry ''SAST'' ''$.scanResults.resultsList[*].vulnerabilities'' (start_summary_section sev_incl d))))"

text \<open>A section method starts without a title.\<close>

definition titled_section :: "(feedback_state \<Rightarrow> feedback_state result) \<Rightarrow> PullRequestDecoration \<Rightarrow> PullRequestDecoration result" where
  "titled_section f d = bindR (f (d, False)) (\<lambda>(d, _). Inr d)"

definition make_PullRequestFeedback :: "'e scm_env_scheme \<Rightarrow> feedback \<Rightarrow> json \<Rightarrow> PullRequestDecoration result" where
  "make_PullRequestFeedback E fb source_branch =
     bindR (add_annotation_section E fb source_branch (make_PullRequestDecoration (fb_server_base_url fb))) (\<lambda>d.
     bindR (titled_section (add_sast_details E fb) (add_summary_section E fb d)) (\<lambda>d.
     bindR (titled_section (add_resolved_details E fb) d) (\<lambda>d.
     bindR (titled_section (add_sca_details E fb) d)
     (titled_section (add_iac_details E fb)))))"

section \<open>A comment is recognised\<close>

lemma str_join_Cons: "str_join sep (w # ws) = w @ (if ws = [] then [] else sep @ str_join sep ws)"
  by (cases ws) simp_all

lemma get_content_identified:
  assumes "get_content d (KeyIdentifier # keys) = Inr c"
  shows "matches_identifier (JStr c) = Inr True"
proof -
  obtain rest where "c = nl @ nl @ comment_identifier @ rest"
    using assms by (auto simp: get_content_def bindR_eq_Inr str_join_Cons)
  then show ?thesis
    by (simp add: matches_identifier_def nl_def comment_identifier_def starts_with_def)
qed

text \<open>Whatever its sections hold, a comment of the program begins with what the program looks for.\<close>

lemma comment_identified:
  "full_content d = Inr c \<Longrightarrow> matches_identifier (JStr c) = Inr True"
  "summary_content d = Inr c \<Longrightarrow> matches_identifier (JStr c) = Inr True"
  unfolding full_content_def summary_content_def comment_keys_def
  by (rule get_content_identified, assumption) (rule get_content_identified, simp)

section \<open>The order and the content of the tables\<close>

lemma set_insert_row [simp]: "set (insert_row k r rows) = insert (k, r) (set rows)"
  by (induction k r rows rule: insert_row.induct) auto

lemma length_insert_row [simp]: "length (insert_row k r rows) = Suc (length rows)"
  by (induction k r rows rule: insert_row.induct) auto

lemma sorted_insert_row: "sorted (map fst rows) \<Longrightarrow> sorted (map fst (insert_row k r rows))"
  by (induction k r rows rule: insert_row.induct) auto

text \<open>The three digits in front of a key compare as the severities do.\<close>

lemma severity_rank_key_digits:
  "severity_rank_key r = [CHR ''0'', CHR ''0'', ''01234'' ! severity_index (dr_severity r)]"
  by (cases "dr_severity r") (simp_all add: severity_rank_key_def ResultSeverity_rank_index zero_padded_def show_nat.simps numeral_3_eq_3)

lemma severity_of_key_order:
  assumes "severity_rank_key r @ x \<le> severity_rank_key s @ y"
  shows "dr_severity r \<le> dr_severity s"
  using assms unfolding severity_rank_key_digits
  by (cases "dr_severity r"; cases "dr_severity s") (simp_all add: less_eq_ResultSeverity_def less_char_def)

lemma row_key_prefix: "row_key kind r = Inr k \<Longrightarrow> \<exists>rest. k = severity_rank_key r @ rest"
  by (auto simp: row_key_def bindR_eq_Inr)

definition rows_inv :: "ResultSeverity set \<Rightarrow> PullRequestDecoration \<Rightarrow> bool" where
  "rows_inv excluded d \<longleftrightarrow> (\<forall>kind. sorted (map fst (prd_rows d kind)) \<and>
     (\<forall>k r. (k, r) \<in> set (prd_rows d kind) \<longrightarrow> row_key kind r = Inr k \<and> dr_severity r \<notin> excluded))"

lemma row_key_mono:
  assumes "row_key kind r = Inr k" "row_key kind s = Inr l" "k \<le> l"
  shows "dr_severity r \<le> dr_severity s"
proof -
  obtain x where k: "k = severity_rank_key r @ x" using row_key_prefix [OF assms(1)] by (elim exE)
  obtain y where l: "l = severity_rank_key s @ y" using row_key_prefix [OF assms(2)] by (elim exE)
  show ?thesis using assms(3) unfolding k l by (rule severity_of_key_order)
qed

lemma rows_inv_key:
  "rows_inv excluded d \<Longrightarrow> p \<in> set (prd_rows d kind) \<Longrightarrow> row_key kind (snd p) = Inr (fst p)"
  by (cases p) (simp add: rows_inv_def)

lemma rows_inv_sorted:
  assumes "rows_inv excluded d"
  shows "sorted (map (dr_severity \<circ> snd) (prd_rows d kind))"
proof -
  have "sorted_wrt (\<lambda>p q. fst p \<le> fst q) (prd_rows d kind)"
    using assms by (simp add: rows_inv_def sorted_map)
  then have "sorted_wrt (\<lambda>p q. dr_severity (snd p) \<le> dr_severity (snd q)) (prd_rows d kind)"
    by (rule sorted_wrt_mono_rel [rotated]) (rule row_key_mono [OF rows_inv_key [OF assms] rows_inv_key [OF assms]])
  then show ?thesis by (simp add: sorted_map)
qed

text \<open>One more row of a kind and a severity, one that is not excluded.\<close>

definition grows :: "row_kind \<Rightarrow> ResultSeverity set \<Rightarrow> ResultSeverity \<Rightarrow> feedback_state \<Rightarrow> feedback_state \<Rightarrow> bool" where
  "grows kind excluded sev st st' \<longleftrightarrow> (\<exists>k r. prd_rows (fst st') = (prd_rows (fst st))(kind := insert_row k r (prd_rows (fst st) kind)) \<and>
     row_key kind r = Inr k \<and> dr_severity r = sev \<and> sev \<notin> excluded)"

definition result_severity :: "json \<Rightarrow> ResultSeverity" where
  "result_severity v = (case bindR (py_getitem v ''severity'') ResultSeverity_of of Inl _ \<Rightarrow> INFO | Inr sev \<Rightarrow> sev)"

lemma add_titled_grows:
  assumes "add_titled kind severity f st = Inr st'" and "\<not> test_in_enum ResultSeverity_of severity excluded"
    and "py_getitem v ''severity'' = Inr severity"
  shows "grows kind (set excluded) (result_severity v) st st'"
proof -
  obtain d t where st: "st = (d, t)" by (cases st)
  let ?d = "if t then d else start_detail_section kind d"
  have rows: "prd_rows ?d = prd_rows d" by (simp add: start_detail_section_def)
  obtain sev img fs d' where sev: "ResultSeverity_of severity = Inr sev" and add: "add_detail kind sev fs ?d = Inr d'" and st': "st' = (d', True)"
    using assms(1) by (auto simp: add_titled_def st Let_def bindR_eq_Inr split del: if_split)
  let ?r = "\<lparr>dr_severity = sev, dr_output_order = header_order kind, dr_field_data = fs\<rparr>"
  obtain k where "row_key kind ?r = Inr k" "d' = ?d\<lparr>prd_rows := (prd_rows d)(kind := insert_row k ?r (prd_rows d kind))\<rparr>"
    using add by (auto simp: add_detail_def add_row_def bindR_eq_Inr rows Let_def split del: if_split)
  moreover have "sev \<notin> set excluded" "result_severity v = sev" using assms(2,3) sev by (simp_all add: test_in_enum_def result_severity_def)
  ultimately show ?thesis
    unfolding grows_def by (intro exI [of _ k] exI [of _ ?r]) (simp add: st st')
qed

text \<open>Which results have a row: the state of a resolved one does not count.\<close>

definition shown :: "feedback \<Rightarrow> row_kind \<Rightarrow> json \<Rightarrow> bool" where
  "shown fb kind v =
     (if kind = ResolvedRows
      then (case py_getitem v ''severity'' of
              Inl _ \<Rightarrow> False
            | Inr s \<Rightarrow> \<not> test_in_enum ResultSeverity_of s (fb_excluded_severities fb))
      else result_excluded fb v = Inr False)"

lemma not_excludedD: "result_excluded fb v = Inr False \<Longrightarrow> py_getitem v ''severity'' = Inr s \<Longrightarrow> \<not> test_in_enum ResultSeverity_of s (fb_excluded_severities fb)"
  by (auto simp: result_excluded_def bindR_eq_Inr split: if_splits)

text \<open>What a section method does with one result: nothing when it is excluded, one row when it is not.\<close>

definition result_step :: "row_kind \<Rightarrow> feedback \<Rightarrow> json \<Rightarrow> feedback_state \<Rightarrow> feedback_state \<Rightarrow> bool" where
  "result_step kind fb v st st' \<longleftrightarrow>
     (if shown fb kind v then grows kind (set (fb_excluded_severities fb)) (result_severity v) st st' else st' = st)"

lemma result_stepI:
  assumes "bindR (result_excluded fb v) (\<lambda>excluded. if excluded then Inr st
      else bindR (py_getitem v ''severity'') (\<lambda>severity. add_titled kind severity (f severity) st)) = Inr st'"
    and "kind \<noteq> ResolvedRows"
  shows "result_step kind fb v st st'"
proof -
  obtain b where b: "result_excluded fb v = Inr b" using assms by (auto simp: bindR_eq_Inr)
  show ?thesis
  proof (cases b)
    case True
    with assms b show ?thesis by (simp add: result_step_def shown_def)
  next
    case False
    with assms b obtain severity where "py_getitem v ''severity'' = Inr severity" "add_titled kind severity (f severity) st = Inr st'"
      by (auto simp: bindR_eq_Inr)
    then have "grows kind (set (fb_excluded_severities fb)) (result_severity v) st st'"
      using b False by (auto intro: add_titled_grows dest: not_excludedD)
    with b False assms(2) show ?thesis by (simp add: result_step_def shown_def)
  qed
qed

lemma add_resolved_step:
  assumes "add_resolved_result E fb vuln v st = Inr st'"
  shows "result_step ResolvedRows fb v st st'"
proof -
  obtain s where s: "py_getitem v ''severity'' = Inr s"
    using assms by (auto simp: add_resolved_result_def bindR_eq_Inr)
  show ?thesis
  proof (cases "test_in_enum ResultSeverity_of s (fb_excluded_severities fb)")
    case True
    with assms s show ?thesis by (simp add: add_resolved_result_def result_step_def shown_def)
  next
    case False
    with assms s obtain f where "add_titled ResolvedRows s f st = Inr st'"
      by (auto simp: add_resolved_result_def bindR_eq_Inr)
    from add_titled_grows [OF this False s] False s show ?thesis by (simp add: result_step_def shown_def)
  qed
qed

lemma add_result_steps:
  "add_sast_result E fb l v st = Inr st' \<Longrightarrow> result_step SastRows fb v st st'"
  "add_sca_result E fb x v st = Inr st' \<Longrightarrow> result_step ScaRows fb v st st'"
  "add_iac_result E fb x q v st = Inr st' \<Longrightarrow> result_step IacRows fb v st st'"
  "add_resolved_result E fb vuln v st = Inr st' \<Longrightarrow> result_step ResolvedRows fb v st st'"
  by (auto simp: add_sast_result_def add_sca_result_def add_iac_result_def intro: result_stepI add_resolved_step)

lemma grows_inv:
  assumes "grows kind excluded sev st st'" "rows_inv excluded (fst st)"
  shows "rows_inv excluded (fst st')"
proof -
  obtain k r where "prd_rows (fst st') = (prd_rows (fst st))(kind := insert_row k r (prd_rows (fst st) kind))"
      "row_key kind r = Inr k" "dr_severity r \<notin> excluded"
    using assms(1) by (auto simp: grows_def)
  with assms(2) show ?thesis by (auto simp: rows_inv_def sorted_insert_row)
qed

text \<open>
  \<open>adds m n f\<close>: a step that returns has added \<open>n\<close> to the measure \<open>m\<close>; \<open>preserves P f\<close>: it has kept \<open>P\<close>. Both go through the
  loops of the section methods.
\<close>

definition preserves :: "('s \<Rightarrow> bool) \<Rightarrow> ('s \<Rightarrow> 's result) \<Rightarrow> bool" where
  "preserves P f \<longleftrightarrow> (\<forall>s s'. f s = Inr s' \<longrightarrow> P s \<longrightarrow> P s')"

definition adds :: "('s \<Rightarrow> 'm::comm_monoid_add) \<Rightarrow> 'm \<Rightarrow> ('s \<Rightarrow> 's result) \<Rightarrow> bool" where
  "adds m n f \<longleftrightarrow> (\<forall>s s'. f s = Inr s' \<longrightarrow> m s' = m s + n)"

named_theorems loop_intros \<open>what the loops over a report keep\<close>

lemma preserves_foldR [loop_intros]: "(\<And>x. preserves P (f x)) \<Longrightarrow> preserves P (foldR f xs)"
proof -
  assume step: "\<And>x. preserves P (f x)"
  have "foldR f xs s = Inr s' \<Longrightarrow> P s \<Longrightarrow> P s'" for s s'
    using step by (induction xs arbitrary: s) (auto simp: bindR_eq_Inr preserves_def)
  then show ?thesis by (simp add: preserves_def)
qed

lemma preserves_bindR [loop_intros]: "(\<And>x. preserves P (f x)) \<Longrightarrow> preserves P (\<lambda>s. bindR r (\<lambda>x. f x s))"
  by (auto simp: preserves_def bindR_eq_Inr)

lemma adds_foldR:
  assumes "\<And>x. adds m (n x) (f x)"
  shows "adds m (sum_list (map n xs)) (foldR f xs)"
proof -
  have "foldR f xs s = Inr s' \<Longrightarrow> m s' = m s + sum_list (map n xs)" for s s'
  proof (induction xs arbitrary: s)
    case (Cons x xs)
    then obtain s1 where "f x s = Inr s1" "foldR f xs s1 = Inr s'" by (auto simp: bindR_eq_Inr)
    with Cons.IH [of s1] assms show ?case by (simp add: adds_def add.assoc)
  qed simp
  then show ?thesis by (simp add: adds_def)
qed

lemma adds_bindR: "(\<And>x. r = Inr x \<Longrightarrow> adds m n (f x)) \<Longrightarrow> adds m n (\<lambda>s. bindR r (\<lambda>x. f x s))"
  by (auto simp: adds_def bindR_eq_Inr)

abbreviation rows_kept :: "feedback \<Rightarrow> (feedback_state \<Rightarrow> feedback_state result) \<Rightarrow> bool" where
  "rows_kept fb \<equiv> preserves (\<lambda>st. rows_inv (set (fb_excluded_severities fb)) (fst st))"

lemma result_step_inv:
  "result_step kind fb v st st' \<Longrightarrow> rows_inv (set (fb_excluded_severities fb)) (fst st) \<Longrightarrow> rows_inv (set (fb_excluded_severities fb)) (fst st')"
  by (auto simp: result_step_def split: if_splits intro: grows_inv)

lemma results_kept [loop_intros]:
  "rows_kept fb (add_sast_result E fb l v)" "rows_kept fb (add_sca_result E fb x v)" "rows_kept fb (add_iac_result E fb x q v)"
  "rows_kept fb (add_resolved_result E fb x v)"
  unfolding preserves_def by (blast dest: add_result_steps intro: result_step_inv)+

lemma sections_kept:
  "rows_kept fb (add_sast_details E fb)" "rows_kept fb (add_sca_details E fb)" "rows_kept fb (add_iac_details E fb)"
  "rows_kept fb (add_resolved_details E fb)"
  unfolding add_sast_details_def add_sca_details_def add_iac_details_def add_resolved_details_def
  by (intro loop_intros)+

section \<open>What the tables show\<close>

text \<open>The results of a report, by table.\<close>

definition items_in :: "string \<Rightarrow> json list \<Rightarrow> json list" where
  "items_in key vs = concat (map (\<lambda>v. case items_of v key of Inl _ \<Rightarrow> [] | Inr xs \<Rightarrow> xs) vs)"

fun report_results :: "'e scm_env_scheme \<Rightarrow> json \<Rightarrow> row_kind \<Rightarrow> json list" where
  "report_results E report SastRows = items_in ''vulnerabilities'' (jp_find E ''$.scanResults.resultsList[*]'' report)"
| "report_results E report ScaRows =
     items_in ''categoryResults'' (items_in ''packageCategory'' (jp_find E ''$.scaScanResults.packages[*]'' report))"
| "report_results E report IacRows =
     items_in ''resultsList'' (items_in ''queries'' (jp_find E ''$.iacScanResults.technology[*]'' report))"
| "report_results E report ResolvedRows =
     items_in ''resolvedResults'' (items_in ''resolvedVulnerabilities'' (jp_find E ''$.resolvedVulnerabilities'' report))"

definition row_severities :: "row_kind \<Rightarrow> PullRequestDecoration \<Rightarrow> ResultSeverity multiset" where
  "row_severities kind d = mset (map (dr_severity \<circ> snd) (prd_rows d kind))"

text \<open>What a result of table \<open>k'\<close> adds to table \<open>k\<close>.\<close>

definition weight :: "feedback \<Rightarrow> row_kind \<Rightarrow> row_kind \<Rightarrow> json \<Rightarrow> ResultSeverity multiset" where
  "weight fb k k' v = (if k = k' \<and> shown fb k v then {#result_severity v#} else {#})"

lemma row_severities_insert [simp]:
  "mset (map (dr_severity \<circ> snd) (insert_row k r rows)) = add_mset (dr_severity r) (mset (map (dr_severity \<circ> snd) rows))"
  by (induction k r rows rule: insert_row.induct) auto

abbreviation rows_add :: "row_kind \<Rightarrow> ResultSeverity multiset \<Rightarrow> (feedback_state \<Rightarrow> feedback_state result) \<Rightarrow> bool" where
  "rows_add k \<equiv> adds (\<lambda>st. row_severities k (fst st))"

lemma result_step_adds:
  "result_step k' fb v st st' \<Longrightarrow> row_severities k (fst st') = row_severities k (fst st) + weight fb k k' v"
  by (auto simp: result_step_def grows_def row_severities_def weight_def simp del: mset_map split: if_splits)

lemma results_add:
  "rows_add k (weight fb k SastRows v) (add_sast_result E fb l v)" "rows_add k (weight fb k ScaRows v) (add_sca_result E fb x v)"
  "rows_add k (weight fb k IacRows v) (add_iac_result E fb x q v)" "rows_add k (weight fb k ResolvedRows v) (add_resolved_result E fb x v)"
  unfolding adds_def by (blast dest: add_result_steps intro: result_step_adds)+

text \<open>A loop over the items of an element adds what its items weigh.\<close>

lemma adds_items:
  assumes "\<And>xs. adds m (sum_list (map n xs)) (f xs)"
  shows "adds m (sum_list (map n (items_in key [v]))) (\<lambda>st. bindR (items_of v key) (\<lambda>xs. f xs st))"
  by (rule adds_bindR) (simp add: items_in_def assms)

lemma items_in_Cons: "items_in key (v # vs) = items_in key [v] @ items_in key vs"
  by (simp add: items_in_def)

lemma sum_items_in: "sum_list (map (\<lambda>v. sum_list (map n (items_in key [v]))) vs) = sum_list (map n (items_in key vs))"
  by (induction vs) (simp_all add: items_in_Cons [of key _ "_ # _"] items_in_def)

lemma sum_nested_items:
  "sum_list (map (\<lambda>x. sum_list (map n (items_in key2 (items_in key1 [x])))) vs) = sum_list (map n (items_in key2 (items_in key1 vs)))"
  by (induction vs) (simp_all add: items_in_def)

text \<open>The loops of three of the sections are nested twice.\<close>

lemma adds_nested:
  assumes "\<And>x c v. adds m (n v) (g x c v)"
  shows "adds m (sum_list (map n (items_in key2 (items_in key1 vs))))
     (foldR (\<lambda>x st. bindR (items_of x key1) (\<lambda>cs. foldR (\<lambda>c st. bindR (items_of c key2) (\<lambda>rs. foldR (g x c) rs st)) cs st)) vs)"
proof -
  have inner: "adds m (sum_list (map n (items_in key2 cs))) (foldR (\<lambda>c st. bindR (items_of c key2) (\<lambda>rs. foldR (g x c) rs st)) cs)" for x cs
  proof -
    have "adds m (sum_list (map n (items_in key2 [c]))) (\<lambda>st. bindR (items_of c key2) (\<lambda>rs. foldR (g x c) rs st))" for c
      by (rule adds_items) (rule adds_foldR, rule assms)
    then show ?thesis by (subst sum_items_in [symmetric]) (rule adds_foldR)
  qed
  have "adds m (sum_list (map n (items_in key2 (items_in key1 [x]))))
      (\<lambda>st. bindR (items_of x key1) (\<lambda>cs. foldR (\<lambda>c st. bindR (items_of c key2) (\<lambda>rs. foldR (g x c) rs st)) cs st))" for x
  proof (rule adds_bindR)
    fix cs assume "items_of x key1 = Inr cs"
    then have "items_in key1 [x] = cs" by (simp add: items_in_def)
    with inner show "adds m (sum_list (map n (items_in key2 (items_in key1 [x]))))
        (foldR (\<lambda>c st. bindR (items_of c key2) (\<lambda>rs. foldR (g x c) rs st)) cs)" by simp
  qed
  then show ?thesis by (subst sum_nested_items [symmetric]) (rule adds_foldR)
qed

abbreviation table_weight :: "'e scm_env_scheme \<Rightarrow> feedback \<Rightarrow> row_kind \<Rightarrow> row_kind \<Rightarrow> ResultSeverity multiset" where
  "table_weight E fb k k' \<equiv> sum_list (map (weight fb k k') (report_results E (fb_report fb) k'))"

lemma sections_add:
  "rows_add k (table_weight E fb k ScaRows) (add_sca_details E fb)"
  "rows_add k (table_weight E fb k IacRows) (add_iac_details E fb)"
  "rows_add k (table_weight E fb k ResolvedRows) (add_resolved_details E fb)"
  unfolding add_sca_details_def add_iac_details_def add_resolved_details_def report_results.simps
  by (rule adds_nested, rule results_add)+

lemma sast_details_add: "rows_add k (table_weight E fb k SastRows) (add_sast_details E fb)"
proof -
  let ?n = "weight fb k SastRows"
  have "rows_add k (sum_list (map ?n (items_in ''vulnerabilities'' [x])))
      (\<lambda>st. bindR (py_getitem x ''queryDescriptionLink'') (\<lambda>desc. bindR (py_getitem x ''queryName'') (\<lambda>name.
         bindR (items_of x ''vulnerabilities'') (\<lambda>vulns. foldR (add_sast_result E fb (pr_link (as_text E desc) (as_text E name))) vulns st))))" for x
    by (rule adds_bindR, rule adds_bindR, rule adds_items, rule adds_foldR, rule results_add)
  then show ?thesis
    unfolding add_sast_details_def report_results.simps by (subst sum_items_in [symmetric]) (rule adds_foldR)
qed

lemma table_weight_eq:
  "sum_list (map (weight fb k k') vs) = (if k = k' then mset (map result_severity (filter (shown fb k) vs)) else {#})"
  by (induction vs) (simp_all add: weight_def)

lemma titled_section_adds:
  "rows_add k n f \<Longrightarrow> titled_section f d = Inr d' \<Longrightarrow> row_severities k d' = row_severities k d + n"
  by (fastforce simp: titled_section_def bindR_eq_Inr adds_def)

lemma titled_section_kept:
  "rows_kept fb f \<Longrightarrow> titled_section f d = Inr d' \<Longrightarrow> rows_inv (set (fb_excluded_severities fb)) d \<Longrightarrow> rows_inv (set (fb_excluded_severities fb)) d'"
  by (fastforce simp: titled_section_def bindR_eq_Inr preserves_def)

lemma no_rows_yet:
  assumes "add_annotation_section E fb br (make_PullRequestDecoration url) = Inr d"
  shows "prd_rows (add_summary_section E fb d) k = []"
  using assms by (auto simp: add_annotation_section_def bindR_eq_Inr add_to_annotation_def make_PullRequestDecoration_def Let_def
      add_summary_section_def add_summary_entry_def start_summary_section_def)

text \<open>
  C7: the tables of the comment show every result that is not excluded, and no other, sorted by severity: the
  severities of a table's rows are those of the results of the report that pass the filters of state and severity,
  in order.
\<close>

theorem feedback_tables:
  assumes "make_PullRequestFeedback E fb br = Inr d"
  shows "map (dr_severity \<circ> snd) (prd_rows d kind) =
         sort (map result_severity (filter (shown fb kind) (report_results E (fb_report fb) kind)))"
proof -
  obtain d0 d1 d2 d3 where
    d0: "add_annotation_section E fb br (make_PullRequestDecoration (fb_server_base_url fb)) = Inr d0" and
    d1: "titled_section (add_sast_details E fb) (add_summary_section E fb d0) = Inr d1" and
    d2: "titled_section (add_resolved_details E fb) d1 = Inr d2" and d3: "titled_section (add_sca_details E fb) d2 = Inr d3" and
    d: "titled_section (add_iac_details E fb) d3 = Inr d"
    using assms unfolding make_PullRequestFeedback_def bindR_eq_Inr by (elim exE conjE)
  have "rows_inv (set (fb_excluded_severities fb)) (add_summary_section E fb d0)"
    by (simp add: rows_inv_def no_rows_yet [OF d0])
  then have "rows_inv (set (fb_excluded_severities fb)) d"
    by (rule titled_section_kept [OF sections_kept(3) d titled_section_kept [OF sections_kept(2) d3
          titled_section_kept [OF sections_kept(4) d2 titled_section_kept [OF sections_kept(1) d1]]]])
  moreover have "row_severities kind d =
      mset (map result_severity (filter (shown fb kind) (report_results E (fb_report fb) kind)))"
  proof -
    have "row_severities kind (add_summary_section E fb d0) = {#}"
      by (simp add: row_severities_def no_rows_yet [OF d0])
    then have "row_severities kind d =
        table_weight E fb kind SastRows + table_weight E fb kind ResolvedRows + table_weight E fb kind ScaRows + table_weight E fb kind IacRows"
      using titled_section_adds [OF sast_details_add d1] titled_section_adds [OF sections_add(3) d2]
        titled_section_adds [OF sections_add(1) d3] titled_section_adds [OF sections_add(2) d] by simp
    then show ?thesis unfolding table_weight_eq by (cases kind) simp_all
  qed
  ultimately show ?thesis
    using properties_for_sort [of "map (dr_severity \<circ> snd) (prd_rows d kind)"] rows_inv_sorted unfolding row_severities_def by metis
qed

definition demo_result :: "string \<Rightarrow> json" where
  "demo_result severity = JObj [(''state'', JStr ''Confirmed''), (''severity'', JStr severity), (''sourceFileName'', JStr ''a.c''),
     (''sourceLine'', JInt 7), (''resultViewerLink'', JStr ''https://x/r'')]"

definition demo_report :: json where
  "demo_report = JList [JObj [(''queryDescriptionLink'', JStr ''https://x/q''), (''queryName'', JStr ''XSS''),
     (''vulnerabilities'', JList [demo_result ''Medium'', demo_result ''Low'', demo_result ''High''])]]"

definition demo_report_env :: scm_env where
  "demo_report_env = quiet_scm_env
     \<lparr>jp_find := (\<lambda>q v. if q = ''$.scanResults.resultsList[*]'' then (case v of JList xs \<Rightarrow> xs | _ \<Rightarrow> []) else [])\<rparr>"

definition demo_pr_feedback :: feedback where
  "demo_pr_feedback = \<lparr>fb_excluded_severities = [LOW], fb_excluded_states = [], fb_display_url = ''https://x/'', fb_project_id = ''p'',
     fb_scanid = ''s'', fb_report = demo_report, fb_permalink = (\<lambda>_ _. ''https://g/a.c#L7''), fb_server_base_url = ''https://f''\<rparr>"

theorem feedback_tables_witness:
  "\<exists>d. make_PullRequestFeedback demo_report_env demo_pr_feedback (JStr ''main'') = Inr d \<and>
       map (dr_severity \<circ> snd) (prd_rows d SastRows) = [HIGH, MEDIUM]"
proof -
  have "\<not> isl (make_PullRequestFeedback demo_report_env demo_pr_feedback (JStr ''main''))" by code_simp
  then obtain d where d: "make_PullRequestFeedback demo_report_env demo_pr_feedback (JStr ''main'') = Inr d"
    by (cases "make_PullRequestFeedback demo_report_env demo_pr_feedback (JStr ''main'')") simp_all
  have "sort (map result_severity (filter (shown demo_pr_feedback SastRows) (report_results demo_report_env demo_report SastRows))) = [HIGH, MEDIUM]"
    by code_simp
  with feedback_tables [OF d, of SastRows] have "map (dr_severity \<circ> snd) (prd_rows d SastRows) = [HIGH, MEDIUM]"
    by (simp add: demo_pr_feedback_def)
  with d show ?thesis by (intro exI conjI)
qed

end
