(* ===== verification/Pr_Comments.thy ===== *)
theory Pr_Comments
  imports Pr_Decoration Kickoff
begin

text \<open>
  The four services of \<^verbatim>\<open>src/scm_services\<close> that leave a comment on a pull request: each looks for the comment an earlier
  scan left, updates it when there is one and adds one when there is none. What they promise is the locale
  \<open>comment_service\<close>, which each of them is an interpretation of. JSON and form encoding, the rendering of Markdown and the
  time of day are parameters.
\<close>

record pr_env = scm_env +
  json_dumps :: "json \<Rightarrow> string"
  form_encode :: "string dict \<Rightarrow> string" \<comment> \<open>what \<^verbatim>\<open>requests\<close> sends for a dictionary body\<close>
  md_tables :: "string \<Rightarrow> string" \<comment> \<open>\<^verbatim>\<open>markdown(text, extensions=['tables'])\<close>\<close>
  utc_isoformat :: "trace \<Rightarrow> string"

record pr_target =
  pt_organization :: json
  pt_project :: json
  pt_slug :: json
  pt_number :: json

section \<open>What the services share\<close>

text \<open>\<^verbatim>\<open>self.exec(method, path, query, body, extra_headers, event_context, url_vars)\<close>.\<close>

definition scm_exec ::
  "'e scm_env_scheme \<Rightarrow> SCMService \<Rightarrow> string \<Rightarrow> string \<Rightarrow> json dict \<Rightarrow> string option \<Rightarrow> string dict \<Rightarrow> EventContext option \<Rightarrow> string dict \<Rightarrow>
   http_response act" where
  "scm_exec E scm http_method path qry body extra_headers ec url_vars =
     APISession_exec E (scm_session scm) ec http_method path qry body extra_headers url_vars"

definition ok_json :: "'e scm_env_scheme \<Rightarrow> http_response \<Rightarrow> json act" where
  "ok_json E resp = liftE (answer (json_on_ok E resp))"

text \<open>The length of a page is taken first, its last element after that.\<close>

fun popped_list :: "json \<Rightarrow> json list result" where
  "popped_list (JList xs) = Inr xs"
| "popped_list (JStr s) = Inl AttributeError"
| "popped_list _ = Inl TypeError"

definition page_items :: "json \<Rightarrow> (nat \<Rightarrow> bool result) \<Rightarrow> (json list \<times> bool) result" where
  "page_items body last_page =
     bindR (py_len body) (\<lambda>n.
     bindR (last_page n) (\<lambda>l.
     if n = 0 then Inr ([], l) else bindR (popped_list body) (\<lambda>xs. Inr (xs, l))))"

text \<open>\<^verbatim>\<open>async for x in gen: if ...: return ...\<close>, where the test may raise.\<close>

fun gen_search ::
  "nat \<Rightarrow> (nat \<Rightarrow> ('s, 'a list \<times> bool) py) \<Rightarrow> ('a \<Rightarrow> 'b option result) \<Rightarrow> 'a pager \<Rightarrow> ('s, 'b option) py" where
  "gen_search 0 fetch f g = raiseE OutOfFuel"
| "gen_search (Suc fuel) fetch f g =
     bindE (gen_next fetch g) (\<lambda>r. case r of
       None \<Rightarrow> returnE None
     | Some (x, g') \<Rightarrow>
         bindE (liftE (f x)) (\<lambda>found. case found of
           None \<Rightarrow> gen_search fuel fetch f g'
         | Some y \<Rightarrow> returnE (Some y)))"

text \<open>\<^verbatim>\<open>a and b\<close> over tests that may raise.\<close>

definition andR :: "bool result \<Rightarrow> bool result \<Rightarrow> bool result" where
  "andR a b = bindR a (\<lambda>x. if x then b else Inr False)"

definition item_truthy :: "json \<Rightarrow> string \<Rightarrow> bool result" where
  "item_truthy v key = bindR (py_getitem v key) (\<lambda>x. Inr (truthy x))"

section \<open>GitHub\<close>

definition gh_max_content_chars :: nat where "gh_max_content_chars = 65535"

definition gh_comments_page_max :: nat where "gh_comments_page_max = 100"

definition gh_comments_path :: "'e scm_env_scheme \<Rightarrow> pr_target \<Rightarrow> string" where
  "gh_comments_path E r = ''/repos/'' @ as_text E (pt_organization r) @ ''/'' @ as_text E (pt_slug r) @ ''/issues/'' @
     as_text E (pt_number r) @ ''/comments''"

definition gh_comment_page :: "'e scm_env_scheme \<Rightarrow> SCMService \<Rightarrow> pr_target \<Rightarrow> EventContext option \<Rightarrow> nat \<Rightarrow> (json list \<times> bool) act" where
  "gh_comment_page E scm r ec offset =
     bindE (scm_exec E scm ''GET'' (gh_comments_path E r)
              [(''per_page'', JInt (int gh_comments_page_max)), (''page'', JInt (int offset + 1))] None [] ec []) (\<lambda>resp.
     if rs_ok resp then
       bindE (liftE (answer (rs_json resp))) (\<lambda>body. liftE (page_items body (\<lambda>n. Inr (n \<ge> gh_comments_page_max))))
     else raiseE TypeError)"

definition gh_comment_match :: "json \<Rightarrow> json option result" where
  "gh_comment_match comment =
     bindR (andR (py_has_key comment ''id'') (py_has_key comment ''body'')) (\<lambda>b.
     if b then
       bindR (py_getitem comment ''id'') (\<lambda>comment_id.
       bindR (bindR (py_getitem comment ''body'') matches_identifier) (\<lambda>m. Inr (if m then Some comment_id else None)))
     else Inr None)"

text \<open>The id of the comment, \<open>JNull\<close> for none.\<close>

definition gh_find_comment :: "'e scm_env_scheme \<Rightarrow> SCMService \<Rightarrow> pr_target \<Rightarrow> EventContext option \<Rightarrow> json act" where
  "gh_find_comment E scm r ec =
     bindE (gen_search (page_fuel E) (gh_comment_page E scm r ec) gh_comment_match pager_init) (\<lambda>found.
     returnE (case found of None \<Rightarrow> JNull | Some comment_id \<Rightarrow> comment_id))"

definition gh_write_comment ::
  "'e pr_env_scheme \<Rightarrow> SCMService \<Rightarrow> pr_target \<Rightarrow> EventContext option \<Rightarrow> json \<Rightarrow> string \<Rightarrow> unit act" where
  "gh_write_comment E scm r ec target_id content =
     (let body = Some (json_dumps E (JObj [(''body'', JStr content)])) in
      if target_id = JNull then
        bindE (scm_exec E scm ''POST'' (gh_comments_path E r) [] body [] ec []) (\<lambda>resp.
        bindE (ok_json E resp) (\<lambda>v.
        bindE (liftE (py_getitem v ''id'')) (\<lambda>_. returnE ())))
      else
        bindE (scm_exec E scm ''PATCH'' (''/repos/'' @ as_text E (pt_organization r) @ ''/'' @ as_text E (pt_slug r) @
                 ''/issues/comments/'' @ as_text E target_id) [] body [] ec []) (\<lambda>resp.
        bindE (ok_json E resp) (\<lambda>_. returnE ())))"

text \<open>The text that fits: the full one up to the limit of the server, the summary past it.\<close>

definition fitting_content :: "nat \<Rightarrow> string \<Rightarrow> string \<Rightarrow> string" where
  "fitting_content max_content_chars full summary = (if length full \<le> max_content_chars then full else summary)"

definition gh_exec_pr_decorate ::
  "'e pr_env_scheme \<Rightarrow> SCMService \<Rightarrow> pr_target \<Rightarrow> string \<Rightarrow> string \<Rightarrow> string \<Rightarrow> EventContext option \<Rightarrow> unit act" where
  "gh_exec_pr_decorate E scm r scanid full summary ec =
     bindE (gh_find_comment E scm r ec) (\<lambda>target_id.
     gh_write_comment E scm r ec target_id (fitting_content gh_max_content_chars full summary))"

definition gh_create_code_permalink :: "'e scm_env_scheme \<Rightarrow> SCMService \<Rightarrow> pr_target \<Rightarrow> json \<Rightarrow> json \<Rightarrow> json \<Rightarrow> string" where
  "gh_create_code_permalink E scm r branch code_path code_line =
     form_url (scm_display_url scm) (''/'' @ as_text E (pt_organization r) @ ''/'' @ as_text E (pt_slug r) @ ''/blob/'' @ as_text E branch @
       as_text E code_path) (Some (''L'' @ as_text E code_line)) []"

section \<open>GitLab\<close>

definition gl_max_content_chars :: nat where "gl_max_content_chars = 1000000"

definition gl_notes_api_path :: string where
  "gl_notes_api_path = ''/projects/:id/merge_requests/:merge_request_iid/notes''"

definition gl_note_update_api_path :: string where
  "gl_note_update_api_path = ''/projects/:id/merge_requests/:merge_request_iid/notes/:note_id''"

definition gl_api_params :: "'e scm_env_scheme \<Rightarrow> pr_target \<Rightarrow> string dict result" where
  "gl_api_params E r =
     bindR (path_of (pt_slug r)) (\<lambda>slug. Inr [(''id'', quote_plus slug), (''merge_request_iid'', as_text E (pt_number r))])"

text \<open>Every comment is looked at; the last one that matches is updated.\<close>

fun gl_last_match :: "'e scm_env_scheme \<Rightarrow> json list \<Rightarrow> string option \<Rightarrow> string option result" where
  "gl_last_match E [] found = Inr found"
| "gl_last_match E (comment # comments) found =
     bindR (bindR (py_getitem comment ''body'') matches_identifier) (\<lambda>m.
     if m then bindR (py_getitem comment ''id'') (\<lambda>note_id. gl_last_match E comments (Some (as_text E note_id)))
     else gl_last_match E comments found)"

definition gl_find_note :: "'e scm_env_scheme \<Rightarrow> SCMService \<Rightarrow> string dict \<Rightarrow> string option act" where
  "gl_find_note E scm pr_api_params =
     bindE (scm_exec E scm ''GET'' gl_notes_api_path [] None [] None pr_api_params) (\<lambda>resp.
     bindE (ok_json E resp) (\<lambda>existing_comments.
     liftE (bindR (py_iter existing_comments) (\<lambda>comments. gl_last_match E comments None))))"

definition gl_write_note :: "'e pr_env_scheme \<Rightarrow> SCMService \<Rightarrow> string dict \<Rightarrow> string option \<Rightarrow> string \<Rightarrow> unit act" where
  "gl_write_note E scm pr_api_params found content =
     (let (http_method, note_url, pr_api_params) = (case found of
            None \<Rightarrow> (''POST'', gl_notes_api_path, pr_api_params)
          | Some note_id \<Rightarrow> (''PUT'', gl_note_update_api_path, dict_set pr_api_params ''note_id'' note_id)) in
      bindE (scm_exec E scm http_method note_url [] (Some (form_encode E [(''body'', content)])) [] None pr_api_params) (\<lambda>resp.
      bindE (ok_json E resp) (\<lambda>_. returnE ())))"

definition gl_exec_pr_decorate ::
  "'e pr_env_scheme \<Rightarrow> SCMService \<Rightarrow> pr_target \<Rightarrow> string \<Rightarrow> string \<Rightarrow> string \<Rightarrow> EventContext option \<Rightarrow> unit act" where
  "gl_exec_pr_decorate E scm r scanid full summary ec =
     bindE (liftE (gl_api_params E r)) (\<lambda>pr_api_params.
     bindE (gl_find_note E scm pr_api_params) (\<lambda>found.
     gl_write_note E scm pr_api_params found (fitting_content gl_max_content_chars full summary)))"

definition gl_create_code_permalink :: "'e scm_env_scheme \<Rightarrow> SCMService \<Rightarrow> pr_target \<Rightarrow> json \<Rightarrow> json \<Rightarrow> json \<Rightarrow> string" where
  "gl_create_code_permalink E scm r branch code_path code_line =
     form_url (scm_display_url scm) (''/'' @ as_text E (pt_slug r) @ ''/-/blob/'' @ as_text E branch @ as_text E code_path)
       (Some (''L'' @ as_text E code_line)) []"

section \<open>Bitbucket Data Center\<close>

definition bbdc_max_content_chars :: nat where "bbdc_max_content_chars = 32000"

definition bbdc_pr_path :: "'e scm_env_scheme \<Rightarrow> pr_target \<Rightarrow> string" where
  "bbdc_pr_path E r = ''/rest/api/latest/projects/'' @ as_text E (pt_project r) @ ''/repos/'' @ as_text E (pt_slug r) @
     ''/pull-requests/'' @ as_text E (pt_number r)"

text \<open>A page without values ends the listing before its last-page flag is read.\<close>

definition bbdc_activity_page :: "'e scm_env_scheme \<Rightarrow> SCMService \<Rightarrow> string \<Rightarrow> nat \<Rightarrow> (json list \<times> bool) act" where
  "bbdc_activity_page E scm path offset =
     bindE (scm_exec E scm ''GET'' path [(''start'', JInt (int offset))] None [] None []) (\<lambda>resp.
     bindE (ok_json E resp) (\<lambda>page.
     bindE (liftE (py_getitem page ''values'')) (\<lambda>buf.
     if buf = JNull then returnE ([], False)
     else liftE (page_items buf (\<lambda>n. if n = 0 then Inr False else item_truthy page ''isLastPage'')))))"

definition bbdc_item_match :: "json \<Rightarrow> (int \<times> int) option result" where
  "bbdc_item_match item =
     bindR (py_has_key item ''comment'') (\<lambda>has_comment.
     if \<not> has_comment then Inr None
     else
       bindR (py_getitem item ''comment'') (\<lambda>comment.
       bindR (andR (andR (py_has_key comment ''threadResolved'') (bindR (item_truthy comment ''threadResolved'') (\<lambda>b. Inr (\<not> b))))
               (andR (py_has_key comment ''permittedOperations'')
                 (bindR (py_getitem comment ''permittedOperations'') (\<lambda>ops.
                    andR (andR (py_has_key ops ''editable'') (item_truthy ops ''editable''))
                      (andR (py_has_key comment ''text'') (bindR (py_getitem comment ''text'') matches_identifier)))))) (\<lambda>m.
       if m then
         bindR (bindR (py_getitem comment ''id'') py_int) (\<lambda>comment_id.
         bindR (bindR (py_getitem comment ''version'') py_int) (\<lambda>version. Inr (Some (comment_id, version))))
       else Inr None)))"

definition bbdc_find_existing_comment :: "'e scm_env_scheme \<Rightarrow> SCMService \<Rightarrow> pr_target \<Rightarrow> (int \<times> int) option act" where
  "bbdc_find_existing_comment E scm r =
     gen_search (page_fuel E) (bbdc_activity_page E scm (bbdc_pr_path E r @ ''/activities'')) bbdc_item_match pager_init"

definition json_content :: "string dict" where
  "json_content = [(''Content-Type'', ''application/json'')]"

definition bbdc_add_comment :: "'e pr_env_scheme \<Rightarrow> SCMService \<Rightarrow> pr_target \<Rightarrow> string \<Rightarrow> (int \<times> int) act" where
  "bbdc_add_comment E scm r markdown =
     bindE (scm_exec E scm ''POST'' (bbdc_pr_path E r @ ''/comments'') [] (Some (json_dumps E (JObj [(''text'', JStr markdown)])))
              json_content None []) (\<lambda>resp.
     bindE (ok_json E resp) (\<lambda>v.
     bindE (liftE (bindR (py_getitem v ''id'') py_int)) (\<lambda>comment_id.
     bindE (liftE (bindR (py_getitem v ''version'') py_int)) (\<lambda>version. returnE (comment_id, version)))))"

definition bbdc_update_comment :: "'e pr_env_scheme \<Rightarrow> SCMService \<Rightarrow> pr_target \<Rightarrow> int \<Rightarrow> int \<Rightarrow> string \<Rightarrow> unit act" where
  "bbdc_update_comment E scm r comment_id comment_version markdown =
     bindE (scm_exec E scm ''PUT'' (bbdc_pr_path E r @ ''/comments/'' @ show_int comment_id) []
              (Some (json_dumps E (JObj [(''version'', JInt comment_version), (''text'', JStr markdown)]))) json_content None [])
     (\<lambda>_. returnE ())"

definition bbdc_write_comment :: "'e pr_env_scheme \<Rightarrow> SCMService \<Rightarrow> pr_target \<Rightarrow> (int \<times> int) option \<Rightarrow> string \<Rightarrow> unit act" where
  "bbdc_write_comment E scm r found content =
     (case found of
        None \<Rightarrow> bindE (bbdc_add_comment E scm r content) (\<lambda>_. returnE ())
      | Some (comment_id, version) \<Rightarrow> bbdc_update_comment E scm r comment_id version content)"

definition bbdc_exec_pr_decorate ::
  "'e pr_env_scheme \<Rightarrow> SCMService \<Rightarrow> pr_target \<Rightarrow> string \<Rightarrow> string \<Rightarrow> string \<Rightarrow> EventContext option \<Rightarrow> unit act" where
  "bbdc_exec_pr_decorate E scm r scanid full summary ec =
     bindE (bbdc_find_existing_comment E scm r) (\<lambda>found.
     bbdc_write_comment E scm r found (fitting_content bbdc_max_content_chars full summary))"

definition bbdc_create_code_permalink :: "'e scm_env_scheme \<Rightarrow> SCMService \<Rightarrow> pr_target \<Rightarrow> json \<Rightarrow> json \<Rightarrow> json \<Rightarrow> string" where
  "bbdc_create_code_permalink E scm r branch code_path code_line =
     form_url (scm_display_url scm) (''projects/'' @ as_text E (pt_project r) @ ''/repos/'' @ as_text E (pt_slug r) @ ''/browse'' @
       as_text E code_path) (if code_line = JNull then None else Some (as_text E code_line)) [(''at'', as_text E branch)]"

section \<open>Azure DevOps\<close>

definition adoe_max_content_chars :: nat where "adoe_max_content_chars = 150000"

definition adoe_thread_prop_key :: string where "adoe_thread_prop_key = ''cxoneflow''"

definition adoe_api_version :: "json dict" where "adoe_api_version = [(''api-version'', JStr ''7.0'')]"

definition adoe_threads_path :: "'e scm_env_scheme \<Rightarrow> pr_target \<Rightarrow> string" where
  "adoe_threads_path E r = as_text E (pt_organization r) @ ''/'' @ as_text E (pt_project r) @ ''/_apis/git/repositories/'' @
     as_text E (pt_slug r) @ ''/pullRequests/'' @ as_text E (pt_number r) @ ''/threads''"

definition adoe_create_thread_props :: "'e pr_env_scheme \<Rightarrow> trace \<Rightarrow> string \<Rightarrow> string" where
  "adoe_create_thread_props E tr scanid = json_dumps E (JObj [(''timestamp'', JStr (utc_isoformat E tr)), (''scanid'', JStr scanid)])"

text \<open>A thread of the program has a property that says so.\<close>

definition adoe_thread_match :: "json \<Rightarrow> bool result" where
  "adoe_thread_match thread =
     andR (py_has_key thread ''properties'')
       (bindR (py_getitem thread ''properties'') (\<lambda>properties.
        if properties = JNull then Inr False
        else andR (py_has_key properties adoe_thread_prop_key) (bindR (item_truthy thread ''isDeleted'') (\<lambda>b. Inr (\<not> b)))))"

fun adoe_first_match :: "json list \<Rightarrow> json result" where
  "adoe_first_match [] = Inr JNull"
| "adoe_first_match (thread # threads) =
     bindR (adoe_thread_match thread) (\<lambda>m. if m then py_getitem thread ''id'' else adoe_first_match threads)"

definition adoe_get_pr_thread :: "'e scm_env_scheme \<Rightarrow> SCMService \<Rightarrow> pr_target \<Rightarrow> json act" where
  "adoe_get_pr_thread E scm r =
     bindE (scm_exec E scm ''GET'' (adoe_threads_path E r) adoe_api_version None [] None []) (\<lambda>resp.
     bindE (ok_json E resp) (\<lambda>threads.
     liftE (bindR (bindR (py_getitem threads ''value'') py_iter) adoe_first_match)))"

definition adoe_update_pr_thread :: "'e pr_env_scheme \<Rightarrow> SCMService \<Rightarrow> pr_target \<Rightarrow> json \<Rightarrow> string \<Rightarrow> unit act" where
  "adoe_update_pr_thread E scm r thread_id annotation =
     bindE (scm_exec E scm ''PATCH'' (adoe_threads_path E r @ ''/'' @ as_text E thread_id @ ''/comments/1'') adoe_api_version
              (Some (json_dumps E (JObj [(''content'', JStr annotation)]))) json_content None []) (\<lambda>resp.
     bindE (ok_json E resp) (\<lambda>_. returnE ()))"

definition adoe_thread_payload :: "string \<Rightarrow> string \<Rightarrow> json" where
  "adoe_thread_payload annotation props = JObj
     [(''comments'', JList [JObj [(''parentCommentId'', JInt 0), (''content'', JStr annotation), (''commentType'', JInt 1)]]),
      (''status'', JInt 1),
      (''properties'', JObj [(adoe_thread_prop_key, JStr props)])]"

definition adoe_create_pr_thread :: "'e pr_env_scheme \<Rightarrow> SCMService \<Rightarrow> pr_target \<Rightarrow> string \<Rightarrow> string \<Rightarrow> unit act" where
  "adoe_create_pr_thread E scm r annotation scanid =
     bindE (look (\<lambda>tr. Inr (adoe_create_thread_props E tr scanid))) (\<lambda>props.
     bindE (scm_exec E scm ''POST'' (adoe_threads_path E r) adoe_api_version
              (Some (json_dumps E (adoe_thread_payload annotation props))) json_content None []) (\<lambda>resp.
     bindE (ok_json E resp) (\<lambda>thread.
     if thread = JNull then returnE () else bindE (liftE (py_getitem thread ''id'')) (\<lambda>_. returnE ()))))"

definition adoe_write_thread :: "'e pr_env_scheme \<Rightarrow> SCMService \<Rightarrow> pr_target \<Rightarrow> string \<Rightarrow> json \<Rightarrow> string \<Rightarrow> unit act" where
  "adoe_write_thread E scm r scanid existing_thread content =
     (if existing_thread = JNull then adoe_create_pr_thread E scm r content scanid
      else adoe_update_pr_thread E scm r existing_thread content)"

definition adoe_content :: "'e pr_env_scheme \<Rightarrow> string \<Rightarrow> string \<Rightarrow> string" where
  "adoe_content E full summary =
     (let content = md_tables E full in if length content > adoe_max_content_chars then md_tables E summary else content)"

definition adoe_exec_pr_decorate ::
  "'e pr_env_scheme \<Rightarrow> SCMService \<Rightarrow> pr_target \<Rightarrow> string \<Rightarrow> string \<Rightarrow> string \<Rightarrow> EventContext option \<Rightarrow> unit act" where
  "adoe_exec_pr_decorate E scm r scanid full summary ec =
     bindE (adoe_get_pr_thread E scm r) (\<lambda>existing_thread.
     adoe_write_thread E scm r scanid existing_thread (adoe_content E full summary))"

definition adoe_create_code_permalink :: "'e scm_env_scheme \<Rightarrow> SCMService \<Rightarrow> pr_target \<Rightarrow> json \<Rightarrow> json \<Rightarrow> json \<Rightarrow> string" where
  "adoe_create_code_permalink E scm r branch code_path code_line =
     form_url (scm_display_url scm) (as_text E (pt_organization r) @ ''/'' @ as_text E (pt_project r) @ ''/_git/'' @ as_text E (pt_slug r)) None
       [(''path'', as_text E code_path), (''version'', ''GB'' @ as_text E branch), (''line'', as_text E code_line), (''lineEnd'', as_text E code_line),
        (''lineStartColumn'', ''0''), (''lineEndColumn'', ''1024''), (''lineStyle'', ''plain''), (''_a'', ''contents'')]"

section \<open>What a comment service promises\<close>

text \<open>
  \<open>find\<close> looks for the comment and only reads; \<open>put\<close>, when it returns, has sent one request, again after an error
  response: a creation when nothing was found and an update when something was, carrying the content.
\<close>

fun only_reads :: "event \<Rightarrow> bool" where
  "only_reads (EvHttp rq) = (rq_method rq = ''GET'')"
| "only_reads (EvSleep d) = True"
| "only_reads _ = False"

definition sends :: "nat \<Rightarrow> string \<Rightarrow> string \<Rightarrow> string \<Rightarrow> trace \<Rightarrow> bool" where
  "sends tries http_method url payload tr \<longleftrightarrow> 1 \<le> http_count tr \<and> http_count tr \<le> tries \<and>
     (\<forall>rq. EvHttp rq \<in> set tr \<longrightarrow> rq_method rq = http_method \<and> rq_url rq = url \<and> rq_body rq = Some payload)"

text \<open>A coroutine has sent a payload that \<open>carries\<close> accepts.\<close>

definition posted :: "(string \<Rightarrow> bool) \<Rightarrow> nat \<Rightarrow> string \<Rightarrow> world \<Rightarrow> world \<Rightarrow> bool" where
  "posted carries tries http_method w w' \<longleftrightarrow>
     (\<exists>new url payload. w_trace w' = w_trace w @ new \<and> carries payload \<and> sends tries http_method url payload new)"

locale comment_service =
  fixes find :: "'c act" and absent :: "'c \<Rightarrow> bool" and put :: "'c \<Rightarrow> string \<Rightarrow> unit act"
    and update_method :: string and carries :: "string \<Rightarrow> string \<Rightarrow> bool" and tries :: nat
  assumes find_reads: "emits only_reads find"
    and put_sends: "put t content w = (Inr (), w') \<Longrightarrow>
      posted (carries content) tries (if absent t then ''POST'' else update_method) w w'"
begin

lemma upserts:
  assumes "bindE find (\<lambda>t. put t content) w = (Inr (), w')"
  shows "\<exists>t w1. find w = (Inr t, w1) \<and> list_all only_reads (new_events find w) \<and>
    posted (carries content) tries (if absent t then ''POST'' else update_method) w1 w'"
proof -
  obtain t w1 where t: "find w = (Inr t, w1)" "put t content w1 = (Inr (), w')"
    using assms by (auto simp: py_simps split: prod.splits sum.splits)
  have "list_all only_reads (new_events find w)"
    using emits_new_events [OF find_reads] by (auto simp: list_all_iff)
  with t put_sends [OF t(2)] show ?thesis by blast
qed

end

subsection \<open>Requests\<close>

lemma scm_exec_sends:
  assumes run: "scm_exec E scm http_method path qry (Some payload) hdrs ec url_vars w = (Inr resp, w')"
  shows "\<exists>new. w_trace w' = w_trace w @ new \<and>
    sends (nat (s_retries (scm_session scm))) http_method (apply_url_vars (concat_path_to_endpoint (scm_session scm) path) url_vars) payload new"
proof -
  let ?ok = "\<lambda>e. \<forall>rq. e = EvHttp rq \<longrightarrow> rq_method rq = http_method \<and>
    rq_url rq = apply_url_vars (concat_path_to_endpoint (scm_session scm) path) url_vars \<and> rq_body rq = Some payload"
  have "emits ?ok (scm_exec E scm http_method path qry (Some payload) hdrs ec url_vars)"
    unfolding scm_exec_def APISession_exec_def by (rule exec_attempts_emits) simp_all
  from this obtain new where new: "w_trace w' = w_trace w @ new" "list_all ?ok new"
    by (rule emitsD [of _ _ w]) (simp add: run)
  have "1 \<le> http_count new \<and> http_count new \<le> nat (s_retries (scm_session scm))"
    using exec_attempts_outcome [OF run [unfolded scm_exec_def APISession_exec_def]] new(1) by auto
  with new show ?thesis by (intro exI [of _ new]) (auto simp: sends_def list_all_iff)
qed

text \<open>What follows a request does nothing but read its answer.\<close>

lemma quiet_same: "emits (\<lambda>_. False) m \<Longrightarrow> m w = (x, w') \<Longrightarrow> w_trace w' = w_trace w"
  by (erule emitsD [of _ m w]) (case_tac new, simp_all)

lemma write_by_exec:
  assumes "bindE (scm_exec E scm http_method path qry (Some payload) hdrs ec url_vars) k w = (Inr (), w')"
    and "\<And>resp. emits (\<lambda>_. False) (k resp)"
  shows "\<exists>new url. w_trace w' = w_trace w @ new \<and> sends (nat (s_retries (scm_session scm))) http_method url payload new"
proof -
  obtain resp w1 where "scm_exec E scm http_method path qry (Some payload) hdrs ec url_vars w = (Inr resp, w1)" and k: "k resp w1 = (Inr (), w')"
    using assms(1) by (auto simp: py_simps split: prod.splits sum.splits)
  from scm_exec_sends [OF this(1)] quiet_same [OF assms(2) k] show ?thesis by auto
qed

lemma scm_exec_reads [emits_intros]: "emits only_reads (scm_exec E scm ''GET'' path qry body hdrs ec url_vars)"
  unfolding scm_exec_def APISession_exec_def by (rule exec_attempts_emits) simp_all

lemma ok_json_emits [emits_intros]: "emits ok (ok_json E resp)"
  by (simp add: ok_json_def emits_intros)

lemma gen_search_emits [emits_intros]:
  assumes "\<And>n. emits ok (fetch n)"
  shows "emits ok (gen_search fuel fetch f g)"
proof (induction fuel arbitrary: g)
  case (Suc fuel)
  have "emits ok (gen_next fetch g)"
    unfolding gen_next_def by (intro emits_intros assms)
  then show ?case
    unfolding gen_search.simps by (intro emits_intros Suc.IH)
qed (simp add: emits_intros)

subsection \<open>The calls end\<close>

text \<open>
  What the servers document of a paged listing: a page holds at most \<open>B\<close> elements, and the pages past
  the \<open>K\<close>th are empty. \<open>json_on_ok\<close> gives nothing but the JSON of the response.
\<close>

fun page_values :: "json \<Rightarrow> json list" where
  "page_values (JList xs) = xs"
| "page_values (JObj d) = (case map_of d ''values'' of Some (JList xs) \<Rightarrow> xs | _ \<Rightarrow> [])"
| "page_values _ = []"

definition paged_answer :: "nat \<Rightarrow> nat \<Rightarrow> http_request \<Rightarrow> json \<Rightarrow> bool" where
  "paged_answer K B rq body \<longleftrightarrow>
     (\<forall>k n. k \<in> {''page'', ''start''} \<and> map_of (rq_query rq) k = Some (JInt n) \<longrightarrow>
        length (page_values body) \<le> B \<and> (int K < n \<longrightarrow> page_values body = []))"

lemma paged_answerD:
  assumes "paged_answer K B rq body" and "map_of (rq_query rq) k = Some (JInt n)" and "k = ''page'' \<or> k = ''start''"
  shows "length (page_values body) \<le> B" "int K < n \<Longrightarrow> page_values body = []"
  using assms unfolding paged_answer_def by blast+

definition listings_end :: "'e scm_env_scheme \<Rightarrow> bool" where
  "listings_end E \<longleftrightarrow>
     (\<exists>K B. Suc K * B < page_fuel E \<and>
        (\<forall>tr rq r body. net_http E tr rq = Inr r \<longrightarrow> rs_json r = Inr body \<longrightarrow> paged_answer K B rq body) \<and>
        (\<forall>r body. json_on_ok E r = Inr body \<longrightarrow> rs_json r = Inr body))"

lemma scm_exec_finishes [finishes_intros]: "finishes (scm_exec E scm http_method path qry body hdrs ec url_vars)"
proof -
  have "finishes (exec_attempts E ec rq tried n)" for rq tried n
    by (induction n arbitrary: tried) (auto intro!: finishes_intros)
  then show ?thesis by (simp add: scm_exec_def APISession_exec_def)
qed

lemma ok_json_finishes [finishes_intros]: "finishes (ok_json E resp)"
  unfolding ok_json_def by (intro finishes_intros)

lemma exec_attempts_answer:
  "yields (\<lambda>r. \<exists>tr auth. net_http E tr (rq auth) = Inr r) (exec_attempts E ec rq tried n)"
proof (induction n arbitrary: tried)
  case (Suc n)
  have asked: "yields (\<lambda>r. \<exists>tr auth. net_http E tr (rq auth) = Inr r) (ask (EvHttp (rq a)) (\<lambda>tr. net_http E tr (rq a)))" for a
    by (auto simp: yields_def py_simps answer_def split: sum.splits if_splits)
  show ?case unfolding exec_attempts.simps
    by (rule yields_bindE, rule yields_bindE_post [OF asked], intro yields_intros Suc.IH)
qed (simp add: yields_intros)

lemma scm_exec_answer:
  "yields (\<lambda>r. \<exists>tr rq. net_http E tr rq = Inr r \<and> rq_query rq = qry) (scm_exec E scm http_method path qry body hdrs ec url_vars)"
  unfolding scm_exec_def APISession_exec_def
  using exec_attempts_answer unfolding yields_def by fastforce

text \<open>A search of pages of at most \<open>B\<close> elements, the first \<open>N\<close> of which may hold some, ends.\<close>

lemma gen_search_finishes:
  assumes fetch: "\<And>n. finishes (fetch n)" "\<And>n. yields (\<lambda>(buf, l). length buf \<le> B \<and> (N \<le> n \<longrightarrow> buf = [])) (fetch n)"
    and f: "\<And>x. f x \<noteq> Inl OutOfFuel" and fuel: "length buf + (N - n) * B < fuel"
  shows "finishes (gen_search fuel fetch f (n, buf, l))"
  using fuel
proof (induction fuel arbitrary: n buf l)
  case (Suc fuel)
  have step: "finishes (bindE (liftE (f x)) (\<lambda>found. case found of None \<Rightarrow> gen_search fuel fetch f g | Some y \<Rightarrow> returnE (Some y)))"
    if "finishes (gen_search fuel fetch f g)" for x g
    by (intro finishes_intros f that)
  let ?Q = "\<lambda>r. case r of None \<Rightarrow> True | Some (x, (n', buf', l')) \<Rightarrow> length buf' + (N - n') * B < fuel"
  have next_page: "yields ?Q (gen_next fetch (n, buf, l))"
  proof (cases "buf = [] \<and> \<not> l")
    case True
    have left: "length (butlast buf') + (N - Suc n) * B < fuel" if "buf' \<noteq> []" "length buf' \<le> B" "N \<le> n \<longrightarrow> buf' = []" for buf' :: "'a list"
    proof -
      from that(1,3) have "N - n = Suc (N - Suc n)" by auto
      moreover from that(1) have "length (butlast buf') < length buf'" by (cases buf') simp_all
      ultimately show ?thesis using Suc.prems that(2) True by simp
    qed
    from True have run: "gen_next fetch (n, buf, l) = bindE (fetch n) (\<lambda>(buf', l').
        if buf' = [] then returnE None else returnE (Some (last buf', (n + 1, butlast buf', l'))))"
      by (simp add: gen_next_def)
    show ?thesis unfolding run
    proof (rule yields_bindE_post [OF fetch(2)], clarify)
      fix buf' :: "'a list" and l'
      assume "length buf' \<le> B" "N \<le> n \<longrightarrow> buf' = []"
      with left [of buf'] show "yields ?Q (if buf' = [] then returnE None else returnE (Some (last buf', (n + 1, butlast buf', l'))))"
        by (simp add: yields_returnE)
    qed
  next
    case False
    with Suc.prems show ?thesis by (cases buf) (auto simp: gen_next_def intro!: yields_intros)
  qed
  have "finishes (gen_next fetch (n, buf, l))"
    unfolding gen_next_def prod.case by (intro finishes_intros fetch(1))
  then show ?case unfolding gen_search.simps
    by (rule finishes_bindE_post [OF _ next_page]) (auto intro!: step Suc.IH finishes_returnE split: option.splits)
qed simp

lemma page_items_values: "page_items body last_page = Inr (xs, l) \<Longrightarrow> xs = [] \<or> body = JList xs"
  by (cases body) (auto simp: page_items_def bindR_eq_Inr split: if_splits)

lemma andR_not_fuel: "a \<noteq> Inl OutOfFuel \<Longrightarrow> b \<noteq> Inl OutOfFuel \<Longrightarrow> andR a b \<noteq> Inl OutOfFuel"
  unfolding andR_def by (rule bindR_not_fuel) simp_all

lemma item_truthy_not_fuel: "item_truthy v k \<noteq> Inl OutOfFuel"
  unfolding item_truthy_def by (rule bindR_not_fuel) simp_all

lemma matches_identifier_not_fuel: "matches_identifier v \<noteq> Inl OutOfFuel"
  by (cases v) (simp_all add: matches_identifier_def)

lemma py_int_not_fuel: "py_int v \<noteq> Inl OutOfFuel"
proof -
  have "read_digits acc s \<noteq> Inl OutOfFuel" for acc s
    by (induction acc s rule: read_digits.induct) (auto split: option.splits)
  note digits = this
  then have "(case read_digits 0 s of Inl e \<Rightarrow> Inl e | Inr n \<Rightarrow> Inr (f n)) \<noteq> Inl OutOfFuel" for s and f :: "int \<Rightarrow> int"
    by (cases "read_digits 0 s") (metis sum.case(1), simp)
  then have "read_int s \<noteq> Inl OutOfFuel" for s
    unfolding read_int_def by (cases s) (simp_all del: read_digits.simps add: digits)
  then show ?thesis by (cases v) simp_all
qed

lemma py_iter_not_fuel: "py_iter v \<noteq> Inl OutOfFuel"
  by (cases v) simp_all

lemma popped_list_not_fuel: "popped_list v \<noteq> Inl OutOfFuel"
  by (cases v) simp_all

lemma Inr_not_fuel: "Inr x \<noteq> Inl OutOfFuel"
  by simp

lemma if_not_fuel: "a \<noteq> Inl OutOfFuel \<Longrightarrow> b \<noteq> Inl OutOfFuel \<Longrightarrow> (if c then a else b) \<noteq> Inl OutOfFuel"
  by simp

lemmas search_not_fuel = Inr_not_fuel if_not_fuel bindR_not_fuel andR_not_fuel item_truthy_not_fuel matches_identifier_not_fuel py_int_not_fuel
  py_iter_not_fuel popped_list_not_fuel path_of_not_fuel py_getitem_not_fuel py_has_key_not_fuel py_len_not_fuel

lemma page_items_not_fuel:
  assumes "\<And>n. last_page n \<noteq> Inl OutOfFuel"
  shows "page_items body last_page \<noteq> Inl OutOfFuel"
  unfolding page_items_def by (intro search_not_fuel assms)

text \<open>The searches of GitHub and Bitbucket end when the listings do; those of the other two take one request.\<close>

lemma yields_lifted: "(\<And>x. r = Inr x \<Longrightarrow> yields Q (f x)) \<Longrightarrow> yields Q (bindE (liftE r) f)"
  by (rule yields_bindE_post [where R = "\<lambda>x. r = Inr x"]) (simp_all add: yields_liftE)

lemma yields_answered: "(\<And>x. r = Inr x \<Longrightarrow> yields Q (f x)) \<Longrightarrow> yields Q (bindE (liftE (answer r)) f)"
  by (rule yields_lifted) (auto simp: answer_def split: sum.splits)

lemma gh_page_bounded:
  assumes "\<And>tr rq r body. net_http E tr rq = Inr r \<Longrightarrow> rs_json r = Inr body \<Longrightarrow> paged_answer K B rq body"
  shows "yields (\<lambda>(buf, l). length buf \<le> B \<and> (Suc K \<le> n \<longrightarrow> buf = [])) (gh_comment_page E scm r ec n)"
proof -
  have "yields (\<lambda>(buf, l). length buf \<le> B \<and> (Suc K \<le> n \<longrightarrow> buf = []))
      (if rs_ok resp then bindE (liftE (answer (rs_json resp))) (\<lambda>body. liftE (page_items body (\<lambda>n. Inr (n \<ge> gh_comments_page_max))))
       else raiseE TypeError)"
    if "net_http E tr rq = Inr resp" and "rq_query rq = [(''per_page'', JInt (int gh_comments_page_max)), (''page'', JInt (int n + 1))]" for resp tr rq
  proof -
    have "yields (\<lambda>(buf, l). length buf \<le> B \<and> (Suc K \<le> n \<longrightarrow> buf = [])) (liftE (page_items body (\<lambda>n. Inr (n \<ge> gh_comments_page_max))))"
      if "rs_json resp = Inr body" for body
    proof -
      have page: "map_of (rq_query rq) ''page'' = Some (JInt (int n + 1))" using \<open>rq_query rq = _\<close> by simp
      have "length (page_values body) \<le> B" "Suc K \<le> n \<Longrightarrow> page_values body = []"
        using paged_answerD [OF assms [OF \<open>net_http E tr rq = Inr resp\<close> that] page] by auto
      then show ?thesis by (intro yields_liftE) (auto dest!: page_items_values)
    qed
    then show ?thesis by (intro yields_if yields_answered yields_raiseE)
  qed
  then show ?thesis unfolding gh_comment_page_def
    by (intro yields_bindE_post [OF scm_exec_answer]) blast
qed

lemma bbdc_page_bounded:
  assumes "\<And>tr rq r body. net_http E tr rq = Inr r \<Longrightarrow> rs_json r = Inr body \<Longrightarrow> paged_answer K B rq body"
    and "\<And>r body. json_on_ok E r = Inr body \<Longrightarrow> rs_json r = Inr body"
  shows "yields (\<lambda>(buf, l). length buf \<le> B \<and> (Suc K \<le> n \<longrightarrow> buf = [])) (bbdc_activity_page E scm path n)"
proof -
  let ?items = "\<lambda>page buf. if buf = JNull then returnE ([], False)
      else liftE (page_items buf (\<lambda>n. if n = 0 then Inr False else item_truthy page ''isLastPage''))"
  have "yields (\<lambda>(buf, l). length buf \<le> B \<and> (Suc K \<le> n \<longrightarrow> buf = [])) (?items page buf)"
    if "net_http E tr rq = Inr resp" "rq_query rq = [(''start'', JInt (int n))]" "rs_json resp = Inr page" "py_getitem page ''values'' = Inr buf"
    for resp tr rq page buf
  proof -
    have start: "map_of (rq_query rq) ''start'' = Some (JInt (int n))" using that(2) by simp
    have "length (page_values page) \<le> B" "Suc K \<le> n \<Longrightarrow> page_values page = []"
      using paged_answerD [OF assms(1) [OF that(1,3)] start] by auto
    then show ?thesis
      using that(4) by (cases page) (auto intro!: yields_if yields_liftE yields_returnE split: option.splits dest!: page_items_values)
  qed
  then have "yields (\<lambda>(buf, l). length buf \<le> B \<and> (Suc K \<le> n \<longrightarrow> buf = []))
      (bindE (ok_json E resp) (\<lambda>page. bindE (liftE (py_getitem page ''values'')) (?items page)))"
    if "net_http E tr rq = Inr resp" "rq_query rq = [(''start'', JInt (int n))]" for resp tr rq
    using that assms(2) unfolding ok_json_def by (intro yields_answered yields_lifted) blast
  then show ?thesis unfolding bbdc_activity_page_def
    by (intro yields_bindE_post [OF scm_exec_answer]) blast
qed

lemma gh_find_finishes: "listings_end E \<Longrightarrow> finishes (gh_find_comment E scm r ec)"
proof (unfold listings_end_def, elim exE conjE)
  fix K B
  assume fuel: "Suc K * B < page_fuel E"
    and paged: "\<forall>tr rq r body. net_http E tr rq = Inr r \<longrightarrow> rs_json r = Inr body \<longrightarrow> paged_answer K B rq body"
  have "finishes (gh_comment_page E scm r ec n)" for n
    unfolding gh_comment_page_def by (intro finishes_intros page_items_not_fuel) simp_all
  moreover have "gh_comment_match c \<noteq> Inl OutOfFuel" for c
    unfolding gh_comment_match_def by (intro search_not_fuel)
  ultimately show "finishes (gh_find_comment E scm r ec)"
    unfolding gh_find_comment_def pager_init_def
    using fuel by (intro finishes_bindE finishes_returnE gen_search_finishes [OF _ gh_page_bounded]) (auto simp: paged)
qed

lemma bbdc_find_finishes: "listings_end E \<Longrightarrow> finishes (bbdc_find_existing_comment E scm r)"
proof (unfold listings_end_def, elim exE conjE)
  fix K B
  assume fuel: "Suc K * B < page_fuel E"
    and paged: "\<forall>tr rq r body. net_http E tr rq = Inr r \<longrightarrow> rs_json r = Inr body \<longrightarrow> paged_answer K B rq body"
    and body: "\<forall>r body. json_on_ok E r = Inr body \<longrightarrow> rs_json r = Inr body"
  have "finishes (bbdc_activity_page E scm path n)" for path n
    unfolding bbdc_activity_page_def by (intro finishes_intros page_items_not_fuel) (simp_all add: item_truthy_not_fuel)
  moreover have "bbdc_item_match c \<noteq> Inl OutOfFuel" for c
    unfolding bbdc_item_match_def by (intro search_not_fuel)
  ultimately show "finishes (bbdc_find_existing_comment E scm r)"
    unfolding bbdc_find_existing_comment_def pager_init_def
    using fuel by (intro gen_search_finishes [OF _ bbdc_page_bounded]) (auto simp: paged body)
qed

lemma gl_find_finishes: "finishes (gl_find_note E scm params)"
proof -
  have "gl_last_match E comments found \<noteq> Inl OutOfFuel" for comments found
    by (induction comments arbitrary: found) (simp, unfold gl_last_match.simps, intro search_not_fuel)
  then show ?thesis
    unfolding gl_find_note_def by (intro finishes_intros search_not_fuel)
qed

lemma adoe_find_finishes: "finishes (adoe_get_pr_thread E scm r)"
proof -
  have "adoe_thread_match t \<noteq> Inl OutOfFuel" for t
    unfolding adoe_thread_match_def by (intro search_not_fuel)
  note t = this
  have "adoe_first_match threads \<noteq> Inl OutOfFuel" for threads
    by (induction threads) (simp, unfold adoe_first_match.simps, intro search_not_fuel t)
  then show ?thesis
    unfolding adoe_get_pr_thread_def by (intro finishes_intros search_not_fuel)
qed

lemma write_finishes:
  "finishes (gh_write_comment E scm r ec t content)" "finishes (gl_write_note E scm params t' content)"
  "finishes (bbdc_write_comment E scm r p content)" "finishes (adoe_write_thread E scm r scanid t content)"
proof -
  show "finishes (gh_write_comment E scm r ec t content)"
    unfolding gh_write_comment_def Let_def by (intro finishes_intros)
  show "finishes (gl_write_note E scm params t' content)"
    by (cases t') (simp_all add: gl_write_note_def finishes_intros)
  have "finishes (bbdc_add_comment E scm r content)" "finishes (bbdc_update_comment E scm r i v content)" for i v
    unfolding bbdc_add_comment_def bbdc_update_comment_def by (intro finishes_intros search_not_fuel)+
  then show "finishes (bbdc_write_comment E scm r p content)"
    by (auto simp: bbdc_write_comment_def intro!: finishes_intros split: option.splits)
  have "finishes (adoe_create_pr_thread E scm r content scanid)" "finishes (adoe_update_pr_thread E scm r t content)"
    unfolding adoe_create_pr_thread_def adoe_update_pr_thread_def by (intro finishes_intros)+
  then show "finishes (adoe_write_thread E scm r scanid t content)"
    by (simp add: adoe_write_thread_def)
qed

section \<open>The four services keep the promise\<close>

lemma gh_find_reads: "emits only_reads (gh_find_comment E scm r ec)"
  unfolding gh_find_comment_def gh_comment_page_def by (intro emits_intros)

lemma gl_find_reads: "emits only_reads (gl_find_note E scm params)"
  unfolding gl_find_note_def by (intro emits_intros)

lemma bbdc_find_reads: "emits only_reads (bbdc_find_existing_comment E scm r)"
  unfolding bbdc_find_existing_comment_def bbdc_activity_page_def by (intro emits_intros)

lemma adoe_find_reads: "emits only_reads (adoe_get_pr_thread E scm r)"
  unfolding adoe_get_pr_thread_def by (intro emits_intros)

datatype scm_class = GHService | GLService | BBDCService | ADOEService

text \<open>The payloads in which a content is sent.\<close>

fun carries_content :: "'e pr_env_scheme \<Rightarrow> scm_class \<Rightarrow> string \<Rightarrow> string \<Rightarrow> bool" where
  "carries_content E GHService content payload = (payload = json_dumps E (JObj [(''body'', JStr content)]))"
| "carries_content E GLService content payload = (payload = form_encode E [(''body'', content)])"
| "carries_content E BBDCService content payload =
     (payload = json_dumps E (JObj [(''text'', JStr content)]) \<or>
      (\<exists>version. payload = json_dumps E (JObj [(''version'', JInt version), (''text'', JStr content)])))"
| "carries_content E ADOEService content payload =
     (payload = json_dumps E (JObj [(''content'', JStr content)]) \<or>
      (\<exists>props. payload = json_dumps E (adoe_thread_payload content props)))"

fun update_method_of :: "scm_class \<Rightarrow> string" where
  "update_method_of GHService = ''PATCH''"
| "update_method_of GLService = ''PUT''"
| "update_method_of BBDCService = ''PUT''"
| "update_method_of ADOEService = ''PATCH''"

lemma put_by_exec:
  assumes "bindE (scm_exec E scm http_method path qry (Some payload) hdrs ec url_vars) k w = (Inr (), w')"
    and "\<And>resp. emits (\<lambda>_. False) (k resp)" and "carries payload"
  shows "posted carries (nat (s_retries (scm_session scm))) http_method w w'"
  unfolding posted_def using write_by_exec [OF assms(1,2)] assms(3) by blast

lemma gh_put:
  assumes "gh_write_comment E scm r ec t content w = (Inr (), w')"
  shows "posted (carries_content E GHService content) (nat (s_retries (scm_session scm))) (if t = JNull then ''POST'' else ''PATCH'') w w'"
  using assms
  by (cases "t = JNull") (simp_all add: gh_write_comment_def Let_def, (erule put_by_exec, (intro emits_intros), simp)+)

lemma gl_put:
  assumes "gl_write_note E scm params t content w = (Inr (), w')"
  shows "posted (carries_content E GLService content) (nat (s_retries (scm_session scm))) (if t = None then ''POST'' else ''PUT'') w w'"
  using assms
  by (cases t) (simp_all add: gl_write_note_def Let_def, (erule put_by_exec, (intro emits_intros), simp)+)

lemma bbdc_put:
  assumes "bbdc_write_comment E scm r t content w = (Inr (), w')"
  shows "posted (carries_content E BBDCService content) (nat (s_retries (scm_session scm))) (if t = None then ''POST'' else ''PUT'') w w'"
proof (cases t)
  case None
  from assms show ?thesis
    unfolding None bbdc_write_comment_def bbdc_add_comment_def option.case bindE_assoc if_True
    by (simp only: simp_thms if_True) (erule put_by_exec, (intro emits_intros), simp)
next
  case (Some p)
  from assms show ?thesis
    unfolding Some bbdc_write_comment_def bbdc_update_comment_def
    by (simp add: split_beta) (erule put_by_exec, (intro emits_intros), auto)
qed

lemma adoe_put:
  assumes "adoe_write_thread E scm r scanid t content w = (Inr (), w')"
  shows "posted (carries_content E ADOEService content) (nat (s_retries (scm_session scm))) (if t = JNull then ''POST'' else ''PATCH'') w w'"
proof (cases "t = JNull")
  case True
  let ?payload = "json_dumps E (adoe_thread_payload content (adoe_create_thread_props E (w_trace w) scanid))"
  have "bindE (scm_exec E scm ''POST'' (adoe_threads_path E r) adoe_api_version (Some ?payload) json_content None []) (\<lambda>resp.
      bindE (ok_json E resp) (\<lambda>thread. if thread = JNull then returnE () else bindE (liftE (py_getitem thread ''id'')) (\<lambda>_. returnE ()))) w = (Inr (), w')"
    using assms True by (simp add: adoe_write_thread_def adoe_create_pr_thread_def bindE_def [of "look _"] look_apply)
  then show ?thesis unfolding if_P [OF True]
    by (rule put_by_exec) ((intro emits_intros), auto)
next
  case False
  from assms False show ?thesis
    by (simp add: adoe_write_thread_def adoe_update_pr_thread_def) (erule put_by_exec, (intro emits_intros), simp)
qed

interpretation gh_comments: comment_service "gh_find_comment E scm r ec" "\<lambda>t. t = JNull" "gh_write_comment E scm r ec" "''PATCH''"
    "carries_content E GHService" "nat (s_retries (scm_session scm))"
  for E :: "'e pr_env_scheme" and scm r ec
  by unfold_locales (rule gh_find_reads, erule gh_put)

interpretation gl_notes: comment_service "gl_find_note E scm params" "\<lambda>t. t = None" "gl_write_note E scm params" "''PUT''"
    "carries_content E GLService" "nat (s_retries (scm_session scm))"
  for E :: "'e pr_env_scheme" and scm params
  by unfold_locales (rule gl_find_reads, erule gl_put)

interpretation bbdc_comments: comment_service "bbdc_find_existing_comment E scm r" "\<lambda>t. t = None" "bbdc_write_comment E scm r" "''PUT''"
    "carries_content E BBDCService" "nat (s_retries (scm_session scm))"
  for E :: "'e pr_env_scheme" and scm r
  by unfold_locales (rule bbdc_find_reads, erule bbdc_put)

interpretation adoe_threads: comment_service "adoe_get_pr_thread E scm r" "\<lambda>t. t = JNull" "adoe_write_thread E scm r scanid" "''PATCH''"
    "carries_content E ADOEService" "nat (s_retries (scm_session scm))"
  for E :: "'e pr_env_scheme" and scm r scanid
  by unfold_locales (rule adoe_find_reads, erule adoe_put)

section \<open>Decorating a pull request\<close>

text \<open>The service of the configured class.\<close>

fun exec_pr_decorate ::
  "'e pr_env_scheme \<Rightarrow> scm_class \<Rightarrow> SCMService \<Rightarrow> pr_target \<Rightarrow> string \<Rightarrow> string \<Rightarrow> string \<Rightarrow> EventContext option \<Rightarrow> unit act" where
  "exec_pr_decorate E GHService = gh_exec_pr_decorate E"
| "exec_pr_decorate E GLService = gl_exec_pr_decorate E"
| "exec_pr_decorate E BBDCService = bbdc_exec_pr_decorate E"
| "exec_pr_decorate E ADOEService = adoe_exec_pr_decorate E"

fun create_code_permalink :: "'e scm_env_scheme \<Rightarrow> scm_class \<Rightarrow> SCMService \<Rightarrow> pr_target \<Rightarrow> json \<Rightarrow> json \<Rightarrow> json \<Rightarrow> string" where
  "create_code_permalink E GHService = gh_create_code_permalink E"
| "create_code_permalink E GLService = gl_create_code_permalink E"
| "create_code_permalink E BBDCService = bbdc_create_code_permalink E"
| "create_code_permalink E ADOEService = adoe_create_code_permalink E"

text \<open>The content that is sent, and whether a comment of the program is found.\<close>

fun sent_content :: "'e pr_env_scheme \<Rightarrow> scm_class \<Rightarrow> string \<Rightarrow> string \<Rightarrow> string" where
  "sent_content E GHService full summary = fitting_content gh_max_content_chars full summary"
| "sent_content E GLService full summary = fitting_content gl_max_content_chars full summary"
| "sent_content E BBDCService full summary = fitting_content bbdc_max_content_chars full summary"
| "sent_content E ADOEService full summary = adoe_content E full summary"

fun finds_comment :: "'e scm_env_scheme \<Rightarrow> scm_class \<Rightarrow> SCMService \<Rightarrow> pr_target \<Rightarrow> EventContext option \<Rightarrow> bool act" where
  "finds_comment E GHService scm r ec = bindE (gh_find_comment E scm r ec) (\<lambda>t. returnE (t \<noteq> JNull))"
| "finds_comment E GLService scm r ec =
     bindE (liftE (gl_api_params E r)) (\<lambda>params. bindE (gl_find_note E scm params) (\<lambda>t. returnE (t \<noteq> None)))"
| "finds_comment E BBDCService scm r ec = bindE (bbdc_find_existing_comment E scm r) (\<lambda>t. returnE (t \<noteq> None))"
| "finds_comment E ADOEService scm r ec = bindE (adoe_get_pr_thread E scm r) (\<lambda>t. returnE (t \<noteq> JNull))"

lemma finds_comment_reads: "emits only_reads (finds_comment E cls scm r ec)"
  by (cases cls) (simp_all add: emits_intros gh_find_reads gl_find_reads bbdc_find_reads adoe_find_reads)

text \<open>C8: whatever the source control server, a decoration that returns has looked for the comment of an
  earlier scan without writing anything, and has then sent one request (again after an error response, never more
  often than the session allows): an update when it found such a comment and a creation when it did not, with the full
  text where that is short enough for the server and the summary where it is not.\<close>

theorem decoration_upserts:
  assumes "exec_pr_decorate E cls scm r scanid full summary ec w = (Inr (), w')"
  shows "\<exists>found w1. finds_comment E cls scm r ec w = (Inr found, w1) \<and> list_all only_reads (new_events (finds_comment E cls scm r ec) w) \<and>
     posted (carries_content E cls (sent_content E cls full summary)) (nat (s_retries (scm_session scm)))
       (if found then update_method_of cls else ''POST'') w1 w'"
proof -
  have reads: "list_all only_reads (new_events (finds_comment E cls scm r ec) w)"
    using emits_new_events [OF finds_comment_reads] by (auto simp: list_all_iff)
  have "\<exists>found w1. finds_comment E cls scm r ec w = (Inr found, w1) \<and>
     posted (carries_content E cls (sent_content E cls full summary)) (nat (s_retries (scm_session scm)))
       (if found then update_method_of cls else ''POST'') w1 w'"
  proof (cases cls)
    case GHService
    with gh_comments.upserts [of E scm r ec _ w w'] assms show ?thesis
      by (fastforce simp: gh_exec_pr_decorate_def py_simps split: if_splits)
  next
    case GLService
    with assms obtain params where params: "gl_api_params E r = Inr params"
      by (cases "gl_api_params E r") (auto simp: gl_exec_pr_decorate_def py_simps)
    with GLService gl_notes.upserts [of E scm params _ w w'] assms show ?thesis
      by (fastforce simp: gl_exec_pr_decorate_def py_simps split: if_splits)
  next
    case BBDCService
    with bbdc_comments.upserts [of E scm r _ w w'] assms show ?thesis
      by (fastforce simp: bbdc_exec_pr_decorate_def py_simps split: if_splits)
  next
    case ADOEService
    with adoe_threads.upserts [of E scm r scanid _ w w'] assms show ?thesis
      by (fastforce simp: adoe_exec_pr_decorate_def py_simps split: if_splits)
  qed
  with reads show ?thesis by blast
qed

definition demo_pr_env :: pr_env where
  "demo_pr_env = scm_env.extend
     (quiet_scm_env\<lparr>page_fuel := 3,
        net_http := (\<lambda>_ rq. Inr (ok_response (if rq_method rq = ''GET''
          then JList [JObj [(''id'', JInt 7), (''body'', JStr (nl @ nl @ comment_identifier))]] else JObj [(''id'', JInt 7)]))),
        json_on_ok := rs_json\<rparr>)
     (pr_env.fields (\<lambda>_. ''payload'') (\<lambda>_. []) (\<lambda>s. s) (\<lambda>_. []))"

definition demo_pr_target :: pr_target where
  "demo_pr_target = \<lparr>pt_organization = JStr ''o'', pt_project = JStr ''p'', pt_slug = JStr ''r'', pt_number = JInt 1\<rparr>"

theorem decoration_upserts_witness:
  "\<exists>w1. posted (carries_content demo_pr_env GHService ''full'') 3 ''PATCH'' w1
     (snd (exec_pr_decorate demo_pr_env GHService (sv_scm demo_services) demo_pr_target ''s'' ''full'' ''summary'' None world0))"
proof -
  let ?run = "exec_pr_decorate demo_pr_env GHService (sv_scm demo_services) demo_pr_target ''s'' ''full'' ''summary'' None world0"
  have content: "fitting_content gh_max_content_chars ''full'' ''summary'' = ''full''"
    by (simp add: fitting_content_def gh_max_content_chars_def)
  have "fst (bindE (gh_find_comment demo_pr_env (sv_scm demo_services) demo_pr_target None) (\<lambda>target_id.
      gh_write_comment demo_pr_env (sv_scm demo_services) demo_pr_target None target_id ''full'') world0) = Inr ()" by code_simp
  then have returns: "fst ?run = Inr ()"
    by (simp only: exec_pr_decorate.simps gh_exec_pr_decorate_def content)
  have run: "?run = (Inr (), snd ?run)" by (rule prod_eqI, simp only: returns fst_conv, simp only: snd_conv)
  obtain found w1 where found: "finds_comment demo_pr_env GHService (sv_scm demo_services) demo_pr_target None world0 = (Inr found, w1)"
    and posted: "posted (carries_content demo_pr_env GHService (sent_content demo_pr_env GHService ''full'' ''summary''))
       (nat (s_retries (scm_session (sv_scm demo_services)))) (if found then update_method_of GHService else ''POST'') w1 (snd ?run)"
    using decoration_upserts [OF run] by (elim exE conjE)
  have "fst (finds_comment demo_pr_env GHService (sv_scm demo_services) demo_pr_target None world0) = Inr True" by code_simp
  then have "Inr found = (Inr True :: bool result)" unfolding found fst_conv .
  then have hit: "found = True" by (simp only: sum.inject)
  have full: "sent_content demo_pr_env GHService ''full'' ''summary'' = ''full''" by (simp only: sent_content.simps content)
  have tries: "nat (s_retries (scm_session (sv_scm demo_services))) = 3" by (simp add: demo_services_def)
  have "posted (carries_content demo_pr_env GHService ''full'') 3 (if found then update_method_of GHService else ''POST'') w1 (snd ?run)"
    using posted unfolding full tries .
  then have "posted (carries_content demo_pr_env GHService ''full'') 3 ''PATCH'' w1 (snd ?run)"
    unfolding hit if_True update_method_of.simps .
  then show ?thesis by (rule exI [of _ w1])
qed

text \<open>The limit is kept when the summary keeps it.\<close>

lemma fitting_content_bound: "length summary \<le> n \<Longrightarrow> length (fitting_content n full summary) \<le> n"
  by (simp add: fitting_content_def)

text \<open>
  A full first page is taken for the last one: the flag that \<^verbatim>\<open>GHService\<close> gives the pager says that the page is full. A
  comment of the program past the first hundred is not found.
\<close>

lemma gen_search_last_page:
  assumes "\<And>x. x \<in> set buf \<Longrightarrow> f x = Inr None" and "length buf < fuel"
  shows "gen_search fuel fetch f (n, buf, True) w = (Inr None, w)"
  using assms
proof (induction buf arbitrary: fuel rule: rev_induct)
  case Nil
  then show ?case by (cases fuel) (simp_all add: gen_next_def py_simps)
next
  case (snoc x buf)
  then obtain fuel' where "fuel = Suc fuel'" by (cases fuel) auto
  with snoc show ?case by (simp add: gen_next_def py_simps)
qed

lemma popped_list_length: "popped_list v = Inr xs \<Longrightarrow> py_len v = Inr n \<Longrightarrow> n = length xs"
  by (cases v) auto

lemma gh_comment_missed:
  assumes page: "gh_comment_page E scm r ec 0 w = (Inr (comments, l), w')" and "gh_comments_page_max \<le> length comments"
    and "\<And>c. c \<in> set comments \<Longrightarrow> gh_comment_match c = Inr None" and "length comments < page_fuel E"
  shows "gh_find_comment E scm r ec w = (Inr JNull, w')"
proof -
  have "l" using page assms(2)
    by (auto simp: gh_comment_page_def page_items_def bindR_def py_simps gh_comments_page_max_def dest: popped_list_length
        split: prod.splits sum.splits if_splits)
  moreover obtain cs c where cs: "comments = cs @ [c]" using assms(2) by (cases comments rule: rev_cases) (auto simp: gh_comments_page_max_def)
  moreover obtain fuel where "page_fuel E = Suc fuel" using assms(4) by (cases "page_fuel E") auto
  ultimately show ?thesis
    using page assms(3,4) gen_search_last_page [of cs gh_comment_match fuel "gh_comment_page E scm r ec" 1 w']
    by (simp add: gh_find_comment_def pager_init_def gen_next_def py_simps)
qed

end
