(* ===== verification/Workflow_Agent.thy ===== *)
theory Workflow_Agent
  imports Config Pr_Comments Rabbit_Config
begin

text \<open>
  \<^verbatim>\<open>src/workflow_agent.py\<close>: the process that consumes the queues of every configured service. Its handlers read the moniker
  of a message, look the services up and run the workflow of the queue; the two pull-request workflows run here with the
  comment texts of \<open>Pr_Decoration\<close> and the source control services of \<open>Pr_Comments\<close>.
\<close>

record wf_agent_env = pr_env +
  wa_service_class :: "string \<Rightarrow> scm_class" \<comment> \<open>the class of the services made for a moniker\<close>
  wa_display_link :: "CxOneService \<Rightarrow> string"
  wa_sarif :: "CxOneService \<Rightarrow> trace \<Rightarrow> string \<Rightarrow> json \<Rightarrow> json \<Rightarrow> string result"
  wa_json_error :: "string option \<Rightarrow> string"

section \<open>The texts and the target of a comment\<close>

definition target_of_details :: "feedback_details \<Rightarrow> pr_target" where
  "target_of_details d = \<lparr>pt_organization = details_field d ''organization'', pt_project = details_field d ''repo_project'',
     pt_slug = details_field d ''repo_slug'', pt_number = details_field d ''pr_id''\<rparr>"

definition contents_of :: "PullRequestDecoration result \<Rightarrow> (string \<times> string) result" where
  "contents_of decoration =
     bindR decoration (\<lambda>d. bindR (full_content d) (\<lambda>full. bindR (summary_content d) (\<lambda>summary. Inr (full, summary))))"

definition annotation_content ::
  "'e wf_agent_env_scheme \<Rightarrow> CxOneFlowServices \<Rightarrow> ScanInspector \<Rightarrow> ScanAnnotationMessage \<Rightarrow> feedback_details \<Rightarrow> (string \<times> string) result" where
  "annotation_content E services inspector am d =
     contents_of (make_PullRequestAnnotation (wa_display_link E (sv_cxone services)) (si_project_id inspector) (scm_scanid am)
       (san_annotation am) (details_field d ''source_branch'') (pfs_server_base_url (sv_pr services)))"

definition feedback_of ::
  "'e wf_agent_env_scheme \<Rightarrow> scm_class \<Rightarrow> CxOneFlowServices \<Rightarrow> json \<Rightarrow> ScanFeedbackMessage \<Rightarrow> feedback_details \<Rightarrow> feedback" where
  "feedback_of E cls services report fm d =
     \<lparr>fb_excluded_severities = prw_excluded_severities (pfs_workflow (sv_pr services)),
      fb_excluded_states = prw_excluded_states (pfs_workflow (sv_pr services)),
      fb_display_url = wa_display_link E (sv_cxone services), fb_project_id = scm_projectid fm, fb_scanid = scm_scanid fm,
      fb_report = report,
      fb_permalink = create_code_permalink E cls (sv_scm services) (target_of_details d)
        (details_field d ''source_branch''),
      fb_server_base_url = pfs_server_base_url (sv_pr services)\<rparr>"

definition feedback_content ::
  "'e wf_agent_env_scheme \<Rightarrow> scm_class \<Rightarrow> CxOneFlowServices \<Rightarrow> json \<Rightarrow> ScanFeedbackMessage \<Rightarrow> feedback_details \<Rightarrow> (string \<times> string) result" where
  "feedback_content E cls services report fm d =
     contents_of (make_PullRequestFeedback E (feedback_of E cls services report fm d) (details_field d ''source_branch''))"

definition decorate_for ::
  "'e wf_agent_env_scheme \<Rightarrow> scm_class \<Rightarrow> CxOneFlowServices \<Rightarrow> feedback_details \<Rightarrow> string \<Rightarrow> string \<Rightarrow> string \<Rightarrow> unit act" where
  "decorate_for E cls services d scanid full summary =
     exec_pr_decorate E cls (sv_scm services) (target_of_details d) scanid full summary (fd_event_context d)"

section \<open>The handlers\<close>

text \<open>
  What the handlers share: the message is read and its services are looked up, and whatever is raised on the way, by the
  workflow too, is answered by a rejection without requeue.
\<close>

definition process_message ::
  "'e mq_env_scheme \<Rightarrow> config_state \<Rightarrow> ('m \<Rightarrow> string) \<Rightarrow> (string \<Rightarrow> CxOneFlowServices \<Rightarrow> 'm incoming \<Rightarrow> unit act) \<Rightarrow> 'm incoming \<Rightarrow> unit act" where
  "process_message E st moniker workflow msg =
     catchE
       (bindE (liftE (answer (im_body msg))) (\<lambda>sm.
        bindE (liftE (retrieve_services_by_moniker st (moniker sm))) (\<lambda>services.
        workflow (moniker sm) services msg)))
       (\<lambda>_. msg_nack E False)"

definition process_gen_sarif :: "'e wf_agent_env_scheme \<Rightarrow> config_state \<Rightarrow> ScanFeedbackMessage incoming \<Rightarrow> unit act" where
  "process_gen_sarif E st =
     process_message E st sh_moniker (\<lambda>_ services.
       execute_sarif_generation E (sv_push services) (wa_sarif E (sv_cxone services)) (wa_json_error E))"

definition process_poll :: "'e wf_agent_env_scheme \<Rightarrow> config_state \<Rightarrow> ScanAwaitMessage incoming \<Rightarrow> unit act" where
  "process_poll E st = process_message E st sh_moniker (\<lambda>_ services. execute_poll_scan_workflow E (sv_poll services))"

definition process_pr_annotate :: "'e wf_agent_env_scheme \<Rightarrow> config_state \<Rightarrow> ScanAnnotationMessage incoming \<Rightarrow> unit act" where
  "process_pr_annotate E st =
     process_message E st sh_moniker (\<lambda>moniker services.
       execute_pr_annotate_workflow E (sv_pr services) (annotation_content E services)
         (decorate_for E (wa_service_class E moniker) services))"

definition process_pr_feedback :: "'e wf_agent_env_scheme \<Rightarrow> config_state \<Rightarrow> ScanFeedbackMessage incoming \<Rightarrow> unit act" where
  "process_pr_feedback E st =
     process_message E st sh_moniker (\<lambda>moniker services.
       execute_pr_feedback_workflow E (sv_pr services) (feedback_content E (wa_service_class E moniker) services)
         (decorate_for E (wa_service_class E moniker) services))"

section \<open>The consumers\<close>

datatype wf_handler = ProcessGenSarif | ProcessPoll | ProcessPrAnnotate | ProcessPrFeedback | ResolverResults | ResolverTimeout

text \<open>One consumer per service and queue.\<close>

definition spawn_agents :: "config_state \<Rightarrow> (wf_handler \<times> string \<times> string) list" where
  "spawn_agents st =
     concat (map (\<lambda>moniker.
       [(ProcessGenSarif, moniker, QUEUE_SARIF_GEN),
        (ProcessPoll, moniker, QUEUE_SCAN_POLLING_LEGACY),
        (ProcessPoll, moniker, QUEUE_SCAN_POLLING),
        (ProcessPrAnnotate, moniker, QUEUE_ANNOTATE_PR),
        (ProcessPrFeedback, moniker, QUEUE_FEEDBACK_PR),
        (ResolverResults, moniker, QUEUE_RESOLVER_COMPLETE),
        (ResolverTimeout, moniker, QUEUE_RESOLVER_TIMEOUT)]) (map fst (cs_by_moniker st)))"

section \<open>What the agent does with its messages\<close>

text \<open>Every queue that is consumed is one the setup script has declared for the same services.\<close>

lemma consumed_queues_declared:
  assumes "(h, moniker, queue) \<in> set (spawn_agents st)" and "length tags = length (cs_by_moniker st)"
  shows "DeclareQueue queue None \<in> set (rabbit_setup tags)"
proof -
  from assms obtain t where t: "t \<in> set tags"
    by (cases tags) (auto simp: spawn_agents_def)
  have "DeclareQueue queue None \<in> set (setup_exchanges @ setup_queues @ setup_resolver (queue_and_topic_tuples t))"
    using assms(1) by (auto simp: spawn_agents_def setup_queues_def setup_resolver_def)
  with t show ?thesis by (auto simp: rabbit_setup_def)
qed

text \<open>A message that cannot be read, or whose service is not configured, is rejected at once.\<close>

lemma unreadable_message_rejected:
  "im_body msg = Inl e \<Longrightarrow> e \<noteq> OutOfFuel \<Longrightarrow> process_message E st moniker workflow msg w = msg_nack E False w"
  by (simp add: process_message_def py_simps)

lemma unknown_service_rejected:
  "im_body msg = Inr m \<Longrightarrow> map_of (cs_by_moniker st) (moniker m) = None \<Longrightarrow>
   process_message E st moniker workflow msg w = msg_nack E False w"
  by (simp add: process_message_def retrieve_services_by_moniker_def py_simps)

text \<open>The two texts of a comment are recognised as a comment of the program.\<close>

lemma contents_identified:
  assumes "contents_of r = Inr (full, summary)"
  shows "matches_identifier (JStr full) = Inr True" "matches_identifier (JStr summary) = Inr True"
  using assms by (auto simp: contents_of_def bindR_eq_Inr comment_identified)

text \<open>
  What one decoration sends, the next one finds: the content is recognised whichever of the two texts fits, and a GitHub
  comment, a GitLab note or a Bitbucket comment that holds it is the one that is updated.
\<close>

lemma sent_content_identified:
  assumes "contents_of r = Inr (full, summary)" and "cls \<noteq> ADOEService"
  shows "matches_identifier (JStr (sent_content E cls full summary)) = Inr True"
  using assms(2) contents_identified [OF assms(1)] by (cases cls) (simp_all add: fitting_content_def)

lemma sent_comment_found:
  assumes "contents_of r = Inr (full, summary)"
  shows "gh_comment_match (JObj [(''id'', i), (''body'', JStr (sent_content E GHService full summary))]) = Inr (Some i)"
    and "gl_last_match E' [JObj [(''id'', i), (''body'', JStr (sent_content E GLService full summary))]] None = Inr (Some (as_text E' i))"
    and "bbdc_item_match (JObj [(''comment'', JObj [(''threadResolved'', JBool False),
        (''permittedOperations'', JObj [(''editable'', JBool True)]), (''text'', JStr (sent_content E BBDCService full summary)),
        (''id'', JInt n), (''version'', JInt v)])]) = Inr (Some (n, v))"
  using assms
  by (simp_all add: gh_comment_match_def bbdc_item_match_def andR_def item_truthy_def sent_content_identified del: sent_content.simps)

section \<open>Every message is settled\<close>

text \<open>
  A message a feedback handler can work on: its body is read, its service is configured, and its details, the event
  context in them included, are decoded.
\<close>

definition accepted_message :: "config_state \<Rightarrow> (json dict \<Rightarrow> feedback_details result) \<Rightarrow> ScanFeedbackMessage incoming \<Rightarrow> bool" where
  "accepted_message st from_dict msg \<longleftrightarrow>
     (case im_body msg of
        Inl e \<Rightarrow> False
      | Inr fm \<Rightarrow> sh_moniker fm \<in> fst ` set (cs_by_moniker st) \<and>
          (case from_dict (scm_workflow_details fm) of Inl e \<Rightarrow> False | Inr d \<Rightarrow> True))"

text \<open>Handlers whose workflow decodes the details outside its \<^verbatim>\<open>try\<close> block, and settles the message once they are decoded.\<close>

lemma process_message_settles:
  assumes up: "broker_up E"
    and refuse: "\<And>m services fm e. im_body msg = Inr fm \<Longrightarrow> from_dict (scm_workflow_details fm) = Inl e \<Longrightarrow>
      workflow m services msg w = (answer (Inl e), w)"
    and settle: "\<And>m services fm d. im_body msg = Inr fm \<Longrightarrow> from_dict (scm_workflow_details fm) = Inr d \<Longrightarrow>
      settled_run (\<lambda>s. s \<noteq> EvNack False) (w_trace w) (workflow m services msg w)"
  shows "if accepted_message st from_dict msg
     then settled_run (\<lambda>s. s \<noteq> EvNack False) (w_trace w) (process_message E st sh_moniker workflow msg w)
     else process_message E st sh_moniker workflow msg w = (Inr (), log_event (EvNack False) w)"
proof (cases "im_body msg")
  case (Inl e)
  then show ?thesis
    by (simp add: accepted_message_def process_message_def py_simps answer_def msg_nack_up [OF up])
next
  case (Inr fm)
  show ?thesis
  proof (cases "map_of (cs_by_moniker st) (sh_moniker fm)")
    case None
    then have "\<not> accepted_message st from_dict msg" using Inr by (simp add: accepted_message_def map_of_eq_None_iff)
    then show ?thesis
      by (simp only: if_False unknown_service_rejected [where moniker = sh_moniker, OF Inr None] msg_nack_up [OF up])
  next
    case (Some services)
    then have configured: "sh_moniker fm \<in> fst ` set (cs_by_moniker st)" by (metis domI dom_map_of_conv_image_fst)
    have run: "process_message E st sh_moniker workflow msg w =
        catchE (workflow (sh_moniker fm) services msg) (\<lambda>_. msg_nack E False) w"
      by (simp add: process_message_def retrieve_services_by_moniker_def Inr Some py_simps)
    show ?thesis
    proof (cases "from_dict (scm_workflow_details fm)")
      case (Inl e)
      with refuse [OF Inr this] Inr show ?thesis
        unfolding run by (simp add: accepted_message_def py_simps answer_def msg_nack_up [OF up])
    next
      case details: (Inr d)
      have "settled_run (\<lambda>s. s \<noteq> EvNack False) (w_trace w) (workflow (sh_moniker fm) services msg w)"
        by (rule settle [OF Inr details])
      then show ?thesis
        unfolding run using configured Inr details
        by (cases "workflow (sh_moniker fm) services msg w") (auto simp: accepted_message_def settled_run_def catchE_apply)
    qed
  qed
qed

text \<open>C36: the handler of the Sarif queue returns for every message and settles it exactly once, as the last thing it does.
  A message that cannot be read, whose service is not configured or whose details (the nested event context included) cannot be
  decoded is rejected for good, and nothing else is done for it; every other one is acknowledged or put back on the
  queue, whatever the Sarif library, the delivery agents and the outside world answer.\<close>

theorem sarif_message_settled:
  assumes "broker_up E"
  shows "if accepted_message st (PushDetails_from_dict E) msg
     then settled_run (\<lambda>s. s \<noteq> EvNack False) (w_trace w) (process_gen_sarif E st msg w)
     else process_gen_sarif E st msg w = (Inr (), log_event (EvNack False) w)"
  unfolding process_gen_sarif_def
proof (rule process_message_settles [OF assms])
  fix services :: CxOneFlowServices and fm e
  assume "im_body msg = Inr fm" "PushDetails_from_dict E (scm_workflow_details fm) = Inl e"
  then show "execute_sarif_generation E (sv_push services) (wa_sarif E (sv_cxone services)) (wa_json_error E) msg w = (answer (Inl e), w)"
    by (simp add: execute_sarif_generation_def bindE_apply safe_deserialize_ok liftE_apply raiseE_apply answer_def)
qed (rule sarif_generation_settled [OF assms])

text \<open>
  A server where a report is ready at once and the pull request has one comment, the one an earlier scan left; a service
  that delivers its Sarif logs over HTTP; and a feedback message of it.
\<close>

definition demo_comments :: "http_request \<Rightarrow> json" where
  "demo_comments rq =
     (if rq_method rq = ''GET'' then
        (if map_of (rq_query rq) ''page'' = Some (JInt 1) \<and> map_of (rq_query rq) ''start'' = None
         then JList [JObj [(''id'', JInt 7), (''body'', JStr comment_identifier)]] else JList [])
      else JObj [(''id'', JInt 7)])"

definition demo_wf_env :: wf_agent_env where
  "demo_wf_env = pr_env.extend
     (demo_pr_env\<lparr>net_http := (\<lambda>_ rq. Inr (ok_response (demo_comments rq))),
        cx_report_status := (\<lambda>_ _. Inr (ok_response (JObj [(''status'', JStr ''completed'')])))\<rparr>)
     (wf_agent_env.fields (\<lambda>_. GHService) (\<lambda>_. ''https://cx'') (\<lambda>_ _ _ _ _. Inr ''{}'') (\<lambda>_. ''{}''))"

definition demo_wf_state :: config_state where
  "demo_wf_state = \<lparr>cs_by_moniker = [(''svc'', demo_services\<lparr>sv_push := (sv_push demo_services)
       \<lparr>ufs_agents := [HttpDeliveryAgent ''key'' ''https://sink'' 2 5]\<rparr>\<rparr>)], cs_ordered = []\<rparr>"

definition demo_feedback_msg :: "ScanWorkflow \<Rightarrow> json dict \<Rightarrow> ScanFeedbackMessage incoming" where
  "demo_feedback_msg wk d = \<lparr>im_body = Inr (demo_feedback wk d), im_headers = JObj [], im_routing_key = ''cx''\<rparr>"

lemma broker_up_demo_wf: "broker_up demo_wf_env"
  by (auto simp: broker_up_def demo_wf_env_def demo_pr_env_def quiet_scm_env_def quiet_orch_env_def quiet_resolver_env_def quiet_mq_env_def
      pr_env.defs scm_env.defs orch_env.defs resolver_env.defs mq_env.defs git_env.defs)

theorem sarif_message_settled_witness:
  "settled_run (\<lambda>s. s \<noteq> EvNack False) (w_trace world0) (process_gen_sarif demo_wf_env demo_wf_state (demo_feedback_msg WfPUSH demo_details) world0) \<and>
   process_gen_sarif demo_wf_env demo_wf_state (demo_feedback_msg WfPUSH ((''event_context'', JStr ''x'') # demo_details)) world0 =
     (Inr (), log_event (EvNack False) world0)"
proof
  have "accepted_message demo_wf_state (PushDetails_from_dict demo_wf_env) (demo_feedback_msg WfPUSH demo_details) = True" by code_simp
  then show "settled_run (\<lambda>s. s \<noteq> EvNack False) (w_trace world0) (process_gen_sarif demo_wf_env demo_wf_state (demo_feedback_msg WfPUSH demo_details) world0)"
    using sarif_message_settled [OF broker_up_demo_wf, of demo_wf_state "demo_feedback_msg WfPUSH demo_details" world0] by (simp only: if_True)
  have "accepted_message demo_wf_state (PushDetails_from_dict demo_wf_env)
      (demo_feedback_msg WfPUSH ((''event_context'', JStr ''x'') # demo_details)) = False" by code_simp
  then show "process_gen_sarif demo_wf_env demo_wf_state (demo_feedback_msg WfPUSH ((''event_context'', JStr ''x'') # demo_details)) world0 =
     (Inr (), log_event (EvNack False) world0)"
    using sarif_message_settled [OF broker_up_demo_wf, of demo_wf_state "demo_feedback_msg WfPUSH ((''event_context'', JStr ''x'') # demo_details)" world0]
    by (simp only: if_False)
qed

text \<open>A decoration neither settles the message nor runs for ever, when the listings of the source control server end.\<close>

lemma exec_pr_decorate_quiet: "emits (\<lambda>e. \<not> is_settle e) (exec_pr_decorate E cls scm r scanid full summary ec)"
proof -
  let ?quiet = "\<lambda>e. \<not> is_settle e"
  have http: "emits ?quiet (scm_exec E scm http_method path qry body hdrs ec url_vars)" for http_method path qry body hdrs ec url_vars
    unfolding scm_exec_def by (intro emits_intros) simp_all
  have page: "emits ?quiet (gh_comment_page E scm r ec n)" "emits ?quiet (bbdc_activity_page E scm path n)" for n path
    unfolding gh_comment_page_def bbdc_activity_page_def by (intro emits_intros http)+
  have written: "emits ?quiet (gl_write_note E scm params t content)" "emits ?quiet (bbdc_write_comment E scm r p content)" for params t p content
    unfolding gl_write_note_def bbdc_write_comment_def bbdc_add_comment_def bbdc_update_comment_def Let_def
    by (cases t; cases p; simp add: emits_intros http)+
  show ?thesis
  proof (cases cls)
    case GHService
    show ?thesis
      unfolding GHService exec_pr_decorate.simps gh_exec_pr_decorate_def gh_find_comment_def gh_write_comment_def Let_def
      by (intro emits_intros http page)
  next
    case GLService
    show ?thesis
      unfolding GLService exec_pr_decorate.simps gl_exec_pr_decorate_def gl_find_note_def by (intro emits_intros http written)
  next
    case BBDCService
    show ?thesis
      unfolding BBDCService exec_pr_decorate.simps bbdc_exec_pr_decorate_def bbdc_find_existing_comment_def by (intro emits_intros http page written)
  next
    case ADOEService
    show ?thesis
      unfolding ADOEService exec_pr_decorate.simps adoe_exec_pr_decorate_def adoe_get_pr_thread_def adoe_write_thread_def
        adoe_create_pr_thread_def adoe_update_pr_thread_def
      by (intro emits_intros http)
  qed
qed

lemma exec_pr_decorate_finishes:
  assumes "listings_end E"
  shows "finishes (exec_pr_decorate E cls scm r scanid full summary ec)"
proof (cases cls)
  case GLService
  have "gl_api_params E r \<noteq> Inl OutOfFuel" unfolding gl_api_params_def by (intro search_not_fuel)
  then show ?thesis
    unfolding GLService exec_pr_decorate.simps gl_exec_pr_decorate_def by (intro finishes_intros gl_find_finishes write_finishes)
qed (simp_all add: gh_exec_pr_decorate_def bbdc_exec_pr_decorate_def adoe_exec_pr_decorate_def finishes_bindE
      gh_find_finishes [OF assms] bbdc_find_finishes [OF assms] adoe_find_finishes write_finishes)

text \<open>C37: the handler of the pull-request feedback queue returns for every message and settles it exactly once, as the last
  thing it does, with the decoration of whichever source control service is configured: a message that cannot be read, belongs
  to no configured service or has details that cannot be decoded is rejected for good and nothing else is done;
  every other one is acknowledged or put back on the queue. The broker answers, the clock does not run backwards and the
  comment listings of the source control server are finite.\<close>

theorem pr_feedback_message_settled:
  assumes "broker_up E" and "steady_clock (clock E)" and "listings_end E"
  shows "if accepted_message st (PRDetails_from_dict E) msg
     then settled_run (\<lambda>s. s \<noteq> EvNack False) (w_trace w) (process_pr_feedback E st msg w)
     else process_pr_feedback E st msg w = (Inr (), log_event (EvNack False) w)"
  unfolding process_pr_feedback_def
proof (rule process_message_settles [OF assms(1)])
  fix m and services :: CxOneFlowServices and fm e
  assume "im_body msg = Inr fm" "PRDetails_from_dict E (scm_workflow_details fm) = Inl e"
  then show "execute_pr_feedback_workflow E (sv_pr services) (feedback_content E (wa_service_class E m) services)
      (decorate_for E (wa_service_class E m) services) msg w = (answer (Inl e), w)"
    by (simp add: execute_pr_feedback_workflow_def bindE_apply safe_deserialize_ok liftE_apply raiseE_apply answer_def)
qed (rule pr_feedback_settled [OF assms(1) _ _ assms(2)],
     simp_all add: decorate_for_def exec_pr_decorate_quiet exec_pr_decorate_finishes [OF assms(3)])

lemma demo_listings_end: "listings_end demo_wf_env"
proof -
  have env: "net_http demo_wf_env = (\<lambda>_ rq. Inr (ok_response (demo_comments rq)))" "page_fuel demo_wf_env = 3" "json_on_ok demo_wf_env = rs_json"
    by (simp_all add: demo_wf_env_def demo_pr_env_def pr_env.defs scm_env.defs)
  have "paged_answer 1 1 rq (demo_comments rq)" for rq
    by (auto simp: paged_answer_def demo_comments_def)
  then show ?thesis
    unfolding listings_end_def env by (intro exI [of _ 1]) (auto simp: ok_response_def)
qed

lemma demo_steady_clock: "steady_clock (clock demo_wf_env)"
proof -
  have "clock demo_wf_env = clock quiet_env"
    by (simp add: demo_wf_env_def demo_pr_env_def quiet_scm_env_def quiet_orch_env_def quiet_resolver_env_def quiet_mq_env_def quiet_git_env_def
        pr_env.defs scm_env.defs orch_env.defs resolver_env.defs mq_env.defs git_env.defs cxone_env.defs)
  then show ?thesis by (simp only: steady_clock_quiet)
qed

theorem pr_feedback_message_settled_witness:
  "settled_run (\<lambda>s. s \<noteq> EvNack False) (w_trace world0) (process_pr_feedback demo_wf_env demo_wf_state (demo_feedback_msg WfPR demo_details) world0) \<and>
   process_pr_feedback demo_wf_env demo_wf_state (demo_feedback_msg WfPR [(''event_context'', JNull)]) world0 = (Inr (), log_event (EvNack False) world0)"
proof
  note handled = pr_feedback_message_settled [OF broker_up_demo_wf demo_steady_clock demo_listings_end, of demo_wf_state _ world0]
  have "accepted_message demo_wf_state (PRDetails_from_dict demo_wf_env) (demo_feedback_msg WfPR demo_details) = True" by code_simp
  then show "settled_run (\<lambda>s. s \<noteq> EvNack False) (w_trace world0) (process_pr_feedback demo_wf_env demo_wf_state (demo_feedback_msg WfPR demo_details) world0)"
    using handled [of "demo_feedback_msg WfPR demo_details"] by (simp only: if_True)
  have "accepted_message demo_wf_state (PRDetails_from_dict demo_wf_env) (demo_feedback_msg WfPR [(''event_context'', JNull)]) = False" by code_simp
  then show "process_pr_feedback demo_wf_env demo_wf_state (demo_feedback_msg WfPR [(''event_context'', JNull)]) world0 = (Inr (), log_event (EvNack False) world0)"
    using handled [of "demo_feedback_msg WfPR [(''event_context'', JNull)]"] by (simp only: if_False)
qed

end
