(* ===== verification/Log_Redaction.thy ===== *)
theory Log_Redaction
  imports Prelude
begin

text \<open>
  \<^verbatim>\<open>src/cxoneflow_logging/__init__.py\<close>: the registry of secrets and the handler that blanks them in log lines. The regular
  expression engine is a parameter: \<open>re_escape\<close>, and \<open>finditer\<close>, which gives for each match the spans of the groups
  \<^verbatim>\<open>secret\<close> and \<^verbatim>\<open>any\<close>.
\<close>

section \<open>The registry\<close>

definition backslash :: string where "backslash = [CHR 0x5C]"

definition default_regex :: string where
  "default_regex = ''(?P<header>Auth.+: '' @ backslash @ ''w+ )(?P<secret>.+?)(['' @ backslash @ [CHR 0x27] @ backslash @ [CHR 0x22] @ '']|$)''"

record SecretRegistry =
  sr_secrets :: "string list"
  sr_regex :: string

definition empty_registry :: SecretRegistry where
  "empty_registry = \<lparr>sr_secrets = [], sr_regex = default_regex\<rparr>"

definition secrets_regex :: "string list \<Rightarrow> string" where
  "secrets_regex secrets = default_regex @ ''|(?P<any>('' @ str_join ''|'' secrets @ ''))''"

definition one_line :: "string \<Rightarrow> string" where
  "one_line s = filter (\<lambda>c. c \<noteq> CHR 0x0A \<and> c \<noteq> CHR 0x0D) s"

definition register_secret :: "(string \<Rightarrow> string) \<Rightarrow> string option \<Rightarrow> SecretRegistry \<Rightarrow> SecretRegistry" where
  "register_secret re_escape secret reg =
     (case secret of
        None \<Rightarrow> reg
      | Some s \<Rightarrow>
          if s \<in> set (sr_secrets reg) then reg
          else let secrets = sr_secrets reg @ [re_escape (one_line s)] in
               \<lparr>sr_secrets = secrets, sr_regex = secrets_regex secrets\<rparr>)"

section \<open>The handler\<close>

record log_match =
  lm_secret :: "(nat \<times> nat) option"
  lm_any :: "(nat \<times> nat) option"

text \<open>
  \<^verbatim>\<open>msg[0:start] + '*' * (end - start) + msg[end:]\<close>. A group without a match has both ends at -1, where the two slices
  are the whole of the line.
\<close>

definition blank_group :: "(nat \<times> nat) option \<Rightarrow> string \<Rightarrow> string" where
  "blank_group span msg =
     (case span of None \<Rightarrow> msg | Some (a, b) \<Rightarrow> take a msg @ replicate (b - a) CHR ''*'' @ drop b msg)"

definition format_record :: "(string \<Rightarrow> string \<Rightarrow> log_match list) \<Rightarrow> SecretRegistry \<Rightarrow> string \<Rightarrow> string" where
  "format_record finditer reg msg =
     foldl (\<lambda>msg m. blank_group (lm_any m) (blank_group (lm_secret m) msg)) msg (finditer (sr_regex reg) msg)"

definition get_log_level :: "string dict \<Rightarrow> string" where
  "get_log_level environ = (case map_of environ ''LOG_LEVEL'' of None \<Rightarrow> ''INFO'' | Some level \<Rightarrow> level)"

section \<open>What a formatted line shows\<close>

definition within :: "nat \<Rightarrow> (nat \<times> nat) option \<Rightarrow> bool" where
  "within i span = (case span of None \<Rightarrow> False | Some (a, b) \<Rightarrow> a \<le> i \<and> i < b)"

definition blanked_at :: "log_match list \<Rightarrow> nat \<Rightarrow> bool" where
  "blanked_at ms i \<longleftrightarrow> list_ex (\<lambda>m. within i (lm_secret m) \<or> within i (lm_any m)) ms"

definition span_ok :: "nat \<Rightarrow> (nat \<times> nat) option \<Rightarrow> bool" where
  "span_ok n span = (case span of None \<Rightarrow> True | Some (a, b) \<Rightarrow> a \<le> b \<and> b \<le> n)"

lemma blank_group_length: "span_ok (length msg) span \<Longrightarrow> length (blank_group span msg) = length msg"
  by (auto simp: blank_group_def span_ok_def split: option.splits)

lemma blank_group_nth:
  assumes "span_ok (length msg) span" and "i < length msg"
  shows "blank_group span msg ! i = (if within i span then CHR ''*'' else msg ! i)"
proof (cases span)
  case None
  then show ?thesis by (simp add: blank_group_def within_def)
next
  case (Some p)
  obtain a b where p: "p = (a, b)" by (cases p)
  with assms Some have "a \<le> b" "b \<le> length msg" by (auto simp: span_ok_def)
  with assms(2) Some p show ?thesis
    by (auto simp: blank_group_def within_def nth_append min_def)
qed

text \<open>
  A formatted line is as long as the message; it shows a star at every place that a match covers and the message at every other.
\<close>

lemma format_record_blanks:
  assumes "\<And>m. m \<in> set (finditer (sr_regex reg) msg) \<Longrightarrow> span_ok (length msg) (lm_secret m) \<and> span_ok (length msg) (lm_any m)"
  shows "length (format_record finditer reg msg) = length msg"
    and "i < length msg \<Longrightarrow>
      format_record finditer reg msg ! i = (if blanked_at (finditer (sr_regex reg) msg) i then CHR ''*'' else msg ! i)"
proof -
  let ?step = "\<lambda>msg m. blank_group (lm_any m) (blank_group (lm_secret m) msg)"
  have "length (foldl ?step s ms) = length s \<and>
      (\<forall>i < length s. foldl ?step s ms ! i = (if blanked_at ms i then CHR ''*'' else s ! i))"
    if "\<And>m. m \<in> set ms \<Longrightarrow> span_ok (length s) (lm_secret m) \<and> span_ok (length s) (lm_any m)" for s ms
    using that
  proof (induction ms arbitrary: s)
    case Nil
    then show ?case by (simp add: blanked_at_def)
  next
    case (Cons m ms)
    have ok: "span_ok (length s) (lm_secret m)" "span_ok (length s) (lm_any m)" using Cons.prems by simp_all
    have len: "length (?step s m) = length s" using ok by (simp add: blank_group_length)
    have "?step s m ! i = (if within i (lm_secret m) \<or> within i (lm_any m) then CHR ''*'' else s ! i)" if "i < length s" for i
      using ok that by (simp add: blank_group_nth blank_group_length)
    moreover have "length (foldl ?step (?step s m) ms) = length (?step s m) \<and>
        (\<forall>i < length (?step s m). foldl ?step (?step s m) ms ! i = (if blanked_at ms i then CHR ''*'' else ?step s m ! i))"
      using Cons.prems by (intro Cons.IH) (simp add: len)
    ultimately show ?case by (simp add: len blanked_at_def)
  qed
  from this [of "finditer (sr_regex reg) msg" msg] assms show "length (format_record finditer reg msg) = length msg"
    and "i < length msg \<Longrightarrow>
      format_record finditer reg msg ! i = (if blanked_at (finditer (sr_regex reg) msg) i then CHR ''*'' else msg ! i)"
    by (auto simp: format_record_def)
qed

text \<open>The registry never forgets a secret, and its pattern is always the one of the secrets it holds.\<close>

definition registry_inv :: "SecretRegistry \<Rightarrow> bool" where
  "registry_inv reg \<longleftrightarrow> sr_regex reg = (if sr_secrets reg = [] then default_regex else secrets_regex (sr_secrets reg))"

lemma registry_inv_kept: "registry_inv empty_registry" "registry_inv reg \<Longrightarrow> registry_inv (register_secret re_escape s reg)"
  by (auto simp: registry_inv_def empty_registry_def register_secret_def Let_def split: option.splits)

lemma registered_kept: "set (sr_secrets reg) \<subseteq> set (sr_secrets (register_secret re_escape s reg))"
  by (auto simp: register_secret_def Let_def split: option.splits)

text \<open>A secret is looked for as it is and kept escaped: one with special characters is added again on every registration.\<close>

lemma escaped_secret_added_again:
  assumes "s \<notin> set (sr_secrets reg)" and "re_escape (one_line s) \<noteq> s"
  shows "sr_secrets ((register_secret re_escape (Some s) ^^ n) reg) = sr_secrets reg @ replicate n (re_escape (one_line s))"
proof (induction n)
  case (Suc n)
  have "set (sr_secrets reg @ replicate n (re_escape (one_line s))) \<subseteq> insert (re_escape (one_line s)) (set (sr_secrets reg))" by auto
  with assms Suc.IH have "s \<notin> set (sr_secrets ((register_secret re_escape (Some s) ^^ n) reg))" by auto
  then have "sr_secrets ((register_secret re_escape (Some s) ^^ Suc n) reg) =
      sr_secrets ((register_secret re_escape (Some s) ^^ n) reg) @ [re_escape (one_line s)]"
    by (simp add: register_secret_def [of _ _ "(register_secret re_escape (Some s) ^^ n) reg"] Let_def)
  with Suc.IH show ?case by (simp add: replicate_append_same)
qed simp

end
