(* ===== verification/Spec2Isabelle.thy ===== *)
theory Spec2Isabelle
  imports Rabbit_Config Kickoff_Client Endpoints Agent_Config Workflow_Agent Log_Redaction
begin

text \<open>
  CxOneFlow: a model of the program and its correctness properties.

  \<^bold>\<open>The program.\<close> CxOneFlow connects source control servers (Bitbucket Data Center, GitHub, GitLab, Azure DevOps) with the
  CheckmarxOne scanner. A web server (\<^verbatim>\<open>src/wsgi.py\<close>) receives the webhooks of the servers; each event is checked, routed to
  the services configured for its repository, and, when it touches a protected branch, its repository is cloned and sent
  to be scanned, by this process or by a remote scan agent. Messages on a broker carry what happens next: a scan is polled
  until it ends, then its results are delivered as a comment on the pull request or as a Sarif log. A second process
  (\<^verbatim>\<open>src/workflow_agent.py\<close>) consumes those messages. A third one, the scan agent (\<^verbatim>\<open>src/cx_scan_agent.py\<close>), answers delegated
  requests, and a separate endpoint with a client library (\<^verbatim>\<open>src/cxoneflow_kickoff_api\<close>) starts initial scans.

  \<^bold>\<open>How it is modelled.\<close> Python values decoded from JSON are the datatype \<open>json\<close> of \<open>Prelude\<close>; exceptions are the values \<open>exn\<close>; a
  coroutine is a function in the state-and-exception monad \<open>py\<close>. The state of a coroutine is the \<open>world\<close> of \<open>World\<close>: the
  trace of the interactions so far (requests, git commands, published messages, acknowledgements, sleeps) and the group
  table of the process. What the outside world answers is a function of that trace, a field of an environment record that
  the definitions take as an argument, so that a property holds for all answers in all orders. An environment record
  extends that of the component below it (\<open>net_env\<close>, \<open>cx_env\<close>, \<open>cxone_env\<close>, \<open>git_env\<close>, \<open>mq_env\<close>, \<open>resolver_env\<close>, \<open>orch_env\<close>, then
  \<open>scm_env\<close> with \<open>kickoff_env\<close>, \<open>config_env\<close>, \<open>pr_env\<close> and \<open>wf_agent_env\<close>, and \<open>agent_env\<close>). Python objects are records with the fields of
  the source, methods are definitions of the same name.

  \<^bold>\<open>The theories.\<close> Paths are under \<^verbatim>\<open>src/\<close>.

  \<^item> \<open>Prelude\<close>: the monad, Python values, dictionaries, strings, and the calculus \<open>keeps\<close> of state predicates.
  \<^item> \<open>Messaging\<close>: \<^verbatim>\<open>workflows/messaging\<close> and the enumerations and names of \<^verbatim>\<open>workflows\<close> (exchanges, queues, topics).
  \<^item> \<open>World\<close>: events, the trace, and the calculi the proofs use: \<open>emits\<close> (which events a coroutine can cause), \<open>yields\<close> (which
    values it can return), \<open>finishes\<close> (it never runs out of fuel), \<open>limits\<close> (how many events of a kind), \<open>spec\<close> (outcome and
    new events together).
  \<^item> \<open>Rabbit_Config\<close>: \<^verbatim>\<open>rabbit_config.py\<close>, the topology of the broker and the delivery of messages through it.
  \<^item> \<open>Api_Utils\<close>, \<open>Base64\<close>: \<^verbatim>\<open>api_utils\<close>: URLs, payload signatures, the retrying session, the page generator (locale
    \<open>paged_source\<close>), the token cache of GitHub applications.
  \<^item> \<open>Grouping\<close>, \<open>CxOne_Service\<close>: \<^verbatim>\<open>cxone_service\<close>: group assignment, project and scan tags, the scan request, the report.
  \<^item> \<open>Cloner\<close>: \<^verbatim>\<open>scm_services/cloner.py\<close>: credentials in clone URLs, the clone worker and the failures of git.
  \<^item> \<open>Workflows\<close>: \<^verbatim>\<open>workflows\<close>: pull-request and push workflows, scan polling, feedback, delivery of Sarif logs.
  \<^item> \<open>Resolver\<close>: \<^verbatim>\<open>workflows/resolver_*.py\<close> and the timeout agent: requests to scan agents, their signatures and resubmission.
  \<^item> \<open>Orchestration\<close>: \<^verbatim>\<open>orchestration/base.py\<close>: from an event to a scan.
  \<^item> \<open>Dispatch\<close>: \<^verbatim>\<open>orchestration/__init__.py\<close>, the routes and the results agent; what the subclasses share.
  \<^item> \<open>Bitbucket\<close>, \<open>Github\<close>, \<open>Gitlab\<close>, \<open>Azure_DevOps\<close>: \<^verbatim>\<open>orchestration/{bbdc,gh,gl,adoe}.py\<close>; \<open>Webhooks\<close>: the four together.
  \<^item> \<open>Kickoff\<close>, \<open>Kickoff_Client\<close>: \<^verbatim>\<open>orchestration/kickoff\<close>, \<^verbatim>\<open>kickoff_services\<close> and the client library with its waiting loop.
  \<^item> \<open>Config\<close>: \<^verbatim>\<open>config\<close>: from a configuration file to the table of services; \<open>Endpoints\<close>: \<^verbatim>\<open>wsgi.py\<close> on top of it.
  \<^item> \<open>Resolver_Runner\<close>, \<open>Scan_Agent\<close>, \<open>Agent_Config\<close>: \<^verbatim>\<open>agent/resolver\<close> and \<^verbatim>\<open>config/resolver\<close>: how an agent runs the resolver, the
    agent itself, and its configuration.
  \<^item> \<open>Pr_Decoration\<close>: \<^verbatim>\<open>workflows/pr.py\<close>: the text of a pull-request comment and its sorted tables of results.
  \<^item> \<open>Pr_Comments\<close>: \<^verbatim>\<open>scm_services/{gh,gl,bbdc,adoe}.py\<close>: finding, adding and updating that comment.
  \<^item> \<open>Workflow_Agent\<close>: \<^verbatim>\<open>workflow_agent.py\<close>: the handlers, which join the workflows with the comment texts and services.
  \<^item> \<open>Log_Redaction\<close>: \<^verbatim>\<open>cxoneflow_logging\<close>: the registry of secrets and the blanking of log lines.

  \<^bold>\<open>Interfaces.\<close> An interface between components is a locale, interpreted on the model in the theory of its provider. They
  are \<open>paged_source\<close> (a listing in pages that is drained to its end), on chunked listings such as GitHub's; \<open>group_resolver\<close> (a
  resolution of groups and its cache) on \<open>Grouping\<close>; \<open>scm_events\<close> (which events of the outside world a handler may cause, and
  that it finishes) on the handlers of the four servers; and
  \<open>comment_service\<close> (a search that only reads and a write of one request) on the four comment services.

  \<^bold>\<open>What the properties say.\<close> Authenticity: an event, a kickoff request, a delegated request or result is acted upon only when its
  signature or token is valid, and configured servers have a secret that passes the password policy. Orchestration: only
  protected branches are scanned, a delegated scan is not run locally, each attempt at a clone removes the directory it made
  however it ends. Messages: each feedback message is settled once, and rejected for good only when it cannot be read, routed or
  decoded; a running scan is polled again with a bounded delay, the topology delivers each
  message to the queue of its handler. Termination and bounds: retries, paging, polling of reports, resubmission, kickoff
  limits. CheckmarxOne: which tags a project and a scan end up with and what a scan request holds. Comments: the tables
  show exactly the results that pass the filters, sorted by severity, and one comment is written per decoration, an update
  when an earlier one is found. Errors: where the code swallows or replaces a failure, the theorem states what it does.

  \<^bold>\<open>Fuel.\<close> Loops of the sources are structural or measured recursion where they end by themselves. Three kinds need fuel.
  The polling of a report (\<open>poll_report\<close>) has 21 rounds: it sleeps 30 seconds a round and gives up after 600, and
  \<open>retrieve_report_terminates\<close> proves 21 enough for every steady clock. Listings in pages take \<open>page_fuel\<close>, which the
  completeness theorems bound by the length of the listing and \<open>pr_feedback_message_settled\<close> by the documented size and
  number of the pages (\<open>listings_end\<close>). The client's waiting loop needs a round for each 15 seconds that its callback
  accepts (\<open>kickoff_client_waits\<close>).
  Running out of fuel is the outcome \<open>OutOfFuel\<close>, which no handler catches; a server that never ends its listing is the only way
  to it.

  \<^bold>\<open>Directories and decoding.\<close> A temporary directory is made by \<open>make_temp_dir\<close> and removed by \<open>remove_temp_dir\<close> (\<open>Cloner\<close>), the calls
  of \<^verbatim>\<open>tempfile.TemporaryDirectory\<close>: both are events that carry its path, and both may fail, so that the exits of the clone
  worker and of the execution contexts of the agent can raise (\<open>worker_exit\<close>, \<open>exit_context\<close>, \<open>in_context\<close>) and the theorems on the
  agent say what a failed removal does. The details of a feedback message are decoded field by field as the classes
  declare them, the nested event context and the JSON of its payload included (\<open>EventContext_from_dict\<close>), and every
  failure of that is an exception outside the \<^verbatim>\<open>try\<close> block of the workflow. The drop time of an awaited message (\<open>drop_time\<close>) is the
  instant its text denotes, or a text that denotes none, or no text at all.

  \<^bold>\<open>What is assumed of other programs.\<close> The hypotheses on them are documented behaviour, stated as definitions: a broker that
  answers (\<open>broker_up\<close>); a clock that does not run backwards (\<open>steady_clock\<close>); the branches of GitHub filtered by its \<^verbatim>\<open>protected\<close>
  parameter and cut by \<^verbatim>\<open>per_page\<close> and \<^verbatim>\<open>page\<close> (\<open>gh_lists\<close>); the listings of Azure DevOps, which answer the continuation token
  of the request (\<open>ado_serves\<close>); JSON Web Tokens that decode under the public key of a pair until they expire
  (\<open>jwt_key_pair\<close>); comment listings that end (\<open>listings_end\<close>).

  \<^bold>\<open>Not modelled.\<close> Third-party packages and services (CheckmarxOne client, broker client, git, JSON path, JWT, cryptography,
  HTTP, YAML, Markdown, the resolver and container engine) are parameters. What is logged, the task manager, the start of the
  processes, the naming examples of the manual, tests and deployment files have no definitions: they are output, glue
  around the event loop, or not part of the program. The interleaving of coroutines within a process is not modelled: each
  handler runs by itself on an arbitrary earlier trace. Strings are lists of bytes, so a length limit counts bytes where the
  code counts characters of text outside ASCII. Numbers in messages are integers. A header of an event context that is not
  text is kept as its text, and a delegated result that names a module outside of the program's orchestrators is taken
  to name none.
\<close>

end
